(* ===== verification/Prelude.thy ===== *)
theory Prelude
  imports Main "HOL-Library.Word"
begin

text \<open>
  Shared vocabulary of the development: identifiers, the error values that the backend's
  \<open>Error\<close> and the deserialisers of \<open>serde\<close> produce, the \<open>Result\<close> combinators, the
  out-of-range conventions of slices and of PostgreSQL's \<open>jsonb_set\<close> on arrays, and the
  lemmas about them which the component theories use through the simplifier.
\<close>

named_theorems result_simps \<open>unfolding rules of the Result combinators\<close>
named_theorems jsonb_simps \<open>rewriting rules of the jsonb array updates\<close>

section \<open>Identifiers and errors\<close>

text \<open>A \<open>Uuid\<close> is a 128-bit number; its nil value is 0.\<close>

type_synonym uuid = "128 word"

abbreviation uuid_nil :: uuid where
  "uuid_nil \<equiv> 0"

text \<open>
  The error variants of \<open>windmill-common/src/error.rs\<close> which the modelled code raises, and
  the errors of the deserialisers; \<open>Panic\<close> is an index out of range. Messages are kept where code inspects them or where two
  errors of one operation are told apart by them.
\<close>

datatype wm_error =
    InternalErr string
  | ExecutionErr string
  | BadRequest string
  | NotAuthorized string
  | PermissionDenied string
  | NotFound string
  | QuotaExceeded string
  | MissingField string
  | UnknownVariant string
  | InvalidType string
  | SqlErr string
  | WacSuspended string
  | Panic string

type_synonym 'a res = "wm_error + 'a"

section \<open>Result combinators\<close>

text \<open>\<open>rbind\<close> is the \<open>?\<close> operator: the first error ends the computation.\<close>

fun rbind :: "'a res \<Rightarrow> ('a \<Rightarrow> 'b res) \<Rightarrow> 'b res" where
  "rbind (Inl e) f = Inl e"
| "rbind (Inr x) f = f x"

fun ok_or :: "wm_error \<Rightarrow> 'a option \<Rightarrow> 'a res" where
  "ok_or e None = Inl e"
| "ok_or e (Some x) = Inr x"

fun res_ok :: "'a res \<Rightarrow> 'a option" where
  "res_ok (Inl e) = None"
| "res_ok (Inr x) = Some x"

text \<open>\<open>collect::<Result<Vec<_>, _>>()\<close>: the results in order, or the first error.\<close>

fun rcollect :: "('a \<Rightarrow> 'b res) \<Rightarrow> 'a list \<Rightarrow> 'b list res" where
  "rcollect f [] = Inr []"
| "rcollect f (x # xs) = rbind (f x) (\<lambda>y. rbind (rcollect f xs) (\<lambda>ys. Inr (y # ys)))"

definition unwrap_or :: "'a \<Rightarrow> 'a option \<Rightarrow> 'a" where
  "unwrap_or d x = (case x of None \<Rightarrow> d | Some y \<Rightarrow> y)"

definition or_option :: "'a option \<Rightarrow> 'a option \<Rightarrow> 'a option" where
  "or_option x y = (case x of None \<Rightarrow> y | Some z \<Rightarrow> Some z)"

lemma unwrap_or_simps [simp]: "unwrap_or d None = d" "unwrap_or d (Some y) = y"
  by (simp_all add: unwrap_or_def)

lemma or_option_simps [simp]: "or_option None y = y" "or_option (Some z) y = Some z"
  by (simp_all add: or_option_def)

lemma rbind_cong [fundef_cong]:
  "m = m' \<Longrightarrow> (\<And>x. m' = Inr x \<Longrightarrow> f x = f' x) \<Longrightarrow> rbind m f = rbind m' f'"
  by (cases m') auto

lemma rbind_Inr_iff: "rbind m f = Inr y \<longleftrightarrow> (\<exists>x. m = Inr x \<and> f x = Inr y)"
  by (cases m) auto

lemma rbind_Inl_iff: "rbind m f = Inl e \<longleftrightarrow> m = Inl e \<or> (\<exists>x. m = Inr x \<and> f x = Inl e)"
  by (cases m) auto

lemma ok_or_Inr_iff: "ok_or e x = Inr y \<longleftrightarrow> x = Some y"
  by (cases x) auto

lemmas [result_simps] = rbind_Inr_iff rbind_Inl_iff ok_or_Inr_iff

lemma rcollect_Inr_length: "rcollect f xs = Inr ys \<Longrightarrow> length ys = length xs"
  by (induction xs arbitrary: ys) (auto simp: result_simps)

lemma rcollect_Inr_nth:
  "rcollect f xs = Inr ys \<Longrightarrow> i < length xs \<Longrightarrow> f (xs ! i) = Inr (ys ! i)"
proof (induction xs arbitrary: ys i)
  case Nil
  then show ?case by simp
next
  case (Cons x xs)
  then show ?case by (cases i) (auto simp: result_simps)
qed

lemma rcollect_map_Inr:
  "(\<And>x. x \<in> set xs \<Longrightarrow> f (g x) = Inr (h x)) \<Longrightarrow> rcollect f (map g xs) = Inr (map h xs)"
  by (induction xs) auto

lemma rcollect_ex_Inl: "x \<in> set xs \<Longrightarrow> f x = Inl e \<Longrightarrow> \<exists>e'. rcollect f xs = Inl e'"
proof (induction xs)
  case (Cons y ys)
  then show ?case
    by (cases "f y"; cases "rcollect f ys") (auto simp: result_simps)
qed simp

section \<open>Slices\<close>

text \<open>\<open>slice::get\<close> and \<open>Iterator::position\<close>.\<close>

definition nth_opt :: "'a list \<Rightarrow> nat \<Rightarrow> 'a option" where
  "nth_opt xs i = (if i < length xs then Some (xs ! i) else None)"

fun position_of :: "'a \<Rightarrow> 'a list \<Rightarrow> nat option" where
  "position_of x [] = None"
| "position_of x (y # ys) = (if y = x then Some 0 else map_option Suc (position_of x ys))"

lemma nth_opt_Some_iff [simp]: "nth_opt xs i = Some x \<longleftrightarrow> i < length xs \<and> xs ! i = x"
  by (auto simp: nth_opt_def)

lemma nth_opt_None_iff [simp]: "nth_opt xs i = None \<longleftrightarrow> length xs \<le> i"
  by (auto simp: nth_opt_def)

lemma nth_opt_Nil [simp]: "nth_opt [] i = None"
  by (simp add: nth_opt_def)

lemma nth_opt_map [simp]: "nth_opt (map f xs) i = map_option f (nth_opt xs i)"
  by (simp add: nth_opt_def)

lemma nth_opt_append_last [simp]: "nth_opt (xs @ [x]) (length xs) = Some x"
  by simp

lemma position_of_SomeD:
  "position_of x ys = Some i \<Longrightarrow> i < length ys \<and> ys ! i = x \<and> (\<forall>j < i. ys ! j \<noteq> x)"
proof (induction ys arbitrary: i)
  case (Cons y ys)
  then show ?case
    by (fastforce split: if_splits simp: less_Suc_eq_0_disj)
qed simp

lemma position_of_None_iff: "position_of x ys = None \<longleftrightarrow> x \<notin> set ys"
  by (induction ys) auto

lemma position_of_nth_distinct:
  "distinct ys \<Longrightarrow> i < length ys \<Longrightarrow> position_of (ys ! i) ys = Some i"
proof (induction ys arbitrary: i)
  case (Cons y ys)
  then show ?case by (cases i) (auto simp: nth_mem)
qed simp

section \<open>Array updates of PostgreSQL's jsonb_set\<close>

text \<open>
  \<open>jsonb_set(a, ARRAY[i], v)\<close> on an array replaces element \<open>i\<close>; a negative index counts
  from the end; with \<open>create_missing\<close> (the default) an index past the end appends and one
  before the start prepends.
\<close>

definition jsonb_array_set :: "'a list \<Rightarrow> int \<Rightarrow> 'a \<Rightarrow> 'a list" where
  "jsonb_array_set xs i v =
     (let n = int (length xs); j = (if i < 0 then n + i else i)
      in if j < 0 then v # xs else if j < n then xs[nat j := v] else xs @ [v])"

text \<open>
  An update below an array element (a longer path): the element is rewritten where it
  exists, and nothing happens where it does not.
\<close>

definition jsonb_array_modify :: "'a list \<Rightarrow> int \<Rightarrow> ('a \<Rightarrow> 'a) \<Rightarrow> 'a list" where
  "jsonb_array_modify xs i f =
     (let n = int (length xs); j = (if i < 0 then n + i else i)
      in if 0 \<le> j \<and> j < n then xs[nat j := f (xs ! nat j)] else xs)"

lemma jsonb_array_set_in_range [jsonb_simps]:
  "0 \<le> i \<Longrightarrow> nat i < length xs \<Longrightarrow> jsonb_array_set xs i v = xs[nat i := v]"
  by (auto simp: jsonb_array_set_def Let_def)

lemma jsonb_array_set_nat [jsonb_simps]:
  "i < length xs \<Longrightarrow> jsonb_array_set xs (int i) v = xs[i := v]"
  by (auto simp: jsonb_array_set_def Let_def)

lemma length_jsonb_array_modify [simp]: "length (jsonb_array_modify xs i f) = length xs"
  by (simp add: jsonb_array_modify_def Let_def)

lemma length_jsonb_array_set_in_range:
  "0 \<le> i \<Longrightarrow> nat i < length xs \<Longrightarrow> length (jsonb_array_set xs i v) = length xs"
  by (simp add: jsonb_simps)

lemma jsonb_array_modify_in_range [jsonb_simps]:
  "0 \<le> i \<Longrightarrow> nat i < length xs \<Longrightarrow> jsonb_array_modify xs i f = xs[nat i := f (xs ! nat i)]"
  by (auto simp: jsonb_array_modify_def Let_def)

lemma jsonb_array_modify_nat [jsonb_simps]:
  "i < length xs \<Longrightarrow> jsonb_array_modify xs (int i) f = xs[i := f (xs ! i)]"
  by (auto simp: jsonb_array_modify_def Let_def)

lemma jsonb_array_modify_beyond [jsonb_simps]:
  "int (length xs) \<le> i \<Longrightarrow> jsonb_array_modify xs i f = xs"
  by (auto simp: jsonb_array_modify_def Let_def)

section \<open>Machine words\<close>

lemma unat_minus_one: "unat (- 1 :: 'w::len word) = 2 ^ LENGTH('w) - 1"
  by (simp add: unsigned_minus_1_eq_mask mask_eq_exp_minus_1)

section \<open>Text\<close>

text \<open>\<open>format!("{n}")\<close> of a non-negative number, and of a signed one.\<close>

definition digit_char :: "nat \<Rightarrow> char" where
  "digit_char d = char_of (48 + d)"

fun show_nat :: "nat \<Rightarrow> string" where
  "show_nat n = (if n < 10 then [digit_char n] else show_nat (n div 10) @ [digit_char (n mod 10)])"

declare show_nat.simps [simp del]

definition show_int :: "int \<Rightarrow> string" where
  "show_int i = (if i < 0 then CHR ''-'' # show_nat (nat (- i)) else show_nat (nat i))"

text \<open>\<open>str::contains\<close>, \<open>str::starts_with\<close>, \<open>str::strip_prefix\<close>.\<close>

fun str_starts_with :: "string \<Rightarrow> string \<Rightarrow> bool" where
  "str_starts_with s [] = True"
| "str_starts_with [] (p # ps) = False"
| "str_starts_with (c # cs) (p # ps) = (c = p \<and> str_starts_with cs ps)"

fun str_contains :: "string \<Rightarrow> string \<Rightarrow> bool" where
  "str_contains [] p = (p = [])"
| "str_contains (c # cs) p = (str_starts_with (c # cs) p \<or> str_contains cs p)"

fun strip_prefix :: "string \<Rightarrow> string \<Rightarrow> string option" where
  "strip_prefix [] s = Some s"
| "strip_prefix (p # ps) [] = None"
| "strip_prefix (p # ps) (c # cs) = (if c = p then strip_prefix ps cs else None)"

lemma str_starts_with_iff: "str_starts_with s p \<longleftrightarrow> (\<exists>r. s = p @ r)"
  by (induction s p rule: str_starts_with.induct) auto

lemma strip_prefix_iff: "strip_prefix p s = Some r \<longleftrightarrow> s = p @ r"
  by (induction p s rule: strip_prefix.induct) auto

lemma str_contains_iff: "str_contains s p \<longleftrightarrow> (\<exists>u v. s = u @ p @ v)"
proof (induction s p rule: str_contains.induct)
  case (1 p)
  then show ?case by simp
next
  case (2 c cs p)
  show ?case
  proof
    assume "str_contains (c # cs) p"
    then consider "\<exists>r. c # cs = p @ r" | "\<exists>u v. cs = u @ p @ v"
      using 2 by (auto simp: str_starts_with_iff)
    then show "\<exists>u v. c # cs = u @ p @ v"
    proof cases
      case 1
      then show ?thesis by (metis append_Nil)
    next
      case 2
      then show ?thesis by (metis append_Cons)
    qed
  next
    assume "\<exists>u v. c # cs = u @ p @ v"
    then obtain u v where "c # cs = u @ p @ v" by blast
    then consider "c # cs = p @ v" | u' where "cs = u' @ p @ v"
      by (cases u) auto
    then show "str_contains (c # cs) p"
    proof cases
      case 1
      then show ?thesis by (metis str_contains.simps(2) str_starts_with_iff)
    next
      case (2 u')
      with \<open>str_contains cs p \<longleftrightarrow> (\<exists>u v. cs = u @ p @ v)\<close> have "str_contains cs p"
        by blast
      then show ?thesis by simp
    qed
  qed
qed

text \<open>\<open>str::split\<close> at a character, and \<open>join\<close> of texts with one between them.\<close>

fun split_char :: "char \<Rightarrow> string \<Rightarrow> string list" where
  "split_char x [] = [[]]"
| "split_char x (c # cs) =
     (if c = x then [] # split_char x cs
      else (case split_char x cs of [] \<Rightarrow> [[c]] | w # ws \<Rightarrow> (c # w) # ws))"

fun join_char :: "char \<Rightarrow> string list \<Rightarrow> string" where
  "join_char x [] = []"
| "join_char x [w] = w"
| "join_char x (w # ws) = w @ x # join_char x ws"

lemma split_char_not_Nil [simp]: "split_char x s \<noteq> []"
  by (induction s) (auto split: list.splits)

lemma split_char_atom: "x \<notin> set w \<Longrightarrow> split_char x w = [w]"
  by (induction w) auto

lemma split_char_append: "x \<notin> set w \<Longrightarrow> split_char x (w @ x # s) = w # split_char x s"
  by (induction w) auto

lemma split_join_char:
  "ws \<noteq> [] \<Longrightarrow> (\<And>w. w \<in> set ws \<Longrightarrow> x \<notin> set w) \<Longrightarrow> split_char x (join_char x ws) = ws"
  by (induction x ws rule: join_char.induct) (auto simp: split_char_atom split_char_append)

lemma join_split_char: "join_char x (split_char x s) = s"
proof (induction s)
  case (Cons c s)
  then show ?case by (cases "split_char x s" rule: list.exhaust; cases "tl (split_char x s)") (auto split: list.splits)
qed simp

lemma split_char_free: "w \<in> set (split_char x s) \<Longrightarrow> x \<notin> set w"
  by (induction s arbitrary: w) (auto split: list.splits if_splits)

end
