(* ===== verification/Scripts.thy ===== *)
theory Scripts
  imports Prelude
begin

text \<open>
  Script languages (\<open>ScriptLang\<close> of \<open>windmill-types/src/scripts.rs\<close>): the enumeration, its
  textual form, the parser of that form and the classifications the workers use, and the
  concurrency and debouncing settings of a runnable (\<open>runnable_settings.rs\<close>).
\<close>

section \<open>Languages\<close>

datatype script_lang =
    Nativets
  | Deno
  | Python3
  | Go
  | Bash
  | Powershell
  | Postgresql
  | Bun
  | Bunnative
  | Mysql
  | Bigquery
  | Snowflake
  | Graphql
  | Mssql
  | OracleDB
  | DuckDb
  | Php
  | Rust
  | Ansible
  | CSharp
  | Nu
  | Java
  | Ruby
  | Rlang

fun as_str :: "script_lang \<Rightarrow> string" where
  "as_str Bun = ''bun''"
| "as_str Bunnative = ''bunnative''"
| "as_str Nativets = ''nativets''"
| "as_str Deno = ''deno''"
| "as_str Python3 = ''python3''"
| "as_str Go = ''go''"
| "as_str Bash = ''bash''"
| "as_str Powershell = ''powershell''"
| "as_str Postgresql = ''postgresql''"
| "as_str Mysql = ''mysql''"
| "as_str Bigquery = ''bigquery''"
| "as_str Snowflake = ''snowflake''"
| "as_str Mssql = ''mssql''"
| "as_str Graphql = ''graphql''"
| "as_str OracleDB = ''oracledb''"
| "as_str DuckDb = ''duckdb''"
| "as_str Php = ''php''"
| "as_str Rust = ''rust''"
| "as_str Ansible = ''ansible''"
| "as_str CSharp = ''csharp''"
| "as_str Nu = ''nu''"
| "as_str Java = ''java''"
| "as_str Ruby = ''ruby''"
| "as_str Rlang = ''rlang''"

text \<open>
  \<open>str::to_lowercase\<close>. Of the characters outside ASCII only the Kelvin sign (U+212A, three bytes) has
  an ASCII letter as its lower case, the \<open>k\<close> of \<open>snowflake\<close>; the other ones occur in no name below.
\<close>

definition ascii_lower :: "char \<Rightarrow> char" where
  "ascii_lower c = (let n = of_char c :: nat in if 65 \<le> n \<and> n \<le> 90 then char_of (n + 32) else c)"

fun to_lowercase :: "string \<Rightarrow> string" where
  "to_lowercase [] = []"
| "to_lowercase (c # s) =
     (if c = CHR 0xE2 \<and> take 2 s = [CHR 0x84, CHR 0xAA] then CHR ''k'' # to_lowercase (drop 2 s)
      else ascii_lower c # to_lowercase s)"

text \<open>The match of \<open>from_str\<close>, arm by arm.\<close>

definition from_str_arms :: "(string \<times> script_lang) list" where
  "from_str_arms =
    [(''bun'', Bun),
     (''bunnative'', Bunnative),
     (''nativets'', Nativets),
     (''deno'', Deno),
     (''python3'', Python3),
     (''go'', Go),
     (''bash'', Bash),
     (''powershell'', Powershell),
     (''postgresql'', Postgresql),
     (''mysql'', Mysql),
     (''bigquery'', Bigquery),
     (''snowflake'', Snowflake),
     (''mssql'', Mssql),
     (''graphql'', Graphql),
     (''oracledb'', OracleDB),
     (''php'', Php),
     (''rust'', Rust),
     (''ansible'', Ansible),
     (''csharp'', CSharp),
     (''nu'', Nu),
     (''java'', Java),
     (''ruby'', Ruby),
     (''rlang'', Rlang)]"

definition from_str :: "string \<Rightarrow> script_lang res" where
  "from_str s =
     (case map_of from_str_arms (to_lowercase s) of
        Some l \<Rightarrow> Inr l
      | None \<Rightarrow> Inl (UnknownVariant (to_lowercase s)))"

definition as_dependencies_filename :: "script_lang \<Rightarrow> string option" where
  "as_dependencies_filename l =
     (case l of
        Bun \<Rightarrow> Some ''package.json''
      | Bunnative \<Rightarrow> Some ''package.json''
      | Nativets \<Rightarrow> Some ''package.json''
      | Python3 \<Rightarrow> Some ''requirements.in''
      | Php \<Rightarrow> Some ''composer.json''
      | Powershell \<Rightarrow> Some ''modules.json''
      | _ \<Rightarrow> None)"

definition is_native :: "script_lang \<Rightarrow> bool" where
  "is_native l \<longleftrightarrow>
     l \<in> {Bunnative, Nativets, Postgresql, Mysql, Graphql, Snowflake, Mssql, Bigquery, OracleDB}"

definition as_comment_lit :: "script_lang \<Rightarrow> string" where
  "as_comment_lit l =
     (if l \<in> {Nativets, Bun, Bunnative, Deno, Go, Php, CSharp, Java} then ''//''
      else if l \<in> {Python3, Bash, Powershell, Graphql, Ansible, Nu, Ruby, Rlang} then ''#''
      else if l \<in> {Postgresql, Mysql, Bigquery, Snowflake, Mssql, OracleDB, DuckDb} then ''--''
      else ''//!'')"

lemma inj_as_str: "as_str l = as_str l' \<Longrightarrow> l = l'"
  by (cases l; cases l') simp_all

section \<open>Settings of a runnable\<close>

record concurrency_settings =
  concurrency_key :: "string option"
  concurrent_limit :: "int option"
  concurrency_time_window_s :: "int option"

record concurrency_settings_with_custom =
  custom_concurrency_key :: "string option"
  wc_concurrent_limit :: "int option"
  wc_concurrency_time_window_s :: "int option"

record debouncing_settings =
  debounce_key :: "string option"
  debounce_delay_s :: "int option"
  max_total_debouncing_time :: "int option"
  max_total_debounces_amount :: "int option"
  debounce_args_to_accumulate :: "string list option"

definition debouncing_default :: debouncing_settings where
  "debouncing_default = \<lparr>debounce_key = None, debounce_delay_s = None,
     max_total_debouncing_time = None, max_total_debounces_amount = None,
     debounce_args_to_accumulate = None\<rparr>"

definition concurrency_default :: concurrency_settings where
  "concurrency_default = \<lparr>concurrency_key = None, concurrent_limit = None,
     concurrency_time_window_s = None\<rparr>"

definition debouncing_maybe_fallback ::
  "debouncing_settings \<Rightarrow> string option \<Rightarrow> int option \<Rightarrow> debouncing_settings" where
  "debouncing_maybe_fallback s k d =
     s\<lparr>debounce_key := or_option (debounce_key s) k,
       debounce_delay_s := or_option (debounce_delay_s s) d\<rparr>"

definition is_legacy_compatible :: "debouncing_settings \<Rightarrow> bool" where
  "is_legacy_compatible s \<longleftrightarrow> max_total_debouncing_time s = None \<and>
     max_total_debounces_amount s = None \<and> debounce_args_to_accumulate s = None"

definition concurrency_maybe_fallback ::
  "concurrency_settings \<Rightarrow> string option \<Rightarrow> int option \<Rightarrow> int option \<Rightarrow> concurrency_settings" where
  "concurrency_maybe_fallback s k l w =
     \<lparr>concurrency_key = or_option (concurrency_key s) k,
      concurrent_limit = or_option (concurrent_limit s) l,
      concurrency_time_window_s = or_option (concurrency_time_window_s s) w\<rparr>"

definition to_with_custom :: "concurrency_settings \<Rightarrow> concurrency_settings_with_custom" where
  "to_with_custom s = \<lparr>custom_concurrency_key = concurrency_key s,
     wc_concurrent_limit = concurrent_limit s,
     wc_concurrency_time_window_s = concurrency_time_window_s s\<rparr>"

definition from_with_custom :: "concurrency_settings_with_custom \<Rightarrow> concurrency_settings" where
  "from_with_custom s = \<lparr>concurrency_key = custom_concurrency_key s,
     concurrent_limit = wc_concurrent_limit s,
     concurrency_time_window_s = wc_concurrency_time_window_s s\<rparr>"

lemma with_custom_inverse [simp]:
  "from_with_custom (to_with_custom s) = s" "to_with_custom (from_with_custom t) = t"
  by (simp_all add: to_with_custom_def from_with_custom_def)

section \<open>Properties\<close>

text \<open>
  C17: Parsing the textual form of a language gives the language back for every language but
  DuckDb, whose arm is missing from \<open>from_str\<close>: its own name is rejected.
\<close>

theorem script_lang_roundtrip:
  "from_str (as_str l) = (if l = DuckDb then Inl (UnknownVariant ''duckdb'') else Inr l)"
  by (cases l) (simp_all add: from_str_def from_str_arms_def ascii_lower_def)

end
