(* ===== verification/Json.thy ===== *)
theory Json
  imports Complex_Main Prelude
begin

text \<open>
  JSON values as \<open>serde_json::Value\<close> has them (the workspace enables \<open>preserve_order\<close>, so an
  object is its list of entries) and the way \<open>serde\<close> reads and writes the fields of a struct.
  A codec is an encoder with a decoder that inverts it; the contract is the locale
  \<open>json_codec\<close>, interpreted here for the scalar types, and its lemmas lift a codec to
  sequences, to optional fields and to required fields.
\<close>

named_theorems json_simps \<open>reading fields out of encoded objects\<close>

section \<open>Values\<close>

datatype json =
    JNull
  | JBool bool
  | JInt int
  | JFloat rat
  | JStr string
  | JArr "json list"
  | JObj "(string \<times> json) list"

type_synonym fields = "(string \<times> json) list"

text \<open>\<open>Map::get\<close>, and \<open>Map::insert\<close> which replaces in place or appends.\<close>

definition get_field :: "string \<Rightarrow> fields \<Rightarrow> json option" where
  "get_field k fs = map_of fs k"

fun insert_field :: "string \<Rightarrow> json \<Rightarrow> fields \<Rightarrow> fields" where
  "insert_field k v [] = [(k, v)]"
| "insert_field k v ((k', v') # fs) =
     (if k' = k then (k, v) # fs else (k', v') # insert_field k v fs)"

lemma get_field_Nil [json_simps]: "get_field k [] = None"
  by (simp add: get_field_def)

lemma get_field_Cons [json_simps]:
  "get_field k ((k', v) # fs) = (if k = k' then Some v else get_field k fs)"
  by (simp add: get_field_def)

lemma get_field_append [json_simps]:
  "get_field k (fs @ gs) = or_option (get_field k fs) (get_field k gs)"
  by (auto simp: get_field_def map_add_def or_option_def map_of_eq_None_iff split: option.splits)

lemma get_field_insert [simp]:
  "get_field k (insert_field k' v fs) = (if k = k' then Some v else get_field k fs)"
  by (induction fs rule: insert_field.induct) (auto simp: json_simps)

section \<open>Fields of a struct\<close>

text \<open>
  A field of type \<open>Option<T>\<close> with \<open>skip_serializing_if = "Option::is_none"\<close> is left out when
  empty; reading it takes a missing entry and a \<open>null\<close> entry both as \<open>None\<close>. A field of a
  type that is not an option must be present.
\<close>

definition put_opt :: "string \<Rightarrow> ('a \<Rightarrow> json) \<Rightarrow> 'a option \<Rightarrow> fields" where
  "put_opt k enc x = (case x of None \<Rightarrow> [] | Some v \<Rightarrow> [(k, enc v)])"

definition opt_dec :: "(json \<Rightarrow> 'a res) \<Rightarrow> json option \<Rightarrow> 'a option res" where
  "opt_dec dec v =
     (case v of
        None \<Rightarrow> Inr None
      | Some v \<Rightarrow> if v = JNull then Inr None else rbind (dec v) (\<lambda>x. Inr (Some x)))"

definition take_opt :: "(json \<Rightarrow> 'a res) \<Rightarrow> string \<Rightarrow> fields \<Rightarrow> 'a option res" where
  "take_opt dec k fs = opt_dec dec (get_field k fs)"

definition take_req :: "(json \<Rightarrow> 'a res) \<Rightarrow> string \<Rightarrow> fields \<Rightarrow> 'a res" where
  "take_req dec k fs = rbind (ok_or (MissingField k) (get_field k fs)) dec"

text \<open>
  \<open>skip_serializing_if = "Not::not"\<close> and \<open>"Vec::is_empty"\<close>: a flag that is false and an
  empty sequence are left out.
\<close>

definition put_flag :: "string \<Rightarrow> bool \<Rightarrow> fields" where
  "put_flag k b = (if b then [(k, JBool True)] else [])"

definition flag_opt :: "bool \<Rightarrow> bool option" where
  "flag_opt b = (if b then Some True else None)"

definition nonempty_opt :: "'a list \<Rightarrow> 'a list option" where
  "nonempty_opt xs = (if xs = [] then None else Some xs)"

lemma unwrap_flag_opt [simp]: "unwrap_or False (flag_opt b) = b"
  by (simp add: flag_opt_def)

lemma unwrap_nonempty_opt [simp]: "unwrap_or [] (nonempty_opt xs) = xs"
  by (simp add: nonempty_opt_def)

fun enc_opt :: "('a \<Rightarrow> json) \<Rightarrow> 'a option \<Rightarrow> json" where
  "enc_opt enc None = JNull"
| "enc_opt enc (Some x) = enc x"

definition dec_opt :: "(json \<Rightarrow> 'a res) \<Rightarrow> json \<Rightarrow> 'a option res" where
  "dec_opt dec v = (if v = JNull then Inr None else rbind (dec v) (\<lambda>x. Inr (Some x)))"

definition enc_vec :: "('a \<Rightarrow> json) \<Rightarrow> 'a list \<Rightarrow> json" where
  "enc_vec enc xs = JArr (map enc xs)"

fun dec_vec :: "(json \<Rightarrow> 'a res) \<Rightarrow> json \<Rightarrow> 'a list res" where
  "dec_vec dec (JArr vs) = rcollect dec vs"
| "dec_vec dec _ = Inl (InvalidType ''sequence'')"

lemma or_option_None_right [simp]: "or_option x None = x"
  by (cases x) simp_all

lemma get_field_put_flag [json_simps]:
  "get_field k (put_flag k' b) = (if k = k' then map_option JBool (flag_opt b) else None)"
  by (auto simp: put_flag_def flag_opt_def json_simps)

lemma opt_dec_None [simp]: "opt_dec dec None = Inr None"
  by (simp add: opt_dec_def)

lemma get_field_put_opt [json_simps]:
  "get_field k (put_opt k' enc x) = (if k = k' then map_option enc x else None)"
  by (cases x) (auto simp: put_opt_def json_simps)

section \<open>The codec contract\<close>

locale json_codec =
  fixes enc :: "'a \<Rightarrow> json" and dec :: "json \<Rightarrow> 'a res" and ok :: "'a \<Rightarrow> bool"
  assumes dec_enc: "ok x \<Longrightarrow> dec (enc x) = Inr x"
    and enc_not_null: "ok x \<Longrightarrow> enc x \<noteq> JNull"
begin

lemma dec_vec_enc: "list_all ok xs \<Longrightarrow> dec_vec dec (enc_vec enc xs) = Inr xs"
  by (induction xs) (auto simp: enc_vec_def dec_enc)

lemma dec_opt_enc: "pred_option ok x \<Longrightarrow> dec_opt dec (enc_opt enc x) = Inr x"
  by (cases x) (auto simp: dec_opt_def dec_enc enc_not_null)

lemma opt_dec_enc: "pred_option ok x \<Longrightarrow> opt_dec dec (map_option enc x) = Inr x"
  by (cases x) (auto simp: opt_dec_def dec_enc enc_not_null)

end

text \<open>A codec for the elements gives one for sequences, and one for optional elements.\<close>

lemma json_codec_vec:
  assumes "json_codec enc dec ok"
  shows "json_codec (enc_vec enc) (dec_vec dec) (list_all ok)"
  by unfold_locales (auto simp: json_codec.dec_vec_enc [OF assms], simp add: enc_vec_def)

lemma dec_vec_enc_opt:
  assumes "json_codec enc dec ok" and "list_all (pred_option ok) xs"
  shows "dec_vec (dec_opt dec) (enc_vec (enc_opt enc) xs) = Inr xs"
  using assms(2)
  by (induction xs) (auto simp: enc_vec_def json_codec.dec_opt_enc [OF assms(1)])

lemma json_codec_vec_opt:
  assumes "json_codec enc dec ok"
  shows "json_codec (enc_vec (enc_opt enc)) (dec_vec (dec_opt dec)) (list_all (pred_option ok))"
  by unfold_locales (auto simp: dec_vec_enc_opt [OF assms], simp add: enc_vec_def)

section \<open>Scalars\<close>

fun dec_bool :: "json \<Rightarrow> bool res" where
  "dec_bool (JBool b) = Inr b"
| "dec_bool _ = Inl (InvalidType ''bool'')"

fun dec_string :: "json \<Rightarrow> string res" where
  "dec_string (JStr s) = Inr s"
| "dec_string _ = Inl (InvalidType ''string'')"

text \<open>An unsigned integer of \<open>w\<close> bits is rejected out of range, a signed one likewise.\<close>

definition enc_word :: "'w::len word \<Rightarrow> json" where
  "enc_word w = JInt (uint w)"

fun dec_word :: "json \<Rightarrow> 'w::len word res" where
  "dec_word (JInt i) =
     (if 0 \<le> i \<and> i < 2 ^ LENGTH('w) then Inr (word_of_int i) else Inl (InvalidType ''unsigned''))"
| "dec_word _ = Inl (InvalidType ''unsigned'')"

definition enc_nat :: "nat \<Rightarrow> json" where
  "enc_nat n = JInt (int n)"

text \<open>\<open>usize\<close> on the 64-bit targets the backend is built for.\<close>

definition usize_ok :: "nat \<Rightarrow> bool" where
  "usize_ok n \<longleftrightarrow> n < 2 ^ 64"

fun dec_nat :: "json \<Rightarrow> nat res" where
  "dec_nat (JInt i) = (if 0 \<le> i \<and> i < 2 ^ 64 then Inr (nat i) else Inl (InvalidType ''usize''))"
| "dec_nat _ = Inl (InvalidType ''usize'')"

definition signed_ok :: "nat \<Rightarrow> int \<Rightarrow> bool" where
  "signed_ok w i \<longleftrightarrow> - (2 ^ (w - 1)) \<le> i \<and> i < 2 ^ (w - 1)"

fun dec_signed :: "nat \<Rightarrow> json \<Rightarrow> int res" where
  "dec_signed w (JInt i) = (if signed_ok w i then Inr i else Inl (InvalidType ''signed''))"
| "dec_signed w _ = Inl (InvalidType ''signed'')"

interpretation bool_codec: json_codec JBool dec_bool "\<lambda>_. True"
  by unfold_locales auto

interpretation string_codec: json_codec JStr dec_string "\<lambda>_. True"
  by unfold_locales auto

interpretation word_codec: json_codec "enc_word :: 'w::len word \<Rightarrow> json" dec_word "\<lambda>_. True"
proof unfold_locales
  fix x :: "'w word"
  show "dec_word (enc_word x) = Inr x"
    using uint_lt2p [of x] by (simp add: enc_word_def)
  show "enc_word x \<noteq> JNull"
    by (simp add: enc_word_def)
qed

interpretation nat_codec: json_codec enc_nat dec_nat usize_ok
  by unfold_locales (auto simp: enc_nat_def usize_ok_def)

interpretation i32_codec: json_codec JInt "dec_signed 32" "signed_ok 32"
  by unfold_locales auto

interpretation i64_codec: json_codec JInt "dec_signed 64" "signed_ok 64"
  by unfold_locales auto

text \<open>\<open>serde_json::Value\<close> and \<open>RawValue\<close> keep the value as it is.\<close>

definition dec_value :: "json \<Rightarrow> json res" where
  "dec_value v = Inr v"

interpretation value_codec: json_codec id dec_value "\<lambda>v. v \<noteq> JNull"
  by unfold_locales (auto simp: dec_value_def)

lemma dec_vec_raw: "dec_vec dec_value (enc_vec id xs) = Inr xs"
  by (induction xs) (auto simp: enc_vec_def dec_value_def)

lemma json_codec_raw_vec: "json_codec (enc_vec id) (dec_vec dec_value) (\<lambda>_. True)"
  by (simp add: json_codec_def dec_vec_raw) (simp add: enc_vec_def)

section \<open>Structs\<close>

fun dec_struct :: "(fields \<Rightarrow> 'a res) \<Rightarrow> json \<Rightarrow> 'a res" where
  "dec_struct f (JObj fs) = f fs"
| "dec_struct f _ = Inl (InvalidType ''map'')"

text \<open>
  Textual forms of values whose library is not part of the repository (the \<open>uuid\<close> and
  \<open>chrono\<close> crates). What is relied on is that parsing inverts printing.
\<close>

record text_ops =
  show_uuid :: "uuid \<Rightarrow> string"
  parse_uuid :: "string \<Rightarrow> uuid option"
  show_time :: "int \<Rightarrow> string"
  parse_time :: "string \<Rightarrow> int option"

definition text_ok :: "text_ops \<Rightarrow> bool" where
  "text_ok T \<longleftrightarrow> (\<forall>u. parse_uuid T (show_uuid T u) = Some u) \<and>
                  (\<forall>t. parse_time T (show_time T t) = Some t)"

definition enc_text :: "('a \<Rightarrow> string) \<Rightarrow> 'a \<Rightarrow> json" where
  "enc_text s x = JStr (s x)"

fun dec_text :: "(string \<Rightarrow> 'a option) \<Rightarrow> json \<Rightarrow> 'a res" where
  "dec_text p (JStr s) = ok_or (InvalidType s) (p s)"
| "dec_text p _ = Inl (InvalidType ''string'')"

lemma json_codec_text:
  "(\<And>x. p (s x) = Some x) \<Longrightarrow> json_codec (enc_text s) (dec_text p) (\<lambda>_. True)"
  by unfold_locales (auto simp: enc_text_def)

lemma text_ok_uuid: "text_ok T \<Longrightarrow> json_codec (enc_text (show_uuid T)) (dec_text (parse_uuid T)) (\<lambda>_. True)"
  by (rule json_codec_text) (simp add: text_ok_def)

lemma text_ok_time: "text_ok T \<Longrightarrow> json_codec (enc_text (show_time T)) (dec_text (parse_time T)) (\<lambda>_. True)"
  by (rule json_codec_text) (simp add: text_ok_def)

text \<open>An instance of the textual forms, for evaluating the codecs on concrete inputs.\<close>

definition unary_text :: text_ops where
  "unary_text = \<lparr>show_uuid = (\<lambda>u. replicate (unat u) CHR ''x''), parse_uuid = (\<lambda>s. Some (of_nat (length s))),
     show_time = (\<lambda>t. if t < 0 then CHR ''-'' # replicate (nat (- t)) CHR ''t'' else replicate (nat t) CHR ''t''),
     parse_time = (\<lambda>s. case s of c # cs \<Rightarrow> if c = CHR ''-'' then Some (- int (length cs)) else Some (int (length s))
                        | [] \<Rightarrow> Some 0)\<rparr>"

lemma unary_text_ok: "text_ok unary_text"
proof -
  have "parse_time unary_text (show_time unary_text t) = Some t" for t
  proof (cases "t \<le> 0")
    case False
    then obtain n where "nat t = Suc n" by (cases "nat t") auto
    then show ?thesis using False by (auto simp: unary_text_def)
  qed (auto simp: unary_text_def)
  then show ?thesis by (simp add: text_ok_def) (simp add: unary_text_def)
qed

end
