(* ===== verification/FlowModel.thy ===== *)
theory FlowModel
  imports Json Scripts
begin

text \<open>
  The definition of a flow (\<open>windmill-types/src/flows.rs\<close>): steps, retry policies, modules
  and their values, the lookup of the module of a step, the traversal and validation of
  nested modules, and the virtual module that ends a flow whose last module suspends.

  The \<open>value\<close> of a module is raw JSON that is parsed on use. It is modelled by the fields the
  parsers extract from it (the struct \<open>UntaggedFlowModuleValue\<close>, every field optional), for
  values whose fields have their declared types; \<open>get_value\<close> is the \<open>Deserialize\<close>
  implementation of \<open>FlowModuleValue\<close> on them, and the other views read the same fields.
\<close>

section \<open>Steps of a flow\<close>

datatype step = Step (step_idx: nat) (step_len: nat) | PreprocessorStep | FailureStep

definition from_i32_and_len :: "int \<Rightarrow> nat \<Rightarrow> step" where
  "from_i32_and_len s n =
     (if s < 0 then PreprocessorStep
      else if nat s < n then Step (nat s) n
      else FailureStep)"

definition get_step_index :: "step \<Rightarrow> nat option" where
  "get_step_index s = (case s of Step i _ \<Rightarrow> Some i | _ \<Rightarrow> None)"

definition is_index_step :: "step \<Rightarrow> bool" where
  "is_index_step s = (case s of Step _ _ \<Rightarrow> True | _ \<Rightarrow> False)"

definition is_preprocessor_step :: "step \<Rightarrow> bool" where
  "is_preprocessor_step s = (case s of PreprocessorStep \<Rightarrow> True | _ \<Rightarrow> False)"

definition is_failure_step :: "step \<Rightarrow> bool" where
  "is_failure_step s = (case s of FailureStep \<Rightarrow> True | _ \<Rightarrow> False)"

definition is_last_step :: "step \<Rightarrow> bool" where
  "is_last_step s = (case s of Step i n \<Rightarrow> i = n - 1 | _ \<Rightarrow> False)"

lemma from_i32_and_len_cases:
  "s < 0 \<Longrightarrow> from_i32_and_len s n = PreprocessorStep"
  "0 \<le> s \<Longrightarrow> nat s < n \<Longrightarrow> from_i32_and_len s n = Step (nat s) n"
  "0 \<le> s \<Longrightarrow> n \<le> nat s \<Longrightarrow> from_i32_and_len s n = FailureStep"
  by (simp_all add: from_i32_and_len_def)

lemma from_i32_and_len_Step_iff:
  "from_i32_and_len s n = Step i m \<longleftrightarrow> m = n \<and> s = int i \<and> i < n"
  by (auto simp: from_i32_and_len_def)

section \<open>Retry policies\<close>

record retry_constant =
  rc_attempts :: "32 word"
  rc_seconds :: "16 word"

record retry_exponential =
  re_attempts :: "32 word"
  re_multiplier :: "16 word"
  re_seconds :: "16 word"
  re_random_factor :: "8 word option" \<comment> \<open>\<open>i8\<close>, read with \<open>sint\<close>\<close>

record retry =
  r_constant :: retry_constant
  r_exponential :: retry_exponential
  r_retry_if :: "string option"

definition retry_default :: retry where
  "retry_default = \<lparr>r_constant = \<lparr>rc_attempts = 0, rc_seconds = 0\<rparr>,
     r_exponential = \<lparr>re_attempts = 0, re_multiplier = 1, re_seconds = 0, re_random_factor = None\<rparr>,
     r_retry_if = None\<rparr>"

text \<open>Saturating operations on \<open>u16\<close> and \<open>u32\<close>.\<close>

definition saturating_add :: "'w::len word \<Rightarrow> 'w word \<Rightarrow> 'w word" where
  "saturating_add a b = (if unat a + unat b < 2 ^ LENGTH('w) then a + b else - 1)"

definition saturating_sub :: "'w::len word \<Rightarrow> 'w word \<Rightarrow> 'w word" where
  "saturating_sub a b = (if unat b \<le> unat a then a - b else 0)"

definition saturating_pow :: "'w::len word \<Rightarrow> nat \<Rightarrow> 'w word" where
  "saturating_pow b e = (if unat b ^ e < 2 ^ LENGTH('w) then of_nat (unat b ^ e) else - 1)"

text \<open>
  \<open>Retry::interval\<close>, in whole seconds. The products are \<open>u16\<close> products and wrap (the release
  profile does not check overflow). \<open>draw\<close> is the random number taken from \<open>0..n\<close> and
  \<open>up\<close> the coin flip, both from the \<open>rand\<close> crate.
\<close>

definition jitter :: "(16 word \<Rightarrow> 16 word) \<Rightarrow> bool \<Rightarrow> 8 word option \<Rightarrow> 16 word \<Rightarrow> 16 word" where
  "jitter draw up rf secs =
     (case rf of
        None \<Rightarrow> secs
      | Some f \<Rightarrow>
          if sint f > 0 then
            let c = draw (word_of_int (min (sint f) 100))
            in if up then saturating_add secs (secs * c div 100)
               else saturating_sub secs (secs * c div 100)
          else secs)"

definition interval ::
  "(16 word \<Rightarrow> 16 word) \<Rightarrow> bool \<Rightarrow> retry \<Rightarrow> 32 word \<Rightarrow> nat option" where
  "interval draw up r previous_attempts =
     (let c = r_constant r; e = r_exponential r in
      if previous_attempts < rc_attempts c then Some (unat (rc_seconds c))
      else if previous_attempts - rc_attempts c < re_attempts e then
        let ex = unat (saturating_add previous_attempts 1);
            secs = re_multiplier e * saturating_pow (re_seconds e) ex
        in Some (unat (jitter draw up (re_random_factor e) secs))
      else None)"

definition has_attempts :: "retry \<Rightarrow> bool" where
  "has_attempts r \<longleftrightarrow> rc_attempts (r_constant r) \<noteq> 0 \<or> re_attempts (r_exponential r) \<noteq> 0"

definition max_attempts :: "retry \<Rightarrow> 32 word" where
  "max_attempts r = saturating_add (rc_attempts (r_constant r)) (re_attempts (r_exponential r))"

definition max_interval :: "(16 word \<Rightarrow> 16 word) \<Rightarrow> bool \<Rightarrow> retry \<Rightarrow> nat option" where
  "max_interval draw up r =
     (if max_attempts r = 0 then None else interval draw up r (max_attempts r - 1))"

definition validate_retry :: "retry \<Rightarrow> string \<Rightarrow> unit res" where
  "validate_retry r module_id =
     (if re_attempts (r_exponential r) > 0 \<and> re_seconds (r_exponential r) = 0
      then Inl (BadRequest module_id) else Inr ())"

lemma unat_saturating_add:
  fixes a :: "'w::len word"
  shows "unat (saturating_add a b) = min (unat a + unat b) (2 ^ LENGTH('w) - 1)"
proof (cases "unat a + unat b < 2 ^ LENGTH('w)")
  case True
  then show ?thesis by (simp add: saturating_add_def unat_word_ariths)
next
  case False
  then show ?thesis by (simp add: saturating_add_def unat_minus_one min_absorb2)
qed

lemma unat_saturating_pow:
  fixes b :: "'w::len word"
  shows "unat (saturating_pow b e) = min (unat b ^ e) (2 ^ LENGTH('w) - 1)"
proof (cases "unat b ^ e < 2 ^ LENGTH('w)")
  case True
  then show ?thesis
    by (simp add: saturating_pow_def unat_of_nat min_absorb1 del: of_nat_power)
next
  case False
  then show ?thesis
    by (simp add: saturating_pow_def unat_minus_one min_absorb2)
qed

section \<open>Modules\<close>

datatype input_transform = Static json | Javascript string | Ai

text \<open>\<open>TryFrom<UntaggedInputTransform>\<close>: type tag, optional value, optional expression.\<close>

definition try_from_untagged_input_transform ::
  "string \<Rightarrow> json option \<Rightarrow> string option \<Rightarrow> input_transform res" where
  "try_from_untagged_input_transform ty v e =
     (if ty = ''static'' then Inr (Static (unwrap_or JNull v))
      else if ty = ''javascript'' then Inr (Javascript (unwrap_or '''' e))
      else if ty = ''ai'' then Inr Ai
      else Inl (UnknownVariant ty))"

type_synonym transforms = "(string \<times> input_transform) list"

record stop_after_if =
  sai_expr :: string
  sai_skip_if_stopped :: bool
  sai_error_message :: "string option"

record suspend =
  required_events :: "32 word option"
  suspend_timeout :: "32 word option"
  user_auth_required :: "bool option"
  user_groups_required :: "input_transform option"
  self_approval_disabled :: "bool option"
  continue_on_disapprove_timeout :: "bool option"

record mock =
  mock_enabled :: bool
  mock_return_value :: "json option"

text \<open>The fields of \<open>FlowModule\<close> other than its value.\<close>

record module_opts =
  mo_id :: string
  mo_stop_after_if :: "stop_after_if option"
  mo_stop_after_all_iters_if :: "stop_after_if option"
  mo_summary :: "string option"
  mo_suspend :: "suspend option"
  mo_mock :: "mock option"
  mo_retry :: "retry option"
  mo_sleep :: "input_transform option"
  mo_cache_ttl :: "32 word option"
  mo_cache_ignore_s3_path :: "bool option"
  mo_timeout :: "input_transform option"
  mo_priority :: "16 word option"
  mo_delete_after_use :: "bool option"
  mo_delete_after_secs :: "int option"
  mo_continue_on_error :: "bool option"
  mo_skip_if :: "string option"
  mo_apply_preprocessor :: "bool option"
  mo_pass_flow_input_directly :: "bool option"
  mo_debouncing :: "debouncing_settings option"

text \<open>The scalar fields of \<open>UntaggedFlowModuleValue\<close>.\<close>

record raw_opts =
  rv_type :: string
  rv_input_transforms :: "transforms option"
  rv_path :: "string option"
  rv_hash :: "int option"
  rv_tag_override :: "string option"
  rv_iterator :: "input_transform option"
  rv_skip_failures :: "bool option"
  rv_parallel :: "bool option"
  rv_parallelism :: "input_transform option"
  rv_content :: "string option"
  rv_lock :: "string option"
  rv_tag :: "string option"
  rv_language :: "script_lang option"
  rv_is_trigger :: "bool option"
  rv_id :: "int option"
  rv_default_node :: "int option"
  rv_modules_node :: "int option"
  rv_assets :: "json list option"
  rv_pass_flow_input_directly :: "bool option"
  rv_squash :: "bool option"
  rv_concurrency :: concurrency_settings_with_custom

datatype flow_module = FlowModule (fm_opts: module_opts) (fm_value: raw_value)
  and raw_value = RawValue (rv_opts: raw_opts) (rv_modules: "flow_module list option")
      (rv_branches: "raw_branch list option") (rv_default: "flow_module list option")
      (rv_tools: "agent_tool list option")
  and raw_branch = RawBranch (rb_expr: "string option") (rb_modules: "flow_module list")
      (rb_modules_node: "int option") (rb_skip_failure: "bool option") (rb_parallel: "bool option")
  and branch = Branch (b_expr: string) (b_modules: "flow_module list")
      (b_modules_node: "int option") (b_skip_failure: bool) (b_parallel: bool)
  and flow_module_value =
      Script transforms string "int option" "string option" "bool option" "bool option"
    | Flow transforms string "bool option"
    | ForloopFlow input_transform "flow_module list" "int option" bool bool
        "input_transform option" "bool option"
    | WhileloopFlow "flow_module list" "int option" bool "bool option"
    | BranchOne "branch list" "flow_module list" "int option"
    | BranchAll "branch list" bool
    | RawScript transforms string "string option" "string option" "string option" script_lang
        concurrency_settings_with_custom "bool option" "json list option"
    | Identity
    | FlowScript transforms int "string option" script_lang concurrency_settings_with_custom
        "bool option" "json list option"
    | AIAgent transforms "agent_tool list"
  and agent_tool = AgentTool (at_id: string) (at_summary: "string option") (at_value: tool_value)
  and tool_value =
      ToolFlowModule flow_module_value
    | ToolMcp string "string list" "string list"
    | ToolWebsearch

abbreviation "fm_id m \<equiv> mo_id (fm_opts m)"
abbreviation "fm_stop_after_if m \<equiv> mo_stop_after_if (fm_opts m)"
abbreviation "fm_stop_after_all_iters_if m \<equiv> mo_stop_after_all_iters_if (fm_opts m)"
abbreviation "fm_suspend m \<equiv> mo_suspend (fm_opts m)"
abbreviation "fm_mock m \<equiv> mo_mock (fm_opts m)"
abbreviation "fm_retry m \<equiv> mo_retry (fm_opts m)"
abbreviation "fm_sleep m \<equiv> mo_sleep (fm_opts m)"
abbreviation "fm_cache_ttl m \<equiv> mo_cache_ttl (fm_opts m)"
abbreviation "fm_continue_on_error m \<equiv> mo_continue_on_error (fm_opts m)"
abbreviation "fm_skip_if m \<equiv> mo_skip_if (fm_opts m)"

definition opts_default :: "string \<Rightarrow> module_opts" where
  "opts_default i = \<lparr>mo_id = i, mo_stop_after_if = None, mo_stop_after_all_iters_if = None,
     mo_summary = None, mo_suspend = None, mo_mock = None, mo_retry = None, mo_sleep = None,
     mo_cache_ttl = None, mo_cache_ignore_s3_path = None, mo_timeout = None, mo_priority = None,
     mo_delete_after_use = None, mo_delete_after_secs = None, mo_continue_on_error = None,
     mo_skip_if = None, mo_apply_preprocessor = None, mo_pass_flow_input_directly = None,
     mo_debouncing = None\<rparr>"

definition raw_default :: "string \<Rightarrow> raw_opts" where
  "raw_default ty = \<lparr>rv_type = ty, rv_input_transforms = None, rv_path = None, rv_hash = None,
     rv_tag_override = None, rv_iterator = None, rv_skip_failures = None, rv_parallel = None,
     rv_parallelism = None, rv_content = None, rv_lock = None, rv_tag = None, rv_language = None,
     rv_is_trigger = None, rv_id = None, rv_default_node = None, rv_modules_node = None,
     rv_assets = None, rv_pass_flow_input_directly = None, rv_squash = None,
     rv_concurrency = \<lparr>custom_concurrency_key = None, wc_concurrent_limit = None,
       wc_concurrency_time_window_s = None\<rparr>\<rparr>"

section \<open>The value of a module\<close>

text \<open>Deserialisation of a \<open>Branch\<close>: its flags default to true.\<close>

fun branch_of_raw :: "raw_branch \<Rightarrow> branch" where
  "branch_of_raw (RawBranch e ms n sf p) =
     Branch (unwrap_or [] e) ms n (unwrap_or True sf) (unwrap_or True p)"

text \<open>\<open>Deserialize for FlowModuleValue\<close>.\<close>

fun parse_value :: "raw_value \<Rightarrow> flow_module_value res" where
  "parse_value (RawValue u modules branches dflt tools) =
     (let ty = rv_type u; its = unwrap_or [] (rv_input_transforms u) in
      if ty = ''script'' then
        rbind (ok_or (MissingField ''path'') (rv_path u)) (\<lambda>path.
        Inr (Script its path (rv_hash u) (rv_tag_override u) (rv_is_trigger u)
              (rv_pass_flow_input_directly u)))
      else if ty = ''flow'' then
        rbind (ok_or (MissingField ''path'') (rv_path u)) (\<lambda>path.
        Inr (Flow its path (rv_pass_flow_input_directly u)))
      else if ty = ''forloopflow'' then
        rbind (ok_or (MissingField ''iterator'') (rv_iterator u)) (\<lambda>it.
        rbind (ok_or (MissingField ''modules'') modules) (\<lambda>ms.
        Inr (ForloopFlow it ms (rv_modules_node u) (unwrap_or True (rv_skip_failures u))
              (unwrap_or False (rv_parallel u)) (rv_parallelism u) (rv_squash u))))
      else if ty = ''whileloopflow'' then
        rbind (ok_or (MissingField ''modules'') modules) (\<lambda>ms.
        Inr (WhileloopFlow ms (rv_modules_node u) (unwrap_or False (rv_skip_failures u))
              (rv_squash u)))
      else if ty = ''branchone'' then
        rbind (ok_or (MissingField ''branches'') branches) (\<lambda>bs.
        rbind (ok_or (MissingField ''default'') dflt) (\<lambda>d.
        Inr (BranchOne (map branch_of_raw bs) d (rv_default_node u))))
      else if ty = ''branchall'' then
        rbind (ok_or (MissingField ''branches'') branches) (\<lambda>bs.
        Inr (BranchAll (map branch_of_raw bs) (unwrap_or True (rv_parallel u))))
      else if ty = ''rawscript'' then
        rbind (ok_or (MissingField ''content'') (rv_content u)) (\<lambda>c.
        rbind (ok_or (MissingField ''language'') (rv_language u)) (\<lambda>l.
        Inr (RawScript its c (rv_lock u) (rv_path u) (rv_tag u) l (rv_concurrency u)
              (rv_is_trigger u) (rv_assets u))))
      else if ty = ''flowscript'' then
        rbind (ok_or (MissingField ''id'') (rv_id u)) (\<lambda>i.
        rbind (ok_or (MissingField ''language'') (rv_language u)) (\<lambda>l.
        Inr (FlowScript its i (rv_tag u) l (rv_concurrency u) (rv_is_trigger u) (rv_assets u))))
      else if ty = ''identity'' then Inr Identity
      else if ty = ''aiagent'' then
        rbind (ok_or (MissingField ''tools'') tools) (\<lambda>ts. Inr (AIAgent its ts))
      else Inl (UnknownVariant ty))"

definition get_value :: "flow_module \<Rightarrow> flow_module_value res" where
  "get_value m = parse_value (fm_value m)"

text \<open>
  \<open>Serialize for FlowModule\<close>, for the modules inside a value: \<open>delete_after_use\<close> is never written, nor
  is a \<open>continue_on_disapprove_timeout\<close> that is false, and a mocked value \<open>null\<close> is read as none.
\<close>

definition written_suspend :: "suspend \<Rightarrow> suspend" where
  "written_suspend s = s\<lparr>continue_on_disapprove_timeout :=
     (if continue_on_disapprove_timeout s = Some False then None else continue_on_disapprove_timeout s)\<rparr>"

definition written_mock :: "mock \<Rightarrow> mock" where
  "written_mock m = m\<lparr>mock_return_value := (if mock_return_value m = Some JNull then None else mock_return_value m)\<rparr>"

definition written_module :: "flow_module \<Rightarrow> flow_module" where
  "written_module m = FlowModule ((fm_opts m)\<lparr>mo_delete_after_use := None,
     mo_suspend := map_option written_suspend (mo_suspend (fm_opts m)),
     mo_mock := map_option written_mock (mo_mock (fm_opts m))\<rparr>) (fm_value m)"

text \<open>
  \<open>Serialize for FlowModuleValue\<close>: an empty tag and an empty list of assets are left out. The tools of an
  agent hold values, which are written in turn.
\<close>

fun raw_of_branch :: "branch \<Rightarrow> raw_branch" where
  "raw_of_branch (Branch e ms n sf p) = RawBranch (Some e) (map written_module ms) n (Some sf) (Some p)"

definition skip_empty :: "'a list option \<Rightarrow> 'a list option" where
  "skip_empty x = (if x = Some [] then None else x)"

text \<open>What is read back of a value that was written.\<close>

definition written_branch :: "branch \<Rightarrow> branch" where
  "written_branch b = Branch (b_expr b) (map written_module (b_modules b)) (b_modules_node b) (b_skip_failure b) (b_parallel b)"

fun normal_value :: "flow_module_value \<Rightarrow> flow_module_value" and normal_tool :: "agent_tool \<Rightarrow> agent_tool" where
  "normal_value (RawScript its c lk path t l cs tr a) =
     RawScript its c lk path (skip_empty t) l cs tr (skip_empty a)"
| "normal_value (FlowScript its i t l cs tr a) =
     FlowScript its i (skip_empty t) l cs tr (skip_empty a)"
| "normal_value (ForloopFlow it ms n sf p pm sq) = ForloopFlow it (map written_module ms) n sf p pm sq"
| "normal_value (WhileloopFlow ms n sf sq) = WhileloopFlow (map written_module ms) n sf sq"
| "normal_value (BranchOne bs d n) = BranchOne (map written_branch bs) (map written_module d) n"
| "normal_value (BranchAll bs p) = BranchAll (map written_branch bs) p"
| "normal_value (AIAgent its ts) = AIAgent its (map normal_tool ts)"
| "normal_value (Script its path h t tr pd) = Script its path h t tr pd"
| "normal_value (Flow its path pd) = Flow its path pd"
| "normal_value Identity = Identity"
| "normal_tool (AgentTool i s (ToolFlowModule v)) = AgentTool i s (ToolFlowModule (normal_value v))"
| "normal_tool (AgentTool i s (ToolMcp r ti te)) = AgentTool i s (ToolMcp r ti te)"
| "normal_tool (AgentTool i s ToolWebsearch) = AgentTool i s ToolWebsearch"

fun to_raw :: "flow_module_value \<Rightarrow> raw_value" where
  "to_raw (Script its path h t tr pd) =
     RawValue ((raw_default ''script'')\<lparr>rv_input_transforms := Some its, rv_path := Some path,
       rv_hash := h, rv_tag_override := t, rv_is_trigger := tr,
       rv_pass_flow_input_directly := pd\<rparr>) None None None None"
| "to_raw (Flow its path pd) =
     RawValue ((raw_default ''flow'')\<lparr>rv_input_transforms := Some its, rv_path := Some path,
       rv_pass_flow_input_directly := pd\<rparr>) None None None None"
| "to_raw (ForloopFlow it ms n sf p pm sq) =
     RawValue ((raw_default ''forloopflow'')\<lparr>rv_iterator := Some it, rv_modules_node := n,
       rv_skip_failures := Some sf, rv_parallel := Some p, rv_parallelism := pm,
       rv_squash := sq\<rparr>) (Some (map written_module ms)) None None None"
| "to_raw (WhileloopFlow ms n sf sq) =
     RawValue ((raw_default ''whileloopflow'')\<lparr>rv_modules_node := n,
       rv_skip_failures := Some sf, rv_squash := sq\<rparr>) (Some (map written_module ms)) None None None"
| "to_raw (BranchOne bs d n) =
     RawValue ((raw_default ''branchone'')\<lparr>rv_default_node := n\<rparr>)
       None (Some (map raw_of_branch bs)) (Some (map written_module d)) None"
| "to_raw (BranchAll bs p) =
     RawValue ((raw_default ''branchall'')\<lparr>rv_parallel := Some p\<rparr>)
       None (Some (map raw_of_branch bs)) None None"
| "to_raw (RawScript its c lk path t l cs tr a) =
     RawValue ((raw_default ''rawscript'')\<lparr>rv_input_transforms := Some its,
       rv_content := Some c, rv_lock := lk, rv_path := path, rv_tag := skip_empty t,
       rv_language := Some l, rv_concurrency := cs, rv_is_trigger := tr,
       rv_assets := skip_empty a\<rparr>) None None None None"
| "to_raw Identity = RawValue (raw_default ''identity'') None None None None"
| "to_raw (FlowScript its i t l cs tr a) =
     RawValue ((raw_default ''flowscript'')\<lparr>rv_input_transforms := Some its, rv_id := Some i,
       rv_tag := skip_empty t, rv_language := Some l, rv_concurrency := cs,
       rv_is_trigger := tr, rv_assets := skip_empty a\<rparr>) None None None None"
| "to_raw (AIAgent its ts) =
     RawValue ((raw_default ''aiagent'')\<lparr>rv_input_transforms := Some its\<rparr>)
       None None None (Some (map normal_tool ts))"

lemma branch_of_raw_of_branch [simp]: "branch_of_raw (raw_of_branch b) = written_branch b"
  by (cases b) (simp add: written_branch_def)

lemma parse_value_to_raw: "parse_value (to_raw v) = Inr (normal_value v)"
  by (cases v) (simp_all add: raw_default_def comp_def Let_def)

text \<open>The partial views of a module's value, each reading its own fields.\<close>

definition get_type :: "flow_module \<Rightarrow> string" where
  "get_type m = rv_type (rv_opts (fm_value m))"

definition is_flow :: "flow_module \<Rightarrow> bool" where
  "is_flow m \<longleftrightarrow> get_type m = ''flow''"

definition is_ai_agent :: "flow_module \<Rightarrow> bool" where
  "is_ai_agent m \<longleftrightarrow> get_type m = ''aiagent''"

definition is_simple :: "flow_module \<Rightarrow> bool" where
  "is_simple m \<longleftrightarrow> get_type m = ''script'' \<or> get_type m = ''rawscript'' \<or> get_type m = ''flowscript''"

definition get_skip_failures :: "flow_module \<Rightarrow> bool option" where
  "get_skip_failures m = rv_skip_failures (rv_opts (fm_value m))"

definition get_parallelism :: "flow_module \<Rightarrow> input_transform option" where
  "get_parallelism m = rv_parallelism (rv_opts (fm_value m))"

definition get_branches_skip_failures :: "flow_module \<Rightarrow> bool option list res" where
  "get_branches_skip_failures m =
     rbind (ok_or (MissingField ''branches'') (rv_branches (fm_value m)))
       (\<lambda>bs. Inr (map rb_skip_failure bs))"

definition id_append :: "string \<Rightarrow> flow_module \<Rightarrow> flow_module" where
  "id_append s m = FlowModule ((fm_opts m)\<lparr>mo_id := fm_id m @ ''-'' @ s\<rparr>) (fm_value m)"

section \<open>The flow\<close>

record flow_value =
  fv_modules :: "flow_module list"
  fv_failure_module :: "flow_module option"
  fv_preprocessor_module :: "flow_module option"
  fv_same_worker :: bool
  fv_concurrency :: concurrency_settings
  fv_debouncing :: debouncing_settings
  fv_skip_expr :: "string option"
  fv_cache_ttl :: "32 word option"
  fv_cache_ignore_s3_path :: "bool option"
  fv_early_return :: "string option"
  fv_priority :: "16 word option"
  fv_chat_input_enabled :: "bool option"
  fv_flow_env :: "(string \<times> json) list option"
  fv_delete_after_use :: "bool option"
  fv_delete_after_secs :: "int option"

definition flow_value_default :: flow_value where
  "flow_value_default = \<lparr>fv_modules = [], fv_failure_module = None, fv_preprocessor_module = None,
     fv_same_worker = False, fv_concurrency = concurrency_default,
     fv_debouncing = debouncing_default, fv_skip_expr = None, fv_cache_ttl = None,
     fv_cache_ignore_s3_path = None, fv_early_return = None, fv_priority = None,
     fv_chat_input_enabled = None, fv_flow_env = None, fv_delete_after_use = None,
     fv_delete_after_secs = None\<rparr>"

definition get_flow_module_at_step :: "flow_value \<Rightarrow> step \<Rightarrow> flow_module res" where
  "get_flow_module_at_step f s =
     (case s of
        PreprocessorStep \<Rightarrow> ok_or (InternalErr ''no preprocessor module'') (fv_preprocessor_module f)
      | Step i _ \<Rightarrow> ok_or (InternalErr ''no module found at index'') (nth_opt (fv_modules f) i)
      | FailureStep \<Rightarrow> ok_or (InternalErr ''no failure module'') (fv_failure_module f))"

text \<open>
  The virtual module appended after a last module that sleeps or suspends, so that a step
  exists at which the flow can wait.
\<close>

definition virtual_module :: "flow_module \<Rightarrow> flow_module" where
  "virtual_module m =
     FlowModule ((opts_default (fm_id m @ ''-v''))
       \<lparr>mo_summary := Some ''Virtual module needed for suspend/sleep when last module''\<rparr>)
       (to_raw Identity)"

definition add_virtual_items_if_necessary :: "flow_module list \<Rightarrow> flow_module list" where
  "add_virtual_items_if_necessary ms =
     (if length ms > 0 \<and> (fm_sleep (last ms) \<noteq> None \<or> fm_suspend (last ms) \<noteq> None)
      then ms @ [virtual_module (last ms)] else ms)"

section \<open>Traversal of nested modules\<close>

text \<open>A weight that decreases from a module to the modules nested in its value.\<close>

primrec w_module :: "flow_module \<Rightarrow> nat" and w_raw :: "raw_value \<Rightarrow> nat"
  and w_rbranch :: "raw_branch \<Rightarrow> nat" and w_branch :: "branch \<Rightarrow> nat"
  and w_value :: "flow_module_value \<Rightarrow> nat" and w_tool :: "agent_tool \<Rightarrow> nat"
  and w_tvalue :: "tool_value \<Rightarrow> nat" where
  "w_module (FlowModule u v) = 3 + w_raw v"
| "w_raw (RawValue u ms bs d ts) = 1 +
     case_option 0 sum_list (map_option (map w_module) ms) +
     case_option 0 sum_list (map_option (map w_rbranch) bs) +
     case_option 0 sum_list (map_option (map w_module) d) +
     case_option 0 sum_list (map_option (map w_tool) ts)"
| "w_rbranch (RawBranch e ms n sf p) = 2 + sum_list (map w_module ms)"
| "w_branch (Branch e ms n sf p) = 2 + sum_list (map w_module ms)"
| "w_value (Script its path h t tr pd) = 1"
| "w_value (Flow its path pd) = 1"
| "w_value (ForloopFlow it ms n sf p pm sq) = 1 + sum_list (map w_module ms)"
| "w_value (WhileloopFlow ms n sf sq) = 1 + sum_list (map w_module ms)"
| "w_value (BranchOne bs d n) = 1 + sum_list (map w_branch bs) + sum_list (map w_module d)"
| "w_value (BranchAll bs p) = 1 + sum_list (map w_branch bs)"
| "w_value (RawScript its c lk path t l cs tr a) = 1"
| "w_value Identity = 1"
| "w_value (FlowScript its i t l cs tr a) = 1"
| "w_value (AIAgent its ts) = 1 + sum_list (map w_tool ts)"
| "w_tool (AgentTool i s v) = 2 + w_tvalue v"
| "w_tvalue (ToolFlowModule v) = 1 + w_value v"
| "w_tvalue (ToolMcp r i e) = 1"
| "w_tvalue ToolWebsearch = 1"

lemma w_module_positive [simp]: "0 < w_module m"
  by (cases m) simp

lemma w_tool_positive [simp]: "0 < w_tool t"
  by (cases t) simp

lemma w_branch_of_raw [simp]: "w_branch (branch_of_raw b) = w_rbranch b"
  by (cases b) simp

lemma w_written [simp]: "w_module (written_module m) = w_module m" "w_branch (written_branch b) = w_branch b"
proof -
  show m: "w_module (written_module m) = w_module m" for m by (cases m) (simp add: written_module_def)
  show "w_branch (written_branch b) = w_branch b" by (cases b) (simp add: written_branch_def m comp_def)
qed

lemma w_normal_value [simp]: "w_value (normal_value v) = w_value v" "w_tool (normal_tool t) = w_tool t"
proof (induction v and t rule: normal_value_normal_tool.induct)
  case (7 its ts)
  then have "map (w_tool \<circ> normal_tool) ts = map w_tool ts" by simp
  then show ?case by (simp only: normal_value.simps w_value.simps map_map)
qed (simp_all add: comp_def)

lemma w_parse_value: "parse_value r = Inr v \<Longrightarrow> w_value v \<le> w_raw r"
  by (cases r)
    (auto simp: Let_def result_simps comp_def split: if_splits)

lemma w_get_value: "get_value m = Inr v \<Longrightarrow> w_value v + 2 < w_module m"
  using w_parse_value [of "fm_value m" v] by (cases m) (simp add: get_value_def)

text \<open>\<open>Option::<FlowModule>::from(&AgentTool)\<close>: only tools that are flow modules have one.\<close>

definition tool_module :: "agent_tool \<Rightarrow> flow_module option" where
  "tool_module t =
     (case at_value t of
        ToolFlowModule v \<Rightarrow>
          Some (FlowModule ((opts_default (at_id t))\<lparr>mo_summary := at_summary t\<rparr>) (to_raw v))
      | _ \<Rightarrow> None)"

lemma w_tool_module:
  "tool_module t = Some m \<Longrightarrow> get_value m = Inr v \<Longrightarrow> w_value v + 2 < w_tool t"
  by (cases t; cases "at_value t")
    (auto simp: tool_module_def get_value_def parse_value_to_raw split: tool_value.splits)

text \<open>
  \<open>traverse_modules\<close> calls its callback on every module, parents before children, in the
  order of the definition; the callback carries a state and can stop with an error.
\<close>

function (sequential) traverse_modules ::
    "('s \<Rightarrow> flow_module \<Rightarrow> 's res) \<Rightarrow> 's \<Rightarrow> flow_module list \<Rightarrow> 's res"
  and traverse_module_value ::
    "('s \<Rightarrow> flow_module \<Rightarrow> 's res) \<Rightarrow> 's \<Rightarrow> flow_module_value \<Rightarrow> 's res"
  and traverse_branches :: "('s \<Rightarrow> flow_module \<Rightarrow> 's res) \<Rightarrow> 's \<Rightarrow> branch list \<Rightarrow> 's res"
  and traverse_tools :: "('s \<Rightarrow> flow_module \<Rightarrow> 's res) \<Rightarrow> 's \<Rightarrow> agent_tool list \<Rightarrow> 's res" where
  "traverse_modules cb s [] = Inr s"
| "traverse_modules cb s (m # ms) =
     rbind (cb s m) (\<lambda>s1.
     rbind (get_value m) (\<lambda>v.
     rbind (traverse_module_value cb s1 v) (\<lambda>s2. traverse_modules cb s2 ms)))"
| "traverse_module_value cb s (ForloopFlow it ms n sf p pm sq) = traverse_modules cb s ms"
| "traverse_module_value cb s (WhileloopFlow ms n sf sq) = traverse_modules cb s ms"
| "traverse_module_value cb s (BranchOne bs d n) =
     rbind (traverse_branches cb s bs) (\<lambda>s1. traverse_modules cb s1 d)"
| "traverse_module_value cb s (BranchAll bs p) = traverse_branches cb s bs"
| "traverse_module_value cb s (AIAgent its ts) = traverse_tools cb s ts"
| "traverse_module_value cb s _ = Inr s"
| "traverse_branches cb s [] = Inr s"
| "traverse_branches cb s (Branch e ms n sf p # bs) =
     rbind (traverse_modules cb s ms) (\<lambda>s1. traverse_branches cb s1 bs)"
| "traverse_tools cb s [] = Inr s"
| "traverse_tools cb s (t # ts) =
     (case tool_module t of
        None \<Rightarrow> traverse_tools cb s ts
      | Some m \<Rightarrow>
          rbind (cb s m) (\<lambda>s1.
          rbind (get_value m) (\<lambda>v.
          rbind (traverse_module_value cb s1 v) (\<lambda>s2. traverse_tools cb s2 ts))))"
  by pat_completeness auto
termination
  by (relation "measure (\<lambda>x. case x of
        Inl (Inl (cb, s, ms)) \<Rightarrow> sum_list (map w_module ms)
      | Inl (Inr (cb, s, v)) \<Rightarrow> w_value v
      | Inr (Inl (cb, s, bs)) \<Rightarrow> sum_list (map w_branch bs)
      | Inr (Inr (cb, s, ts)) \<Rightarrow> sum_list (map w_tool ts))")
    (auto dest: w_get_value w_tool_module)

text \<open>The modules directly below a value, and all the modules nested in a list of modules.\<close>

definition children :: "flow_module_value \<Rightarrow> flow_module list" where
  "children v =
     (case v of
        ForloopFlow it ms n sf p pm sq \<Rightarrow> ms
      | WhileloopFlow ms n sf sq \<Rightarrow> ms
      | BranchOne bs d n \<Rightarrow> concat (map b_modules bs) @ d
      | BranchAll bs p \<Rightarrow> concat (map b_modules bs)
      | AIAgent its ts \<Rightarrow> List.map_filter tool_module ts
      | _ \<Rightarrow> [])"

inductive nested :: "flow_module list \<Rightarrow> flow_module \<Rightarrow> bool" where
  here: "m \<in> set ms \<Longrightarrow> nested ms m"
| below: "m \<in> set ms \<Longrightarrow> get_value m = Inr v \<Longrightarrow> nested (children v) m' \<Longrightarrow> nested ms m'"

inductive_cases nested_NilE: "nested [] m"

lemma nested_Cons_iff:
  "nested (m # ms) m' \<longleftrightarrow>
     m' = m \<or> (\<exists>v. get_value m = Inr v \<and> nested (children v) m') \<or> nested ms m'"
  by (subst (1 2) nested.simps) (auto intro: nested.intros)

lemma nested_append_iff: "nested (xs @ ys) m \<longleftrightarrow> nested xs m \<or> nested ys m"
  by (subst (1 2 3) nested.simps) auto

lemma not_nested_Nil [simp]: "\<not> nested [] m"
  by (auto elim: nested_NilE)

text \<open>A module passes a check when the callback accepts it and its value can be parsed.\<close>

abbreviation passes :: "(unit \<Rightarrow> flow_module \<Rightarrow> unit res) \<Rightarrow> flow_module \<Rightarrow> bool" where
  "passes cb m \<equiv> cb () m = Inr () \<and> (\<exists>v. get_value m = Inr v)"

lemma traverse_iff:
  fixes cb :: "unit \<Rightarrow> flow_module \<Rightarrow> unit res"
  shows "traverse_modules cb s ms = Inr () \<longleftrightarrow> (\<forall>m. nested ms m \<longrightarrow> passes cb m)"
    and "traverse_module_value cb s v = Inr () \<longleftrightarrow> (\<forall>m. nested (children v) m \<longrightarrow> passes cb m)"
    and "traverse_branches cb s bs = Inr () \<longleftrightarrow>
           (\<forall>m. nested (concat (map b_modules bs)) m \<longrightarrow> passes cb m)"
    and "traverse_tools cb s ts = Inr () \<longleftrightarrow>
           (\<forall>m. nested (List.map_filter tool_module ts) m \<longrightarrow> passes cb m)"
proof (induction cb s ms and cb s v and cb s bs and cb s ts
    rule: traverse_modules_traverse_module_value_traverse_branches_traverse_tools.induct)
  case (2 cb s m ms)
  then show ?case
    by (cases "get_value m") (auto simp: result_simps nested_Cons_iff)
next
  case (5 cb s bs d n)
  then show ?case by (auto simp: children_def result_simps nested_append_iff)
next
  case (10 cb s e ms n sf p bs)
  then show ?case by (auto simp: result_simps nested_append_iff)
next
  case (12 cb s t ts)
  show ?case
  proof (cases "tool_module t")
    case None
    with 12 show ?thesis by (simp add: List.map_filter_simps)
  next
    case (Some m)
    then have eq: "List.map_filter tool_module (t # ts) = m # List.map_filter tool_module ts"
      by (simp add: List.map_filter_simps)
    show ?thesis
    proof (cases "passes cb m")
      case False
      then show ?thesis
        by (cases "cb () m"; cases "get_value m") (auto simp: Some eq nested_Cons_iff)
    next
      case True
      then obtain v where v: "cb () m = Inr ()" "get_value m = Inr v" by blast
      from 12(2) [OF Some, of "()" v] 12(3) [OF Some, of "()" v "()"] v Some show ?thesis
        by (cases "traverse_module_value cb () v") (simp_all add: eq nested_Cons_iff, blast+)
    qed
  qed
qed (auto simp: children_def List.map_filter_simps)

text \<open>\<open>validate_flow_value\<close>, run on every flow that is created or updated.\<close>

definition check_retry :: "unit \<Rightarrow> flow_module \<Rightarrow> unit res" where
  "check_retry s m = (case fm_retry m of None \<Rightarrow> Inr () | Some r \<Rightarrow> validate_retry r (fm_id m))"

definition validate_flow_value :: "flow_value \<Rightarrow> unit res" where
  "validate_flow_value f = traverse_modules check_retry () (fv_modules f)"

section \<open>Properties\<close>

lemma word_minus_less_iff:
  fixes p a b :: "'w::len word"
  assumes "a \<le> p"
  shows "p - a < b \<longleftrightarrow> unat p < unat a + unat b"
  using assms by (simp add: word_less_nat_alt word_le_nat_alt unat_sub less_diff_conv2 add.commute)

lemma interval_None_iff:
  "interval draw up r p = None \<longleftrightarrow>
     unat (rc_attempts (r_constant r)) + unat (re_attempts (r_exponential r)) \<le> unat p"
proof (cases "p < rc_attempts (r_constant r)")
  case True
  then show ?thesis
    by (simp add: interval_def Let_def word_less_nat_alt)
next
  case False
  then have "rc_attempts (r_constant r) \<le> p" by simp
  from word_minus_less_iff [OF this, of "re_attempts (r_exponential r)"] False show ?thesis
    by (auto simp: interval_def Let_def)
qed

text \<open>
  C14: A retry policy gives a delay exactly while the number of failures is below
  \<open>max_attempts\<close>, the sum of the constant and the exponential attempts saturated at 32 bits,
  whatever the random numbers are; only where the sum overflows does it give one for the
  largest number of failures too.
\<close>

theorem interval_exhausted:
  "interval draw up r p = None \<longleftrightarrow>
     max_attempts r \<le> p \<and>
     unat (rc_attempts (r_constant r)) + unat (re_attempts (r_exponential r)) < 2 ^ 32"
proof -
  let ?n = "unat (rc_attempts (r_constant r)) + unat (re_attempts (r_exponential r))"
  have "unat (max_attempts r) = min ?n (2 ^ 32 - 1)"
    by (simp add: max_attempts_def unat_saturating_add)
  moreover have "unat p < 2 ^ 32" using unsigned_less [of p] by simp
  ultimately show ?thesis
    unfolding interval_None_iff word_le_nat_alt by auto
qed

text \<open>
  C15: Without jitter, the delay of an exponential attempt is
  \<open>multiplier * min (seconds ^ (failures + 1)) (2^16 - 1)\<close> reduced modulo \<open>2^16\<close>: the power
  saturates but the product with the multiplier wraps around.
\<close>

theorem interval_exponential:
  assumes "rc_attempts (r_constant r) \<le> p"
    and "unat p < unat (rc_attempts (r_constant r)) + unat (re_attempts (r_exponential r))"
    and "re_random_factor (r_exponential r) = None"
    and "unat p < 2 ^ 32 - 1"
  shows "interval draw up r p =
    Some (unat (re_multiplier (r_exponential r)) *
            min (unat (re_seconds (r_exponential r)) ^ (unat p + 1)) (2 ^ 16 - 1) mod 2 ^ 16)"
proof -
  have "unat (saturating_add p 1) = unat p + 1"
    using assms(4) by (simp add: unat_saturating_add)
  moreover have "\<not> p < rc_attempts (r_constant r)"
    using assms(1) by simp
  moreover have "p - rc_attempts (r_constant r) < re_attempts (r_exponential r)"
    using word_minus_less_iff [OF assms(1)] assms(2) by blast
  ultimately show ?thesis
    using assms(3) by (simp add: interval_def Let_def jitter_def unat_word_ariths unat_saturating_pow)
qed

definition retry_policy :: "32 word \<Rightarrow> 16 word \<Rightarrow> 32 word \<Rightarrow> 16 word \<Rightarrow> 16 word \<Rightarrow> retry" where
  "retry_policy ca cs ea m s = \<lparr>r_constant = \<lparr>rc_attempts = ca, rc_seconds = cs\<rparr>,
     r_exponential = \<lparr>re_attempts = ea, re_multiplier = m, re_seconds = s, re_random_factor = None\<rparr>,
     r_retry_if = None\<rparr>"

theorem interval_exponential_witness:
  "interval (\<lambda>n. 0) True (retry_policy 1 5 3 2 10) 2 = Some (2 * min (10 ^ 3) (2 ^ 16 - 1) mod 2 ^ 16)"
  using interval_exponential [of "retry_policy 1 5 3 2 10" 2 "\<lambda>n. 0" True]
  by (simp add: retry_policy_def)

text \<open>
  A policy that \<open>validate_retry\<close> accepts, because its exponential base is positive, can
  still retry without any delay: with multiplier 256 and base 256 the \<open>u16\<close> product wraps
  to 0, the case which the message of \<open>validate_retry\<close> says the check excludes.
\<close>

lemma validated_retry_without_delay:
  "validate_retry (retry_policy 0 0 3 256 256) i = Inr ()" "interval draw up (retry_policy 0 0 3 256 256) 0 = Some 0"
  by (simp_all add: validate_retry_def retry_policy_def interval_def Let_def jitter_def
      saturating_pow_def saturating_add_def)

text \<open>
  C13: Validation of a flow accepts it exactly when every module of it, at any depth of loops,
  branches and agent tools, has a value that can be parsed and, where it has a retry policy
  with exponential attempts, a positive exponential base.
\<close>

theorem validate_flow_value_iff:
  "validate_flow_value f = Inr () \<longleftrightarrow>
     (\<forall>m. nested (fv_modules f) m \<longrightarrow>
        (\<exists>v. get_value m = Inr v) \<and>
        (\<forall>r. fm_retry m = Some r \<longrightarrow>
           re_attempts (r_exponential r) = 0 \<or> re_seconds (r_exponential r) \<noteq> 0))"
proof -
  have "check_retry () m = Inr () \<longleftrightarrow>
      (\<forall>r. fm_retry m = Some r \<longrightarrow>
         re_attempts (r_exponential r) = 0 \<or> re_seconds (r_exponential r) \<noteq> 0)" for m
    by (auto simp: check_retry_def validate_retry_def word_greater_zero_iff split: option.splits)
  then show ?thesis
    by (auto simp: validate_flow_value_def traverse_iff)
qed

definition zero_base_module :: flow_module where
  "zero_base_module = FlowModule ((opts_default ''x'')\<lparr>mo_retry := Some (retry_policy 0 0 3 1 0)\<rparr>) (to_raw Identity)"

definition zero_base_loop :: flow_value where
  "zero_base_loop = flow_value_default\<lparr>fv_modules := [FlowModule (opts_default ''l'')
     (to_raw (ForloopFlow (Static (JArr [])) [zero_base_module] None True False None None))]\<rparr>"

theorem validate_flow_value_iff_witness: "validate_flow_value zero_base_loop \<noteq> Inr ()"
proof -
  have "written_module zero_base_module = zero_base_module"
    by (simp add: written_module_def zero_base_module_def opts_default_def)
  note [simp] = this
  have "nested (children (ForloopFlow (Static (JArr [])) [zero_base_module] None True False None None)) zero_base_module"
    by (simp add: children_def nested.here)
  then have "nested (fv_modules zero_base_loop) zero_base_module"
    by (rule nested.below [rotated 2])
      (auto simp: zero_base_loop_def get_value_def parse_value_to_raw simp del: to_raw.simps)
  moreover have "fm_retry zero_base_module = Some (retry_policy 0 0 3 1 0)"
    by (simp add: zero_base_module_def)
  ultimately show ?thesis
    using validate_flow_value_iff [of zero_base_loop] by (auto simp: retry_policy_def)
qed

text \<open>
  C16: After \<open>add_virtual_items_if_necessary\<close> the flow keeps its modules in order, its last
  module neither sleeps nor suspends, and a second application changes nothing.
\<close>

theorem add_virtual_items_last:
  assumes "ms \<noteq> []"
  shows "take (length ms) (add_virtual_items_if_necessary ms) = ms \<and>
    fm_sleep (last (add_virtual_items_if_necessary ms)) = None \<and>
    fm_suspend (last (add_virtual_items_if_necessary ms)) = None \<and>
    add_virtual_items_if_necessary (add_virtual_items_if_necessary ms) =
      add_virtual_items_if_necessary ms"
  using assms
  by (auto simp: add_virtual_items_if_necessary_def virtual_module_def opts_default_def)

definition sleeping_module :: flow_module where
  "sleeping_module = FlowModule ((opts_default ''a'')\<lparr>mo_sleep := Some (Static (JInt 5))\<rparr>)
     (to_raw Identity)"

theorem add_virtual_items_last_witness:
  "fm_sleep (last (add_virtual_items_if_necessary [sleeping_module])) = None \<and>
   length (add_virtual_items_if_necessary [sleeping_module]) = 2"
  using add_virtual_items_last [of "[sleeping_module]"]
  by (simp add: add_virtual_items_if_necessary_def sleeping_module_def opts_default_def)

end
