(* ===== verification/FlowStatus.thy ===== *)
theory FlowStatus
  imports FlowModel
begin

text \<open>
  The status of a running flow (\<open>windmill-types/src/flow_status.rs\<close>): the status of a module
  as a tagged union, the status of the flow with its step counter and retry state, their
  accessors and initial values, the durations of the jobs of a loop, and the JSON form in
  which the status is stored in the database between two steps.
\<close>

section \<open>Status of a module\<close>

text \<open>Times are the instants of \<open>chrono::DateTime<Utc>\<close>, as a number of microseconds.\<close>

record flow_job_duration =
  fjd_started_at :: int
  fjd_duration_ms :: int

record flow_jobs_duration =
  started_at :: "int option list"
  duration_ms :: "int option list"

record flow_iterator =
  it_index :: nat
  it_itered :: "json list option"
  it_itered_len :: "nat option"

record branch_all_status =
  ba_branch :: nat
  ba_len :: nat

datatype branch_chosen = ChosenDefault | ChosenBranch nat

record approval =
  ap_resume_id :: "16 word"
  ap_approver :: string

datatype agent_action =
    ToolCall uuid string string
  | McpToolCall uuid string string "json option"
  | Message
  | WebSearch

text \<open>The fields of \<open>InProgress\<close> beside \<open>id\<close> and \<open>job\<close>, and those shared with the ends.\<close>

record jobs_info =
  ji_flow_jobs :: "uuid list option"
  ji_flow_jobs_success :: "bool option list option"
  ji_flow_jobs_duration :: "flow_jobs_duration option"
  ji_branch_chosen :: "branch_chosen option"
  ji_agent_actions :: "agent_action list option"
  ji_agent_actions_success :: "bool list option"

record progress_info =
  pi_progress :: "8 word option"
  pi_iterator :: "flow_iterator option"
  pi_branchall :: "branch_all_status option"
  pi_parallel :: bool
  pi_while_loop :: bool

datatype flow_status_module =
    WaitingForPriorSteps (fsm_id: string)
  | WaitingForEvents (fsm_id: string) (fsm_count: "16 word") (fsm_job: uuid)
  | WaitingForExecutor (fsm_id: string) (fsm_job: uuid)
  | InProgress (fsm_id: string) (fsm_job: uuid) (fsm_progress: progress_info) (fsm_info: jobs_info)
  | Success (fsm_id: string) (fsm_job: uuid) (fsm_info: jobs_info)
      (fsm_approvers: "approval list") (fsm_failed_retries: "uuid list") (fsm_skipped: bool)
  | Failure (fsm_id: string) (fsm_job: uuid) (fsm_info: jobs_info)
      (fsm_failed_retries: "uuid list")

definition no_jobs :: jobs_info where
  "no_jobs = \<lparr>ji_flow_jobs = None, ji_flow_jobs_success = None, ji_flow_jobs_duration = None,
     ji_branch_chosen = None, ji_agent_actions = None, ji_agent_actions_success = None\<rparr>"

datatype job_result = SingleJob uuid | ListJob "uuid list"

fun module_job :: "flow_status_module \<Rightarrow> uuid option" where
  "module_job (WaitingForPriorSteps i) = None"
| "module_job (WaitingForEvents i c j) = Some j"
| "module_job (WaitingForExecutor i j) = Some j"
| "module_job (InProgress i j p info) = Some j"
| "module_job (Success i j info ap fr sk) = Some j"
| "module_job (Failure i j info fr) = Some j"

text \<open>
  \<open>flow_jobs\<close>, \<open>branch_chosen\<close>, \<open>flow_jobs_success\<close>, \<open>flow_jobs_duration\<close>, \<open>agent_actions\<close>
  and \<open>agent_actions_success\<close> all read \<open>InProgress\<close>, \<open>Success\<close> and \<open>Failure\<close> and are \<open>None\<close>
  elsewhere.
\<close>

fun module_info :: "flow_status_module \<Rightarrow> jobs_info option" where
  "module_info (InProgress i j p info) = Some info"
| "module_info (Success i j info ap fr sk) = Some info"
| "module_info (Failure i j info fr) = Some info"
| "module_info _ = None"

definition flow_jobs :: "flow_status_module \<Rightarrow> uuid list option" where
  "flow_jobs m = Option.bind (module_info m) ji_flow_jobs"

definition module_branch_chosen :: "flow_status_module \<Rightarrow> branch_chosen option" where
  "module_branch_chosen m = Option.bind (module_info m) ji_branch_chosen"

definition flow_jobs_success :: "flow_status_module \<Rightarrow> bool option list option" where
  "flow_jobs_success m = Option.bind (module_info m) ji_flow_jobs_success"

definition module_flow_jobs_duration :: "flow_status_module \<Rightarrow> flow_jobs_duration option" where
  "module_flow_jobs_duration m = Option.bind (module_info m) ji_flow_jobs_duration"

definition agent_actions :: "flow_status_module \<Rightarrow> agent_action list option" where
  "agent_actions m = Option.bind (module_info m) ji_agent_actions"

definition agent_actions_success :: "flow_status_module \<Rightarrow> bool list option" where
  "agent_actions_success m = Option.bind (module_info m) ji_agent_actions_success"

definition job_result :: "flow_status_module \<Rightarrow> job_result option" where
  "job_result m = or_option (map_option ListJob (flow_jobs m)) (map_option SingleJob (module_job m))"

definition is_failure :: "flow_status_module \<Rightarrow> bool" where
  "is_failure m = (case m of Failure _ _ _ _ \<Rightarrow> True | _ \<Rightarrow> False)"

definition is_success :: "flow_status_module \<Rightarrow> bool" where
  "is_success m = (case m of Success _ _ _ _ _ _ \<Rightarrow> True | _ \<Rightarrow> False)"

lemmas module_views = flow_jobs_def module_branch_chosen_def flow_jobs_success_def
  module_flow_jobs_duration_def agent_actions_def agent_actions_success_def

section \<open>Durations of the jobs of a loop\<close>

definition durations_new :: "nat \<Rightarrow> flow_jobs_duration" where
  "durations_new n = \<lparr>started_at = replicate n None, duration_ms = replicate n None\<rparr>"

definition durations_set ::
  "flow_jobs_duration \<Rightarrow> nat option \<Rightarrow> flow_job_duration option \<Rightarrow> flow_jobs_duration" where
  "durations_set d pos val =
     (case pos of
        None \<Rightarrow> d
      | Some i \<Rightarrow>
          (case val of
             None \<Rightarrow> d
           | Some v \<Rightarrow>
               if i \<ge> length (started_at d) \<or> i \<ge> length (duration_ms d) then d
               else \<lparr>started_at = (started_at d)[i := Some (fjd_started_at v)],
                     duration_ms = (duration_ms d)[i := Some (fjd_duration_ms v)]\<rparr>))"

definition durations_push :: "flow_jobs_duration \<Rightarrow> flow_job_duration option \<Rightarrow> flow_jobs_duration" where
  "durations_push d val =
     \<lparr>started_at = started_at d @ [map_option fjd_started_at val],
      duration_ms = duration_ms d @ [map_option fjd_duration_ms val]\<rparr>"

definition durations_truncate :: "flow_jobs_duration \<Rightarrow> nat \<Rightarrow> flow_jobs_duration" where
  "durations_truncate d n =
     \<lparr>started_at = take n (started_at d), duration_ms = take n (duration_ms d)\<rparr>"

text \<open>The two lists of a duration run in parallel with a list of \<open>n\<close> jobs.\<close>

definition durations_wf :: "nat \<Rightarrow> flow_jobs_duration \<Rightarrow> bool" where
  "durations_wf n d \<longleftrightarrow> length (started_at d) = n \<and> length (duration_ms d) = n"

lemma durations_wf_ops [intro]:
  "durations_wf n (durations_new n)"
  "durations_wf n d \<Longrightarrow> durations_wf n (durations_set d pos v)"
  "durations_wf n d \<Longrightarrow> durations_wf (Suc n) (durations_push d v)"
  "durations_wf n d \<Longrightarrow> durations_wf (min k n) (durations_truncate d k)"
  by (auto simp: durations_wf_def durations_new_def durations_set_def durations_push_def
      durations_truncate_def split: option.splits)

section \<open>Status of a flow\<close>

record retry_status =
  fail_count :: "32 word"
  failed_jobs :: "uuid list"

definition retry_status_default :: retry_status where
  "retry_status_default = \<lparr>fail_count = 0, failed_jobs = []\<rparr>"

definition is_retry_default :: "retry_status \<Rightarrow> bool" where
  "is_retry_default r \<longleftrightarrow> fail_count r = 0 \<and> failed_jobs r = []"

record approval_conditions =
  ac_user_auth_required :: bool
  ac_user_groups_required :: "string list"
  ac_self_approval_disabled :: bool

record restarted_from =
  rf_flow_job_id :: uuid
  rf_step_id :: string
  rf_branch_or_iteration_n :: "nat option"
  rf_flow_version :: "int option"

record module_w_parent =
  parent_module :: "string option"
  module_status :: flow_status_module

record flow_job_scheduled_clean =
  fjs_id :: uuid
  fjs_delete_after_secs :: int

record flow_cleanup_module =
  flow_jobs_to_clean :: "uuid list"
  flow_jobs_to_schedule_clean :: "flow_job_scheduled_clean list"

record flow_status =
  fs_step :: int
  fs_modules :: "flow_status_module list"
  fs_failure_module :: module_w_parent
  fs_preprocessor_module :: "flow_status_module option"
  fs_user_states :: "(string \<times> json) list"
  fs_cleanup_module :: flow_cleanup_module
  fs_retry :: retry_status
  fs_approval_conditions :: "approval_conditions option"
  fs_restarted_from :: "restarted_from option"
  fs_stream_job :: "uuid option"
  fs_chat_input_enabled :: "bool option"
  fs_memory_id :: "uuid option"

definition flow_status_new :: "flow_value \<Rightarrow> flow_status" where
  "flow_status_new f =
     \<lparr>fs_step = (if fv_preprocessor_module f \<noteq> None then - 1 else 0),
      fs_modules = map (\<lambda>m. WaitingForPriorSteps (fm_id m)) (fv_modules f),
      fs_failure_module =
        \<lparr>parent_module = None,
         module_status = WaitingForPriorSteps
           (unwrap_or ''failure'' (map_option (\<lambda>x. fm_id x) (fv_failure_module f)))\<rparr>,
      fs_preprocessor_module =
        map_option (\<lambda>x. WaitingForPriorSteps (fm_id x)) (fv_preprocessor_module f),
      fs_user_states = [],
      fs_cleanup_module = \<lparr>flow_jobs_to_clean = [], flow_jobs_to_schedule_clean = []\<rparr>,
      fs_retry = retry_status_default,
      fs_approval_conditions = None,
      fs_restarted_from = None,
      fs_stream_job = None,
      fs_chat_input_enabled = fv_chat_input_enabled f,
      fs_memory_id = None\<rparr>"

definition current_step :: "flow_status \<Rightarrow> flow_status_module option" where
  "current_step s = (if fs_step s < 0 then None else nth_opt (fs_modules s) (nat (fs_step s)))"

section \<open>JSON form of a module status\<close>

subsection \<open>Parts\<close>

definition enc_iterator :: "flow_iterator \<Rightarrow> json" where
  "enc_iterator x = JObj ([(''index'', enc_nat (it_index x))] @
     put_opt ''itered'' (enc_vec id) (it_itered x) @
     put_opt ''itered_len'' enc_nat (it_itered_len x))"

definition dec_iterator :: "json \<Rightarrow> flow_iterator res" where
  "dec_iterator = dec_struct (\<lambda>fs.
     rbind (take_req dec_nat ''index'' fs) (\<lambda>i.
     rbind (take_opt (dec_vec dec_value) ''itered'' fs) (\<lambda>xs.
     rbind (take_opt dec_nat ''itered_len'' fs) (\<lambda>n.
     Inr \<lparr>it_index = i, it_itered = xs, it_itered_len = n\<rparr>))))"

definition enc_branchall :: "branch_all_status \<Rightarrow> json" where
  "enc_branchall x = JObj [(''branch'', enc_nat (ba_branch x)), (''len'', enc_nat (ba_len x))]"

definition dec_branchall :: "json \<Rightarrow> branch_all_status res" where
  "dec_branchall = dec_struct (\<lambda>fs.
     rbind (take_req dec_nat ''branch'' fs) (\<lambda>b.
     rbind (take_req dec_nat ''len'' fs) (\<lambda>n. Inr \<lparr>ba_branch = b, ba_len = n\<rparr>)))"

fun enc_branch_chosen :: "branch_chosen \<Rightarrow> json" where
  "enc_branch_chosen ChosenDefault = JObj [(''type'', JStr ''default'')]"
| "enc_branch_chosen (ChosenBranch b) =
     JObj [(''type'', JStr ''branch''), (''branch'', enc_nat b)]"

definition dec_branch_chosen :: "json \<Rightarrow> branch_chosen res" where
  "dec_branch_chosen = dec_struct (\<lambda>fs.
     rbind (take_req dec_string ''type'' fs) (\<lambda>ty.
     if ty = ''default'' then Inr ChosenDefault
     else if ty = ''branch'' then rbind (take_req dec_nat ''branch'' fs) (\<lambda>b. Inr (ChosenBranch b))
     else Inl (UnknownVariant ty)))"

definition enc_approval :: "approval \<Rightarrow> json" where
  "enc_approval x = JObj [(''resume_id'', enc_word (ap_resume_id x)), (''approver'', JStr (ap_approver x))]"

definition dec_approval :: "json \<Rightarrow> approval res" where
  "dec_approval = dec_struct (\<lambda>fs.
     rbind (take_req dec_word ''resume_id'' fs) (\<lambda>r.
     rbind (take_req dec_string ''approver'' fs) (\<lambda>a.
     Inr \<lparr>ap_resume_id = r, ap_approver = a\<rparr>)))"

definition enc_durations :: "text_ops \<Rightarrow> flow_jobs_duration \<Rightarrow> json" where
  "enc_durations T x = JObj
     [(''started_at'', enc_vec (enc_opt (enc_text (show_time T))) (started_at x)),
      (''duration_ms'', enc_vec (enc_opt JInt) (duration_ms x))]"

definition dec_durations :: "text_ops \<Rightarrow> json \<Rightarrow> flow_jobs_duration res" where
  "dec_durations T = dec_struct (\<lambda>fs.
     rbind (take_req (dec_vec (dec_opt (dec_text (parse_time T)))) ''started_at'' fs) (\<lambda>s.
     rbind (take_req (dec_vec (dec_opt (dec_signed 64))) ''duration_ms'' fs) (\<lambda>d.
     Inr \<lparr>started_at = s, duration_ms = d\<rparr>)))"

abbreviation "enc_uuid T \<equiv> enc_text (show_uuid T)"
abbreviation "dec_uuid T \<equiv> dec_text (parse_uuid T)"

fun enc_action :: "text_ops \<Rightarrow> agent_action \<Rightarrow> json" where
  "enc_action T (ToolCall j f m) = JObj [(''type'', JStr ''tool_call''), (''job_id'', enc_uuid T j),
     (''function_name'', JStr f), (''module_id'', JStr m)]"
| "enc_action T (McpToolCall c f r a) = JObj ([(''type'', JStr ''mcp_tool_call''),
     (''call_id'', enc_uuid T c), (''function_name'', JStr f), (''resource_path'', JStr r)] @
     put_opt ''arguments'' id a)"
| "enc_action T Message = JObj [(''type'', JStr ''message'')]"
| "enc_action T WebSearch = JObj [(''type'', JStr ''web_search'')]"

definition dec_action :: "text_ops \<Rightarrow> json \<Rightarrow> agent_action res" where
  "dec_action T = dec_struct (\<lambda>fs.
     rbind (take_req dec_string ''type'' fs) (\<lambda>ty.
     if ty = ''tool_call'' then
       rbind (take_req (dec_uuid T) ''job_id'' fs) (\<lambda>j.
       rbind (take_req dec_string ''function_name'' fs) (\<lambda>f.
       rbind (take_req dec_string ''module_id'' fs) (\<lambda>m. Inr (ToolCall j f m))))
     else if ty = ''mcp_tool_call'' then
       rbind (take_req (dec_uuid T) ''call_id'' fs) (\<lambda>c.
       rbind (take_req dec_string ''function_name'' fs) (\<lambda>f.
       rbind (take_req dec_string ''resource_path'' fs) (\<lambda>r.
       rbind (take_opt dec_value ''arguments'' fs) (\<lambda>a. Inr (McpToolCall c f r a)))))
     else if ty = ''message'' then Inr Message
     else if ty = ''web_search'' then Inr WebSearch
     else Inl (UnknownVariant ty)))"

text \<open>
  What the JSON form can carry: sizes fit a \<open>usize\<close>, durations an \<open>i64\<close>, and the arguments
  of a tool call are not an explicit \<open>null\<close>, which is read back as no arguments.
\<close>

definition iterator_ok :: "flow_iterator \<Rightarrow> bool" where
  "iterator_ok x \<longleftrightarrow> usize_ok (it_index x) \<and> pred_option usize_ok (it_itered_len x)"

definition branchall_ok :: "branch_all_status \<Rightarrow> bool" where
  "branchall_ok x \<longleftrightarrow> usize_ok (ba_branch x) \<and> usize_ok (ba_len x)"

definition chosen_ok :: "branch_chosen \<Rightarrow> bool" where
  "chosen_ok b = (case b of ChosenDefault \<Rightarrow> True | ChosenBranch n \<Rightarrow> usize_ok n)"

definition durations_ok :: "flow_jobs_duration \<Rightarrow> bool" where
  "durations_ok d \<longleftrightarrow> list_all (pred_option (signed_ok 64)) (duration_ms d)"

definition action_ok :: "agent_action \<Rightarrow> bool" where
  "action_ok a = (case a of McpToolCall _ _ _ x \<Rightarrow> x \<noteq> Some JNull | _ \<Rightarrow> True)"

lemmas take_defs = take_req_def take_opt_def json_simps

interpretation iterator_codec: json_codec enc_iterator dec_iterator iterator_ok
  by unfold_locales
    (auto simp: enc_iterator_def dec_iterator_def take_defs iterator_ok_def nat_codec.dec_enc
      nat_codec.opt_dec_enc json_codec.opt_dec_enc [OF json_codec_raw_vec] option.pred_True)

interpretation branchall_codec: json_codec enc_branchall dec_branchall branchall_ok
  by unfold_locales
    (auto simp: enc_branchall_def dec_branchall_def take_defs branchall_ok_def nat_codec.dec_enc)

interpretation chosen_codec: json_codec enc_branch_chosen dec_branch_chosen chosen_ok
proof unfold_locales
  fix x assume "chosen_ok x"
  then show "dec_branch_chosen (enc_branch_chosen x) = Inr x"
    by (cases x) (auto simp: dec_branch_chosen_def take_defs chosen_ok_def nat_codec.dec_enc)
  show "enc_branch_chosen x \<noteq> JNull" by (cases x) simp_all
qed

interpretation approval_codec: json_codec enc_approval dec_approval "\<lambda>_. True"
  by unfold_locales
    (auto simp: enc_approval_def dec_approval_def take_defs word_codec.dec_enc)

lemma json_codec_durations:
  "text_ok T \<Longrightarrow> json_codec (enc_durations T) (dec_durations T) durations_ok"
  by unfold_locales
    (auto simp: enc_durations_def dec_durations_def take_defs durations_ok_def option.pred_True
      list.pred_True dec_vec_enc_opt [OF text_ok_time] dec_vec_enc_opt [OF i64_codec.json_codec_axioms])

lemma json_codec_action:
  assumes T: "text_ok T"
  shows "json_codec (enc_action T) (dec_action T) action_ok"
proof unfold_locales
  fix x assume x: "action_ok x"
  show "dec_action T (enc_action T x) = Inr x"
  proof (cases x)
    case (McpToolCall c f r a)
    with x show ?thesis
      by (cases a) (auto simp: dec_action_def take_defs action_ok_def dec_value_def opt_dec_def
          json_codec.dec_enc [OF text_ok_uuid [OF T]])
  qed (auto simp: dec_action_def take_defs json_codec.dec_enc [OF text_ok_uuid [OF T]])
  show "enc_action T x \<noteq> JNull" by (cases x) simp_all
qed

subsection \<open>The tagged union\<close>

text \<open>The derived \<open>Serialize\<close>: the tag, then the fields of the variant in their order.\<close>

abbreviation "put_uuids T k xs \<equiv> put_opt k (enc_vec (enc_uuid T)) (nonempty_opt xs)"

definition enc_jobs :: "text_ops \<Rightarrow> jobs_info \<Rightarrow> fields" where
  "enc_jobs T j =
     put_opt ''flow_jobs'' (enc_vec (enc_uuid T)) (ji_flow_jobs j) @
     put_opt ''flow_jobs_success'' (enc_vec (enc_opt JBool)) (ji_flow_jobs_success j) @
     put_opt ''flow_jobs_duration'' (enc_durations T) (ji_flow_jobs_duration j) @
     put_opt ''branch_chosen'' enc_branch_chosen (ji_branch_chosen j)"

definition enc_actions :: "text_ops \<Rightarrow> jobs_info \<Rightarrow> fields" where
  "enc_actions T j =
     put_opt ''agent_actions'' (enc_vec (enc_action T)) (ji_agent_actions j) @
     put_opt ''agent_actions_success'' (enc_vec JBool) (ji_agent_actions_success j)"

fun enc_module :: "text_ops \<Rightarrow> flow_status_module \<Rightarrow> fields" where
  "enc_module T (WaitingForPriorSteps i) =
     [(''type'', JStr ''WaitingForPriorSteps''), (''id'', JStr i)]"
| "enc_module T (WaitingForEvents i c j) =
     [(''type'', JStr ''WaitingForEvents''), (''id'', JStr i), (''count'', enc_word c),
      (''job'', enc_uuid T j)]"
| "enc_module T (WaitingForExecutor i j) =
     [(''type'', JStr ''WaitingForExecutor''), (''id'', JStr i), (''job'', enc_uuid T j)]"
| "enc_module T (InProgress i j p info) =
     [(''type'', JStr ''InProgress''), (''id'', JStr i), (''job'', enc_uuid T j)] @
     put_opt ''progress'' enc_word (pi_progress p) @
     put_opt ''iterator'' enc_iterator (pi_iterator p) @
     enc_jobs T info @
     put_opt ''branchall'' enc_branchall (pi_branchall p) @
     put_flag ''parallel'' (pi_parallel p) @
     put_flag ''while_loop'' (pi_while_loop p) @
     enc_actions T info"
| "enc_module T (Success i j info ap fr sk) =
     [(''type'', JStr ''Success''), (''id'', JStr i), (''job'', enc_uuid T j)] @
     enc_jobs T info @
     put_opt ''approvers'' (enc_vec enc_approval) (nonempty_opt ap) @
     put_uuids T ''failed_retries'' fr @
     [(''skipped'', JBool sk)] @
     enc_actions T info"
| "enc_module T (Failure i j info fr) =
     [(''type'', JStr ''Failure''), (''id'', JStr i), (''job'', enc_uuid T j)] @
     enc_jobs T info @
     put_uuids T ''failed_retries'' fr @
     enc_actions T info"

text \<open>\<open>UntaggedFlowStatusModule\<close>, into which every variant is read first.\<close>

record untagged_module =
  un_type :: string
  un_id :: "string option"
  un_count :: "16 word option"
  un_progress :: "8 word option"
  un_job :: "uuid option"
  un_iterator :: "flow_iterator option"
  un_info :: jobs_info
  un_branchall :: "branch_all_status option"
  un_parallel :: "bool option"
  un_while_loop :: "bool option"
  un_approvers :: "approval list option"
  un_failed_retries :: "uuid list option"
  un_skipped :: "bool option"

definition dec_jobs :: "text_ops \<Rightarrow> fields \<Rightarrow> jobs_info res" where
  "dec_jobs T fs =
     rbind (take_opt (dec_vec (dec_uuid T)) ''flow_jobs'' fs) (\<lambda>fj.
     rbind (take_opt (dec_vec (dec_opt dec_bool)) ''flow_jobs_success'' fs) (\<lambda>fjs.
     rbind (take_opt (dec_durations T) ''flow_jobs_duration'' fs) (\<lambda>fjd.
     rbind (take_opt dec_branch_chosen ''branch_chosen'' fs) (\<lambda>bc.
     rbind (take_opt (dec_vec (dec_action T)) ''agent_actions'' fs) (\<lambda>aa.
     rbind (take_opt (dec_vec dec_bool) ''agent_actions_success'' fs) (\<lambda>aas.
     Inr \<lparr>ji_flow_jobs = fj, ji_flow_jobs_success = fjs, ji_flow_jobs_duration = fjd,
          ji_branch_chosen = bc, ji_agent_actions = aa, ji_agent_actions_success = aas\<rparr>))))))"

definition dec_untagged :: "text_ops \<Rightarrow> fields \<Rightarrow> untagged_module res" where
  "dec_untagged T fs =
     rbind (take_req dec_string ''type'' fs) (\<lambda>ty.
     rbind (take_opt dec_string ''id'' fs) (\<lambda>i.
     rbind (take_opt dec_word ''count'' fs) (\<lambda>c.
     rbind (take_opt dec_word ''progress'' fs) (\<lambda>pr.
     rbind (take_opt (dec_uuid T) ''job'' fs) (\<lambda>j.
     rbind (take_opt dec_iterator ''iterator'' fs) (\<lambda>it.
     rbind (dec_jobs T fs) (\<lambda>info.
     rbind (take_opt dec_branchall ''branchall'' fs) (\<lambda>ba.
     rbind (take_opt dec_bool ''parallel'' fs) (\<lambda>pa.
     rbind (take_opt dec_bool ''while_loop'' fs) (\<lambda>wl.
     rbind (take_opt (dec_vec dec_approval) ''approvers'' fs) (\<lambda>ap.
     rbind (take_opt (dec_vec (dec_uuid T)) ''failed_retries'' fs) (\<lambda>fr.
     rbind (take_opt dec_bool ''skipped'' fs) (\<lambda>sk.
     Inr \<lparr>un_type = ty, un_id = i, un_count = c, un_progress = pr, un_job = j, un_iterator = it,
          un_info = info, un_branchall = ba, un_parallel = pa, un_while_loop = wl,
          un_approvers = ap, un_failed_retries = fr, un_skipped = sk\<rparr>)))))))))))))"

text \<open>The match of \<open>Deserialize for FlowStatusModule\<close>.\<close>

definition of_untagged :: "untagged_module \<Rightarrow> flow_status_module res" where
  "of_untagged u =
     (let need_id = ok_or (MissingField ''id'') (un_id u);
          need_job = ok_or (MissingField ''job'') (un_job u) in
      if un_type u = ''WaitingForPriorSteps'' then
        rbind need_id (\<lambda>i. Inr (WaitingForPriorSteps i))
      else if un_type u = ''WaitingForEvents'' then
        rbind need_id (\<lambda>i.
        rbind (ok_or (MissingField ''count'') (un_count u)) (\<lambda>c.
        rbind need_job (\<lambda>j. Inr (WaitingForEvents i c j))))
      else if un_type u = ''WaitingForExecutor'' then
        rbind need_id (\<lambda>i. rbind need_job (\<lambda>j. Inr (WaitingForExecutor i j)))
      else if un_type u = ''InProgress'' then
        rbind need_id (\<lambda>i. rbind need_job (\<lambda>j.
        Inr (InProgress i j
          \<lparr>pi_progress = un_progress u, pi_iterator = un_iterator u, pi_branchall = un_branchall u,
           pi_parallel = unwrap_or False (un_parallel u),
           pi_while_loop = unwrap_or False (un_while_loop u)\<rparr> (un_info u))))
      else if un_type u = ''Success'' then
        rbind need_id (\<lambda>i. rbind need_job (\<lambda>j.
        Inr (Success i j (un_info u) (unwrap_or [] (un_approvers u))
          (unwrap_or [] (un_failed_retries u)) (unwrap_or False (un_skipped u)))))
      else if un_type u = ''Failure'' then
        rbind need_id (\<lambda>i. rbind need_job (\<lambda>j.
        Inr (Failure i j (un_info u) (unwrap_or [] (un_failed_retries u)))))
      else Inl (UnknownVariant (un_type u)))"

definition dec_module :: "text_ops \<Rightarrow> fields \<Rightarrow> flow_status_module res" where
  "dec_module T fs = rbind (dec_untagged T fs) of_untagged"

definition info_ok :: "jobs_info \<Rightarrow> bool" where
  "info_ok j \<longleftrightarrow> pred_option durations_ok (ji_flow_jobs_duration j) \<and>
     pred_option chosen_ok (ji_branch_chosen j) \<and>
     pred_option (list_all action_ok) (ji_agent_actions j)"

definition module_ok :: "flow_status_module \<Rightarrow> bool" where
  "module_ok m \<longleftrightarrow> pred_option info_ok (module_info m) \<and>
     (case m of
        InProgress _ _ p _ \<Rightarrow>
          pred_option iterator_ok (pi_iterator p) \<and> pred_option branchall_ok (pi_branchall p)
      | _ \<Rightarrow> True)"

text \<open>Reading an optional part back, for every type of part.\<close>

lemma opt_dec_uuid: "text_ok T \<Longrightarrow> opt_dec (dec_uuid T) (map_option (enc_uuid T) x) = Inr x"
  by (rule json_codec.opt_dec_enc [OF text_ok_uuid]) (simp_all add: option.pred_True)

lemma opt_dec_uuids:
  "text_ok T \<Longrightarrow> opt_dec (dec_vec (dec_uuid T)) (map_option (enc_vec (enc_uuid T)) x) = Inr x"
  by (rule json_codec.opt_dec_enc [OF json_codec_vec [OF text_ok_uuid]])
    (simp_all add: option.pred_True list.pred_True)

lemma opt_dec_durations:
  "text_ok T \<Longrightarrow> pred_option durations_ok x \<Longrightarrow>
     opt_dec (dec_durations T) (map_option (enc_durations T) x) = Inr x"
  by (rule json_codec.opt_dec_enc [OF json_codec_durations])

lemma opt_dec_actions:
  "text_ok T \<Longrightarrow> pred_option (list_all action_ok) x \<Longrightarrow>
     opt_dec (dec_vec (dec_action T)) (map_option (enc_vec (enc_action T)) x) = Inr x"
  by (rule json_codec.opt_dec_enc [OF json_codec_vec [OF json_codec_action]])

lemma opt_dec_bools: "opt_dec (dec_vec dec_bool) (map_option (enc_vec JBool) x) = Inr x"
  by (rule json_codec.opt_dec_enc [OF json_codec_vec [OF bool_codec.json_codec_axioms]])
    (simp_all add: option.pred_True list.pred_True)

lemma opt_dec_opt_bools:
  "opt_dec (dec_vec (dec_opt dec_bool)) (map_option (enc_vec (enc_opt JBool)) x) = Inr x"
  by (rule json_codec.opt_dec_enc [OF json_codec_vec_opt [OF bool_codec.json_codec_axioms]])
    (simp_all add: option.pred_True list.pred_True)

lemma opt_dec_approvals:
  "opt_dec (dec_vec dec_approval) (map_option (enc_vec enc_approval) x) = Inr x"
  by (rule json_codec.opt_dec_enc [OF json_codec_vec [OF approval_codec.json_codec_axioms]])
    (simp_all add: option.pred_True list.pred_True)

lemma opt_dec_scalars:
  "opt_dec dec_bool (map_option JBool b) = Inr b"
  "opt_dec dec_word (map_option enc_word w) = Inr w"
  "opt_dec dec_string (Some (JStr s)) = Inr (Some s)"
  "opt_dec dec_bool (Some (JBool c)) = Inr (Some c)"
  "opt_dec dec_word (Some (enc_word v)) = Inr (Some v)"
  using bool_codec.opt_dec_enc [of b] word_codec.opt_dec_enc [of w]
    word_codec.opt_dec_enc [of "Some v"]
  by (simp_all add: option.pred_True opt_dec_def)

lemma opt_dec_uuid_Some: "text_ok T \<Longrightarrow> opt_dec (dec_uuid T) (Some (enc_uuid T u)) = Inr (Some u)"
  using opt_dec_uuid [of T "Some u"] by simp

lemmas opt_dec_parts = opt_dec_uuids opt_dec_durations opt_dec_actions opt_dec_bools
  opt_dec_opt_bools opt_dec_approvals opt_dec_scalars opt_dec_uuid_Some
  iterator_codec.opt_dec_enc branchall_codec.opt_dec_enc chosen_codec.opt_dec_enc

lemma dec_jobs_enc:
  assumes "text_ok T" and "info_ok j"
    and "get_field ''flow_jobs'' fs = map_option (enc_vec (enc_uuid T)) (ji_flow_jobs j)"
    and "get_field ''flow_jobs_success'' fs =
           map_option (enc_vec (enc_opt JBool)) (ji_flow_jobs_success j)"
    and "get_field ''flow_jobs_duration'' fs = map_option (enc_durations T) (ji_flow_jobs_duration j)"
    and "get_field ''branch_chosen'' fs = map_option enc_branch_chosen (ji_branch_chosen j)"
    and "get_field ''agent_actions'' fs = map_option (enc_vec (enc_action T)) (ji_agent_actions j)"
    and "get_field ''agent_actions_success'' fs =
           map_option (enc_vec JBool) (ji_agent_actions_success j)"
  shows "dec_jobs T fs = Inr j"
  using assms by (simp add: dec_jobs_def take_opt_def opt_dec_parts info_ok_def)

text \<open>The untagged form of a module status.\<close>

fun untag :: "flow_status_module \<Rightarrow> untagged_module" where
  "untag m = \<lparr>un_type = (case m of
        WaitingForPriorSteps _ \<Rightarrow> ''WaitingForPriorSteps''
      | WaitingForEvents _ _ _ \<Rightarrow> ''WaitingForEvents''
      | WaitingForExecutor _ _ \<Rightarrow> ''WaitingForExecutor''
      | InProgress _ _ _ _ \<Rightarrow> ''InProgress''
      | Success _ _ _ _ _ _ \<Rightarrow> ''Success''
      | Failure _ _ _ _ \<Rightarrow> ''Failure''),
     un_id = Some (fsm_id m),
     un_count = (case m of WaitingForEvents _ c _ \<Rightarrow> Some c | _ \<Rightarrow> None),
     un_progress = (case m of InProgress _ _ p _ \<Rightarrow> pi_progress p | _ \<Rightarrow> None),
     un_job = module_job m,
     un_iterator = (case m of InProgress _ _ p _ \<Rightarrow> pi_iterator p | _ \<Rightarrow> None),
     un_info = unwrap_or no_jobs (module_info m),
     un_branchall = (case m of InProgress _ _ p _ \<Rightarrow> pi_branchall p | _ \<Rightarrow> None),
     un_parallel = (case m of InProgress _ _ p _ \<Rightarrow> flag_opt (pi_parallel p) | _ \<Rightarrow> None),
     un_while_loop = (case m of InProgress _ _ p _ \<Rightarrow> flag_opt (pi_while_loop p) | _ \<Rightarrow> None),
     un_approvers = (case m of Success _ _ _ ap _ _ \<Rightarrow> nonempty_opt ap | _ \<Rightarrow> None),
     un_failed_retries = (case m of Success _ _ _ _ fr _ \<Rightarrow> nonempty_opt fr
                            | Failure _ _ _ fr \<Rightarrow> nonempty_opt fr | _ \<Rightarrow> None),
     un_skipped = (case m of Success _ _ _ _ _ sk \<Rightarrow> Some sk | _ \<Rightarrow> None)\<rparr>"

lemma of_untagged_untag: "of_untagged (untag m) = Inr m"
  by (cases m) (simp_all add: of_untagged_def)

lemma dec_untagged_enc:
  assumes T: "text_ok T" and m: "module_ok m"
  shows "dec_untagged T (enc_module T m) = Inr (untag m)"
proof (cases m)
  case (InProgress i j p info)
  have "dec_jobs T (enc_module T m) = Inr info"
    by (rule dec_jobs_enc [OF T])
      (use m in \<open>simp_all add: InProgress module_ok_def enc_jobs_def enc_actions_def json_simps\<close>)
  with T m InProgress show ?thesis
    by (simp add: dec_untagged_def take_defs enc_jobs_def enc_actions_def module_ok_def opt_dec_parts)
next
  case (Success i j info ap fr sk)
  have "dec_jobs T (enc_module T m) = Inr info"
    by (rule dec_jobs_enc [OF T])
      (use m in \<open>simp_all add: Success module_ok_def enc_jobs_def enc_actions_def json_simps\<close>)
  with T m Success show ?thesis
    by (simp add: dec_untagged_def take_defs enc_jobs_def enc_actions_def opt_dec_parts)
next
  case (Failure i j info fr)
  have "dec_jobs T (enc_module T m) = Inr info"
    by (rule dec_jobs_enc [OF T])
      (use m in \<open>simp_all add: Failure module_ok_def enc_jobs_def enc_actions_def json_simps\<close>)
  with T m Failure show ?thesis
    by (simp add: dec_untagged_def take_defs enc_jobs_def enc_actions_def opt_dec_parts)
qed (use T in \<open>simp_all add: dec_untagged_def take_defs dec_jobs_def no_jobs_def opt_dec_parts\<close>)

lemma dec_module_enc:
  "text_ok T \<Longrightarrow> module_ok m \<Longrightarrow> dec_module T (enc_module T m) = Inr m"
  by (simp add: dec_module_def dec_untagged_enc of_untagged_untag del: untag.simps)

section \<open>JSON form of a flow status\<close>

text \<open>A field with \<open>#[serde(default)]\<close>: missing means the default value.\<close>

fun default_dec :: "'a \<Rightarrow> (json \<Rightarrow> 'a res) \<Rightarrow> json option \<Rightarrow> 'a res" where
  "default_dec d dec None = Inr d"
| "default_dec d dec (Some v) = dec v"

definition take_default :: "'a \<Rightarrow> (json \<Rightarrow> 'a res) \<Rightarrow> string \<Rightarrow> fields \<Rightarrow> 'a res" where
  "take_default d dec k fs = default_dec d dec (get_field k fs)"

definition retry_opt :: "retry_status \<Rightarrow> retry_status option" where
  "retry_opt r = (if is_retry_default r then None else Some r)"

definition enc_retry :: "text_ops \<Rightarrow> retry_status \<Rightarrow> json" where
  "enc_retry T r = JObj [(''fail_count'', enc_word (fail_count r)),
     (''failed_jobs'', enc_vec (enc_uuid T) (failed_jobs r))]"

definition dec_retry :: "text_ops \<Rightarrow> json \<Rightarrow> retry_status res" where
  "dec_retry T = dec_struct (\<lambda>fs.
     rbind (take_default 0 dec_word ''fail_count'' fs) (\<lambda>c.
     rbind (take_default [] (dec_vec (dec_uuid T)) ''failed_jobs'' fs) (\<lambda>j.
     Inr \<lparr>fail_count = c, failed_jobs = j\<rparr>)))"

definition enc_conditions :: "approval_conditions \<Rightarrow> json" where
  "enc_conditions c = JObj [(''user_auth_required'', JBool (ac_user_auth_required c)),
     (''user_groups_required'', enc_vec JStr (ac_user_groups_required c)),
     (''self_approval_disabled'', JBool (ac_self_approval_disabled c))]"

definition dec_conditions :: "json \<Rightarrow> approval_conditions res" where
  "dec_conditions = dec_struct (\<lambda>fs.
     rbind (take_default False dec_bool ''user_auth_required'' fs) (\<lambda>u.
     rbind (take_default [] (dec_vec dec_string) ''user_groups_required'' fs) (\<lambda>g.
     rbind (take_default False dec_bool ''self_approval_disabled'' fs) (\<lambda>s.
     Inr \<lparr>ac_user_auth_required = u, ac_user_groups_required = g, ac_self_approval_disabled = s\<rparr>))))"

definition enc_restarted :: "text_ops \<Rightarrow> restarted_from \<Rightarrow> json" where
  "enc_restarted T r = JObj [(''flow_job_id'', enc_uuid T (rf_flow_job_id r)),
     (''step_id'', JStr (rf_step_id r)),
     (''branch_or_iteration_n'', enc_opt enc_nat (rf_branch_or_iteration_n r)),
     (''flow_version'', enc_opt JInt (rf_flow_version r))]"

definition dec_restarted :: "text_ops \<Rightarrow> json \<Rightarrow> restarted_from res" where
  "dec_restarted T = dec_struct (\<lambda>fs.
     rbind (take_default uuid_nil (dec_uuid T) ''flow_job_id'' fs) (\<lambda>j.
     rbind (take_default [] dec_string ''step_id'' fs) (\<lambda>s.
     rbind (take_default None (dec_opt dec_nat) ''branch_or_iteration_n'' fs) (\<lambda>n.
     rbind (take_default None (dec_opt (dec_signed 64)) ''flow_version'' fs) (\<lambda>v.
     Inr \<lparr>rf_flow_job_id = j, rf_step_id = s, rf_branch_or_iteration_n = n, rf_flow_version = v\<rparr>)))))"

definition enc_scheduled :: "text_ops \<Rightarrow> flow_job_scheduled_clean \<Rightarrow> json" where
  "enc_scheduled T x = JObj [(''id'', enc_uuid T (fjs_id x)),
     (''delete_after_secs'', JInt (fjs_delete_after_secs x))]"

definition dec_scheduled :: "text_ops \<Rightarrow> json \<Rightarrow> flow_job_scheduled_clean res" where
  "dec_scheduled T = dec_struct (\<lambda>fs.
     rbind (take_req (dec_uuid T) ''id'' fs) (\<lambda>i.
     rbind (take_req (dec_signed 32) ''delete_after_secs'' fs) (\<lambda>d.
     Inr \<lparr>fjs_id = i, fjs_delete_after_secs = d\<rparr>)))"

definition enc_cleanup :: "text_ops \<Rightarrow> flow_cleanup_module \<Rightarrow> json" where
  "enc_cleanup T c = JObj (put_uuids T ''flow_jobs_to_clean'' (flow_jobs_to_clean c) @
     put_opt ''flow_jobs_to_schedule_clean'' (enc_vec (enc_scheduled T))
       (nonempty_opt (flow_jobs_to_schedule_clean c)))"

definition dec_cleanup :: "text_ops \<Rightarrow> json \<Rightarrow> flow_cleanup_module res" where
  "dec_cleanup T = dec_struct (\<lambda>fs.
     rbind (take_default [] (dec_vec (dec_uuid T)) ''flow_jobs_to_clean'' fs) (\<lambda>c.
     rbind (take_default [] (dec_vec (dec_scheduled T)) ''flow_jobs_to_schedule_clean'' fs) (\<lambda>s.
     Inr \<lparr>flow_jobs_to_clean = c, flow_jobs_to_schedule_clean = s\<rparr>)))"

text \<open>\<open>FlowStatusModuleWParent\<close> is flattened: the parent beside the fields of the status.\<close>

definition enc_w_parent :: "text_ops \<Rightarrow> module_w_parent \<Rightarrow> json" where
  "enc_w_parent T x =
     JObj (put_opt ''parent_module'' JStr (parent_module x) @ enc_module T (module_status x))"

text \<open>
  A flattened status is not read from the text but from what \<open>serde\<close> has buffered of it, and a
  \<open>RawValue\<close> cannot be read from there: a list of iterations with any element is an error.
\<close>

definition raw_iterations :: "flow_iterator option \<Rightarrow> bool" where
  "raw_iterations it = (case it of Some x \<Rightarrow> it_itered x \<noteq> None \<and> it_itered x \<noteq> Some [] | None \<Rightarrow> False)"

definition dec_flat_module :: "text_ops \<Rightarrow> fields \<Rightarrow> flow_status_module res" where
  "dec_flat_module T fs =
     rbind (dec_untagged T fs) (\<lambda>u.
     if raw_iterations (un_iterator u) then Inl (InvalidType ''newtype struct'') else of_untagged u)"

definition dec_w_parent :: "text_ops \<Rightarrow> json \<Rightarrow> module_w_parent res" where
  "dec_w_parent T = dec_struct (\<lambda>fs.
     rbind (take_opt dec_string ''parent_module'' fs) (\<lambda>p.
     rbind (dec_flat_module T fs) (\<lambda>m. Inr \<lparr>parent_module = p, module_status = m\<rparr>)))"

definition enc_status :: "text_ops \<Rightarrow> flow_status \<Rightarrow> fields" where
  "enc_status T s =
     [(''step'', JInt (fs_step s)),
      (''modules'', enc_vec (\<lambda>m. JObj (enc_module T m)) (fs_modules s)),
      (''failure_module'', enc_w_parent T (fs_failure_module s)),
      (''preprocessor_module'', enc_opt (\<lambda>m. JObj (enc_module T m)) (fs_preprocessor_module s))] @
     put_opt ''user_states'' JObj (nonempty_opt (fs_user_states s)) @
     [(''cleanup_module'', enc_cleanup T (fs_cleanup_module s))] @
     put_opt ''retry'' (enc_retry T) (retry_opt (fs_retry s)) @
     put_opt ''approval_conditions'' enc_conditions (fs_approval_conditions s) @
     put_opt ''restarted_from'' (enc_restarted T) (fs_restarted_from s) @
     put_opt ''stream_job'' (enc_uuid T) (fs_stream_job s) @
     put_opt ''chat_input_enabled'' JBool (fs_chat_input_enabled s) @
     put_opt ''memory_id'' (enc_uuid T) (fs_memory_id s)"

definition dec_status :: "text_ops \<Rightarrow> fields \<Rightarrow> flow_status res" where
  "dec_status T fs =
     rbind (take_req (dec_signed 32) ''step'' fs) (\<lambda>st.
     rbind (take_req (dec_vec (dec_struct (dec_module T))) ''modules'' fs) (\<lambda>ms.
     rbind (take_req (dec_w_parent T) ''failure_module'' fs) (\<lambda>fm.
     rbind (take_opt (dec_struct (dec_module T)) ''preprocessor_module'' fs) (\<lambda>pm.
     rbind (take_default [] (dec_struct Inr) ''user_states'' fs) (\<lambda>us.
     rbind (take_default \<lparr>flow_jobs_to_clean = [], flow_jobs_to_schedule_clean = []\<rparr>
              (dec_cleanup T) ''cleanup_module'' fs) (\<lambda>cm.
     rbind (take_default retry_status_default (dec_retry T) ''retry'' fs) (\<lambda>rt.
     rbind (take_opt dec_conditions ''approval_conditions'' fs) (\<lambda>ac.
     rbind (take_opt (dec_restarted T) ''restarted_from'' fs) (\<lambda>rf.
     rbind (take_opt (dec_uuid T) ''stream_job'' fs) (\<lambda>sj.
     rbind (take_opt dec_bool ''chat_input_enabled'' fs) (\<lambda>ci.
     rbind (take_opt (dec_uuid T) ''memory_id'' fs) (\<lambda>mi.
     Inr \<lparr>fs_step = st, fs_modules = ms, fs_failure_module = fm, fs_preprocessor_module = pm,
          fs_user_states = us, fs_cleanup_module = cm, fs_retry = rt, fs_approval_conditions = ac,
          fs_restarted_from = rf, fs_stream_job = sj, fs_chat_input_enabled = ci,
          fs_memory_id = mi\<rparr>))))))))))))"

definition restarted_ok :: "restarted_from \<Rightarrow> bool" where
  "restarted_ok r \<longleftrightarrow> pred_option usize_ok (rf_branch_or_iteration_n r) \<and>
     pred_option (signed_ok 64) (rf_flow_version r)"

definition status_ok :: "flow_status \<Rightarrow> bool" where
  "status_ok s \<longleftrightarrow> signed_ok 32 (fs_step s) \<and> list_all module_ok (fs_modules s) \<and>
     module_ok (module_status (fs_failure_module s)) \<and>
     pred_option module_ok (fs_preprocessor_module s) \<and>
     list_all (\<lambda>x. signed_ok 32 (fjs_delete_after_secs x))
       (flow_jobs_to_schedule_clean (fs_cleanup_module s)) \<and>
     pred_option restarted_ok (fs_restarted_from s)"

lemma json_codec_module:
  "text_ok T \<Longrightarrow> json_codec (\<lambda>m. JObj (enc_module T m)) (dec_struct (dec_module T)) module_ok"
  by unfold_locales (simp_all add: dec_module_enc)

lemma dec_untagged_beside_parent:
  "dec_untagged T (put_opt ''parent_module'' JStr p @ fs) = dec_untagged T fs"
  by (simp add: dec_untagged_def dec_jobs_def take_defs)

text \<open>The status of a loop that holds its iterations in the status itself, as older versions store them.\<close>

definition holds_iterations :: "flow_status_module \<Rightarrow> bool" where
  "holds_iterations m = (case m of InProgress _ _ p _ \<Rightarrow> raw_iterations (pi_iterator p) | _ \<Rightarrow> False)"

lemma dec_flat_module_enc:
  assumes "text_ok T" and "module_ok m"
  shows "dec_flat_module T (put_opt ''parent_module'' JStr p @ enc_module T m) =
    (if holds_iterations m then Inl (InvalidType ''newtype struct'') else Inr m)"
proof -
  have "raw_iterations (un_iterator (untag m)) = holds_iterations m"
    by (cases m) (simp_all add: holds_iterations_def raw_iterations_def)
  with assms show ?thesis
    by (simp add: dec_flat_module_def dec_untagged_beside_parent dec_untagged_enc of_untagged_untag del: untag.simps)
qed

lemma no_parent_in_module: "get_field ''parent_module'' (enc_module T m) = None"
  by (cases m) (simp_all add: json_simps enc_jobs_def enc_actions_def)

lemma dec_w_parent_enc:
  assumes "text_ok T" and "module_ok (module_status x)"
  shows "dec_w_parent T (enc_w_parent T x) =
    (if holds_iterations (module_status x) then Inl (InvalidType ''newtype struct'') else Inr x)"
proof -
  have "opt_dec dec_string (map_option JStr (parent_module x)) = Inr (parent_module x)"
    by (rule string_codec.opt_dec_enc) (simp add: option.pred_True)
  with assms show ?thesis
    by (simp add: dec_w_parent_def enc_w_parent_def dec_flat_module_enc
        take_defs no_parent_in_module)
qed

lemma dec_uuids_enc: "text_ok T \<Longrightarrow> dec_vec (dec_uuid T) (enc_vec (enc_uuid T) xs) = Inr xs"
  by (rule json_codec.dec_vec_enc [OF text_ok_uuid]) (simp_all add: list.pred_True)

lemma dec_uuid_enc: "text_ok T \<Longrightarrow> dec_uuid T (enc_uuid T u) = Inr u"
  by (rule json_codec.dec_enc [OF text_ok_uuid]) simp_all

lemma json_codec_retry: "text_ok T \<Longrightarrow> json_codec (enc_retry T) (dec_retry T) (\<lambda>_. True)"
  by unfold_locales
    (simp_all add: enc_retry_def dec_retry_def take_default_def json_simps word_codec.dec_enc
      dec_uuids_enc)

lemma dec_strings_enc: "dec_vec dec_string (enc_vec JStr xs) = Inr xs"
  by (rule string_codec.dec_vec_enc) (simp add: list.pred_True)

interpretation conditions_codec: json_codec enc_conditions dec_conditions "\<lambda>_. True"
  by unfold_locales
    (simp_all add: enc_conditions_def dec_conditions_def take_default_def json_simps dec_strings_enc)

lemma json_codec_restarted: "text_ok T \<Longrightarrow> json_codec (enc_restarted T) (dec_restarted T) restarted_ok"
  by unfold_locales
    (simp_all add: enc_restarted_def dec_restarted_def take_default_def json_simps restarted_ok_def
      dec_uuid_enc nat_codec.dec_opt_enc i64_codec.dec_opt_enc)

lemma json_codec_scheduled:
  "text_ok T \<Longrightarrow>
     json_codec (enc_scheduled T) (dec_scheduled T) (\<lambda>x. signed_ok 32 (fjs_delete_after_secs x))"
  by unfold_locales
    (simp_all add: enc_scheduled_def dec_scheduled_def take_defs dec_uuid_enc)

lemma default_dec_nonempty:
  "dec (enc xs) = Inr xs \<Longrightarrow> default_dec [] dec (map_option enc (nonempty_opt xs)) = Inr xs"
  by (auto simp: nonempty_opt_def)

lemma dec_cleanup_enc:
  assumes "text_ok T"
    and "list_all (\<lambda>x. signed_ok 32 (fjs_delete_after_secs x)) (flow_jobs_to_schedule_clean c)"
  shows "dec_cleanup T (enc_cleanup T c) = Inr c"
  using assms
  by (simp add: dec_cleanup_def enc_cleanup_def take_default_def json_simps default_dec_nonempty
      dec_uuids_enc json_codec.dec_vec_enc [OF json_codec_scheduled])

lemma default_dec_retry:
  "text_ok T \<Longrightarrow>
     default_dec retry_status_default (dec_retry T) (map_option (enc_retry T) (retry_opt r)) = Inr r"
  by (cases r) (simp add: is_retry_default_def retry_status_default_def retry_opt_def
      json_codec.dec_enc [OF json_codec_retry])

lemma dec_status_enc:
  assumes T: "text_ok T" and s: "status_ok s"
  shows "dec_status T (enc_status T s) =
    (if holds_iterations (module_status (fs_failure_module s)) then Inl (InvalidType ''newtype struct'') else Inr s)"
proof -
  let ?m = "\<lambda>m. JObj (enc_module T m)"
  have ms: "dec_vec (dec_struct (dec_module T)) (enc_vec ?m (fs_modules s)) = Inr (fs_modules s)"
    using s by (intro json_codec.dec_vec_enc [OF json_codec_module [OF T]]) (simp add: status_ok_def)
  have pm: "opt_dec (dec_struct (dec_module T)) (Some (enc_opt ?m (fs_preprocessor_module s))) =
      Inr (fs_preprocessor_module s)"
    using s T by (cases "fs_preprocessor_module s") (simp_all add: opt_dec_def status_ok_def dec_module_enc)
  have rf: "opt_dec (dec_restarted T) (map_option (enc_restarted T) (fs_restarted_from s)) =
      Inr (fs_restarted_from s)"
    using s by (intro json_codec.opt_dec_enc [OF json_codec_restarted [OF T]]) (simp add: status_ok_def)
  have us: "dec_struct Inr (JObj (fs_user_states s)) = Inr (fs_user_states s)"
    by simp
  show ?thesis
    using s
    by (simp add: dec_status_def enc_status_def take_defs take_default_def ms pm rf T
        dec_w_parent_enc dec_cleanup_enc default_dec_retry default_dec_nonempty opt_dec_uuid
        opt_dec_scalars conditions_codec.opt_dec_enc option.pred_True status_ok_def)
qed

section \<open>Properties\<close>

text \<open>
  C10: The status of a flow, as it is stored in \<open>v2_job_status\<close> and read back before every step,
  survives the round trip through JSON, with one exception: the hand-written \<open>Deserialize\<close> of a
  module's status and the derived ones of everything around it invert the derived \<open>Serialize\<close>,
  defaults, flattened and skipped fields included, unless the status of the error handler is
  that of a loop which holds its iterations in the status. Such a status is written and cannot
  be read. (The integers fit their Rust types, and no call of an MCP tool has the argument
  \<open>null\<close>, which is read back as no argument: the conditions of \<open>status_ok\<close>.)
\<close>

theorem flow_status_roundtrip:
  assumes "text_ok T" and "status_ok s"
  shows "dec_status T (enc_status T s) =
    (if holds_iterations (module_status (fs_failure_module s)) then Inl (InvalidType ''newtype struct'') else Inr s)"
  using assms by (rule dec_status_enc)

definition looping_status :: flow_status where
  "looping_status = (flow_status_new flow_value_default)\<lparr>fs_step := 1, fs_modules :=
     [Success ''a'' 3 no_jobs [\<lparr>ap_resume_id = 7, ap_approver = ''bob''\<rparr>] [] False,
      InProgress ''b'' 5
        \<lparr>pi_progress = None, pi_iterator = Some \<lparr>it_index = 1, it_itered = None, it_itered_len = Some 3\<rparr>,
         pi_branchall = None, pi_parallel = True, pi_while_loop = False\<rparr>
        (no_jobs\<lparr>ji_flow_jobs := Some [4, 5, 6], ji_flow_jobs_success := Some [Some True, None, None]\<rparr>)],
     fs_retry := \<lparr>fail_count = 1, failed_jobs = [3]\<rparr>\<rparr>"

definition stuck_status :: flow_status where
  "stuck_status = looping_status\<lparr>fs_failure_module := \<lparr>parent_module = Some ''b'', module_status =
     InProgress ''failure'' 9
       \<lparr>pi_progress = None, pi_iterator = Some \<lparr>it_index = 0, it_itered = Some [JInt 1, JInt 2], it_itered_len = Some 2\<rparr>,
        pi_branchall = None, pi_parallel = False, pi_while_loop = False\<rparr> no_jobs\<rparr>\<rparr>"

theorem flow_status_roundtrip_witness:
  "dec_status unary_text (enc_status unary_text looping_status) = Inr looping_status \<and>
   dec_status unary_text (enc_status unary_text stuck_status) = Inl (InvalidType ''newtype struct'')"
proof -
  have "status_ok looping_status" "status_ok stuck_status"
    by (simp_all add: status_ok_def stuck_status_def looping_status_def flow_status_new_def flow_value_default_def module_ok_def
        info_ok_def no_jobs_def iterator_ok_def usize_ok_def signed_ok_def)
  moreover have "\<not> holds_iterations (module_status (fs_failure_module looping_status))"
    "holds_iterations (module_status (fs_failure_module stuck_status))"
    by (simp_all add: looping_status_def stuck_status_def holds_iterations_def raw_iterations_def flow_status_new_def)
  ultimately show ?thesis
    using flow_status_roundtrip [OF unary_text_ok, of looping_status] flow_status_roundtrip [OF unary_text_ok, of stuck_status]
    by simp
qed

end
