(* ===== verification/Jobs.thy ===== *)
theory Jobs
  imports FlowStatus
begin

text \<open>
  Jobs and the tables that hold them: the kinds of jobs (\<open>windmill-types/src/jobs.rs\<close>), a job
  as the workers pull it (\<open>MiniPulledJob\<close> of \<open>windmill-queue/src/jobs.rs\<close>), and the columns of
  \<open>v2_job\<close>, \<open>v2_job_queue\<close>, \<open>v2_job_status\<close>, \<open>v2_job_completed\<close>, \<open>flow_iterator_data\<close> and
  \<open>parallel_monitor_lock\<close> which the flow engine reads and writes. The database is a record
  of finite tables; a transaction is a function on it, so the effects of a transaction that
  is rolled back are those of returning the error with the state unchanged.
\<close>

section \<open>Kinds of jobs\<close>

datatype job_kind =
    KScript | KScriptHub | KPreview | KDependencies | KFlow | KFlowPreview | KSingleStepFlow
  | KIdentity | KFlowDependencies | KAppDependencies | KNoop | KDeploymentCallback | KFlowScript
  | KFlowNode | KAppScript | KAIAgent | KUnassignedScript | KUnassignedFlow
  | KUnassignedSinglestepFlow

definition kind_is_flow :: "job_kind \<Rightarrow> bool" where
  "kind_is_flow k \<longleftrightarrow> k \<in> {KFlow, KFlowPreview, KSingleStepFlow, KFlowNode}"

definition kind_is_dependency :: "job_kind \<Rightarrow> bool" where
  "kind_is_dependency k \<longleftrightarrow> k \<in> {KFlowDependencies, KAppDependencies, KDependencies}"

definition kind_is_preview :: "job_kind \<Rightarrow> bool" where
  "kind_is_preview k \<longleftrightarrow> k \<in> {KPreview, KFlowPreview}"

datatype job_status = StSuccess | StFailure | StCanceled | StSkipped

section \<open>Tables\<close>

type_synonym args = "(string \<times> json) list"

record job_row =
  jb_workspace :: string
  jb_kind :: job_kind
  jb_runnable_id :: "int option"
  jb_runnable_path :: "string option"
  jb_parent :: "uuid option"
  jb_root :: "uuid option"
  jb_innermost :: "uuid option"
  jb_step_id :: "string option"
  jb_args :: "args option"
  jb_tag :: string
  jb_created_by :: string
  jb_permissioned_as :: string
  jb_email :: string
  jb_same_worker :: bool
  jb_priority :: "16 word option"
  jb_schedule :: "string option" \<comment> \<open>\<open>schedule_path()\<close>: the trigger, when it is a schedule\<close>
  jb_preprocessed :: "bool option"
  jb_concurrent_limit :: "int option"
  jb_concurrency_window :: "int option"
  jb_cache_ttl :: "int option"
  jb_labels :: "string list"
  jb_lang :: "script_lang option"
  jb_timeout :: "int option"
  jb_pre_run_error :: "string option"
  jb_raw_code :: "(string \<times> string option) option"
  jb_raw_flow :: "flow_value option"

record queue_row =
  q_running :: bool
  q_started_at :: "int option"
  q_scheduled_for :: int
  q_suspend :: int
  q_suspend_until :: "int option"
  q_canceled_by :: "string option"
  q_canceled_reason :: "string option"
  q_worker :: "string option"
  q_settings :: "int option"
  q_cache_ignore_s3_path :: "bool option"

record completed_row =
  co_workspace :: string
  co_status :: job_status
  co_result :: "json option"
  co_started_at :: "int option"
  co_duration :: int
  co_canceled_by :: "string option"
  co_canceled_reason :: "string option"
  co_flow_status :: "flow_status option"
  co_wac :: "fields option"

record resume_row =
  rs_job :: uuid
  rs_value :: json
  rs_approver :: "string option"
  rs_resume_id :: int
  rs_approved :: bool

text \<open>The columns of \<open>script\<close> (\<open>ScriptHashInfo\<close>) and of \<open>flow\<close> (\<open>FlowVersionInfo\<close>) the engine reads.\<close>

record script_info =
  sc_hash :: int
  sc_tag :: "string option"
  sc_concurrency :: concurrency_settings
  sc_debouncing :: debouncing_settings
  sc_cache_ttl :: "int option"
  sc_cache_ignore_s3_path :: "bool option"
  sc_language :: script_lang
  sc_dedicated_worker :: "bool option"
  sc_priority :: "16 word option"
  sc_delete_after_use :: "bool option"
  sc_delete_after_secs :: "int option"
  sc_timeout :: "int option"
  sc_has_preprocessor :: "bool option"
  sc_on_behalf_of_email :: "string option"
  sc_created_by :: string
  sc_labels :: "string list option"
  sc_restart_unless_cancelled :: "bool option"

record flow_version_info =
  fi_version :: int
  fi_tag :: "string option"
  fi_on_behalf_of_email :: "string option"
  fi_edited_by :: string
  fi_dedicated_worker :: "bool option"
  fi_labels :: "string list option"

text \<open>\<open>UpdateFlow\<close>: a flow that is to be updated without a job of it having ended.\<close>

record update_flow =
  uf_flow :: uuid
  uf_success :: bool
  uf_result :: json
  uf_stop_early_override :: "bool option"
  uf_workspace :: string

text \<open>The tables of the engine, and what its workers have sent over their channels.\<close>

record db =
  d_job :: "uuid \<rightharpoonup> job_row"
  d_queue :: "uuid \<rightharpoonup> queue_row"
  d_status :: "uuid \<rightharpoonup> flow_status"
  d_leaf :: "uuid \<rightharpoonup> (string \<times> job_result) list"
  d_completed :: "uuid \<rightharpoonup> completed_row"
  d_itered :: "uuid \<rightharpoonup> json list"
  d_lock :: "(uuid \<times> uuid) list" \<comment> \<open>\<open>(parent_flow_id, job_id)\<close>\<close>
  d_ping :: "uuid \<Rightarrow> int option"
  d_logs :: "(uuid \<times> string) list"
  d_wac :: "uuid \<rightharpoonup> fields" \<comment> \<open>\<open>workflow_as_code_status\<close>\<close>
  d_wac_conditions :: "uuid \<rightharpoonup> approval_conditions"
    \<comment> \<open>the column \<open>flow_status\<close> of a workflow-as-code job, which has at most this one field\<close>
  d_flow :: "(string \<times> string \<times> string option) list" \<comment> \<open>\<open>flow\<close>: workspace, path, tag\<close>
  d_version_lite :: "int \<rightharpoonup> flow_value"
  d_version :: "int \<rightharpoonup> flow_value"
  d_node :: "int \<rightharpoonup> flow_value" \<comment> \<open>the flow nodes which hold a flow\<close>
  d_settings :: "int \<rightharpoonup> concurrency_settings" \<comment> \<open>by \<open>runnable_settings_handle\<close>\<close>
  d_ckey :: "(string \<times> uuid \<times> int option) list" \<comment> \<open>\<open>concurrency_key\<close>: key, job, ended_at\<close>
  d_counter :: "string \<rightharpoonup> uuid list" \<comment> \<open>\<open>concurrency_counter\<close>\<close>
  d_delete_at :: "uuid \<rightharpoonup> int" \<comment> \<open>\<open>job_delete_schedule\<close>\<close>
  d_conversation :: "uuid set"
  d_message :: "(uuid \<times> uuid \<times> string \<times> bool) list"
    \<comment> \<open>\<open>flow_conversation_message\<close>: conversation, job, content, success\<close>
  d_resume :: "resume_row list" \<comment> \<open>\<open>resume_job\<close>, in the order of \<open>created_at\<close>\<close>
  d_script :: "(string \<times> int) \<rightharpoonup> script_info" \<comment> \<open>by workspace and hash\<close>
  d_script_at :: "(string \<times> string) \<rightharpoonup> script_info" \<comment> \<open>latest deployed, by workspace and path\<close>
  d_flow_at :: "(string \<times> string) \<rightharpoonup> flow_version_info" \<comment> \<open>latest version, by workspace and path\<close>
  d_cache :: "(uuid \<times> json) list" \<comment> \<open>results handed to \<open>save_in_cache\<close>, by job\<close>
  d_sent :: "update_flow list" \<comment> \<open>sent to the result processor (\<open>job_completed_tx\<close>)\<close>
  d_same_worker :: "(uuid \<times> uuid option) list" \<comment> \<open>sent to the same worker: job, owner of the runners\<close>

definition canceled :: "db \<Rightarrow> uuid \<Rightarrow> bool" where
  "canceled d j = (case d_queue d j of None \<Rightarrow> False | Some q \<Rightarrow> q_canceled_by q \<noteq> None)"

text \<open>\<open>append_logs\<close>, and the \<open>UPDATE v2_job_runtime SET ping = NULL\<close> of the engine.\<close>

definition append_logs :: "uuid \<Rightarrow> string \<Rightarrow> db \<Rightarrow> db" where
  "append_logs j s d = d\<lparr>d_logs := d_logs d @ [(j, s)]\<rparr>"

definition reset_ping :: "uuid \<Rightarrow> db \<Rightarrow> db" where
  "reset_ping j d = d\<lparr>d_ping := (d_ping d)(j := None)\<rparr>"

text \<open>\<open>UPDATE v2_job_status SET flow_status = ... WHERE id = j\<close>: no row, no change.\<close>

definition update_status :: "uuid \<Rightarrow> (flow_status \<Rightarrow> flow_status) \<Rightarrow> db \<Rightarrow> db" where
  "update_status j f d = d\<lparr>d_status := (d_status d)(j := map_option f (d_status d j))\<rparr>"

definition update_queue :: "uuid \<Rightarrow> (queue_row \<Rightarrow> queue_row) \<Rightarrow> db \<Rightarrow> db" where
  "update_queue j f d = d\<lparr>d_queue := (d_queue d)(j := map_option f (d_queue d j))\<rparr>"

lemma update_status_other [simp]: "j' \<noteq> j \<Longrightarrow> d_status (update_status j f d) j' = d_status d j'"
  by (simp add: update_status_def)

lemma update_status_same [simp]: "d_status (update_status j f d) j = map_option f (d_status d j)"
  by (simp add: update_status_def)

lemma update_status_frame [simp]:
  "d_job (update_status j f d) = d_job d" "d_queue (update_status j f d) = d_queue d"
  "d_completed (update_status j f d) = d_completed d" "d_lock (update_status j f d) = d_lock d"
  "d_itered (update_status j f d) = d_itered d" "d_leaf (update_status j f d) = d_leaf d"
  by (simp_all add: update_status_def)

lemma reset_ping_frame [simp]:
  "d_job (reset_ping j d) = d_job d" "d_queue (reset_ping j d) = d_queue d"
  "d_completed (reset_ping j d) = d_completed d" "d_lock (reset_ping j d) = d_lock d"
  "d_itered (reset_ping j d) = d_itered d" "d_leaf (reset_ping j d) = d_leaf d"
  "d_status (reset_ping j d) = d_status d"
  by (simp_all add: reset_ping_def)

lemma append_logs_frame [simp]:
  "d_job (append_logs j s d) = d_job d" "d_queue (append_logs j s d) = d_queue d"
  "d_completed (append_logs j s d) = d_completed d" "d_lock (append_logs j s d) = d_lock d"
  "d_itered (append_logs j s d) = d_itered d" "d_leaf (append_logs j s d) = d_leaf d"
  "d_status (append_logs j s d) = d_status d"
  by (simp_all add: append_logs_def)

text \<open>Updates below one module of the status: \<open>ARRAY['modules', i, ...]\<close>.\<close>

definition map_module :: "int \<Rightarrow> (flow_status_module \<Rightarrow> flow_status_module) \<Rightarrow> flow_status \<Rightarrow> flow_status" where
  "map_module i f s = s\<lparr>fs_modules := jsonb_array_modify (fs_modules s) i f\<rparr>"

definition set_module :: "int \<Rightarrow> flow_status_module \<Rightarrow> flow_status \<Rightarrow> flow_status" where
  "set_module i m s = s\<lparr>fs_modules := jsonb_array_set (fs_modules s) i m\<rparr>"

text \<open>\<open>flow_status->'modules'->i\<close>, where a negative index counts from the end.\<close>

definition get_module :: "int \<Rightarrow> flow_status \<Rightarrow> flow_status_module option" where
  "get_module i s =
     (let n = int (length (fs_modules s)); j = (if i < 0 then n + i else i)
      in if 0 \<le> j \<and> j < n then Some (fs_modules s ! nat j) else None)"

lemma map_module_frame [simp]:
  "fs_step (map_module i f s) = fs_step s" "fs_failure_module (map_module i f s) = fs_failure_module s"
  "fs_preprocessor_module (map_module i f s) = fs_preprocessor_module s"
  "fs_retry (map_module i f s) = fs_retry s"
  "length (fs_modules (map_module i f s)) = length (fs_modules s)"
  by (simp_all add: map_module_def)

lemma set_module_frame [simp]:
  "fs_step (set_module i m s) = fs_step s" "fs_failure_module (set_module i m s) = fs_failure_module s"
  "fs_preprocessor_module (set_module i m s) = fs_preprocessor_module s"
  "fs_retry (set_module i m s) = fs_retry s"
  by (simp_all add: set_module_def)

lemma get_map_module:
  "get_module i s = Some m \<Longrightarrow> get_module i (map_module i f s) = Some (f m)"
  by (auto simp: get_module_def map_module_def jsonb_array_modify_def Let_def split: if_splits)

lemma get_set_module:
  "get_module i s = Some m \<Longrightarrow> get_module i (set_module i m' s) = Some m'"
  by (auto simp: get_module_def set_module_def jsonb_array_set_def Let_def split: if_splits)

text \<open>\<open>canceled_job_to_result\<close>.\<close>

definition canceled_job_to_result :: "queue_row \<Rightarrow> json" where
  "canceled_job_to_result q =
     (let reason = unwrap_or ''no reason given'' (q_canceled_reason q);
          canceler = unwrap_or ''unknown'' (q_canceled_by q)
      in JObj [(''message'', JStr (''Job canceled: '' @ reason @ '' by '' @ canceler)),
               (''name'', JStr ''Canceled''), (''reason'', JStr reason), (''canceler'', JStr canceler)])"

text \<open>\<open>resolve_delete_after_secs\<close> (\<open>windmill-common/src/jobs.rs\<close>).\<close>

definition resolve_delete_after_secs :: "bool option \<Rightarrow> int option \<Rightarrow> int option" where
  "resolve_delete_after_secs use secs =
     (case secs of
        Some n \<Rightarrow> if n \<ge> 0 then Some n else None
      | None \<Rightarrow> if use = Some True then Some 0 else None)"

section \<open>Completion of a job\<close>

text \<open>
  The statement of \<open>commit_completed_job\<close> that moves a job from the queue to the completed
  jobs: the status is \<open>canceled\<close> before \<open>skipped\<close> before the success flag; a job that is no
  longer queued is an error; a job already completed keeps its row but for status and result.
  \<open>now\<close> is the time of the transaction, \<open>dur\<close> the duration given by the caller.
\<close>

definition completed_status :: "bool \<Rightarrow> bool \<Rightarrow> bool \<Rightarrow> job_status" where
  "completed_status is_canceled skipped success =
     (if is_canceled then StCanceled else if skipped then StSkipped
      else if success then StSuccess else StFailure)"

definition insert_completed ::
  "int \<Rightarrow> uuid \<Rightarrow> bool \<Rightarrow> bool \<Rightarrow> json \<Rightarrow> (string option \<times> string option) option \<Rightarrow> int option \<Rightarrow>
   db \<Rightarrow> (int \<times> db) res" where
  "insert_completed now j success skipped result canceled_by dur d =
     (case d_queue d j of
        None \<Rightarrow> Inl (BadRequest ''AlreadyCompleted'')
      | Some q \<Rightarrow>
          let st = completed_status (canceled_by \<noteq> None) skipped success;
              duration = (case dur of Some x \<Rightarrow> x
                            | None \<Rightarrow> (now - unwrap_or now (q_started_at q)) div 1000);
              row = (case d_completed d j of
                       Some c \<Rightarrow> c\<lparr>co_status := st, co_result := Some result\<rparr>
                     | None \<Rightarrow>
                         \<lparr>co_workspace = (case d_job d j of Some r \<Rightarrow> jb_workspace r | None \<Rightarrow> []),
                          co_status = st, co_result = Some result, co_started_at = q_started_at q,
                          co_duration = duration,
                          co_canceled_by = Option.bind canceled_by fst,
                          co_canceled_reason = Option.bind canceled_by snd,
                          co_flow_status = d_status d j, co_wac = d_wac d j\<rparr>)
          in Inr (co_duration row, d\<lparr>d_completed := (d_completed d)(j \<mapsto> row)\<rparr>))"

section \<open>Actions on the database\<close>

text \<open>
  An action runs against the database and returns a value or an error together with the
  database it leaves, also when it fails: what was committed before the error stays.
  \<open>transaction\<close> is \<open>db.begin()\<close> up to \<open>tx.commit()\<close>: when the body fails the tables are
  rolled back, but for the deletions of monitor locks, the logs and the stored iterators,
  which the engine sends over the pool and not over the transaction.
\<close>

type_synonym 'a act = "db \<Rightarrow> 'a res \<times> db"

definition ret :: "'a \<Rightarrow> 'a act" where
  "ret x d = (Inr x, d)"

definition fail :: "wm_error \<Rightarrow> 'a act" where
  "fail e d = (Inl e, d)"

definition lift_res :: "'a res \<Rightarrow> 'a act" where
  "lift_res r d = (r, d)"

definition abind :: "'a act \<Rightarrow> ('a \<Rightarrow> 'b act) \<Rightarrow> 'b act" where
  "abind m f d = (case m d of (Inl e, d') \<Rightarrow> (Inl e, d') | (Inr x, d') \<Rightarrow> f x d')"

definition gets :: "(db \<Rightarrow> 'a) \<Rightarrow> 'a act" where
  "gets f d = (Inr (f d), d)"

definition reads :: "(db \<Rightarrow> 'a res) \<Rightarrow> 'a act" where
  "reads f d = (f d, d)"

definition modify :: "(db \<Rightarrow> db) \<Rightarrow> unit act" where
  "modify f d = (Inr (), f d)"

definition updates :: "(db \<Rightarrow> ('a \<times> db) res) \<Rightarrow> 'a act" where
  "updates f d = (case f d of Inl e \<Rightarrow> (Inl e, d) | Inr (x, d') \<Rightarrow> (Inr x, d'))"

definition aif :: "bool \<Rightarrow> unit act \<Rightarrow> unit act" where
  "aif b m = (if b then m else ret ())"

definition attempt :: "'a act \<Rightarrow> ('a res) act" where
  "attempt m d = (case m d of (r, d') \<Rightarrow> (Inr r, d'))"

definition transaction :: "'a act \<Rightarrow> 'a act" where
  "transaction m d = (case m d of
      (Inl e, d') \<Rightarrow> (Inl e, d\<lparr>d_lock := filter (\<lambda>x. x \<in> set (d_lock d')) (d_lock d), d_logs := d_logs d', d_itered := d_itered d'\<rparr>)
    | r \<Rightarrow> r)"

fun aeach :: "('a \<Rightarrow> unit act) \<Rightarrow> 'a list \<Rightarrow> unit act" where
  "aeach f [] = ret ()"
| "aeach f (x # xs) = abind (f x) (\<lambda>_. aeach f xs)"

lemma act_simps [simp]:
  "abind (ret x) f = f x" "abind (fail e) f' = fail e" "abind (lift_res (Inr y)) f'' = f'' y"
  "abind (gets g) k d = k (g d) d" "abind (modify h) k' d = k' () (h d)"
  "aif True m = m" "aif False m = ret ()"
  by (auto simp: abind_def ret_def fail_def lift_res_def gets_def modify_def aif_def fun_eq_iff)

lemma abind_assoc: "abind (abind m f) g = abind m (\<lambda>x. abind (f x) g)"
  by (auto simp: abind_def fun_eq_iff split: prod.splits sum.splits)

lemma abind_Inr_iff:
  "abind m f d = (Inr y, d'') \<longleftrightarrow> (\<exists>x d'. m d = (Inr x, d') \<and> f x d' = (Inr y, d''))"
  by (auto simp: abind_def split: prod.splits sum.splits)

lemma reads_Inr_iff: "reads f d = (Inr y, d') \<longleftrightarrow> f d = Inr y \<and> d' = d"
  by (auto simp: reads_def)

lemma lift_res_Inr_iff: "lift_res r d = (Inr y, d') \<longleftrightarrow> r = Inr y \<and> d' = d"
  by (auto simp: lift_res_def)

lemma transaction_Inr_iff: "transaction m d = (Inr y, d') \<longleftrightarrow> m d = (Inr y, d')"
  by (auto simp: transaction_def split: prod.splits sum.splits)

lemma updates_Inr_iff: "updates f d = (Inr y, d') \<longleftrightarrow> f d = Inr (y, d')"
  by (auto simp: updates_def split: sum.splits)

named_theorems act_iffs \<open>decomposition of a successful action\<close>

lemmas [act_iffs] = abind_Inr_iff reads_Inr_iff lift_res_Inr_iff transaction_Inr_iff updates_Inr_iff

lemma simple_Inr_iffs [act_iffs]:
  "ret x d = (Inr y, d') \<longleftrightarrow> y = x \<and> d' = d"
  "modify f d = (Inr u, d') \<longleftrightarrow> d' = f d"
  "gets g d = (Inr z, d') \<longleftrightarrow> z = g d \<and> d' = d"
  "\<not> fail e d = (Inr w, d')"
  by (auto simp: ret_def modify_def gets_def fail_def)

section \<open>What an action keeps\<close>

text \<open>
  A relation between the database before and after which every action of some kind
  establishes, whether it succeeds or fails. The interface holds what such a relation needs
  for the rules of the combinators: it is a preorder, and a rollback does not leave it.
\<close>

definition keeps :: "(db \<Rightarrow> db \<Rightarrow> bool) \<Rightarrow> 'a act \<Rightarrow> bool" where
  "keeps R m \<longleftrightarrow> (\<forall>d. R d (snd (m d)))"

named_theorems keeps_intros \<open>what the combinators keep\<close>

locale db_frame =
  fixes R :: "db \<Rightarrow> db \<Rightarrow> bool"
  assumes frame_refl: "R d d"
    and frame_trans: "R a b \<Longrightarrow> R b c \<Longrightarrow> R a c"
    and frame_rollback: "R a b \<Longrightarrow> R a (a\<lparr>d_lock := ls, d_logs := d_logs b, d_itered := d_itered b\<rparr>)"
begin

lemma frame_fold: "(\<And>x d. R d (f x d)) \<Longrightarrow> R d (fold f xs d)"
  by (induction xs arbitrary: d) (auto intro: frame_refl frame_trans)

lemma keeps_pure [keeps_intros]:
  "keeps R (ret x)" "keeps R (fail e)" "keeps R (reads f)" "keeps R (lift_res r)" "keeps R (gets g)"
  by (auto simp: keeps_def ret_def fail_def reads_def lift_res_def gets_def frame_refl)

lemma keeps_abind [keeps_intros]:
  assumes "keeps R m" and "\<And>x. keeps R (f x)"
  shows "keeps R (abind m f)"
  unfolding keeps_def
proof
  fix d
  have "R d (snd (m d))" using assms(1) by (simp add: keeps_def)
  moreover have "R (snd (m d)) (snd (f x (snd (m d))))" for x using assms(2) by (simp add: keeps_def)
  ultimately show "R d (snd (abind m f d))"
    by (auto simp: abind_def split: prod.splits sum.splits intro: frame_trans)
qed

lemma keeps_modify [keeps_intros]: "(\<And>d. R d (h d)) \<Longrightarrow> keeps R (modify h)"
  by (simp add: keeps_def modify_def)

lemma keeps_updates: "(\<And>d x d'. f d = Inr (x, d') \<Longrightarrow> R d d') \<Longrightarrow> keeps R (updates f)"
  by (auto simp: keeps_def updates_def frame_refl split: sum.splits)

lemma keeps_aif [keeps_intros]: "keeps R m \<Longrightarrow> keeps R (aif b m)"
  by (simp add: aif_def keeps_pure)

lemma keeps_attempt [keeps_intros]: "keeps R m \<Longrightarrow> keeps R (attempt m)"
  unfolding keeps_def attempt_def by (metis (no_types, lifting) case_prod_unfold snd_conv)

lemma keeps_transaction [keeps_intros]:
  assumes "keeps R m"
  shows "keeps R (transaction m)"
  unfolding keeps_def
proof
  fix d
  have "R d (snd (m d))" using assms by (simp add: keeps_def)
  then show "R d (snd (transaction m d))"
    by (auto simp: transaction_def frame_rollback split: prod.splits sum.splits)
qed

lemma keeps_result: "keeps R m \<Longrightarrow> m d = (r, d') \<Longrightarrow> R d d'"
  unfolding keeps_def by (metis snd_conv)

end

text \<open>The rows of the jobs and of the completed ones stay as they are, and the same jobs are queued.\<close>

definition same_jobs :: "db \<Rightarrow> db \<Rightarrow> bool" where
  "same_jobs d d' \<longleftrightarrow> d_job d' = d_job d \<and> d_completed d' = d_completed d \<and>
     (\<forall>j. d_queue d' j = None \<longleftrightarrow> d_queue d j = None)"

interpretation same_jobs: db_frame same_jobs
  by unfold_locales (auto simp: same_jobs_def)

text \<open>The status of a flow keeps its step and its number of modules.\<close>

definition same_shape :: "uuid \<Rightarrow> db \<Rightarrow> db \<Rightarrow> bool" where
  "same_shape flow d d' \<longleftrightarrow>
     map_option (\<lambda>s. (fs_step s, length (fs_modules s))) (d_status d' flow) =
     map_option (\<lambda>s. (fs_step s, length (fs_modules s))) (d_status d flow)"

interpretation same_shape: db_frame "same_shape flow" for flow
  by unfold_locales (auto simp: same_shape_def)

lemma append_logs_frames [keeps_intros]:
  "same_jobs d (append_logs j t d)" "same_shape flow d (append_logs j t d)"
  by (simp_all add: append_logs_def same_jobs_def same_shape_def)

lemma update_status_frames [keeps_intros]:
  "same_jobs d (update_status j f d)"
  "(\<And>s. fs_step (f s) = fs_step s) \<Longrightarrow> (\<And>s. length (fs_modules (f s)) = length (fs_modules s)) \<Longrightarrow>
     same_shape flow d (update_status j f d)"
  by (simp_all add: update_status_def same_jobs_def same_shape_def option.map_comp comp_def)

lemma update_queue_frames [keeps_intros]:
  "same_jobs d (update_queue j g d)" "same_shape flow d (update_queue j g d)"
  by (simp_all add: update_queue_def same_jobs_def same_shape_def)

lemma reset_ping_frames [keeps_intros]:
  "same_jobs d (reset_ping j d)" "same_shape flow d (reset_ping j d)"
  by (simp_all add: reset_ping_def same_jobs_def same_shape_def)

end
