(* ===== verification/Queue.thy ===== *)
theory Queue
  imports Jobs "HOL-Library.List_Lexorder" "HOL-Library.Char_ord" "HOL-Library.AList"
begin

text \<open>
  The end of a job in the queue (\<open>windmill-queue/src/jobs.rs\<close>): interpolation of arguments in
  tags and concurrency keys, and \<open>add_completed_job\<close> with the transaction
  \<open>commit_completed_job\<close> that moves a job from the queue to the completed jobs.
\<close>

section \<open>Environment\<close>

text \<open>
  What the engine obtains from outside the modelled code: the clock, the evaluator of
  JavaScript expressions (\<open>eval_timeout\<close>), the printer and parser of JSON texts, the display
  of errors, the build features, and the scheduling of the next tick of a cron schedule.
\<close>

record id_context =
  ic_flow_job :: uuid
  ic_steps_results :: "(string \<times> job_result) list"
  ic_previous_id :: string

record eval_ctx =
  ec_vars :: "(string \<times> json) list"
  ec_args :: "args option"
  ec_env :: "args option"
  ec_by_id :: "id_context option"
  ec_extra :: "(string \<times> string) list"

record mini_job =
  mj_id :: uuid
  mj_job :: job_row
  mj_q :: queue_row
  mj_status :: "flow_status option"

record env =
  e_now :: int
  e_js :: "string \<Rightarrow> eval_ctx \<Rightarrow> db \<Rightarrow> json res"
  e_raw :: "json \<Rightarrow> string" \<comment> \<open>text of a \<open>RawValue\<close>\<close>
  e_parse :: "string \<Rightarrow> json option" \<comment> \<open>\<open>serde_json::from_str\<close>\<close>
  e_show_err :: "wm_error \<Rightarrow> string"
  e_text :: text_ops
  e_enterprise :: bool
  e_cloud_hosted :: bool
  e_max_result_size_mb :: nat
  e_disable_concurrency :: bool
  e_schedule :: "string \<Rightarrow> string \<Rightarrow> bool" \<comment> \<open>workspace and path of a schedule\<close>
  e_try_schedule :: "mini_job \<Rightarrow> db \<Rightarrow> db res" \<comment> \<open>\<open>try_schedule_next_job\<close>\<close>
  e_settings_handle :: "debouncing_settings \<Rightarrow> int option"
  e_jitter :: "16 word \<Rightarrow> 16 word" \<comment> \<open>random draw below a bound, and a coin, from \<open>rand\<close>\<close>
  e_coin :: bool
  e_new_id :: "db \<Rightarrow> uuid" \<comment> \<open>\<open>Ulid::new()\<close>\<close>
  e_min_1_440 :: bool \<comment> \<open>all workers have at least this version\<close>
  e_min_1_432 :: bool
  e_min_1_595 :: bool
  e_settings_v0 :: bool
  e_disable_flow_script :: bool
  e_preview_tags :: bool \<comment> \<open>\<open>PREVIEW_TAGS_OVERRIDE\<close>\<close>
  e_workspace_tag :: "string \<Rightarrow> string option" \<comment> \<open>\<open>per_workspace_tag\<close>\<close>
  e_dedicated_tag :: "string \<Rightarrow> string \<Rightarrow> string" \<comment> \<open>\<open>dedicated_worker_tag\<close>\<close>
  e_authed :: "string \<Rightarrow> string \<Rightarrow> string \<Rightarrow> unit res" \<comment> \<open>permissions of a user in a workspace\<close>
  e_tag_available :: "string \<Rightarrow> string \<Rightarrow> string \<Rightarrow> unit res"
  e_settings :: "debouncing_settings \<Rightarrow> concurrency_settings \<Rightarrow> int option"
  e_hub :: "string \<Rightarrow> (script_lang \<times> bool) res" \<comment> \<open>a script of the hub: language, preprocessor\<close>
  e_hash :: "string \<Rightarrow> string"
  e_no_overlap :: "string \<Rightarrow> string \<Rightarrow> bool" \<comment> \<open>\<open>schedule.no_flow_overlap\<close>\<close>
  e_worker :: string
  e_resolve_env :: "args \<Rightarrow> args" \<comment> \<open>\<open>transform_json\<close> on the environment of a flow\<close>
  e_ids :: "db \<Rightarrow> uuid list" \<comment> \<open>the ids of \<open>v2_job_queue\<close>, in the order a query returns them\<close>
  e_show_date :: "int \<Rightarrow> string" \<comment> \<open>\<open>Display\<close> of a \<open>DateTime\<close>\<close>
  e_max_time :: int \<comment> \<open>\<open>DateTime::MAX_UTC\<close>\<close>
  e_spawn_runners :: "uuid \<Rightarrow> string \<Rightarrow> unit res" \<comment> \<open>\<open>spawn_flow_module_runners\<close> for a module of a job\<close>
  e_new_ids :: "nat \<Rightarrow> db \<Rightarrow> uuid list" \<comment> \<open>as many calls of \<open>Ulid::new()\<close>\<close>
  e_approval_urls :: "string \<Rightarrow> uuid \<Rightarrow> string \<Rightarrow> db \<Rightarrow> (string \<times> string \<times> string) res"
    \<comment> \<open>signed addresses to resume, to cancel and of the approval page of a step\<close>

section \<open>Interpolation of arguments\<close>

text \<open>
  \<open>str::replace\<close> for a non-empty pattern, \<open>split('.')\<close>, \<open>trim_matches\<close>, and the captures of
  \<open>RE_ARG_TAG\<close>, \<open>\$args\[((?:\w+\.)*\w+)\]\<close>, where the run of name characters is forced to be
  maximal by the closing bracket. Texts are ASCII.
\<close>

function str_replace :: "string \<Rightarrow> string \<Rightarrow> string \<Rightarrow> string" where
  "str_replace p r [] = []"
| "str_replace p r (c # cs) =
     (if str_starts_with (c # cs) p then r @ str_replace p r (drop (length p - 1) cs)
      else c # str_replace p r cs)"
  by pat_completeness auto
termination by (relation "measure (\<lambda>(p, r, s). length s)") auto

definition trim_matches :: "char \<Rightarrow> string \<Rightarrow> string" where
  "trim_matches x s = rev (dropWhile (\<lambda>c. c = x) (rev (dropWhile (\<lambda>c. c = x) s)))"

definition is_word_char :: "char \<Rightarrow> bool" where
  "is_word_char c \<longleftrightarrow> (let n = of_char c :: nat in
     48 \<le> n \<and> n \<le> 57 \<or> 65 \<le> n \<and> n \<le> 90 \<or> n = 95 \<or> 97 \<le> n \<and> n \<le> 122)"

definition arg_capture :: "string \<Rightarrow> (string \<times> string) option" where
  "arg_capture s =
     (case strip_prefix ''$args['' s of
        None \<Rightarrow> None
      | Some r \<Rightarrow>
          let name = takeWhile (\<lambda>c. is_word_char c \<or> c = CHR ''.'') r;
              rest = dropWhile (\<lambda>c. is_word_char c \<or> c = CHR ''.'') r
          in if list_all (\<lambda>w. w \<noteq> []) (split_char (CHR ''.'') name) \<and> str_starts_with rest '']''
             then Some (name, tl rest) else None)"

lemma arg_capture_shorter: "arg_capture s = Some (n, r) \<Longrightarrow> length r < length s"
proof -
  assume a: "arg_capture s = Some (n, r)"
  then obtain t where t: "s = ''$args['' @ t" "r = tl (dropWhile (\<lambda>c. is_word_char c \<or> c = CHR ''.'') t)"
    by (auto simp: arg_capture_def strip_prefix_iff Let_def split: option.splits if_splits)
  then show ?thesis
    using length_dropWhile_le [of "\<lambda>c. is_word_char c \<or> c = CHR ''.''" t] by simp
qed

function arg_captures :: "string \<Rightarrow> string list" where
  "arg_captures [] = []"
| "arg_captures (c # cs) =
     (case arg_capture (c # cs) of
        Some (name, rest) \<Rightarrow> name # arg_captures rest
      | None \<Rightarrow> arg_captures cs)"
  by pat_completeness auto
termination
  by (relation "measure length") (auto dest: arg_capture_shorter)

text \<open>\<open>interpolate_args\<close>; \<open>args.extra\<close> is looked up after \<open>args.args\<close>.\<close>

definition arg_text :: "env \<Rightarrow> args \<Rightarrow> args option \<Rightarrow> string \<Rightarrow> string" where
  "arg_text E a x k =
     unwrap_or [] (map_option (e_raw E) (or_option (map_of a k) (Option.bind x (\<lambda>y. map_of y k))))"

fun arg_path :: "env \<Rightarrow> string \<Rightarrow> string list \<Rightarrow> string" where
  "arg_path E v [] = v"
| "arg_path E v (p # ps) =
     (case e_parse E v of
        Some (JObj fs) \<Rightarrow> arg_path E (unwrap_or [] (map_option (e_raw E) (map_of fs p))) ps
      | Some _ \<Rightarrow> arg_path E [] ps
      | None \<Rightarrow> [])"

definition arg_value :: "env \<Rightarrow> args \<Rightarrow> args option \<Rightarrow> string \<Rightarrow> string" where
  "arg_value E a x name =
     trim_matches (CHR 0x22)
       (case split_char (CHR ''.'') name of
          r # p # ps \<Rightarrow> arg_path E (arg_text E a x r) (p # ps)
        | _ \<Rightarrow> arg_text E a x name)"

definition interpolate_args :: "env \<Rightarrow> string \<Rightarrow> args \<Rightarrow> args option \<Rightarrow> string \<Rightarrow> string" where
  "interpolate_args E s a x w =
     (let ws = str_replace ''$workspace'' w s
      in fold (\<lambda>name acc. str_replace (''$args['' @ name @ '']'') (arg_value E a x name) acc)
           (arg_captures ws) ws)"

definition fullpath_with_workspace :: "string \<Rightarrow> string option \<Rightarrow> job_kind \<Rightarrow> string" where
  "fullpath_with_workspace w p k =
     w @ ''/'' @ (if kind_is_flow k then ''flow'' else ''script'') @ ''/'' @ unwrap_or ''tmp/main'' p"

section \<open>Concurrency keys and settings\<close>

text \<open>
  \<open>insert_concurrency_key\<close> (in a build without the feature \<open>cloud\<close>): the custom key with its
  arguments filled in, or the full path; the counter is created when it does not exist.
\<close>

definition insert_concurrency_key ::
  "env \<Rightarrow> string \<Rightarrow> args \<Rightarrow> string option \<Rightarrow> job_kind \<Rightarrow> string option \<Rightarrow> uuid \<Rightarrow> db \<Rightarrow> db" where
  "insert_concurrency_key E w a path k custom j d =
     (let key = (case custom of Some x \<Rightarrow> interpolate_args E x a None w
                   | None \<Rightarrow> fullpath_with_workspace w path k)
      in d\<lparr>d_counter := (case d_counter d key of None \<Rightarrow> (d_counter d)(key \<mapsto> []) | Some _ \<Rightarrow> d_counter d),
           d_ckey := d_ckey d @ [(key, j, None)]\<rparr>)"

text \<open>\<open>cache::job::fetch_flow\<close>, then \<open>fetch_preview_flow\<close> on the raw flow of the job.\<close>

definition fetch_version :: "db \<Rightarrow> int \<Rightarrow> flow_value res" where
  "fetch_version d n =
     ok_or (NotFound ''flow version'') (or_option (d_version_lite d n) (d_version d n))"

definition fetch_flow :: "db \<Rightarrow> job_kind \<Rightarrow> int option \<Rightarrow> flow_value res" where
  "fetch_flow d k h =
     (case h of
        None \<Rightarrow> Inl (InternalErr ''not a flow job'')
      | Some n \<Rightarrow>
          if k = KFlowDependencies then ok_or (NotFound ''flow version'') (d_version d n)
          else if k = KFlowNode then ok_or (NotFound ''flow node'') (d_node d n)
          else if k = KFlow \<or> k = KSingleStepFlow then fetch_version d n
          else Inl (InternalErr ''not a flow job''))"

definition fetch_flow_data :: "db \<Rightarrow> job_row \<Rightarrow> flow_value res" where
  "fetch_flow_data d r =
     (case fetch_flow d (jb_kind r) (jb_runnable_id r) of
        Inr f \<Rightarrow> Inr f
      | Inl _ \<Rightarrow> ok_or (InternalErr ''not a flow job'') (jb_raw_flow r))"

text \<open>
  \<open>get_tag_and_concurrency\<close>: the row of \<open>flow\<close> is found by the path of the job only. The limit
  is read from the key \<open>concurrency_limit\<close> of the raw flow, which the serialised flow does
  not have (its field is \<open>concurrent_limit\<close>), so it is \<open>NULL\<close> there.
\<close>

record tag_and_concurrency =
  tc_tag :: "string option"
  tc_key :: "string option"
  tc_limit :: "int option"
  tc_window :: "int option"

definition get_tag_and_concurrency :: "uuid \<Rightarrow> db \<Rightarrow> tag_and_concurrency option" where
  "get_tag_and_concurrency j d =
     (case d_job d j of
        None \<Rightarrow> None
      | Some r \<Rightarrow>
          (case find (\<lambda>(w, p, t). jb_runnable_path r = Some p) (d_flow d) of
             None \<Rightarrow> None
           | Some (w, p, t) \<Rightarrow>
               let raw = map_option fv_concurrency (jb_raw_flow r);
                   key = Option.bind raw concurrency_key
               in if key \<noteq> None \<or> jb_runnable_id r = None
                  then Some \<lparr>tc_tag = t, tc_key = key, tc_limit = None,
                             tc_window = Option.bind raw concurrency_time_window_s\<rparr>
                  else let c = map_option fv_concurrency (res_ok (fetch_version d (the (jb_runnable_id r))))
                       in Some \<lparr>tc_tag = t, tc_key = Option.bind c concurrency_key,
                                tc_limit = Option.bind c concurrent_limit,
                                tc_window = Option.bind c concurrency_time_window_s\<rparr>))"

text \<open>\<open>get_mini_pulled_job\<close>: a queued job with its row and its status.\<close>

definition get_mini_pulled_job :: "uuid \<Rightarrow> db \<Rightarrow> mini_job option" where
  "get_mini_pulled_job j d =
     (case (d_queue d j, d_job d j) of
        (Some q, Some r) \<Rightarrow> Some \<lparr>mj_id = j, mj_job = r, mj_q = q, mj_status = d_status d j\<rparr>
      | _ \<Rightarrow> None)"

definition job_is_canceled :: "mini_job \<Rightarrow> bool" where
  "job_is_canceled j \<longleftrightarrow> q_canceled_by (mj_q j) \<noteq> None"

definition is_flow_step :: "mini_job \<Rightarrow> bool" where
  "is_flow_step j \<longleftrightarrow> jb_step_id (mj_job j) \<noteq> None"

section \<open>Completing a job\<close>

text \<open>
  The result of a job as \<open>add_completed_job\<close> takes it: a JSON value, or the \<open>WrappedError\<close> of
  \<open>add_completed_job_error\<close>, which has no labels and no size. A struct of one field is also
  read from an array of one element.
\<close>

datatype job_output = Output json | WrappedError json

fun output_json :: "job_output \<Rightarrow> json" where
  "output_json (Output v) = v"
| "output_json (WrappedError e) = JObj [(''error'', e)]"

definition struct_field1 :: "string \<Rightarrow> json \<Rightarrow> json option res" where
  "struct_field1 k v =
     (case v of
        JObj fs \<Rightarrow> Inr (get_field k fs)
      | JArr [x] \<Rightarrow> Inr (Some x)
      | _ \<Rightarrow> Inl (InvalidType ''struct''))"

fun wm_labels :: "job_output \<Rightarrow> string list option" where
  "wm_labels (Output v) =
     res_ok (rbind (struct_field1 ''wm_labels'' v) (\<lambda>f.
       rbind (ok_or (MissingField ''wm_labels'') f) (dec_vec dec_string)))"
| "wm_labels (WrappedError e) = None"

fun output_size :: "env \<Rightarrow> job_output \<Rightarrow> nat" where
  "output_size E (Output v) = length (e_raw E v)"
| "output_size E (WrappedError e) = 0"

text \<open>\<open>check_result_size\<close>: nothing up to 2 MB; an error or a warning in the logs above.\<close>

definition check_result_size :: "env \<Rightarrow> uuid \<Rightarrow> job_output \<Rightarrow> unit act" where
  "check_result_size E j out =
     (let mb = output_size E out div 1024 div 1024
      in if mb \<le> 2 then ret ()
         else if mb > e_max_result_size_mb E then fail (BadRequest ''ResultTooLarge'')
         else abind (modify (append_logs j ''Warning: Result of job is large'')) (\<lambda>_.
              if e_cloud_hosted E then fail (BadRequest ''ResultTooLarge'') else ret ()))"

text \<open>\<open>delete_job\<close>: the rows of the status and of the runtime go with the queue's (cascade).\<close>

definition delete_job :: "uuid \<Rightarrow> db \<Rightarrow> db" where
  "delete_job j d = d\<lparr>d_queue := (d_queue d)(j := None), d_status := (d_status d)(j := None),
     d_leaf := (d_leaf d)(j := None), d_wac := (d_wac d)(j := None), d_wac_conditions := (d_wac_conditions d)(j := None), d_ping := (d_ping d)(j := None)\<rparr>"

definition add_labels :: "uuid \<Rightarrow> string list \<Rightarrow> db \<Rightarrow> db" where
  "add_labels j ls d = d\<lparr>d_job := (d_job d)(j :=
     map_option (\<lambda>r. r\<lparr>jb_labels := sorted_list_of_set (set (jb_labels r @ ls))\<rparr>) (d_job d j))\<rparr>"

text \<open>
  The duration of a child in the workflow-as-code status of its parent; the result is
  \<open>_checkpoint.pending_steps.job_ids\<close> of the parent.
\<close>

definition set_wac_duration :: "string \<Rightarrow> int \<Rightarrow> fields \<Rightarrow> fields" where
  "set_wac_duration k dur fs =
     insert_field k (case get_field k fs of
         Some (JObj o') \<Rightarrow> JObj (insert_field ''duration_ms'' (JInt dur) o')
       | Some v \<Rightarrow> v
       | None \<Rightarrow> JObj [(''duration_ms'', JInt dur)]) fs"

fun json_get :: "string \<Rightarrow> json option \<Rightarrow> json option" where
  "json_get k (Some (JObj fs)) = get_field k fs"
| "json_get k _ = None"

definition notify_wac_parent :: "env \<Rightarrow> mini_job \<Rightarrow> int \<Rightarrow> json option act" where
  "notify_wac_parent E j dur d =
     (case (is_flow_step j, jb_parent (mj_job j)) of
        (False, Some p) \<Rightarrow>
          let upd = set_wac_duration (show_uuid (e_text E) (mj_id j)) dur;
              ids = Option.bind (d_wac d p) (\<lambda>fs.
                json_get ''job_ids'' (json_get ''pending_steps'' (get_field ''_checkpoint'' fs)));
              d' = d\<lparr>d_wac := (d_wac d)(p := map_option upd (d_wac d p))\<rparr>
          in (Inr ids,
              if ids \<noteq> None then d'
              else d'\<lparr>d_completed := (d_completed d)(p :=
                map_option (\<lambda>c. c\<lparr>co_wac := map_option upd (co_wac c)\<rparr>) (d_completed d p))\<rparr>)
      | _ \<Rightarrow> (Inr None, d))"

text \<open>
  A step of a flow refreshes the ping of its parent while that is queued and not canceled.
  (The \<open>last_ping\<close> of the monitor lock, also refreshed here, is not part of the lock table.)
\<close>

definition touch_parent :: "env \<Rightarrow> mini_job \<Rightarrow> db \<Rightarrow> db" where
  "touch_parent E j d =
     (case (is_flow_step j, jb_parent (mj_job j)) of
        (True, Some p) \<Rightarrow>
          (if d_queue d p \<noteq> None \<and> \<not> canceled d p \<and>
              map_option jb_workspace (d_job d p) = Some (jb_workspace (mj_job j))
           then d\<lparr>d_ping := (d_ping d)(p \<mapsto> e_now E)\<rparr> else d)
      | _ \<Rightarrow> d)"

text \<open>
  Whether completing the job schedules the next tick: always for scripts and for cached
  results; for a flow only when it failed before its first \<open>handle_flow\<close> had pushed a step.
\<close>

definition never_started :: "flow_status \<Rightarrow> bool" where
  "never_started s \<longleftrightarrow> fs_step s = 0 \<and>
     (case fs_modules s of
        [] \<Rightarrow> True
      | WaitingForPriorSteps _ # _ \<Rightarrow> True
      | Failure _ j _ _ # _ \<Rightarrow> j = uuid_nil
      | _ \<Rightarrow> False)"

definition schedule_next_tick :: "mini_job \<Rightarrow> bool \<Rightarrow> bool \<Rightarrow> db \<Rightarrow> bool" where
  "schedule_next_tick j from_cache success d \<longleftrightarrow>
     \<not> kind_is_flow (jb_kind (mj_job j)) \<or> from_cache \<or>
     \<not> success \<and>
       (case d_completed d (mj_id j) of
          Some c \<Rightarrow> co_workspace c = jb_workspace (mj_job j) \<and>
            (case co_flow_status c of Some s \<Rightarrow> never_started s | None \<Rightarrow> False)
        | None \<Rightarrow> False)"

definition handle_schedule :: "env \<Rightarrow> mini_job \<Rightarrow> bool \<Rightarrow> bool \<Rightarrow> unit act" where
  "handle_schedule E j from_cache success d =
     (case (is_flow_step j, jb_schedule (mj_job j), jb_runnable_path (mj_job j)) of
        (False, Some sp, Some rp) \<Rightarrow>
          (if e_schedule E (jb_workspace (mj_job j)) sp \<and> schedule_next_tick j from_cache success d
           then (case e_try_schedule E j d of Inl e \<Rightarrow> (Inl e, d) | Inr d' \<Rightarrow> (Inr (), d'))
           else (Inr (), d))
      | _ \<Rightarrow> (Inr (), d))"

definition release_concurrency :: "env \<Rightarrow> mini_job \<Rightarrow> db \<Rightarrow> db" where
  "release_concurrency E j d =
     (if jb_concurrent_limit (mj_job j) \<noteq> None \<or>
         Option.bind (Option.bind (q_settings (mj_q j)) (d_settings d)) concurrent_limit \<noteq> None
      then let key = map_option fst (find (\<lambda>(k, i, t). i = mj_id j) (d_ckey d));
               d' = (case key of
                       Some k \<Rightarrow> if e_disable_concurrency E then d
                                 else d\<lparr>d_counter := (d_counter d)(k :=
                                        map_option (filter (\<lambda>i. i \<noteq> mj_id j)) (d_counter d k))\<rparr>
                     | None \<Rightarrow> d)
           in d'\<lparr>d_ckey := map (\<lambda>(k, i, t). if i = mj_id j then (k, i, Some (e_now E)) else (k, i, t)) (d_ckey d')\<rparr>
      else d)"

definition commit_completed_job ::
  "env \<Rightarrow> mini_job \<Rightarrow> bool \<Rightarrow> bool \<Rightarrow> job_output \<Rightarrow> (string option \<times> string option) option \<Rightarrow>
   int option \<Rightarrow> bool \<Rightarrow> (int \<times> json option) act" where
  "commit_completed_job E j success skipped out canceled_by dur from_cache =
     abind (check_result_size E (mj_id j) out) (\<lambda>_.
     transaction
       (abind (updates (insert_completed (e_now E) (mj_id j) success skipped (output_json out) canceled_by dur)) (\<lambda>duration.
        abind (case wm_labels out of Some ls \<Rightarrow> modify (add_labels (mj_id j) ls) | None \<Rightarrow> ret ()) (\<lambda>_.
        abind (notify_wac_parent E j duration) (\<lambda>ids.
        abind (modify (delete_job (mj_id j))) (\<lambda>_.
        abind (modify (touch_parent E j)) (\<lambda>_.
        abind (handle_schedule E j from_cache success) (\<lambda>_.
        abind (modify (release_concurrency E j)) (\<lambda>_.
        ret (duration, ids))))))))))"

section \<open>A job is completed once\<close>

text \<open>What the scheduling of the next tick must not touch: the job that is being completed.\<close>

definition schedule_frame :: "env \<Rightarrow> bool" where
  "schedule_frame E \<longleftrightarrow> (\<forall>j d d'. e_try_schedule E j d = Inr d' \<longrightarrow>
     d_queue d' (mj_id j) = d_queue d (mj_id j) \<and> d_completed d' (mj_id j) = d_completed d (mj_id j))"

lemma insert_completed_Inr:
  assumes "insert_completed now j success skipped res cb dur d = Inr (n, d')"
  obtains c where "d_completed d' j = Some c"
    "co_status c = completed_status (cb \<noteq> None) skipped success" "co_result c = Some res"
    "d_queue d' = d_queue d"
  using assms by (auto simp: insert_completed_def Let_def split: option.splits)

lemma queue_frame [simp]:
  "d_queue (add_labels j ls d) = d_queue d" "d_completed (add_labels j ls d) = d_completed d"
  "d_completed (delete_job j d) = d_completed d"
  "d_queue (delete_job j d) = (d_queue d)(j := None)"
  "d_completed (touch_parent E m d) = d_completed d" "d_queue (touch_parent E m d) = d_queue d"
  "d_completed (release_concurrency E m d) = d_completed d"
  "d_queue (release_concurrency E m d) = d_queue d"
  by (auto simp: add_labels_def delete_job_def touch_parent_def release_concurrency_def Let_def
      split: option.splits bool.splits)

lemma handle_schedule_frame:
  "schedule_frame E \<Longrightarrow> handle_schedule E j fc success d = (Inr u, d') \<Longrightarrow>
   d_queue d' (mj_id j) = d_queue d (mj_id j) \<and> d_completed d' (mj_id j) = d_completed d (mj_id j)"
  by (auto simp: handle_schedule_def schedule_frame_def split: option.splits if_splits sum.splits bool.splits)

lemma notify_wac_parent_frame:
  assumes "notify_wac_parent E j dur d = (Inr ids, d')" and "jb_parent (mj_job j) \<noteq> Some (mj_id j)"
  shows "d_completed d' (mj_id j) = d_completed d (mj_id j)"
  using assms
  by (auto simp: notify_wac_parent_def Let_def split: option.splits bool.splits if_splits)

lemma commit_completed_job_row:
  assumes "schedule_frame E" and "jb_parent (mj_job j) \<noteq> Some (mj_id j)"
    and ok: "commit_completed_job E j success skipped out cb dur fc d = (Inr r, d')"
  obtains c where "d_completed d' (mj_id j) = Some c" "d_queue d' (mj_id j) = None"
    "co_status c = completed_status (cb \<noteq> None) skipped success" "co_result c = Some (output_json out)"
proof -
  from ok obtain d1 n d2 d3 ids d4 d5 where
    ins: "insert_completed (e_now E) (mj_id j) success skipped (output_json out) cb dur d1 = Inr (n, d2)"
    and lab: "(case wm_labels out of Some ls \<Rightarrow> modify (add_labels (mj_id j) ls) | None \<Rightarrow> ret ()) d2 = (Inr (), d3)"
    and wac: "notify_wac_parent E j n d3 = (Inr ids, d4)"
    and sch: "handle_schedule E j fc success (touch_parent E j (delete_job (mj_id j) d4)) = (Inr (), d5)"
    and d': "d' = release_concurrency E j d5"
    by (auto simp: commit_completed_job_def act_iffs)
  from ins obtain c where c: "d_completed d2 (mj_id j) = Some c"
    "co_status c = completed_status (cb \<noteq> None) skipped success" "co_result c = Some (output_json out)"
    by (rule insert_completed_Inr)
  have "d_completed d3 = d_completed d2"
    using lab by (auto simp: act_iffs split: option.splits)
  with c wac assms(2) have "d_completed d4 (mj_id j) = Some c"
    by (simp add: notify_wac_parent_frame)
  with handle_schedule_frame [OF assms(1) sch] have "d_completed d' (mj_id j) = Some c" "d_queue d' (mj_id j) = None"
    by (simp_all add: d')
  with c show thesis by (intro that) auto
qed

lemma commit_not_queued:
  assumes "d_queue d (mj_id j) = None"
  shows "\<exists>e d'. commit_completed_job E j success skipped out cb dur fc d = (Inl e, d') \<and>
           d_completed d' = d_completed d \<and> d_queue d' = d_queue d"
  using assms
  by (auto simp: commit_completed_job_def check_result_size_def transaction_def insert_completed_def Let_def
      abind_def ret_def fail_def modify_def updates_def)

text \<open>
  C9: Completing a job takes it out of the queue and records it with the status \<open>canceled\<close>,
  \<open>skipped\<close>, \<open>success\<close> or \<open>failure\<close>, in that order of precedence, and its result; after that
  every further attempt to complete it, with whatever outcome, is an error which leaves the
  completed jobs and the queue as they were.
\<close>

theorem job_completed_once:
  assumes "schedule_frame E" and "jb_parent (mj_job j) \<noteq> Some (mj_id j)"
    and "commit_completed_job E j success skipped out cb dur fc d = (Inr r, d')"
  shows "d_queue d' (mj_id j) = None \<and>
    (\<exists>c. d_completed d' (mj_id j) = Some c \<and> co_result c = Some (output_json out) \<and>
         co_status c = completed_status (cb \<noteq> None) skipped success) \<and>
    (\<forall>success' skipped' out' cb' dur' fc'. \<exists>e d''.
       commit_completed_job E j success' skipped' out' cb' dur' fc' d' = (Inl e, d'') \<and>
       d_completed d'' = d_completed d' \<and> d_queue d'' = d_queue d')"
proof -
  obtain c where c: "d_completed d' (mj_id j) = Some c" "d_queue d' (mj_id j) = None"
    "co_status c = completed_status (cb \<noteq> None) skipped success" "co_result c = Some (output_json out)"
    by (rule commit_completed_job_row [OF assms])
  then show ?thesis by (auto intro: commit_not_queued)
qed

section \<open>A concrete environment\<close>

text \<open>
  An empty database and an environment in which every expression is true, for evaluating the
  definitions on concrete inputs.
\<close>

definition empty_db :: db where
  "empty_db = \<lparr>d_job = Map.empty, d_queue = Map.empty, d_status = Map.empty, d_leaf = Map.empty,
     d_completed = Map.empty, d_itered = Map.empty, d_lock = [], d_ping = (\<lambda>_. None), d_logs = [],
     d_wac = Map.empty, d_wac_conditions = Map.empty, d_flow = [], d_version_lite = Map.empty, d_version = Map.empty,
     d_node = Map.empty, d_settings = Map.empty, d_ckey = [], d_counter = Map.empty,
     d_delete_at = Map.empty, d_conversation = {}, d_message = [], d_resume = [],
     d_script = Map.empty, d_script_at = Map.empty, d_flow_at = Map.empty, d_cache = [],
     d_sent = [], d_same_worker = []\<rparr>"

definition free_ids :: "nat \<Rightarrow> db \<Rightarrow> uuid list" where
  "free_ids n d = take n (filter (\<lambda>j. d_job d j = None) [100, 101, 102])"

definition plain_env :: env where
  "plain_env = \<lparr>e_now = 0, e_js = (\<lambda>_ _ _. Inr (JBool True)), e_raw = (\<lambda>_. []), e_parse = (\<lambda>_. None),
     e_show_err = (\<lambda>_. []), e_text = unary_text, e_enterprise = False, e_cloud_hosted = False,
     e_max_result_size_mb = 500, e_disable_concurrency = False, e_schedule = (\<lambda>_ _. False),
     e_try_schedule = (\<lambda>_ d. Inr d), e_settings_handle = (\<lambda>_. None), e_jitter = id, e_coin = False,
     e_new_id = (\<lambda>d. the (List.find (\<lambda>j. d_job d j = None) (map of_nat [100..<200]))),
     e_min_1_440 = True, e_min_1_432 = True, e_min_1_595 = True, e_settings_v0 = True,
     e_disable_flow_script = False, e_preview_tags = False, e_workspace_tag = (\<lambda>_. None),
     e_dedicated_tag = (\<lambda>w p. w @ '':'' @ p), e_authed = (\<lambda>_ _ _. Inr ()), e_tag_available = (\<lambda>_ _ _. Inr ()),
     e_settings = (\<lambda>_ _. None), e_hub = (\<lambda>_. Inl (NotFound [])), e_hash = id,
     e_no_overlap = (\<lambda>_ _. False), e_worker = [], e_resolve_env = id,
     e_ids = (\<lambda>_. []), e_show_date = (\<lambda>_. []), e_max_time = 10 ^ 18, e_spawn_runners = (\<lambda>_ _. Inr ()),
     e_new_ids = free_ids,
     e_approval_urls = (\<lambda>_ _ _ _. Inr ([], [], []))\<rparr>"

definition plain_job :: "uuid option \<Rightarrow> job_row" where
  "plain_job parent = \<lparr>jb_workspace = ''w'', jb_kind = KFlow, jb_runnable_id = None, jb_runnable_path = None,
     jb_parent = parent, jb_root = parent, jb_innermost = parent, jb_step_id = map_option (\<lambda>_. ''a'') parent,
     jb_args = None, jb_tag = ''flow'', jb_created_by = ''u'', jb_permissioned_as = ''u/u'', jb_email = ''e'',
     jb_same_worker = False, jb_priority = None, jb_schedule = None, jb_preprocessed = None,
     jb_concurrent_limit = None, jb_concurrency_window = None, jb_cache_ttl = None, jb_labels = [],
     jb_lang = None, jb_timeout = None, jb_pre_run_error = None, jb_raw_code = None, jb_raw_flow = None\<rparr>"

definition plain_queue :: queue_row where
  "plain_queue = \<lparr>q_running = True, q_started_at = Some 0, q_scheduled_for = 0, q_suspend = 0,
     q_suspend_until = None, q_canceled_by = None, q_canceled_reason = None, q_worker = None, q_settings = None,
     q_cache_ignore_s3_path = None\<rparr>"

text \<open>The completion of a queued script, at a concrete input.\<close>

definition one_job :: mini_job where
  "one_job = \<lparr>mj_id = 1, mj_job = (plain_job None)\<lparr>jb_kind := KScript\<rparr>, mj_q = plain_queue, mj_status = None\<rparr>"

definition one_job_db :: db where
  "one_job_db = empty_db\<lparr>d_job := [1 \<mapsto> mj_job one_job], d_queue := [1 \<mapsto> plain_queue]\<rparr>"

definition one_job_done :: "(int \<times> json option) res \<times> db" where
  "one_job_done = commit_completed_job plain_env one_job True False (Output (JInt 7)) None None False one_job_db"

lemma schedule_frame_plain: "schedule_frame plain_env"
  by (simp add: schedule_frame_def plain_env_def)

lemma one_job_done_ok: "fst one_job_done = Inr (0, None)"
  by code_simp

theorem job_completed_once_witness:
  "d_queue (snd one_job_done) 1 = None \<and>
   (\<exists>c. d_completed (snd one_job_done) 1 = Some c \<and> co_result c = Some (JInt 7) \<and> co_status c = StSuccess)"
proof -
  have "commit_completed_job plain_env one_job True False (Output (JInt 7)) None None False one_job_db =
      (Inr (0, None), snd one_job_done)"
    using one_job_done_ok by (metis one_job_done_def prod.collapse)
  from job_completed_once [OF schedule_frame_plain _ this]
  show ?thesis by (simp add: one_job_def plain_job_def completed_status_def)
qed

end
