(* ===== verification/Push.thy ===== *)
theory Push
  imports Queue
begin

text \<open>
  Pushing a job into the queue: \<open>push\<close> of \<open>windmill-queue/src/jobs.rs\<close> (in a build without the
  features \<open>cloud\<close> and \<open>private\<close>), the payloads it takes (\<open>windmill-types/src/jobs.rs\<close>), and
  the restart of a completed flow at one of its steps.
\<close>

section \<open>Payloads\<close>

record raw_code =
  rw_content :: string
  rw_path :: "string option"
  rw_hash :: "int option"
  rw_language :: script_lang
  rw_lock :: "string option"
  rw_cache_ttl :: "int option"
  rw_cache_ignore_s3_path :: "bool option"
  rw_dedicated_worker :: "bool option"
  rw_concurrency :: concurrency_settings_with_custom
  rw_debouncing :: debouncing_settings
  rw_modules :: "json option"

record script_payload =
  sp_hash :: int
  sp_path :: string
  sp_cache_ttl :: "int option"
  sp_cache_ignore_s3_path :: "bool option"
  sp_dedicated_worker :: "bool option"
  sp_language :: script_lang
  sp_priority :: "16 word option"
  sp_apply_preprocessor :: bool
  sp_concurrency :: concurrency_settings
  sp_debouncing :: debouncing_settings
  sp_labels :: "string list option"

record node_payload =
  np_id :: int
  np_path :: string
  np_language :: script_lang
  np_cache_ttl :: "int option"
  np_cache_ignore_s3_path :: "bool option"
  np_dedicated_worker :: "bool option"
  np_concurrency :: concurrency_settings

record skip_handler =
  sk_path :: string
  sk_args :: args
  sk_stop_condition :: string
  sk_stop_message :: string

record single_step =
  ss_path :: string
  ss_hash :: "int option"
  ss_flow_version :: "int option"
  ss_args :: args
  ss_retry :: "retry option"
  ss_error_handler_path :: "string option"
  ss_error_handler_args :: "args option"
  ss_skip_handler :: "skip_handler option"
  ss_cache_ttl :: "int option"
  ss_cache_ignore_s3_path :: "bool option"
  ss_priority :: "16 word option"
  ss_tag_override :: "string option"
  ss_trigger_path :: "string option"
  ss_apply_preprocessor :: bool
  ss_concurrency :: concurrency_settings
  ss_debouncing :: debouncing_settings

datatype job_payload =
    PScriptHub string bool
  | PScriptHash script_payload
  | PFlowNode int string
  | PFlowScript node_payload
  | PAppScript int "string option" script_lang "int option"
  | PCode raw_code
  | PDependencies string int script_lang "bool option" debouncing_settings
  | PFlowDependencies string "bool option" int debouncing_settings
  | PAppDependencies string int debouncing_settings
  | PRawFlowDependencies string flow_value
  | PRawScriptDependencies string string script_lang
  | PFlow string "bool option" bool int "string list option"
  | PRestartedFlow uuid string "nat option" "int option"
  | PRawFlow flow_value "string option" "restarted_from option"
  | PSingleStepFlow single_step
  | PDeploymentCallback string debouncing_settings "string option"
  | PIdentity
  | PNoop
  | PAIAgent string

text \<open>\<open>JobPayloadUntagged\<close>, and its default.\<close>

record untagged =
  u_runnable_id :: "int option"
  u_runnable_path :: "string option"
  u_raw_code :: "(string \<times> string option) option"
  u_kind :: job_kind
  u_raw_flow :: "flow_value option"
  u_status :: "flow_status option"
  u_language :: "script_lang option"
  u_cache_ttl :: "int option"
  u_cache_ignore_s3_path :: "bool option"
  u_dedicated_worker :: "bool option"
  u_priority :: "16 word option"
  u_concurrency :: concurrency_settings
  u_debouncing :: debouncing_settings
  u_labels :: "string list option"
  u_preprocessed :: "bool option" \<comment> \<open>the variable \<open>preprocessed\<close>\<close>
  u_reset_tag :: bool \<comment> \<open>whether the payload sets \<open>tag = None\<close>\<close>

definition untagged_default :: "job_kind \<Rightarrow> untagged" where
  "untagged_default k = \<lparr>u_runnable_id = None, u_runnable_path = None, u_raw_code = None, u_kind = k,
     u_raw_flow = None, u_status = None, u_language = None, u_cache_ttl = None,
     u_cache_ignore_s3_path = None, u_dedicated_worker = None, u_priority = None,
     u_concurrency = concurrency_default, u_debouncing = debouncing_default, u_labels = None,
     u_preprocessed = None, u_reset_tag = False\<rparr>"

section \<open>Scripts and dependencies\<close>

definition untag_script :: "script_payload \<Rightarrow> untagged" where
  "untag_script p = (untagged_default KScript)\<lparr>u_runnable_id := Some (sp_hash p),
     u_runnable_path := Some (sp_path p), u_language := Some (sp_language p),
     u_concurrency := sp_concurrency p, u_debouncing := sp_debouncing p,
     u_cache_ttl := sp_cache_ttl p, u_cache_ignore_s3_path := sp_cache_ignore_s3_path p,
     u_dedicated_worker := sp_dedicated_worker p, u_priority := sp_priority p, u_labels := sp_labels p,
     u_preprocessed := (if sp_apply_preprocessor p then Some False else None)\<rparr>"

definition untag_flow_script :: "node_payload \<Rightarrow> untagged" where
  "untag_flow_script p = (untagged_default KFlowScript)\<lparr>u_runnable_id := Some (np_id p),
     u_runnable_path := Some (np_path p), u_language := Some (np_language p),
     u_concurrency := np_concurrency p, u_cache_ttl := np_cache_ttl p,
     u_cache_ignore_s3_path := np_cache_ignore_s3_path p, u_dedicated_worker := np_dedicated_worker p\<rparr>"

definition untag_code :: "raw_code \<Rightarrow> untagged" where
  "untag_code p = (untagged_default KPreview)\<lparr>u_runnable_id := rw_hash p, u_runnable_path := rw_path p,
     u_raw_code := Some (rw_content p, rw_lock p), u_language := Some (rw_language p),
     u_concurrency := from_with_custom (rw_concurrency p), u_debouncing := rw_debouncing p,
     u_cache_ttl := rw_cache_ttl p, u_cache_ignore_s3_path := rw_cache_ignore_s3_path p,
     u_dedicated_worker := rw_dedicated_worker p\<rparr>"

definition deployment_key :: "env \<Rightarrow> string \<Rightarrow> string option \<Rightarrow> string" where
  "deployment_key E w suffix =
     (case suffix of
        Some x \<Rightarrow>
          let full = w @ '':git_sync:'' @ x
          in if length full \<le> 255 then full else w @ '':git_sync:'' @ e_hash E x
      | None \<Rightarrow> w @ '':git_sync'')"

section \<open>Restarting a flow at a step\<close>

text \<open>
  \<open>create_restarted_module\<close>: a sequential loop or sequence of branches, cut down to the \<open>n\<close>
  iterations before the one to restart at (\<open>n > 0\<close>).
\<close>

definition truncate_info :: "nat \<Rightarrow> flow_status_module \<Rightarrow> jobs_info" where
  "truncate_info n m = no_jobs\<lparr>ji_flow_jobs := Some (take n (unwrap_or [] (flow_jobs m))),
     ji_flow_jobs_success := map_option (take n) (flow_jobs_success m),
     ji_flow_jobs_duration := map_option (\<lambda>d. durations_truncate d n) (module_flow_jobs_duration m)\<rparr>"

definition create_restarted_module ::
  "flow_status_module \<Rightarrow> flow_module \<Rightarrow> nat \<Rightarrow> flow_status_module res" where
  "create_restarted_module m def n =
     (let jobs = unwrap_or [] (flow_jobs m); info = truncate_info n m;
          progress = (\<lambda>it ba. \<lparr>pi_progress = None, pi_iterator = it, pi_branchall = ba,
                        pi_parallel = False, pi_while_loop = False\<rparr>) in
      case get_value def of
        Inr (BranchAll branches parallel) \<Rightarrow>
          if parallel then Inl (InternalErr ''parallel branchall'')
          else if length jobs \<le> n then Inl (InternalErr ''not that many branches'')
          else Inr (InProgress (fsm_id m) (last (take n jobs))
                 (progress None (Some \<lparr>ba_branch = n - 1, ba_len = length branches\<rparr>)) info)
      | Inr (ForloopFlow it mods node sf parallel ps sq) \<Rightarrow>
          if parallel then Inl (InternalErr ''parallel loop'')
          else if length jobs \<le> n then Inl (InternalErr ''not that many iterations'')
          else Inr (InProgress (fsm_id m) (last (take n jobs))
                 (progress (Some \<lparr>it_index = n - 1, it_itered = None, it_itered_len = None\<rparr>) None) info)
      | _ \<Rightarrow> Inl (InternalErr ''not a branchall or forloop''))"

text \<open>The module at which the flow restarts, from its start or at a branch or iteration.\<close>

definition restart_at ::
  "flow_status_module option \<Rightarrow> flow_module \<Rightarrow> string \<Rightarrow> nat option \<Rightarrow> flow_status_module res" where
  "restart_at m def i n =
     (case n of
        Some (Suc k) \<Rightarrow>
          (case m of
             Some m \<Rightarrow> create_restarted_module m def (Suc k)
           | None \<Rightarrow> Inr (WaitingForPriorSteps i))
      | _ \<Rightarrow> Inr (WaitingForPriorSteps i))"

text \<open>
  The loop over the modules of the completed flow when the version is the same, with the
  accumulated \<open>(dependent_module, step_n, truncated_modules)\<close>; modules which the definition no
  longer has are skipped.
\<close>

fun restart_same ::
  "flow_module list \<Rightarrow> string \<Rightarrow> nat option \<Rightarrow> bool \<Rightarrow> flow_status_module list \<Rightarrow>
   (bool \<times> nat \<times> flow_status_module list) res" where
  "restart_same defs step n dep [] = Inr (dep, 0, [])"
| "restart_same defs step n dep (m # ms) =
     (case find (\<lambda>x. fm_id x = fsm_id m) defs of
        None \<Rightarrow> restart_same defs step n dep ms
      | Some def \<Rightarrow>
          if fsm_id m = step then
            rbind (restart_at (Some m) def (fsm_id m) n) (\<lambda>m'.
            rbind (restart_same defs step n True ms) (\<lambda>(b, k, xs). Inr (b, k, m' # xs)))
          else if dep then
            rbind (restart_same defs step n True ms) (\<lambda>(b, k, xs).
            Inr (b, k, WaitingForPriorSteps (fsm_id m) # xs))
          else if is_success m then
            rbind (restart_same defs step n False ms) (\<lambda>(b, k, xs). Inr (b, Suc k, m # xs))
          else Inl (InternalErr ''Flow cannot be restarted from a non successful module''))"

text \<open>The loop over the modules of a new version.\<close>

fun restart_changed ::
  "flow_status_module list \<Rightarrow> string \<Rightarrow> nat option \<Rightarrow> bool \<Rightarrow> flow_module list \<Rightarrow>
   (bool \<times> nat \<times> flow_status_module list) res" where
  "restart_changed olds step n dep [] = Inr (dep, 0, [])"
| "restart_changed olds step n dep (def # defs) =
     (let old = find (\<lambda>m. fsm_id m = fm_id def) olds in
      if fm_id def = step then
        rbind (restart_at old def (fm_id def) n) (\<lambda>m'.
        rbind (restart_changed olds step n True defs) (\<lambda>(b, k, xs). Inr (b, k, m' # xs)))
      else if dep then
        rbind (restart_changed olds step n True defs) (\<lambda>(b, k, xs).
        Inr (b, k, WaitingForPriorSteps (fm_id def) # xs))
      else
        rbind (restart_changed olds step n False defs) (\<lambda>(b, k, xs).
        Inr (b, Suc k, (case old of Some m \<Rightarrow> m | None \<Rightarrow> WaitingForPriorSteps (fm_id def)) # xs)))"

record restart_resolution =
  rr_version :: "int option"
  rr_path :: "string option"
  rr_flow :: flow_value
  rr_step :: nat
  rr_modules :: "flow_status_module list"
  rr_user_states :: "(string \<times> json) list"
  rr_cleanup :: flow_cleanup_module

definition restarted_flows_resolution ::
  "string \<Rightarrow> uuid \<Rightarrow> string \<Rightarrow> nat option \<Rightarrow> int option \<Rightarrow> db \<Rightarrow> restart_resolution res" where
  "restarted_flows_resolution w completed step n flow_version d =
     (case (d_completed d completed, d_job d completed) of
        (Some c, Some j) \<Rightarrow>
          if jb_workspace j \<noteq> w then Inl (InternalErr ''completed job not found'')
          else
            let changed = (flow_version \<noteq> None \<and> jb_runnable_id j \<noteq> None \<and>
                           flow_version \<noteq> jb_runnable_id j \<and> jb_kind j = KFlow) in
            rbind (if changed then ok_or (NotFound ''flow version'') (d_version d (the flow_version))
                   else fetch_flow_data d j) (\<lambda>f.
            rbind (ok_or (InternalErr ''Unable to parse flow status'') (co_flow_status c)) (\<lambda>s.
            rbind (if changed then restart_changed (fs_modules s) step n False (fv_modules f)
                   else restart_same (fv_modules f) step n False (fs_modules s)) (\<lambda>(dep, k, ms).
            if \<not> dep then Inl (InternalErr ''Flow cannot be restarted from step'')
            else Inr \<lparr>rr_version = (if changed then flow_version else jb_runnable_id j),
                      rr_path = jb_runnable_path j, rr_flow = f, rr_step = k, rr_modules = ms,
                      rr_user_states = fs_user_states s, rr_cleanup = fs_cleanup_module s\<rparr>)))
      | _ \<Rightarrow> Inl (InternalErr ''completed job not found''))"

definition restarted_status :: "restart_resolution \<Rightarrow> restarted_from \<Rightarrow> flow_status" where
  "restarted_status r fr =
     \<lparr>fs_step = int (rr_step r), fs_modules = rr_modules r,
      fs_failure_module = \<lparr>parent_module = None, module_status = WaitingForPriorSteps ''failure''\<rparr>,
      fs_preprocessor_module = None, fs_user_states = rr_user_states r,
      fs_cleanup_module = rr_cleanup r, fs_retry = retry_status_default,
      fs_approval_conditions = None, fs_restarted_from = Some fr, fs_stream_job = None,
      fs_chat_input_enabled = None, fs_memory_id = None\<rparr>"

section \<open>Flows\<close>

text \<open>A flow made of one script or flow, with an optional check before and handler after it.\<close>

definition static_args :: "args \<Rightarrow> transforms" where
  "static_args a = map (\<lambda>(k, v). (k, Static v)) a"

definition script_module :: "string \<Rightarrow> transforms \<Rightarrow> string \<Rightarrow> int option \<Rightarrow> string option \<Rightarrow> flow_module" where
  "script_module i its path hash tag =
     FlowModule (opts_default i) (to_raw (Script its path hash tag None None))"

definition with_opts :: "(module_opts \<Rightarrow> module_opts) \<Rightarrow> flow_module \<Rightarrow> flow_module" where
  "with_opts f m = FlowModule (f (fm_opts m)) (fm_value m)"

definition opt_str :: "string option \<Rightarrow> json" where
  "opt_str x = (case x of Some s \<Rightarrow> JStr s | None \<Rightarrow> JNull)"

definition skip_validation_module :: "skip_handler \<Rightarrow> flow_module" where
  "skip_validation_module h =
     with_opts (\<lambda>o'. o'\<lparr>mo_stop_after_if := Some \<lparr>sai_expr = sk_stop_condition h,
         sai_skip_if_stopped = True, sai_error_message = Some (sk_stop_message h)\<rparr>\<rparr>)
       (script_module ''skip_validation'' (static_args (sk_args h)) (sk_path h) None None)"

definition main_module :: "single_step \<Rightarrow> flow_module" where
  "main_module p =
     (if ss_flow_version p \<noteq> None
      then with_opts (\<lambda>o'. o'\<lparr>mo_retry := ss_retry p, mo_pass_flow_input_directly := Some True\<rparr>)
             (FlowModule (opts_default ''a'') (to_raw (Flow (static_args (ss_args p)) (ss_path p) None)))
      else with_opts (\<lambda>o'. o'\<lparr>mo_retry := ss_retry p, mo_apply_preprocessor := Some (ss_apply_preprocessor p)\<rparr>)
             (script_module ''a'' (static_args (ss_args p)) (ss_path p) (ss_hash p) (ss_tag_override p)))"

definition error_handler_transforms :: "string \<Rightarrow> string \<Rightarrow> single_step \<Rightarrow> transforms" where
  "error_handler_transforms w email p =
     fold (\<lambda>(k, v) its. AList.update k (Static v) its) (unwrap_or [] (ss_error_handler_args p))
       [(''error'', Javascript ''error''), (''path'', Static (JStr (ss_path p))),
        (''is_flow'', Static (JBool (ss_flow_version p \<noteq> None))),
        (''trigger_path'', Static (opt_str (ss_trigger_path p))),
        (''workspace_id'', Static (JStr w)), (''email'', Static (JStr email)),
        (''job_id'', Javascript ''flow_job_id''), (''started_at'', Javascript ''started_at'')]"

definition single_step_flow :: "string \<Rightarrow> string \<Rightarrow> single_step \<Rightarrow> flow_value" where
  "single_step_flow w email p = flow_value_default\<lparr>
     fv_modules := (case ss_skip_handler p of Some h \<Rightarrow> [skip_validation_module h] | None \<Rightarrow> []) @ [main_module p],
     fv_failure_module := map_option (\<lambda>path. script_module ''failure''
       (error_handler_transforms w email p) path None None) (ss_error_handler_path p),
     fv_concurrency := ss_concurrency p, fv_debouncing := ss_debouncing p,
     fv_priority := ss_priority p, fv_cache_ttl := map_option word_of_int (ss_cache_ttl p),
     fv_cache_ignore_s3_path := ss_cache_ignore_s3_path p\<rparr>"

definition untag_single_step :: "string \<Rightarrow> string \<Rightarrow> single_step \<Rightarrow> untagged" where
  "untag_single_step w email p =
     (let f = single_step_flow w email p in
      (untagged_default KSingleStepFlow)\<lparr>u_runnable_path := Some (ss_path p), u_raw_flow := Some f,
        u_status := Some (flow_status_new f), u_cache_ttl := ss_cache_ttl p,
        u_cache_ignore_s3_path := ss_cache_ignore_s3_path p, u_priority := ss_priority p,
        u_concurrency := ss_concurrency p, u_debouncing := ss_debouncing p\<rparr>)"

definition untag_flow_node :: "env \<Rightarrow> int \<Rightarrow> string \<Rightarrow> db \<Rightarrow> untagged res" where
  "untag_flow_node E i path d =
     rbind (ok_or (NotFound ''flow node'') (d_node d i)) (\<lambda>f.
     Inr ((untagged_default KFlowNode)\<lparr>u_runnable_id := Some i, u_runnable_path := Some path,
       u_raw_flow := (if e_min_1_440 E then None else Some f), u_status := Some (flow_status_new f)\<rparr>))"

definition ttl_of :: "flow_value \<Rightarrow> int option" where
  "ttl_of f = map_option sint (fv_cache_ttl f)"

definition untag_raw_flow ::
  "env \<Rightarrow> string \<Rightarrow> flow_value \<Rightarrow> string option \<Rightarrow> restarted_from option \<Rightarrow> db \<Rightarrow> untagged res" where
  "untag_raw_flow E w value path restarted d =
     (let f = value\<lparr>fv_modules := add_virtual_items_if_necessary (fv_modules value)\<rparr> in
      rbind (case restarted of
               Some r \<Rightarrow>
                 rbind (restarted_flows_resolution w (rf_flow_job_id r) (rf_step_id r)
                          (rf_branch_or_iteration_n r) (rf_flow_version r) d) (\<lambda>x.
                 Inr (f, restarted_status x r))
             | None \<Rightarrow> let f = f\<lparr>fv_preprocessor_module := None\<rparr> in Inr (f, flow_status_new f)) (\<lambda>(f, s).
      Inr ((untagged_default KFlowPreview)\<lparr>u_runnable_path := path, u_status := Some s,
        u_cache_ttl := ttl_of f, u_cache_ignore_s3_path := fv_cache_ignore_s3_path f,
        u_priority := fv_priority f, u_concurrency := fv_concurrency f, u_debouncing := fv_debouncing f,
        u_raw_flow := Some f\<rparr>)))"

definition untag_flow ::
  "env \<Rightarrow> string \<Rightarrow> bool option \<Rightarrow> bool \<Rightarrow> int \<Rightarrow> string list option \<Rightarrow> bool \<Rightarrow> db \<Rightarrow> untagged res" where
  "untag_flow E path dedicated apply_preprocessor version labels same_worker d =
     rbind (if e_disable_flow_script E \<or> \<not> e_min_1_432 E \<and> \<not> e_cloud_hosted E
            then ok_or (NotFound ''flow version'') (d_version d version)
            else fetch_version d version) (\<lambda>f0.
     let f = (if apply_preprocessor then f0 else f0\<lparr>fv_preprocessor_module := None\<rparr>);
         raw = f\<lparr>fv_modules := add_virtual_items_if_necessary (fv_modules f),
                 fv_same_worker := (fv_same_worker f \<or> same_worker)\<rparr> in
     Inr ((untagged_default KFlow)\<lparr>u_runnable_id := Some version, u_runnable_path := Some path,
       u_raw_flow := (if e_min_1_440 E then None else Some raw), u_status := Some (flow_status_new f),
       u_cache_ttl := ttl_of f0, u_cache_ignore_s3_path := fv_cache_ignore_s3_path f0,
       u_dedicated_worker := dedicated, u_priority := fv_priority f0,
       u_concurrency := (if apply_preprocessor then (fv_concurrency f0)\<lparr>concurrent_limit := None\<rparr>
                         else fv_concurrency f0),
       u_debouncing := (if apply_preprocessor then (fv_debouncing f0)\<lparr>debounce_delay_s := None\<rparr>
                        else fv_debouncing f0),
       u_labels := labels, u_preprocessed := (if apply_preprocessor then Some False else None),
       u_reset_tag := apply_preprocessor\<rparr>))"

definition untag_restarted ::
  "env \<Rightarrow> string \<Rightarrow> uuid \<Rightarrow> string \<Rightarrow> nat option \<Rightarrow> int option \<Rightarrow> db \<Rightarrow> untagged res" where
  "untag_restarted E w completed step n version d =
     rbind (restarted_flows_resolution w completed step n version d) (\<lambda>r.
     let f = rr_flow r;
         fr = \<lparr>rf_flow_job_id = completed, rf_step_id = step, rf_branch_or_iteration_n = n, rf_flow_version = version\<rparr> in
     Inr ((untagged_default KFlow)\<lparr>u_runnable_id := rr_version r, u_runnable_path := rr_path r,
       u_raw_flow := (if rr_version r = None \<or> \<not> e_min_1_440 E then Some f else None),
       u_status := Some (restarted_status r fr), u_cache_ttl := ttl_of f,
       u_cache_ignore_s3_path := fv_cache_ignore_s3_path f, u_priority := fv_priority f,
       u_concurrency := fv_concurrency f, u_debouncing := fv_debouncing f\<rparr>))"

section \<open>The payload of a job\<close>

text \<open>
  The \<open>match\<close> on the payload. A script of the hub that reports to Slack runs under the
  notification user: the last two components are the user and the e-mail to run as.
\<close>

definition slack_reports :: "string list" where
  "slack_reports = [''hub/7771/slack'', ''hub/7836/slack'', ''hub/9084/slack'']"

definition superadmin_notification :: string where
  "superadmin_notification = ''superadmin_notification@windmill.dev''"

definition untag_payload :: "env \<Rightarrow> string \<Rightarrow> string \<Rightarrow> bool \<Rightarrow> job_payload \<Rightarrow> db \<Rightarrow> untagged res" where
  "untag_payload E w email same_worker p d =
     (case p of
        PScriptHash x \<Rightarrow> Inr (untag_script x)
      | PFlowScript x \<Rightarrow> Inr (untag_flow_script x)
      | PFlowNode i path \<Rightarrow> untag_flow_node E i path d
      | PAppScript i path lang ttl \<Rightarrow>
          Inr ((untagged_default KAppScript)\<lparr>u_runnable_id := Some i, u_runnable_path := path,
            u_language := Some lang, u_cache_ttl := ttl\<rparr>)
      | PScriptHub path pre \<Rightarrow>
          rbind (e_hub E path) (\<lambda>(lang, _).
          Inr ((untagged_default KScriptHub)\<lparr>u_runnable_path := Some path, u_language := Some lang,
            u_preprocessed := (if pre then Some False else None)\<rparr>))
      | PCode x \<Rightarrow> Inr (untag_code x)
      | PDependencies path hash lang dedicated deb \<Rightarrow>
          Inr ((untagged_default KDependencies)\<lparr>u_runnable_id := Some hash, u_runnable_path := Some path,
            u_language := Some lang, u_dedicated_worker := dedicated, u_debouncing := deb\<rparr>)
      | PRawScriptDependencies path content lang \<Rightarrow>
          Inr ((untagged_default KDependencies)\<lparr>u_runnable_path := Some path,
            u_raw_code := Some (content, None), u_language := Some lang\<rparr>)
      | PRawFlowDependencies path f \<Rightarrow>
          Inr ((untagged_default KFlowDependencies)\<lparr>u_runnable_path := Some path, u_raw_flow := Some f\<rparr>)
      | PFlowDependencies path dedicated version deb \<Rightarrow>
          rbind (if e_min_1_440 E then Inr None
                 else rbind (ok_or (NotFound ''flow version'') (d_version d version)) (\<lambda>f. Inr (Some f))) (\<lambda>raw.
          Inr ((untagged_default KFlowDependencies)\<lparr>u_runnable_id := Some version, u_runnable_path := Some path,
            u_raw_flow := raw, u_dedicated_worker := dedicated, u_debouncing := deb\<rparr>))
      | PAppDependencies path version deb \<Rightarrow>
          Inr ((untagged_default KAppDependencies)\<lparr>u_runnable_id := Some version, u_runnable_path := Some path,
            u_debouncing := deb\<rparr>)
      | PRawFlow f path restarted \<Rightarrow> untag_raw_flow E w f path restarted d
      | PSingleStepFlow x \<Rightarrow> Inr (untag_single_step w email x)
      | PFlow path dedicated pre version labels \<Rightarrow> untag_flow E path dedicated pre version labels same_worker d
      | PRestartedFlow c step n version \<Rightarrow> untag_restarted E w c step n version d
      | PDeploymentCallback path deb suffix \<Rightarrow>
          Inr ((untagged_default KDeploymentCallback)\<lparr>u_runnable_path := Some path,
            u_concurrency := \<lparr>concurrency_key = Some (deployment_key E w suffix),
              concurrent_limit = Some 1, concurrency_time_window_s = Some 0\<rparr>, u_debouncing := deb\<rparr>)
      | PIdentity \<Rightarrow> Inr (untagged_default KIdentity)
      | PNoop \<Rightarrow> Inr (untagged_default KNoop)
      | PAIAgent path \<Rightarrow> Inr ((untagged_default KAIAgent)\<lparr>u_runnable_path := Some path\<rparr>))"

section \<open>Priority, tag, checks\<close>

text \<open>Priorities exist in the enterprise build only; steps of a flow get at least 0.\<close>

definition final_priority ::
  "env \<Rightarrow> untagged \<Rightarrow> 16 word option \<Rightarrow> string option \<Rightarrow> 16 word option" where
  "final_priority E u override step_id =
     (let p = (if \<not> e_enterprise E \<or> e_cloud_hosted E then None else or_option override (u_priority u)) in
      if step_id \<noteq> None \<and> p = None then Some 0
      else if u_kind u = KDependencies then Some 0 else p)"

definition check_retries :: "env \<Rightarrow> flow_value option \<Rightarrow> unit res" where
  "check_retries E f =
     (case f of
        None \<Rightarrow> Inr ()
      | Some f \<Rightarrow>
          rbind (rcollect (\<lambda>m.
            case fm_retry m of
              None \<Rightarrow> Inr ()
            | Some r \<Rightarrow>
                (case max_interval (e_jitter E) (e_coin E) r of
                   Some n \<Rightarrow> if n > 60 * 60 * 6 then Inl (BadRequest ''retry interval exceeds the maximum'') else Inr ()
                 | None \<Rightarrow> Inr ())) (fv_modules f)) (\<lambda>_. Inr ()))"

definition suffixed :: "string option \<Rightarrow> string \<Rightarrow> string" where
  "suffixed ws t = (case ws of Some x \<Rightarrow> t @ ''-'' @ x | None \<Rightarrow> t)"

definition default_tag :: "job_kind \<Rightarrow> string" where
  "default_tag k =
     (if kind_is_flow k \<or> k = KIdentity \<or> k = KAIAgent then ''flow''
      else if k = KDependencies \<or> k = KFlowDependencies \<or> k = KDeploymentCallback \<or> k = KAppDependencies
      then ''dependency'' else ''deno'')"

definition language_tag :: "job_kind \<Rightarrow> script_lang \<Rightarrow> string" where
  "language_tag k l =
     (if l = Bunnative then (if k = KDependencies then as_str Bun else as_str Nativets) else as_str l)"

definition job_tag :: "env \<Rightarrow> string \<Rightarrow> untagged \<Rightarrow> args \<Rightarrow> args option \<Rightarrow> string option \<Rightarrow> string" where
  "job_tag E w u a extra tag =
     (if u_dedicated_worker u = Some True
      then e_dedicated_tag E w ((if u_kind u = KFlow \<or> u_kind u = KFlowDependencies then ''flow/'' else []) @
             unwrap_or [] (u_runnable_path u))
      else
        case (if tag = Some [] then None else tag) of
          Some t \<Rightarrow> interpolate_args E t a extra w
        | None \<Rightarrow>
            suffixed (e_workspace_tag E w)
              (if kind_is_preview (u_kind u) \<and> e_preview_tags E then ''preview''
               else case u_language u of Some l \<Rightarrow> language_tag (u_kind u) l | None \<Rightarrow> default_tag (u_kind u)))"

section \<open>Push\<close>

record push_req =
  pr_workspace :: string
  pr_payload :: job_payload
  pr_args :: args
  pr_user :: string
  pr_email :: string
  pr_permissioned_as :: string
  pr_scheduled_for :: "int option"
  pr_schedule :: "string option"
  pr_parent :: "uuid option"
  pr_root :: "uuid option"
  pr_innermost :: "uuid option"
  pr_job_id :: "uuid option"
  pr_same_worker :: bool
  pr_pre_run_error :: "wm_error option"
  pr_tag :: "string option"
  pr_timeout :: "int option"
  pr_step_id :: "string option"
  pr_priority :: "16 word option"
  pr_running :: bool
  pr_suspended_mode :: "bool option"

definition push_extra :: "job_payload \<Rightarrow> args option" where
  "push_extra p =
     (case p of
        PCode x \<Rightarrow> map_option (\<lambda>v. [(''_MODULES'', v)]) (rw_modules x)
      | _ \<Rightarrow> None)"

text \<open>The root is stored only when it cannot be derived: see \<open>get_root_job_id\<close>.\<close>

definition stored_root :: "push_req \<Rightarrow> uuid \<Rightarrow> uuid option" where
  "stored_root r j =
     (if pr_root r \<noteq> None \<and> pr_root r = or_option (or_option (pr_innermost r) (pr_parent r)) (Some j)
      then None else pr_root r)"

definition get_root_job_id :: "mini_job \<Rightarrow> uuid" where
  "get_root_job_id m =
     unwrap_or (mj_id m) (or_option (or_option (jb_root (mj_job m)) (jb_innermost (mj_job m))) (jb_parent (mj_job m)))"

text \<open>A job that is pushed suspended keeps its kind in reserve; only three kinds can be.\<close>

definition unassigned_kind :: "job_kind \<Rightarrow> job_kind option" where
  "unassigned_kind k =
     (case k of KScript \<Rightarrow> Some KUnassignedScript | KFlow \<Rightarrow> Some KUnassignedFlow
      | KSingleStepFlow \<Rightarrow> Some KUnassignedSinglestepFlow | _ \<Rightarrow> None)"

definition push_kind :: "env \<Rightarrow> push_req \<Rightarrow> untagged \<Rightarrow> (job_kind \<times> int option) res" where
  "push_kind E r u =
     (if pr_suspended_mode r = Some True
      then rbind (ok_or (InternalErr ''Cannot suspend job'') (unassigned_kind (u_kind u)))
             (\<lambda>k. Inr (k, Some (e_now E + 30 * 24 * 3600 * 1000000)))
      else Inr (u_kind u, pr_scheduled_for r))"

definition run_as :: "push_req \<Rightarrow> string \<times> string" where
  "run_as r =
     (case pr_payload r of
        PScriptHub path _ \<Rightarrow>
          if path \<in> set slack_reports then (superadmin_notification, superadmin_notification)
          else (pr_permissioned_as r, pr_email r)
      | _ \<Rightarrow> (pr_permissioned_as r, pr_email r))"

definition pick_id :: "env \<Rightarrow> push_req \<Rightarrow> db \<Rightarrow> uuid res" where
  "pick_id E r d =
     (case pr_job_id r of
        None \<Rightarrow> Inr (e_new_id E d)
      | Some j \<Rightarrow> if d_job d j \<noteq> None then Inl (BadRequest ''Job already exists'') else Inr j)"

definition pushed_row :: "env \<Rightarrow> push_req \<Rightarrow> untagged \<Rightarrow> job_kind \<Rightarrow> uuid \<Rightarrow> job_row" where
  "pushed_row E r u k j =
     \<lparr>jb_workspace = pr_workspace r, jb_kind = k, jb_runnable_id = u_runnable_id u,
      jb_runnable_path = u_runnable_path u, jb_parent = pr_parent r, jb_root = stored_root r j,
      jb_innermost = pr_innermost r, jb_step_id = pr_step_id r,
      jb_args = Some (pr_args r @ unwrap_or [] (push_extra (pr_payload r))),
      jb_tag = job_tag E (pr_workspace r) u (pr_args r) (push_extra (pr_payload r))
                 (if u_reset_tag u then None else pr_tag r),
      jb_created_by = pr_user r, jb_permissioned_as = fst (run_as r), jb_email = snd (run_as r),
      jb_same_worker = (pr_same_worker r \<or> (case u_raw_flow u of Some f \<Rightarrow> fv_same_worker f | None \<Rightarrow> False)),
      jb_priority = final_priority E u (pr_priority r) (pr_step_id r),
      jb_schedule = pr_schedule r,
      jb_preprocessed = or_option (u_preprocessed u)
                          (if pr_step_id r = Some ''preprocessor'' then Some False else None),
      jb_concurrent_limit = (if e_settings_v0 E then None else concurrent_limit (u_concurrency u)),
      jb_concurrency_window = (if e_settings_v0 E then None else concurrency_time_window_s (u_concurrency u)),
      jb_cache_ttl = u_cache_ttl u, jb_labels = unwrap_or [] (u_labels u), jb_lang = u_language u,
      jb_timeout = pr_timeout r, jb_pre_run_error = map_option (e_show_err E) (pr_pre_run_error r),
      jb_raw_code = u_raw_code u, jb_raw_flow = u_raw_flow u\<rparr>"

definition pushed_queue :: "env \<Rightarrow> push_req \<Rightarrow> untagged \<Rightarrow> int option \<Rightarrow> queue_row" where
  "pushed_queue E r u sched =
     \<lparr>q_running = (pr_same_worker r \<or> pr_running r),
      q_started_at = (if pr_running r then Some (e_now E) else None),
      q_scheduled_for = unwrap_or (e_now E) sched, q_suspend = 0, q_suspend_until = None,
      q_canceled_by = None, q_canceled_reason = None, q_worker = None,
      q_settings = e_settings E (u_debouncing u) (u_concurrency u),
      q_cache_ignore_s3_path = u_cache_ignore_s3_path u\<rparr>"

definition insert_job :: "uuid \<Rightarrow> job_row \<Rightarrow> queue_row \<Rightarrow> flow_status option \<Rightarrow> db \<Rightarrow> db" where
  "insert_job j row q s d = d\<lparr>d_job := (d_job d)(j \<mapsto> row), d_queue := (d_queue d)(j \<mapsto> q),
     d_ping := (d_ping d)(j := None),
     d_status := (case s of Some s \<Rightarrow> (d_status d)(j \<mapsto> s) | None \<Rightarrow> d_status d)\<rparr>"

text \<open>
  \<open>push_inner\<close>. The insertion of an id that exists violates the primary key of \<open>v2_job\<close>. (The
  table of permissions and the audit log are not part of the database of the model.)
\<close>

definition push :: "env \<Rightarrow> push_req \<Rightarrow> uuid act" where
  "push E r =
     abind (reads (untag_payload E (pr_workspace r) (pr_email r) (pr_same_worker r) (pr_payload r))) (\<lambda>u.
     abind (lift_res (check_retries E (u_raw_flow u))) (\<lambda>_.
     abind (reads (pick_id E r)) (\<lambda>j.
     abind (aif (concurrent_limit (u_concurrency u) \<noteq> None)
              (modify (insert_concurrency_key E (pr_workspace r) (pr_args r) (u_runnable_path u) (u_kind u)
                 (concurrency_key (u_concurrency u)) j))) (\<lambda>_.
     abind (lift_res (e_authed E (fst (run_as r)) (snd (run_as r)) (pr_workspace r))) (\<lambda>_.
     abind (lift_res (push_kind E r u)) (\<lambda>(k, sched).
     abind (reads (\<lambda>d. if d_job d j = None then Inr () else Inl (SqlErr ''duplicate key''))) (\<lambda>_.
     abind (modify (insert_job j (pushed_row E r u k j) (pushed_queue E r u sched) (u_status u))) (\<lambda>_.
     ret j))))))))"

section \<open>What a push promises\<close>

text \<open>The interface of the queue for those who push: a new job, linked as asked, and no other change.\<close>

locale job_queue =
  fixes push_job :: "push_req \<Rightarrow> uuid act"
  assumes push_new: "push_job r d = (Inr j, d') \<Longrightarrow> d_job d j = None"
    and push_row: "push_job r d = (Inr j, d') \<Longrightarrow>
      \<exists>row. d_job d' = (d_job d)(j \<mapsto> row) \<and> jb_parent row = pr_parent r \<and>
            jb_step_id row = pr_step_id r \<and> jb_workspace row = pr_workspace r \<and> jb_innermost row = pr_innermost r"
    and push_queued: "push_job r d = (Inr j, d') \<Longrightarrow> \<exists>q. d_queue d' = (d_queue d)(j \<mapsto> q) \<and> q_suspend q = 0 \<and>
            q_canceled_by q = None"
    and push_status: "push_job r d = (Inr j, d') \<Longrightarrow> i \<noteq> j \<Longrightarrow> d_status d' i = d_status d i"
    and push_completed: "push_job r d = (Inr j, d') \<Longrightarrow> d_completed d' = d_completed d"
    and push_wac: "push_job r d = (Inr j, d') \<Longrightarrow> d_wac d' = d_wac d"
    and push_named: "push_job r d = (Inr j, d') \<Longrightarrow> pr_job_id r = Some i \<Longrightarrow> j = i"
begin

lemma push_keeps_row:
  assumes "push_job r d = (Inr j, d')" and "d_job d i = Some row"
  shows "d_job d' i = Some row \<and> i \<noteq> j"
proof -
  obtain row' where "d_job d' = (d_job d)(j \<mapsto> row')" using push_row [OF assms(1)] by blast
  moreover have "i \<noteq> j" using push_new [OF assms(1)] assms(2) by auto
  ultimately show ?thesis using assms(2) by simp
qed

lemma push_keeps_queue:
  assumes "push_job r d = (Inr j, d')" and "i \<noteq> j"
  shows "d_queue d' i = d_queue d i"
proof -
  obtain q where "d_queue d' = (d_queue d)(j \<mapsto> q)" using push_queued [OF assms(1)] by blast
  with assms(2) show ?thesis by simp
qed

end

lemma insert_concurrency_key_frame [simp]:
  "d_job (insert_concurrency_key E w a p k c j d) = d_job d"
  "d_queue (insert_concurrency_key E w a p k c j d) = d_queue d"
  "d_status (insert_concurrency_key E w a p k c j d) = d_status d"
  "d_completed (insert_concurrency_key E w a p k c j d) = d_completed d"
  "d_itered (insert_concurrency_key E w a p k c j d) = d_itered d"
  "d_wac (insert_concurrency_key E w a p k c j d) = d_wac d"
  by (simp_all add: insert_concurrency_key_def Let_def)

lemma push_Inr:
  assumes "push E r d = (Inr j, d')"
  obtains u k sched d1 where "untag_payload E (pr_workspace r) (pr_email r) (pr_same_worker r) (pr_payload r) d = Inr u"
    and "d_job d j = None"
    and "d_job d1 = d_job d" "d_queue d1 = d_queue d" "d_status d1 = d_status d" "d_completed d1 = d_completed d"
      "d_itered d1 = d_itered d" "d_wac d1 = d_wac d" and "pick_id E r d = Inr j"
    and "push_kind E r u = Inr (k, sched)"
    and "d' = insert_job j (pushed_row E r u k j) (pushed_queue E r u sched) (u_status u) d1"
proof -
  from assms obtain u d1 k sched where
    u: "untag_payload E (pr_workspace r) (pr_email r) (pr_same_worker r) (pr_payload r) d = Inr u"
    and d1: "aif (concurrent_limit (u_concurrency u) \<noteq> None)
              (modify (insert_concurrency_key E (pr_workspace r) (pr_args r) (u_runnable_path u) (u_kind u)
                 (concurrency_key (u_concurrency u)) j)) d = (Inr (), d1)"
    and k: "push_kind E r u = Inr (k, sched)" and new: "d_job d1 j = None" and id: "pick_id E r d = Inr j"
    and d': "d' = insert_job j (pushed_row E r u k j) (pushed_queue E r u sched) (u_status u) d1"
    by (auto simp: push_def act_iffs split: if_splits)
  have "d_job d1 = d_job d" "d_queue d1 = d_queue d" "d_status d1 = d_status d" "d_completed d1 = d_completed d"
    "d_itered d1 = d_itered d" "d_wac d1 = d_wac d"
    using d1 by (auto simp: aif_def act_iffs split: if_splits)
  with u k new id d' show thesis by (intro that) auto
qed

interpretation queue: job_queue "push E" for E
proof
  fix r d j d' i
  assume push: "push E r d = (Inr j, d')"
  obtain u k sched d1 where new: "d_job d j = None" and d: "d_job d1 = d_job d" "d_queue d1 = d_queue d"
      "d_status d1 = d_status d" "d_completed d1 = d_completed d" "d_wac d1 = d_wac d" and id: "pick_id E r d = Inr j"
    and d': "d' = insert_job j (pushed_row E r u k j) (pushed_queue E r u sched) (u_status u) d1"
    by (rule push_Inr [OF push], rule that)
  show "d_job d j = None" by (rule new)
  show "\<exists>row. d_job d' = (d_job d)(j \<mapsto> row) \<and> jb_parent row = pr_parent r \<and>
            jb_step_id row = pr_step_id r \<and> jb_workspace row = pr_workspace r \<and> jb_innermost row = pr_innermost r"
    by (intro exI [of _ "pushed_row E r u k j"]) (simp add: d' d insert_job_def pushed_row_def)
  show "\<exists>q. d_queue d' = (d_queue d)(j \<mapsto> q) \<and> q_suspend q = 0 \<and> q_canceled_by q = None"
    by (intro exI [of _ "pushed_queue E r u sched"]) (simp add: d' d insert_job_def pushed_queue_def)
  show "d_completed d' = d_completed d" by (simp add: d' d insert_job_def)
  show "d_wac d' = d_wac d" by (simp add: d' d insert_job_def)
  show "pr_job_id r = Some i \<Longrightarrow> j = i" using id by (simp add: pick_id_def split: if_splits option.splits)
  show "i \<noteq> j \<Longrightarrow> d_status d' i = d_status d i"
    by (simp add: d' d insert_job_def split: option.splits)
qed

section \<open>Properties\<close>

text \<open>
  C12: The root of a flow run survives the way it is stored. \<open>push\<close> leaves the column \<open>root_job\<close>
  empty when the root can be derived from the innermost root, the parent or the job itself;
  \<open>get_root_job_id\<close> on the pushed job gives back the root the caller asked for, and without
  one the innermost root, the parent, or the job itself.
\<close>

theorem pushed_root_recovered:
  assumes "push E r d = (Inr j, d')"
  shows "\<exists>m. get_mini_pulled_job j d' = Some m \<and>
    get_root_job_id m = unwrap_or (unwrap_or j (or_option (pr_innermost r) (pr_parent r))) (pr_root r)"
proof -
  obtain u k sched d1 where "d' = insert_job j (pushed_row E r u k j) (pushed_queue E r u sched) (u_status u) d1"
    by (rule push_Inr [OF assms], rule that)
  then obtain m where "get_mini_pulled_job j d' = Some m" "mj_id m = j" "mj_job m = pushed_row E r u k j"
    by (simp add: get_mini_pulled_job_def insert_job_def)
  then show ?thesis
    by (auto simp: get_root_job_id_def pushed_row_def stored_root_def or_option_def split: option.splits)
qed

definition pushed_identity :: "uuid res \<times> db" where
  "pushed_identity = push plain_env
     \<lparr>pr_workspace = ''w'', pr_payload = PIdentity, pr_args = [], pr_user = ''u'', pr_email = ''e'',
      pr_permissioned_as = ''u/u'', pr_scheduled_for = None, pr_schedule = None, pr_parent = Some 7,
      pr_root = Some 7, pr_innermost = None, pr_job_id = None, pr_same_worker = False,
      pr_pre_run_error = None, pr_tag = None, pr_timeout = None, pr_step_id = Some ''a'', pr_priority = None,
      pr_running = False, pr_suspended_mode = None\<rparr> empty_db"

theorem pushed_root_recovered_witness:
  "\<exists>j m. get_mini_pulled_job j (snd pushed_identity) = Some m \<and> get_root_job_id m = 7"
proof -
  have "case fst pushed_identity of Inr _ \<Rightarrow> True | Inl _ \<Rightarrow> False" by code_simp
  then obtain j where "fst pushed_identity = Inr j" by (auto split: sum.splits)
  then have "pushed_identity = (Inr j, snd pushed_identity)" by (simp add: prod_eq_iff)
  from pushed_root_recovered [OF this [unfolded pushed_identity_def], folded pushed_identity_def]
  show ?thesis by auto
qed

lemma restart_same_dependent:
  assumes "restart_same defs step n True ms = Inr (b, k, xs)"
    and "\<forall>m \<in> set ms. fsm_id m \<noteq> step" and "\<forall>m \<in> set ms. \<exists>x \<in> set defs. fm_id x = fsm_id m"
  shows "b \<and> k = 0 \<and> xs = map (\<lambda>m. WaitingForPriorSteps (fsm_id m)) ms"
  using assms
proof (induction ms arbitrary: b k xs)
  case (Cons m ms)
  then obtain def where "find (\<lambda>x. fm_id x = fsm_id m) defs = Some def"
    by (cases "find (\<lambda>x. fm_id x = fsm_id m) defs") (auto simp: find_None_iff)
  with Cons show ?case by (fastforce simp: result_simps)
qed simp

lemma restart_same_prefix:
  assumes "restart_same defs step n False ms = Inr (True, k, xs)"
    and "distinct (map fsm_id ms)" and "\<forall>m \<in> set ms. \<exists>x \<in> set defs. fm_id x = fsm_id m"
  shows "k < length ms \<and> fsm_id (ms ! k) = step \<and> (\<forall>m \<in> set (take k ms). is_success m) \<and>
    (\<exists>m' def. restart_at (Some (ms ! k)) def step n = Inr m' \<and>
       xs = take k ms @ m' # map (\<lambda>m. WaitingForPriorSteps (fsm_id m)) (drop (Suc k) ms))"
  using assms
proof (induction ms arbitrary: k xs)
  case (Cons m ms)
  then obtain def where def: "find (\<lambda>x. fm_id x = fsm_id m) defs = Some def"
    by (cases "find (\<lambda>x. fm_id x = fsm_id m) defs") (auto simp: find_None_iff)
  show ?case
  proof (cases "fsm_id m = step")
    case True
    with Cons.prems def obtain m' ys where "restart_at (Some m) def (fsm_id m) n = Inr m'"
      "restart_same defs step n True ms = Inr (True, k, ys)" "xs = m' # ys"
      by (auto simp: result_simps)
    moreover from this(2) Cons.prems True
    have "k = 0 \<and> ys = map (\<lambda>m. WaitingForPriorSteps (fsm_id m)) ms"
      using restart_same_dependent [of defs step n ms True k ys] by (force simp: image_iff)
    ultimately show ?thesis using True by auto
  next
    case False
    with Cons.prems def obtain k' ys where "is_success m" "restart_same defs step n False ms = Inr (True, k', ys)"
      "k = Suc k'" "xs = m # ys"
      by (auto simp: result_simps split: if_splits)
    with Cons.IH [of k' ys] Cons.prems show ?thesis by auto
  qed
qed simp

text \<open>
  C11: A flow restarted at a step (from its beginning, and with the version it ran with) starts
  with its step counter at that step; the steps before it keep their status, and all of them
  had succeeded; that step and all later ones wait to be run again.
\<close>

theorem restarted_flow_prefix:
  assumes "restarted_flows_resolution w completed step None None d = Inr r"
    and "d_completed d completed = Some c" and "co_flow_status c = Some s"
    and "distinct (map fsm_id (fs_modules s))"
    and "\<forall>m \<in> set (fs_modules s). \<exists>x \<in> set (fv_modules (rr_flow r)). fm_id x = fsm_id m"
  shows "rr_step r < length (fs_modules s) \<and> fsm_id (fs_modules s ! rr_step r) = step \<and>
    (\<forall>m \<in> set (take (rr_step r) (fs_modules s)). is_success m) \<and>
    rr_modules r = take (rr_step r) (fs_modules s) @
      map (\<lambda>m. WaitingForPriorSteps (fsm_id m)) (drop (rr_step r) (fs_modules s))"
proof -
  have "restart_same (fv_modules (rr_flow r)) step None False (fs_modules s) = Inr (True, rr_step r, rr_modules r)"
    using assms(1-3) by (auto simp: restarted_flows_resolution_def result_simps split: option.splits if_splits)
  note * = restart_same_prefix [OF this assms(4,5)]
  then obtain m' where "m' = WaitingForPriorSteps step"
    "rr_modules r = take (rr_step r) (fs_modules s) @ m' #
       map (\<lambda>m. WaitingForPriorSteps (fsm_id m)) (drop (Suc (rr_step r)) (fs_modules s))"
    by (auto simp: restart_at_def)
  moreover have "drop (rr_step r) (fs_modules s) = fs_modules s ! rr_step r # drop (Suc (rr_step r)) (fs_modules s)"
    using * by (simp add: Cons_nth_drop_Suc)
  ultimately show ?thesis using * by simp
qed

definition ended_status :: flow_status where
  "ended_status = (flow_status_new flow_value_default)\<lparr>fs_modules :=
     [Success ''a'' 2 no_jobs [] [] False, Failure ''b'' 3 no_jobs []]\<rparr>"

definition ended_db :: db where
  "ended_db = empty_db\<lparr>
     d_job := [1 \<mapsto> (plain_job None)\<lparr>jb_raw_flow := Some (flow_value_default\<lparr>fv_modules :=
       [script_module ''a'' [] ''p'' None None, script_module ''b'' [] ''p'' None None]\<rparr>)\<rparr>],
     d_completed := [1 \<mapsto> \<lparr>co_workspace = ''w'', co_status = StFailure, co_result = None, co_started_at = None,
       co_duration = 0, co_canceled_by = None, co_canceled_reason = None, co_flow_status = Some ended_status,
       co_wac = None\<rparr>]\<rparr>"

theorem restarted_flow_prefix_witness:
  "\<exists>r. restarted_flows_resolution ''w'' 1 ''b'' None None ended_db = Inr r \<and> rr_step r = 1 \<and>
       rr_modules r = [Success ''a'' 2 no_jobs [] [] False, WaitingForPriorSteps ''b'']"
proof -
  have "case restarted_flows_resolution ''w'' 1 ''b'' None None ended_db of
          Inr r \<Rightarrow> map (\<lambda>m. fm_id m) (fv_modules (rr_flow r)) = [''a'', ''b''] | Inl _ \<Rightarrow> False"
    by code_simp
  then obtain r where r: "restarted_flows_resolution ''w'' 1 ''b'' None None ended_db = Inr r"
    and ids: "map (\<lambda>m. fm_id m) (fv_modules (rr_flow r)) = [''a'', ''b'']"
    by (auto split: sum.splits)
  have "\<forall>m \<in> set (fs_modules ended_status). \<exists>x \<in> set (fv_modules (rr_flow r)). fm_id x = fsm_id m"
  proof -
    have ex: "\<exists>x \<in> set (fv_modules (rr_flow r)). fm_id x = i" if "i \<in> set [''a'', ''b'']" for i
      using that unfolding ids [symmetric] set_map by blast
    have "set (map fsm_id (fs_modules ended_status)) = set [''a'', ''b'']"
      by (simp add: ended_status_def)
    then show ?thesis using ex by (metis (no_types, lifting) image_eqI set_map)
  qed
  then have "rr_step r < 2 \<and> fsm_id (fs_modules ended_status ! rr_step r) = ''b'' \<and>
      rr_modules r = take (rr_step r) (fs_modules ended_status) @
        map (\<lambda>m. WaitingForPriorSteps (fsm_id m)) (drop (rr_step r) (fs_modules ended_status))"
    using restarted_flow_prefix [OF r, of _ ended_status] by (simp add: ended_db_def ended_status_def)
  moreover from this have "rr_step r = 1"
    by (cases "rr_step r") (auto simp: ended_status_def less_Suc_eq)
  ultimately show ?thesis using r by (auto simp: ended_status_def)
qed

end
