(* ===== verification/Completed.thy ===== *)
theory Completed
  imports Push
begin

text \<open>
  What follows the completion of a job: the next run of a perpetual script
  (\<open>windmill-queue/src/jobs.rs\<close>, \<open>add_completed_job\<close>), and the report of a child to the
  workflow-as-code job that dispatched it (\<open>handle_wac_child_completion\<close> of
  \<open>windmill-worker/src/result_processor.rs\<close>).
\<close>

section \<open>Perpetual scripts\<close>

text \<open>At most one run every ten seconds: a faster job starts ten seconds after the last start.\<close>

definition perpetual_start :: "env \<Rightarrow> mini_job \<Rightarrow> int option" where
  "perpetual_start E j =
     (let started = unwrap_or (e_now E) (q_started_at (mj_q j)) in
      if (e_now E - started) div 1000000 < 10 then Some (started + 10 * 1000000) else None)"

definition perpetual_request :: "env \<Rightarrow> mini_job \<Rightarrow> int \<Rightarrow> db \<Rightarrow> push_req" where
  "perpetual_request E j hash d =
     (let r = mj_job j in
      \<lparr>pr_workspace = jb_workspace r,
       pr_payload = PScriptHash \<lparr>sp_hash = hash, sp_path = unwrap_or [] (jb_runnable_path r), sp_cache_ttl = jb_cache_ttl r,
         sp_cache_ignore_s3_path = q_cache_ignore_s3_path (mj_q j), sp_dedicated_worker = None,
         sp_language = unwrap_or Deno (jb_lang r), sp_priority = jb_priority r, sp_apply_preprocessor = False,
         sp_concurrency = concurrency_default\<lparr>concurrency_key := map_option fst (find (\<lambda>(k, i, t). i = mj_id j) (d_ckey d))\<rparr>,
         sp_debouncing = debouncing_default, sp_labels = None\<rparr>,
       pr_args = unwrap_or [] (Option.bind (d_job d (mj_id j)) (\<lambda>r'. if jb_workspace r' = jb_workspace r then jb_args r' else None)),
       pr_user = jb_created_by r, pr_email = jb_email r, pr_permissioned_as = jb_permissioned_as r,
       pr_scheduled_for = perpetual_start E j, pr_schedule = jb_schedule r, pr_parent = None, pr_root = None, pr_innermost = None,
       pr_job_id = None, pr_same_worker = False, pr_pre_run_error = None, pr_tag = Some (jb_tag r), pr_timeout = None,
       pr_step_id = None, pr_priority = jb_priority r, pr_running = False, pr_suspended_mode = None\<rparr>)"

definition restart_job_if_perpetual :: "env \<Rightarrow> mini_job \<Rightarrow> (string option \<times> string option) option \<Rightarrow> unit act" where
  "restart_job_if_perpetual E j canceled_by =
     (case (is_flow_step j, jb_kind (mj_job j), canceled_by, jb_runnable_id (mj_job j)) of
        (False, KScript, None, Some hash) \<Rightarrow>
          abind (gets (\<lambda>d. Option.bind (d_script d (jb_workspace (mj_job j), hash)) sc_restart_unless_cancelled = Some True)) (\<lambda>restart.
          aif restart
            (abind (gets (perpetual_request E j hash)) (\<lambda>r.
             abind (transaction (push E r)) (\<lambda>_. ret ()))))
      | _ \<Rightarrow> ret ())"

text \<open>
  \<open>add_completed_job\<close> (in a build without the features \<open>cloud\<close> and \<open>private\<close>): the transaction,
  which a repetition cannot change when it fails for a reason that is not transient, and the
  restart of perpetual scripts.
\<close>

definition add_completed_output ::
  "env \<Rightarrow> mini_job \<Rightarrow> bool \<Rightarrow> bool \<Rightarrow> job_output \<Rightarrow> (string option \<times> string option) option \<Rightarrow> int option \<Rightarrow> bool \<Rightarrow>
   (int \<times> json option) act" where
  "add_completed_output E j success skipped out canceled_by dur from_cache =
     abind (commit_completed_job E j success skipped out canceled_by dur from_cache) (\<lambda>r.
     abind (restart_job_if_perpetual E j canceled_by) (\<lambda>_. ret r))"

definition add_completed_job ::
  "env \<Rightarrow> mini_job \<Rightarrow> bool \<Rightarrow> bool \<Rightarrow> json \<Rightarrow> (string option \<times> string option) option \<Rightarrow> int option \<Rightarrow> bool \<Rightarrow>
   (int \<times> json option) act" where
  "add_completed_job E j success skipped result = add_completed_output E j success skipped (Output result)"

definition add_completed_job_error ::
  "env \<Rightarrow> mini_job \<Rightarrow> (string option \<times> string option) option \<Rightarrow> json \<Rightarrow> json act" where
  "add_completed_job_error E j canceled_by e =
     abind (add_completed_output E j False False (WrappedError e) canceled_by None False) (\<lambda>_.
     ret (output_json (WrappedError e)))"

section \<open>A child of a workflow-as-code job has ended\<close>

text \<open>
  \<open>get_mini_completed_job\<close> joins the queue from the left: a job that is not queued has none of
  its columns.
\<close>

definition no_queue_row :: queue_row where
  "no_queue_row = \<lparr>q_running = False, q_started_at = None, q_scheduled_for = 0, q_suspend = 0, q_suspend_until = None,
     q_canceled_by = None, q_canceled_reason = None, q_worker = None, q_settings = None, q_cache_ignore_s3_path = None\<rparr>"

definition get_mini_completed_job :: "uuid \<Rightarrow> string \<Rightarrow> db \<Rightarrow> mini_job option" where
  "get_mini_completed_job j w d =
     (case d_job d j of
        Some r \<Rightarrow>
          if jb_workspace r = w
          then Some \<lparr>mj_id = j, mj_job = r, mj_q = unwrap_or no_queue_row (d_queue d j), mj_status = None\<rparr> else None
      | None \<Rightarrow> None)"

definition find_step_key :: "env \<Rightarrow> uuid \<Rightarrow> fields \<Rightarrow> string option" where
  "find_step_key E child ids = map_option fst (find (\<lambda>(k, v). v = JStr (show_uuid (e_text E) child)) ids)"

text \<open>\<open>a || jsonb_build_object(k, v)\<close>, and the update of \<open>{_checkpoint,completed_steps}\<close> with it.\<close>

fun concat_entry :: "json \<Rightarrow> string \<Rightarrow> json \<Rightarrow> json" where
  "concat_entry (JObj fs) k v = JObj (insert_field k v fs)"
| "concat_entry (JArr xs) k v = JArr (xs @ [JObj [(k, v)]])"
| "concat_entry x k v = JArr [x, JObj [(k, v)]]"

definition merge_completed_step :: "string \<Rightarrow> json \<Rightarrow> fields \<Rightarrow> fields res" where
  "merge_completed_step k v fs =
     (case get_field ''_checkpoint'' fs of
        Some (JObj c) \<Rightarrow>
          Inr (insert_field ''_checkpoint'' (JObj (insert_field ''completed_steps''
            (concat_entry (unwrap_or (JObj []) (get_field ''completed_steps'' c)) k v) c)) fs)
      | Some (JArr _) \<Rightarrow> Inl (SqlErr ''path element is not an integer'')
      | _ \<Rightarrow> Inr fs)"

definition remove_field :: "string \<Rightarrow> fields \<Rightarrow> fields" where
  "remove_field k fs = filter (\<lambda>(k', v). k' \<noteq> k) fs"

definition clear_pending_steps :: "fields \<Rightarrow> fields" where
  "clear_pending_steps fs =
     (case get_field ''_checkpoint'' fs of
        Some (JObj c) \<Rightarrow> insert_field ''_checkpoint'' (JObj (remove_field ''pending_steps'' c)) fs
      | _ \<Rightarrow> fs)"

definition update_wac :: "uuid \<Rightarrow> (fields \<Rightarrow> fields) \<Rightarrow> db \<Rightarrow> db" where
  "update_wac j f d = d\<lparr>d_wac := (d_wac d)(j := map_option f (d_wac d j))\<rparr>"

definition store_completed_step :: "uuid \<Rightarrow> string \<Rightarrow> json \<Rightarrow> unit act" where
  "store_completed_step p k v d =
     (case d_wac d p of
        None \<Rightarrow> (Inr (), d)
      | Some fs \<Rightarrow> (case merge_completed_step k v fs of
                      Inl e \<Rightarrow> (Inl e, d)
                    | Inr fs' \<Rightarrow> (Inr (), d\<lparr>d_wac := (d_wac d)(p \<mapsto> fs')\<rparr>)))"

definition decrement_suspend :: "uuid \<Rightarrow> db \<Rightarrow> db" where
  "decrement_suspend p = update_queue p (\<lambda>q. q\<lparr>q_suspend := max (q_suspend q - 1) 0\<rparr>)"

definition step_value :: "env \<Rightarrow> string \<Rightarrow> uuid \<Rightarrow> json \<Rightarrow> bool \<Rightarrow> json" where
  "step_value E k child result success =
     (if success then result
      else JObj [(''__wmill_error'', JBool True),
        (''message'', JStr (''WAC task '' @ [CHR 0x27] @ k @ [CHR 0x27] @ '' failed (child job '' @ show_uuid (e_text E) child @ '')'')),
        (''child_job_id'', JStr (show_uuid (e_text E) child)), (''step_key'', JStr k), (''result'', result)])"

text \<open>The transaction: the result joins the checkpoint and the parent waits for one child less.\<close>

definition record_child :: "uuid \<Rightarrow> string \<Rightarrow> json \<Rightarrow> unit act" where
  "record_child p k v =
     transaction
       (abind (store_completed_step p k v) (\<lambda>_.
        abind (modify (decrement_suspend p)) (\<lambda>_.
        abind (gets (\<lambda>d. map_option q_suspend (d_queue d p) = Some 0)) (\<lambda>all_done.
        aif all_done (modify (update_wac p clear_pending_steps))))))"

definition fail_wac_parent :: "env \<Rightarrow> uuid \<Rightarrow> uuid \<Rightarrow> string \<Rightarrow> json \<Rightarrow> unit act" where
  "fail_wac_parent E child p w result =
     abind (modify (update_queue p (\<lambda>q. q\<lparr>q_suspend := 0, q_suspend_until := None\<rparr>))) (\<lambda>_.
     abind (gets (get_mini_completed_job p w)) (\<lambda>m.
     case m of
       None \<Rightarrow> ret ()
     | Some m \<Rightarrow>
         abind (attempt (add_completed_job_error E m None
           (JObj [(''message'', JStr (''WAC child job '' @ show_uuid (e_text E) child @ '' failed (no step key)'')),
                  (''error'', result)]))) (\<lambda>_. ret ())))"

definition handle_wac_child_completion ::
  "env \<Rightarrow> uuid \<Rightarrow> uuid \<Rightarrow> string \<Rightarrow> json \<Rightarrow> bool \<Rightarrow> json \<Rightarrow> bool act" where
  "handle_wac_child_completion E child p w result success job_ids =
     (case job_ids of
        JObj ids \<Rightarrow>
          (case find_step_key E child ids of
             None \<Rightarrow> abind (if success then modify (decrement_suspend p) else fail_wac_parent E child p w result) (\<lambda>_. ret True)
           | Some k \<Rightarrow> abind (record_child p k (step_value E k child result success)) (\<lambda>_. ret True))
      | _ \<Rightarrow> ret False)"

definition report_to_wac_parent :: "env \<Rightarrow> mini_job \<Rightarrow> json \<Rightarrow> bool \<Rightarrow> json option \<Rightarrow> unit act" where
  "report_to_wac_parent E j result success job_ids =
     (case (is_flow_step j, jb_parent (mj_job j), job_ids) of
        (False, Some p, Some ids) \<Rightarrow>
          abind (attempt (handle_wac_child_completion E (mj_id j) p (jb_workspace (mj_job j)) result success ids)) (\<lambda>_. ret ())
      | _ \<Rightarrow> ret ())"

end
