(* ===== verification/FlowCompletion.thy ===== *)
theory FlowCompletion
  imports Completed
begin

text \<open>
  What happens to a flow when the job of one of its steps ends:
  \<open>update_flow_status_after_job_completion_internal\<close> of \<open>windmill-worker/src/worker_flow.rs\<close>.
  The worker reads the status of the flow without a lock, decides on that snapshot, and
  writes within a transaction; for parallel modules the write is an atomic increment of the
  row as it is then. The definitions follow the code's blocks: they take the snapshot
  \<open>old\<close> as an argument and act on the database as it is when they run.
\<close>

section \<open>Requests, expressions\<close>

record completion =
  c_flow :: uuid
  c_job :: uuid \<comment> \<open>\<open>job_id_for_status\<close>\<close>
  c_success :: bool
  c_result :: json
  c_canceled_by :: "(string option \<times> string option) option"
  c_duration :: "flow_job_duration option"
  c_stop_early_override :: "bool option"
  c_error_handler :: bool \<comment> \<open>\<open>has_triggered_error_handler\<close>\<close>

datatype update_result =
    Rec completion
  | Done mini_job
  | NotDone
  | NonLastParallelBranch
  | PreprocessingDone

definition get_transform_context :: "uuid \<Rightarrow> string \<Rightarrow> flow_status \<Rightarrow> id_context" where
  "get_transform_context flow_job previous_id s =
     \<lparr>ic_flow_job = flow_job,
      ic_steps_results = List.map_filter (\<lambda>m. map_option (Pair (fsm_id m)) (job_result m)) (fs_modules s),
      ic_previous_id = previous_id\<rparr>"

definition get_stop_after_if_data :: "stop_after_if option \<Rightarrow> bool \<times> string option" where
  "get_stop_after_if_data s =
     (case s of
        None \<Rightarrow> (False, None)
      | Some s \<Rightarrow>
          if sai_skip_if_stopped s then (True, None)
          else (False, map_option (\<lambda>m. if m = [] then ''stop after if: '' @ sai_expr s else m)
                         (sai_error_message s)))"

definition get_id_ctx_for_expr :: "string \<Rightarrow> uuid \<Rightarrow> flow_status \<Rightarrow> db \<Rightarrow> id_context option" where
  "get_id_ctx_for_expr expr flow s d =
     (if str_contains expr ''results.'' \<or> str_contains expr ''results['' \<or> str_contains expr ''results?.''
      then map_option (\<lambda>j. get_transform_context (mj_id j) [] s) (get_mini_pulled_job flow d)
      else None)"

text \<open>\<open>compute_bool_from_expr\<close>; \<open>resumes\<close> are the resumes, the last of them, and the approvers.\<close>

definition compute_bool_from_expr ::
  "env \<Rightarrow> string \<Rightarrow> args \<Rightarrow> args option \<Rightarrow> json \<Rightarrow> json option \<Rightarrow> id_context option \<Rightarrow>
   (json \<times> json \<times> json) option \<Rightarrow> (string \<times> string) list \<Rightarrow> db \<Rightarrow> bool res" where
  "compute_bool_from_expr E expr flow_args flow_env result all_iters by_id resumes extra d =
     rbind (e_js E (''Boolean('' @ expr @ '')'')
       \<lparr>ec_vars = [(''result'', result)] @
          (case all_iters of Some v \<Rightarrow> [(''all_iters'', v)] | None \<Rightarrow> []) @
          [(''previous_result'', result)] @
          (case resumes of Some (rs, r, as) \<Rightarrow> [(''resume'', r), (''resumes'', rs), (''approvers'', as)]
             | None \<Rightarrow> []),
        ec_args = Some flow_args, ec_env = flow_env, ec_by_id = by_id, ec_extra = extra\<rparr> d)
     (\<lambda>v. case v of JBool b \<Rightarrow> Inr b | _ \<Rightarrow> Inl (ExecutionErr ''Expected a boolean value''))"

text \<open>
  \<open>retrieve_flow_jobs_results\<close>: the results in the order of the jobs; a job that is not
  completed (in this workspace) is an error, one completed without a result gives \<open>null\<close>.
\<close>

definition retrieve_flow_jobs_results :: "string \<Rightarrow> uuid list \<Rightarrow> db \<Rightarrow> json res" where
  "retrieve_flow_jobs_results w jobs d =
     rbind (rcollect (\<lambda>j. case d_completed d j of
         Some c \<Rightarrow> if co_workspace c = w then Inr (unwrap_or JNull (co_result c))
                   else Inl (InternalErr ''missing job result'')
       | None \<Rightarrow> Inl (InternalErr ''missing job result'')) jobs)
     (\<lambda>rs. Inr (JArr rs))"

definition result_has_recover_true :: "json \<Rightarrow> bool" where
  "result_has_recover_true v =
     (case rbind (struct_field1 ''recover'' v) (opt_dec dec_bool) of
        Inr (Some b) \<Rightarrow> b
      | _ \<Rightarrow> False)"

text \<open>
  \<open>evaluate_retry\<close>, with the interval in seconds. Its guard compares \<open>fail_count\<close> with
  \<open>MAX_RETRY_ATTEMPTS\<close>, the largest \<open>u32\<close>.
\<close>

definition MAX_RETRY_ATTEMPTS :: "32 word" where
  "MAX_RETRY_ATTEMPTS = - 1"

definition MAX_RETRY_INTERVAL :: nat where
  "MAX_RETRY_INTERVAL = 60 * 60 * 6"

definition evaluate_retry ::
  "env \<Rightarrow> retry \<Rightarrow> retry_status \<Rightarrow> json \<Rightarrow> args \<Rightarrow> args option \<Rightarrow> db \<Rightarrow> (32 word \<times> nat) option res" where
  "evaluate_retry E r st result flow_args flow_env d =
     (if fail_count st > MAX_RETRY_ATTEMPTS then Inr None
      else
        rbind (case r_retry_if r of
                 None \<Rightarrow> Inr True
               | Some expr \<Rightarrow> compute_bool_from_expr E expr flow_args flow_env result None None None [] d)
        (\<lambda>should_retry.
           if \<not> should_retry then Inr None
           else Inr (map_option (\<lambda>n. (fail_count st + 1, min n MAX_RETRY_INTERVAL))
                  (interval (e_jitter E) (e_coin E) r (fail_count st)))))"

definition fetch_root_flow_id :: "uuid \<Rightarrow> db \<Rightarrow> uuid" where
  "fetch_root_flow_id flow d = unwrap_or flow (Option.bind (d_job d flow) jb_innermost)"

section \<open>The step that ended\<close>

text \<open>The snapshot, the flow's definition, the step it names, and the module and status there.\<close>

record step_info =
  si_old :: flow_status
  si_flow :: flow_value
  si_step :: step
  si_module :: "flow_module option"
  si_status :: flow_status_module

definition load_step :: "string \<Rightarrow> uuid \<Rightarrow> db \<Rightarrow> step_info res" where
  "load_step w flow d =
     (case (d_job d flow, d_status d flow) of
        (Some r, Some old) \<Rightarrow>
          if jb_workspace r \<noteq> w then Inl (InternalErr ''fetching flow status'')
          else rbind (fetch_flow_data d r) (\<lambda>f.
            let step = from_i32_and_len (fs_step old) (length (fs_modules old));
                current = (case step of Step i _ \<Rightarrow> nth_opt (fv_modules f) i | _ \<Rightarrow> None)
            in rbind (case step of
                 PreprocessorStep \<Rightarrow>
                   ok_or (InternalErr ''preprocessor module not found'') (fs_preprocessor_module old)
               | FailureStep \<Rightarrow> Inr (module_status (fs_failure_module old))
               | Step i _ \<Rightarrow> ok_or (InternalErr ''module not found'') (nth_opt (fs_modules old) i))
            (\<lambda>ms. Inr \<lparr>si_old = old, si_flow = f, si_step = step, si_module = current, si_status = ms\<rparr>))
      | _ \<Rightarrow> Inl (InternalErr ''fetching flow status''))"

text \<open>
  Loops and branches: \<open>(is_loop, skip_loop_failures, parallelism, parallel_loop)\<close> and
  \<open>(is_branch_all, parallel_branchall)\<close>. A loop module without \<open>skip_failures\<close> does not skip.
\<close>

fun progress_of :: "flow_status_module \<Rightarrow> progress_info option" where
  "progress_of (InProgress i j p info) = Some p"
| "progress_of _ = None"

definition loop_info ::
  "flow_module option \<Rightarrow> flow_status_module \<Rightarrow> bool \<times> bool \<times> input_transform option \<times> bool" where
  "loop_info current ms =
     (case progress_of ms of
        Some p \<Rightarrow>
          if pi_iterator p \<noteq> None
          then (True, unwrap_or False (Option.bind current get_skip_failures),
                Option.bind current get_parallelism, pi_parallel p)
          else (False, False, None, False)
      | None \<Rightarrow> (False, False, None, False))"

definition branchall_info :: "flow_status_module \<Rightarrow> bool \<times> bool" where
  "branchall_info ms =
     (case progress_of ms of
        Some p \<Rightarrow> if pi_branchall p \<noteq> None then (True, pi_parallel p) else (False, False)
      | None \<Rightarrow> (False, False))"

abbreviation "is_loop si \<equiv> fst (loop_info (si_module si) (si_status si))"
abbreviation "skip_loop_failures si \<equiv> fst (snd (loop_info (si_module si) (si_status si)))"
abbreviation "parallelism_of si \<equiv> fst (snd (snd (loop_info (si_module si) (si_status si))))"
abbreviation "parallel_loop si \<equiv> snd (snd (snd (loop_info (si_module si) (si_status si))))"
abbreviation "is_branch_all si \<equiv> fst (branchall_info (si_status si))"
abbreviation "parallel_branchall si \<equiv> snd (branchall_info (si_status si))"

text \<open>A flow without modules is not at its failure step.\<close>

definition at_failure_step :: "flow_status \<Rightarrow> bool" where
  "at_failure_step old \<longleftrightarrow>
     fs_step old \<ge> int (length (fs_modules old)) \<and> length (fs_modules old) > 0"

definition is_flow_stop_early_override :: "bool option \<Rightarrow> step_info \<Rightarrow> bool" where
  "is_flow_stop_early_override override si \<longleftrightarrow>
     override \<noteq> None \<and> get_step_index (si_step si) \<noteq> None \<and>
     (case si_module si of Some m \<Rightarrow> get_type m = ''flow'' | None \<Rightarrow> False)"

definition flow_args :: "uuid \<Rightarrow> db \<Rightarrow> args res" where
  "flow_args flow d =
     (case d_job d flow of
        Some r \<Rightarrow> Inr (unwrap_or [] (jb_args r))
      | None \<Rightarrow> Inl (InternalErr ''retrieval of args from state''))"

text \<open>A step with \<open>skip_if\<close> that was skipped ran as an identity job.\<close>

definition is_identity_job :: "flow_module option \<Rightarrow> uuid \<Rightarrow> db \<Rightarrow> bool" where
  "is_identity_job current job d \<longleftrightarrow>
     (case current of Some m \<Rightarrow> fm_skip_if m \<noteq> None | None \<Rightarrow> False) \<and>
     (case d_job d job of Some r \<Rightarrow> jb_kind r = KIdentity | None \<Rightarrow> False)"

definition predicate_error_log :: "env \<Rightarrow> string option \<Rightarrow> string \<Rightarrow> string \<Rightarrow> wm_error \<Rightarrow> string" where
  "predicate_error_log E module_id predicate expr e =
     ''Error evaluating '' @ predicate @
     (case module_id of Some i \<Rightarrow> '' of module '' @ [CHR 0x27] @ i @ [CHR 0x27] | None \<Rightarrow> []) @
     '' expression `'' @ expr @ ''`: '' @ e_show_err E e @ [CHR 0x0A]"

section \<open>Stopping early\<close>

text \<open>What the code holds in mutable variables while it decides.\<close>

record decision =
  de_success :: bool
  de_stop_early :: bool
  de_err_msg :: "string option"
  de_skip :: bool \<comment> \<open>\<open>skip_if_stop_early\<close>\<close>
  de_nresult :: "json option"
  de_handler :: bool \<comment> \<open>\<open>has_triggered_error_handler\<close>\<close>

text \<open>
  The expression of \<open>stop_after_if\<close>, evaluated for a successful step that is not a branch,
  not an iteration of a parallel loop and not skipped. An error goes to the logs of the root
  flow and ends the update.
\<close>

definition all_iters_for :: "string \<Rightarrow> string \<Rightarrow> flow_status_module \<Rightarrow> db \<Rightarrow> json option res" where
  "all_iters_for w expr ms d =
     (case ms of
        InProgress _ _ _ info \<Rightarrow>
          (case ji_flow_jobs info of
             Some jobs \<Rightarrow>
               if str_contains expr ''all_iters''
               then rbind (retrieve_flow_jobs_results w jobs d) (\<lambda>v. Inr (Some v))
               else Inr None
           | None \<Rightarrow> Inr None)
      | _ \<Rightarrow> Inr None)"

definition eval_stop_after_if :: "env \<Rightarrow> string \<Rightarrow> completion \<Rightarrow> step_info \<Rightarrow> flow_module \<Rightarrow> bool act" where
  "eval_stop_after_if E w c si m =
     (case fm_stop_after_if m of
        None \<Rightarrow> ret False
      | Some s \<Rightarrow>
          abind (reads (all_iters_for w (sai_expr s) (si_status si))) (\<lambda>all_iters.
          abind (reads (flow_args (c_flow c))) (\<lambda>a d.
            case compute_bool_from_expr E (sai_expr s) a None (c_result c) all_iters
                   (get_id_ctx_for_expr (sai_expr s) (c_flow c) (si_old si) d) None [] d of
              Inr b \<Rightarrow> (Inr b, d)
            | Inl e \<Rightarrow>
                (Inl e, append_logs (fetch_root_flow_id (c_flow c) d)
                   (predicate_error_log E (Some (fm_id m)) ''stop_after_if'' (sai_expr s) e) d))))"

text \<open>The decision before the transaction, and whether the step continues on error.\<close>

definition initial_decision :: "completion \<Rightarrow> step_info \<Rightarrow> decision" where
  "initial_decision c si =
     \<lparr>de_success = c_success c, de_stop_early = False, de_err_msg = None, de_skip = False,
      de_nresult = None,
      de_handler = (c_error_handler c \<and> \<not> (case si_module si of Some m \<Rightarrow> is_flow m | None \<Rightarrow> False))\<rparr>"

definition stop_early_decision :: "env \<Rightarrow> string \<Rightarrow> completion \<Rightarrow> step_info \<Rightarrow> (decision \<times> bool) act" where
  "stop_early_decision E w c si =
     (let de = initial_decision c si in
      if c_stop_early_override c \<noteq> None \<and>
         \<not> is_flow_stop_early_override (c_stop_early_override c) si \<and>
         \<not> parallel_loop si \<and> \<not> parallel_branchall si
      then ret (de\<lparr>de_stop_early := True, de_skip := the (c_stop_early_override c)\<rparr>, False)
      else if at_failure_step (si_old si) \<or> is_preprocessor_step (si_step si) then ret (de, False)
      else case si_module si of
        None \<Rightarrow> ret (de, False)
      | Some m \<Rightarrow>
          abind (gets (is_identity_job (si_module si) (c_job c))) (\<lambda>ident.
          abind (if c_success c \<and> \<not> is_branch_all si \<and> \<not> parallel_loop si \<and> \<not> ident
                 then eval_stop_after_if E w c si m else ret False) (\<lambda>stop.
          let (skip, msg) = (if stop then get_stop_after_if_data (fm_stop_after_if m) else (False, None))
          in ret (de\<lparr>de_stop_early := stop, de_err_msg := msg, de_skip := skip\<rparr>,
                  unwrap_or False (fm_continue_on_error m)))))"

section \<open>Skipping failures of branches\<close>

definition branches_skip :: "flow_module option \<Rightarrow> bool list option" where
  "branches_skip current =
     map_option (map (unwrap_or False)) (Option.bind current (\<lambda>m. res_ok (get_branches_skip_failures m)))"

fun parallel_branches_ok :: "bool list option \<Rightarrow> nat \<Rightarrow> bool option list \<Rightarrow> bool" where
  "parallel_branches_ok bs i [] = True"
| "parallel_branches_ok bs i (s # ss) =
     (if unwrap_or False (Option.bind bs (\<lambda>x. nth_opt x i)) then parallel_branches_ok bs (Suc i) ss
      else unwrap_or False s \<and> parallel_branches_ok bs (Suc i) ss)"

definition compute_skip_branchall_failure ::
  "nat \<Rightarrow> bool \<Rightarrow> flow_module option \<Rightarrow> bool option list option \<Rightarrow> bool" where
  "compute_skip_branchall_failure branch parallel current successes =
     (if parallel
      then (case successes of
              Some ss \<Rightarrow> parallel_branches_ok (branches_skip current) 0 ss
            | None \<Rightarrow> False)
      else unwrap_or False (Option.bind (branches_skip current) (\<lambda>x. nth_opt x branch)))"

definition skip_seq_branch_failure :: "step_info \<Rightarrow> bool" where
  "skip_seq_branch_failure si =
     (case progress_of (si_status si) of
        Some p \<Rightarrow>
          (case pi_branchall p of
             Some b \<Rightarrow> \<not> pi_parallel p \<and>
               compute_skip_branchall_failure (ba_branch b) False (si_module si) None
           | None \<Rightarrow> False)
      | None \<Rightarrow> False)"

section \<open>A parallel module\<close>

text \<open>
  The updates of one module's JSON: \<open>flow_jobs_success[pos]\<close> and the two duration arrays at
  \<open>pos\<close>, where they exist. A missing duration is written as \<open>null\<close>.
\<close>

definition set_job_success :: "nat \<Rightarrow> bool \<Rightarrow> jobs_info \<Rightarrow> jobs_info" where
  "set_job_success pos b info = info\<lparr>ji_flow_jobs_success :=
     map_option (\<lambda>xs. jsonb_array_set xs (int pos) (Some b)) (ji_flow_jobs_success info)\<rparr>"

definition set_job_duration :: "nat \<Rightarrow> flow_job_duration option \<Rightarrow> jobs_info \<Rightarrow> jobs_info" where
  "set_job_duration pos v info = info\<lparr>ji_flow_jobs_duration :=
     map_option (\<lambda>x. \<lparr>started_at = jsonb_array_set (started_at x) (int pos) (map_option fjd_started_at v),
                      duration_ms = jsonb_array_set (duration_ms x) (int pos) (map_option fjd_duration_ms v)\<rparr>)
       (ji_flow_jobs_duration info)\<rparr>"

definition find_flow_job_index :: "uuid list \<Rightarrow> uuid \<Rightarrow> nat option" where
  "find_flow_job_index jobs j = position_of j jobs"

definition record_job :: "nat option \<Rightarrow> bool \<Rightarrow> flow_job_duration option \<Rightarrow> jobs_info \<Rightarrow> jobs_info" where
  "record_job pos b v info =
     (case pos of None \<Rightarrow> info | Some p \<Rightarrow> set_job_duration p v (set_job_success p b info))"

text \<open>
  \<open>UPDATE ... SET iterator.index = iterator.index + 1 ... RETURNING index\<close> on the row as it is,
  and its counterpart for \<open>branchall.branch\<close>. Where the row has no such counter the new value
  is \<open>NULL\<close> and the code raises, which rolls the statement back.
\<close>

fun bump_iterator :: "(jobs_info \<Rightarrow> jobs_info) \<Rightarrow> flow_status_module \<Rightarrow> (nat \<times> flow_status_module) option" where
  "bump_iterator f (InProgress i j p info) =
     (case pi_iterator p of
        Some it \<Rightarrow>
          Some (Suc (it_index it),
                InProgress i j (p\<lparr>pi_iterator := Some (it\<lparr>it_index := Suc (it_index it)\<rparr>)\<rparr>) (f info))
      | None \<Rightarrow> None)"
| "bump_iterator f _ = None"

fun bump_branchall :: "(jobs_info \<Rightarrow> jobs_info) \<Rightarrow> flow_status_module \<Rightarrow> (nat \<times> flow_status_module) option" where
  "bump_branchall f (InProgress i j p info) =
     (case pi_branchall p of
        Some b \<Rightarrow>
          Some (Suc (ba_branch b),
                InProgress i j (p\<lparr>pi_branchall := Some (b\<lparr>ba_branch := Suc (ba_branch b)\<rparr>)\<rparr>) (f info))
      | None \<Rightarrow> None)"
| "bump_branchall f _ = None"

definition bump_counter ::
  "uuid \<Rightarrow> int \<Rightarrow> (flow_status_module \<Rightarrow> (nat \<times> flow_status_module) option) \<Rightarrow> nat act" where
  "bump_counter flow step bump =
     updates (\<lambda>d.
       case Option.bind (Option.bind (d_status d flow) (get_module step)) bump of
         None \<Rightarrow> Inl (InternalErr ''requiring an index in InProgress'')
       | Some (n, m) \<Rightarrow> Inr (n, update_status flow (set_module step m) d))"

text \<open>The number of iterations: \<open>itered_len\<close>, or the length of the older \<open>itered\<close>.\<close>

definition itered_len_of :: "flow_iterator \<Rightarrow> nat" where
  "itered_len_of it =
     (case it_itered_len it of
        Some n \<Rightarrow> n
      | None \<Rightarrow> (case it_itered it of Some xs \<Rightarrow> length xs | None \<Rightarrow> 0))"

definition advance_parallel :: "completion \<Rightarrow> flow_status \<Rightarrow> progress_info \<Rightarrow> jobs_info \<Rightarrow> uuid list \<Rightarrow> (nat \<times> nat) act" where
  "advance_parallel c old p info jobs =
     (let pos = (if ji_flow_jobs_success info \<noteq> None then find_flow_job_index jobs (c_job c) else None);
          f = record_job pos (c_success c) (c_duration c)
      in case (pi_iterator p, pi_branchall p) of
           (Some it, _) \<Rightarrow>
             abind (bump_counter (c_flow c) (fs_step old) (bump_iterator f)) (\<lambda>n. ret (n, itered_len_of it))
         | (None, Some b) \<Rightarrow>
             abind (bump_counter (c_flow c) (fs_step old) (bump_branchall f)) (\<lambda>n. ret (n, ba_len b))
         | _ \<Rightarrow> fail (InternalErr ''unexpected status for parallel module''))"

text \<open>The jobs whose success counts: those of the branches that do not skip failures.\<close>

definition jobs_filtered :: "step_info \<Rightarrow> bool \<Rightarrow> uuid list \<Rightarrow> uuid list" where
  "jobs_filtered si branchall jobs =
     (if branchall
      then (case branches_skip (si_module si) of
              Some bs \<Rightarrow> map snd (filter (\<lambda>(skip, j). \<not> skip) (zip bs jobs))
            | None \<Rightarrow> jobs)
      else jobs)"

definition all_completed_ok :: "uuid list \<Rightarrow> db \<Rightarrow> bool" where
  "all_completed_ok jobs d \<longleftrightarrow>
     list_all (\<lambda>j. case d_completed d j of
       Some c \<Rightarrow> co_status c = StSuccess \<or> co_status c = StSkipped | None \<Rightarrow> True) jobs"

text \<open>The job that ended, recorded in what the worker read back (bounds are checked here).\<close>

definition record_read :: "uuid list \<Rightarrow> completion \<Rightarrow> jobs_info \<Rightarrow> jobs_info" where
  "record_read jobs c info =
     (let pos = position_of (c_job c) jobs in
      info\<lparr>ji_flow_jobs_success := map_option (\<lambda>xs. case pos of
             Some p \<Rightarrow> if p < length xs then xs[p := Some (c_success c)] else xs
           | None \<Rightarrow> xs) (ji_flow_jobs_success info),
           ji_flow_jobs_duration :=
             map_option (\<lambda>x. durations_set x pos (c_duration c)) (ji_flow_jobs_duration info)\<rparr>)"

subsection \<open>The condition after all iterations\<close>

definition stop_fails :: "decision \<Rightarrow> bool" where
  "stop_fails de \<longleftrightarrow> de_stop_early de \<and> de_err_msg de \<noteq> None \<and> \<not> de_skip de"

definition evaluate_stop_after_all_iters_if ::
  "env \<Rightarrow> string \<Rightarrow> stop_after_if \<Rightarrow> completion \<Rightarrow> step_info \<Rightarrow> args \<Rightarrow> db \<Rightarrow> decision \<Rightarrow> decision \<times> unit res" where
  "evaluate_stop_after_all_iters_if E w s c si a d de =
     (case si_status si of
        InProgress _ _ _ info \<Rightarrow>
          (case ji_flow_jobs info of
             Some jobs \<Rightarrow>
               (case retrieve_flow_jobs_results w jobs d of
                  Inl e \<Rightarrow> (de, Inl e)
                | Inr v \<Rightarrow>
                    let de = de\<lparr>de_nresult := Some v\<rparr> in
                    case compute_bool_from_expr E (sai_expr s) a None v None
                           (get_id_ctx_for_expr (sai_expr s) (c_flow c) (si_old si) d) None [] d of
                      Inl e \<Rightarrow> (de, Inl e)
                    | Inr False \<Rightarrow> (de, Inr ())
                    | Inr True \<Rightarrow>
                        let (skip, msg) = get_stop_after_if_data (Some s)
                        in (de\<lparr>de_stop_early := True, de_skip := skip, de_err_msg := msg\<rparr>, Inr ()))
           | None \<Rightarrow> (de, Inl (InternalErr ''A branchall or loop should have flow_jobs'')))
      | _ \<Rightarrow> (de, Inl (InternalErr ''A branchall or loop should have flow_jobs'')))"

text \<open>An error in the expression stops the flow with a message of its own.\<close>

definition stop_after_all_iters :: "env \<Rightarrow> string \<Rightarrow> completion \<Rightarrow> step_info \<Rightarrow> decision \<Rightarrow> db \<Rightarrow> decision res" where
  "stop_after_all_iters E w c si de d =
     (case Option.bind (si_module si) (\<lambda>m. fm_stop_after_all_iters_if m) of
        None \<Rightarrow> Inr de
      | Some s \<Rightarrow>
          rbind (flow_args (c_flow c) d) (\<lambda>a.
          case evaluate_stop_after_all_iters_if E w s c si a d de of
            (de', Inr _) \<Rightarrow> Inr de'
          | (de', Inl e) \<Rightarrow>
              Inr (de'\<lparr>de_stop_early := True, de_skip := False,
                 de_err_msg := Some (''Error evaluating stop_after_all_iters_if expression `'' @
                   sai_expr s @ ''`: '' @ e_show_err E e)\<rparr>)))"

subsection \<open>The last iteration or branch, and the others\<close>

datatype processed =
    NonLast nat
  | Processed bool "flow_status_module option" decision \<comment> \<open>\<open>inc_step_counter\<close>, \<open>new_status\<close>\<close>

definition finish_parallel ::
  "env \<Rightarrow> string \<Rightarrow> completion \<Rightarrow> step_info \<Rightarrow> progress_info \<Rightarrow> uuid list \<Rightarrow> decision \<Rightarrow> processed act" where
  "finish_parallel E w c si p jobs de d =
     (let read = Option.bind (Option.bind (d_status d (c_flow c)) (get_module (fs_step (si_old si)))) module_info;
          info = record_read jobs c (no_jobs\<lparr>ji_flow_jobs := Some jobs,
                   ji_flow_jobs_success := Option.bind read ji_flow_jobs_success,
                   ji_flow_jobs_duration := Option.bind read ji_flow_jobs_duration\<rparr>)
      in case stop_after_all_iters E w c si de d of
           Inl e \<Rightarrow> (Inl e, d)
         | Inr de \<Rightarrow>
             let ok = (\<not> stop_fails de \<and>
                   (skip_loop_failures si \<or> all_completed_ok (jobs_filtered si (pi_branchall p \<noteq> None) jobs) d));
                 ms = (if ok then Success (fsm_id (si_status si)) (c_job c) info [] []
                                    (de_stop_early de \<and> de_skip de)
                       else Failure (fsm_id (si_status si)) (c_job c) info [])
             in (Inr (Processed ok (Some ms)
                   (de\<lparr>de_success := ok, de_handler := (\<not> ok \<and> fv_failure_module (si_flow si) \<noteq> None)\<rparr>)),
                 d\<lparr>d_lock := filter (\<lambda>(f, j). f \<noteq> c_flow c) (d_lock d)\<rparr>))"

definition process_parallel ::
  "env \<Rightarrow> string \<Rightarrow> completion \<Rightarrow> step_info \<Rightarrow> progress_info \<Rightarrow> jobs_info \<Rightarrow> uuid list \<Rightarrow> decision \<Rightarrow> processed act" where
  "process_parallel E w c si p info jobs de =
     abind (advance_parallel c (si_old si) p info jobs) (\<lambda>(nindex, len).
     abind (modify (reset_ping (c_flow c))) (\<lambda>_.
     if nindex = len then finish_parallel E w c si p jobs de else ret (NonLast nindex)))"

text \<open>
  After the commit of an iteration that is not the last: with a bound on the parallelism the
  iteration that waits for this number of ends is resumed, and the monitor lock is released.
\<close>

definition resume_waiting :: "string \<Rightarrow> uuid \<Rightarrow> nat \<Rightarrow> db \<Rightarrow> db" where
  "resume_waiting w flow n d = d\<lparr>d_queue := (\<lambda>i.
     case d_queue d i of
       None \<Rightarrow> None
     | Some q \<Rightarrow>
         if q_suspend q = int n \<and>
            (case d_job d i of Some r \<Rightarrow> jb_workspace r = w \<and> jb_parent r = Some flow | None \<Rightarrow> False) \<and>
            (case d_status d i of Some s \<Rightarrow> fs_step s = 0 | None \<Rightarrow> False)
         then Some (q\<lparr>q_suspend := 0\<rparr>) else Some q)\<rparr>"

definition non_last_parallel :: "string \<Rightarrow> completion \<Rightarrow> step_info \<Rightarrow> nat \<Rightarrow> db \<Rightarrow> db" where
  "non_last_parallel w c si n d =
     (let d' = (if parallelism_of si \<noteq> None then resume_waiting w (c_flow c) n d else d)
      in d'\<lparr>d_lock := filter (\<lambda>x. x \<noteq> (c_flow c, c_job c)) (d_lock d')\<rparr>)"

section \<open>A sequential module\<close>

text \<open>\<open>set_success_and_duration_in_flow_job_success\<close>: the current row, at the snapshot's step.\<close>

fun map_info :: "(jobs_info \<Rightarrow> jobs_info) \<Rightarrow> flow_status_module \<Rightarrow> flow_status_module" where
  "map_info f (InProgress i j p info) = InProgress i j p (f info)"
| "map_info f (Success i j info ap fr sk) = Success i j (f info) ap fr sk"
| "map_info f (Failure i j info fr) = Failure i j (f info) fr"
| "map_info f m = m"

definition set_success_and_duration :: "completion \<Rightarrow> flow_status \<Rightarrow> jobs_info \<Rightarrow> db \<Rightarrow> db" where
  "set_success_and_duration c old info d =
     (case (ji_flow_jobs info, ji_flow_jobs_success info) of
        (Some jobs, Some _) \<Rightarrow>
          (case find_flow_job_index jobs (c_job c) of
             Some pos \<Rightarrow>
               update_status (c_flow c) (map_module (fs_step old)
                 (map_info (record_job (Some pos) (c_success c) (c_duration c)))) d
           | None \<Rightarrow> d)
      | _ \<Rightarrow> d)"

text \<open>Whether a loop, or a sequence of branches, goes on with its next iteration or branch.\<close>

definition loop_goes_on :: "step_info \<Rightarrow> progress_info \<Rightarrow> decision \<Rightarrow> bool" where
  "loop_goes_on si p de \<longleftrightarrow>
     (case pi_iterator p of
        Some it \<Rightarrow>
          (pi_while_loop p \<or>
           it_index it + 1 < itered_len_of it \<and> (de_success de \<or> skip_loop_failures si)) \<and>
          \<not> de_stop_early de
      | None \<Rightarrow> False)"

text \<open>\<open>len - 1\<close> is a \<open>usize\<close> difference: for no branches it wraps to the largest \<open>usize\<close>.\<close>

definition branches_go_on :: "step_info \<Rightarrow> progress_info \<Rightarrow> decision \<Rightarrow> bool" where
  "branches_go_on si p de \<longleftrightarrow>
     (case pi_branchall p of
        Some b \<Rightarrow>
          (ba_len b = 0 \<or> ba_branch b < ba_len b - 1) \<and>
          (de_success de \<or> skip_seq_branch_failure si) \<and> \<not> de_stop_early de
      | None \<Rightarrow> False)"

text \<open>
  The end of a step: a stop inside a sequential loop only breaks the loop; at the end of a
  loop or of all branches the condition after all iterations is evaluated; the step is a
  success when its job succeeded or its failures are skipped, unless it stops with an error;
  a failed step advances only when it continues on error and has no retry left.
\<close>

definition end_decision :: "env \<Rightarrow> string \<Rightarrow> completion \<Rightarrow> step_info \<Rightarrow> decision \<Rightarrow> db \<Rightarrow> decision res" where
  "end_decision E w c si de d =
     (let de = (if de_stop_early de \<and> is_loop si
                then de\<lparr>de_stop_early := False, de_err_msg := None, de_skip := False\<rparr> else de)
      in if is_loop si \<or> (is_branch_all si \<and> \<not> de_stop_early de)
         then stop_after_all_iters E w c si de d else Inr de)"

definition end_info :: "completion \<Rightarrow> flow_status_module \<Rightarrow> jobs_info" where
  "end_info c ms =
     (let info = unwrap_or no_jobs (module_info ms) in
      case ji_flow_jobs info of
        Some jobs \<Rightarrow> record_read jobs c info
      | None \<Rightarrow> info)"

definition no_retry_left :: "env \<Rightarrow> completion \<Rightarrow> step_info \<Rightarrow> db \<Rightarrow> bool res" where
  "no_retry_left E c si d =
     (let r = unwrap_or retry_default (Option.bind (si_module si) (\<lambda>m. fm_retry m)) in
      rbind (flow_args (c_flow c) d) (\<lambda>a.
      rbind (evaluate_retry E r (fs_retry (si_old si)) (c_result c) a None d) (\<lambda>x.
      Inr (x = None))))"

definition end_step :: "env \<Rightarrow> string \<Rightarrow> completion \<Rightarrow> step_info \<Rightarrow> bool \<Rightarrow> decision \<Rightarrow> db \<Rightarrow> processed res" where
  "end_step E w c si continue_on_error de d =
     rbind (end_decision E w c si de d) (\<lambda>de.
     let ms = si_status si; info = end_info c ms; retries = failed_jobs (fs_retry (si_old si)) in
     if (de_success de \<or>
         flow_jobs ms \<noteq> None \<and> (skip_loop_failures si \<or> skip_seq_branch_failure si)) \<and>
        \<not> stop_fails de
     then Inr (Processed True
            (Some (Success (fsm_id ms) (c_job c) info [] retries
               (de_stop_early de \<and> de_skip de \<or> is_identity_job (si_module si) (c_job c) d)))
            (de\<lparr>de_success := True\<rparr>))
     else
       rbind (if continue_on_error then no_retry_left E c si d else Inr False) (\<lambda>inc.
       Inr (Processed inc
         (Some (Failure (fsm_id ms) (c_job c) info retries))
         (if de_stop_early de \<and> de_err_msg de \<noteq> None then de\<lparr>de_success := False\<rparr> else de))))"

text \<open>The \<open>match\<close> on the status of the module, arm by arm.\<close>

definition process_module_status ::
  "env \<Rightarrow> string \<Rightarrow> completion \<Rightarrow> step_info \<Rightarrow> bool \<Rightarrow> decision \<Rightarrow> processed act" where
  "process_module_status E w c si continue_on_error de =
     (case si_status si of
        InProgress _ _ p info \<Rightarrow>
          (case (pi_parallel p, ji_flow_jobs info) of
             (True, Some jobs) \<Rightarrow> process_parallel E w c si p info jobs de
           | _ \<Rightarrow>
             if loop_goes_on si p de \<or> branches_go_on si p de
             then abind (modify (set_success_and_duration c (si_old si) info)) (\<lambda>_. ret (Processed False None de))
             else reads (end_step E w c si continue_on_error de))
      | _ \<Rightarrow> reads (end_step E w c si continue_on_error de))"

section \<open>Storing the outcome\<close>

definition early_stop_error :: "string \<Rightarrow> json" where
  "early_stop_error msg = JObj [(''error'', JObj [(''name'', JStr ''EarlyStopError''), (''message'', JStr msg)])]"

definition override_nresult :: "decision \<Rightarrow> decision" where
  "override_nresult de =
     (case (de_stop_early de, de_err_msg de) of
        (True, Some m) \<Rightarrow> de\<lparr>de_nresult := Some (early_stop_error m)\<rparr>
      | _ \<Rightarrow> de)"

text \<open>The next index is the last step's when it is not the index of a module.\<close>

definition past_last_step :: "int \<Rightarrow> flow_status \<Rightarrow> bool" where
  "past_last_step step_counter old \<longleftrightarrow>
     step_counter < 0 \<or> int (length (fs_modules old)) \<le> step_counter"

definition set_leaf_job :: "uuid \<Rightarrow> flow_status_module \<Rightarrow> db \<Rightarrow> db" where
  "set_leaf_job flow m d =
     (let root = fetch_root_flow_id flow d in
      case (job_result m, d_status d root) of
        (Some r, Some _) \<Rightarrow>
          d\<lparr>d_leaf := (d_leaf d)(root \<mapsto> AList.update (fsm_id m) r (unwrap_or [] (d_leaf d root)))\<rparr>
      | _ \<Rightarrow> d)"

definition store_module :: "uuid \<Rightarrow> step_info \<Rightarrow> flow_status_module \<Rightarrow> db \<Rightarrow> db" where
  "store_module flow si m d =
     (if at_failure_step (si_old si)
      then update_status flow (\<lambda>s. s\<lparr>fs_failure_module :=
             \<lparr>parent_module = parent_module (fs_failure_module s), module_status = m\<rparr>\<rparr>) d
      else if is_preprocessor_step (si_step si)
      then update_status flow (\<lambda>s. s\<lparr>fs_preprocessor_module := Some m\<rparr>) d
      else set_leaf_job flow m (update_status flow (set_module (fs_step (si_old si)) m) d))"

definition resolve_nresult ::
  "string \<Rightarrow> json \<Rightarrow> flow_status_module option \<Rightarrow> decision \<Rightarrow> db \<Rightarrow> json res" where
  "resolve_nresult w result new de d =
     (case de_nresult de of
        Some v \<Rightarrow> Inr v
      | None \<Rightarrow>
          (case new of
             Some (Success _ _ info _ _ _) \<Rightarrow>
               (case ji_flow_jobs info of Some js \<Rightarrow> retrieve_flow_jobs_results w js d | None \<Rightarrow> Inr result)
           | Some (Failure _ _ info _) \<Rightarrow>
               (case ji_flow_jobs info of Some js \<Rightarrow> retrieve_flow_jobs_results w js d | None \<Rightarrow> Inr result)
           | _ \<Rightarrow> Inr result))"

definition store_outcome ::
  "string \<Rightarrow> completion \<Rightarrow> step_info \<Rightarrow> bool \<Rightarrow> flow_status_module option \<Rightarrow> decision \<Rightarrow>
   (json \<times> mini_job) act" where
  "store_outcome w c si inc new de =
     (let flow = c_flow c; old = si_old si in
      abind (aif inc (modify (update_status flow (\<lambda>s. s\<lparr>fs_step := fs_step old + 1\<rparr>)))) (\<lambda>_.
      abind (case new of Some m \<Rightarrow> modify (store_module flow si m) | None \<Rightarrow> ret ()) (\<lambda>_.
      abind (reads (resolve_nresult w (c_result c) new de)) (\<lambda>nresult.
      abind (aif (fail_count (fs_retry old) > 0 \<and> (case new of Some m \<Rightarrow> is_success m | None \<Rightarrow> False))
               (modify (update_status flow (\<lambda>s. s\<lparr>fs_retry := retry_status_default\<rparr>)))) (\<lambda>_.
      abind (reads (\<lambda>d. ok_or (InternalErr ''requiring flow to be in the queue'') (get_mini_pulled_job flow d)))
        (\<lambda>flow_job. ret (nresult, flow_job)))))))"

section \<open>The end of a preprocessor\<close>

text \<open>
  The result of the preprocessor becomes the arguments of the flow, which goes back to the
  queue; its tag and concurrency limits are computed with the new arguments. (In a build
  without the feature \<open>private\<close>, debouncing does not move the scheduled time.)
\<close>

definition preprocessed_args :: "json option \<Rightarrow> args" where
  "preprocessed_args r =
     (case r of
        Some (JObj fs) \<Rightarrow> fs
      | Some JNull \<Rightarrow> []
      | None \<Rightarrow> []
      | Some v \<Rightarrow> [(''value'', v)])"

definition debounces :: "flow_value \<Rightarrow> bool" where
  "debounces f \<longleftrightarrow> (case debounce_delay_s (fv_debouncing f) of Some n \<Rightarrow> n > 0 | None \<Rightarrow> False)"

definition concurrency_requires_args :: "tag_and_concurrency option \<Rightarrow> bool" where
  "concurrency_requires_args tc \<longleftrightarrow>
     (case tc of
        None \<Rightarrow> False
      | Some x \<Rightarrow>
          (case tc_tag x of Some t \<Rightarrow> str_contains t ''$args'' | None \<Rightarrow> False) \<or>
          (case tc_key x of Some k \<Rightarrow> str_contains k ''$args'' | None \<Rightarrow> False))"

definition fetch_preprocessor_result :: "uuid \<Rightarrow> db \<Rightarrow> args res" where
  "fetch_preprocessor_result job d =
     (case d_completed d job of
        None \<Rightarrow> Inl (InternalErr ''error while fetching preprocessing args'')
      | Some r \<Rightarrow>
          (case co_result r of
             None \<Rightarrow> Inr []
           | Some (JObj fs) \<Rightarrow> Inr fs
           | Some _ \<Rightarrow> Inl (InternalErr ''error while fetching preprocessing args'')))"

definition requeue_preprocessed ::
  "uuid \<Rightarrow> uuid \<Rightarrow> string option \<Rightarrow> int option \<Rightarrow> int option \<Rightarrow> int option \<Rightarrow> db \<Rightarrow> db" where
  "requeue_preprocessed job flow tag limit window settings d =
     (let d' = update_queue flow (\<lambda>q. q\<lparr>q_running := False,
                 q_settings := or_option settings (q_settings q)\<rparr>) d
      in case (d_completed d job, d_job d flow) of
           (Some r, Some j) \<Rightarrow>
             d'\<lparr>d_job := (d_job d)(flow \<mapsto> j\<lparr>
                jb_tag := unwrap_or (jb_tag j) tag,
                jb_concurrent_limit := or_option limit (jb_concurrent_limit j),
                jb_concurrency_window := or_option window (jb_concurrency_window j),
                jb_args := Some (preprocessed_args (co_result r)),
                jb_preprocessed := Some True\<rparr>)\<rparr>
         | _ \<Rightarrow> d')"

definition finish_preprocessing :: "env \<Rightarrow> completion \<Rightarrow> flow_value \<Rightarrow> mini_job \<Rightarrow> unit act" where
  "finish_preprocessing E c f fj =
     abind (gets (get_tag_and_concurrency (c_flow c))) (\<lambda>tc.
     let req = concurrency_requires_args tc;
         tag = Option.bind tc tc_tag; key = Option.bind tc tc_key;
         limit = Option.bind tc tc_limit; window = Option.bind tc tc_window;
         w = jb_workspace (mj_job fj); path = jb_runnable_path (mj_job fj) in
     abind (if req \<or> debounces f then reads (fetch_preprocessor_result (c_job c)) else ret []) (\<lambda>a.
     abind (if req
            then aif (key \<noteq> None) (modify (insert_concurrency_key E w a path KFlow key (c_flow c)))
            else aif (limit \<noteq> None) (modify (insert_concurrency_key E w [] path KFlow key (c_flow c)))) (\<lambda>_.
     let tag' = (if req then map_option (\<lambda>t. interpolate_args E t a None w) tag else tag);
         settings = (if debounces f then e_settings_handle E (fv_debouncing f) else None)
     in modify (requeue_preprocessed (c_job c) (c_flow c) tag' limit window settings))))"

section \<open>Does the flow go on?\<close>

definition should_retry :: "env \<Rightarrow> completion \<Rightarrow> step_info \<Rightarrow> db \<Rightarrow> bool res" where
  "should_retry E c si d =
     (let r = unwrap_or retry_default
                (Option.bind (res_ok (get_flow_module_at_step (si_flow si) (si_step si))) (\<lambda>m. fm_retry m)) in
      rbind (flow_args (c_flow c) d) (\<lambda>a.
      rbind (evaluate_retry E r (fs_retry (si_old si)) (c_result c) a None d) (\<lambda>x. Inr (x \<noteq> None))))"

definition should_continue_flow ::
  "env \<Rightarrow> completion \<Rightarrow> step_info \<Rightarrow> mini_job \<Rightarrow> bool \<Rightarrow> bool \<Rightarrow> bool \<Rightarrow> decision \<Rightarrow> db \<Rightarrow> bool res" where
  "should_continue_flow E c si fj unrecoverable continue_on_error past de d =
     (let has_failure_module = (fv_failure_module (si_flow si) \<noteq> None) in
      if de_stop_early de then Inr (de_err_msg de \<noteq> None \<and> has_failure_module)
      else if job_is_canceled fj then Inr False
      else if de_success de then Inr (\<not> past)
      else if unrecoverable then Inr False
      else if skip_seq_branch_failure si \<or> skip_loop_failures si \<or> continue_on_error then Inr (\<not> past)
      else rbind (should_retry E c si d) (\<lambda>r.
        if r then Inr True
        else Inr (\<not> at_failure_step (si_old si) \<and> \<not> de_handler de \<and> has_failure_module)))"

section \<open>The end of the flow\<close>

definition completion_log :: "mini_job \<Rightarrow> bool \<Rightarrow> decision \<Rightarrow> json \<Rightarrow> string" where
  "completion_log fj failure_step de nresult =
     (let word = (if de_success de then ''success'' else ''error'') in
      if job_is_canceled fj then ''Flow job canceled''
      else if de_stop_early de
      then ''Flow job stopped early because of a stop early predicate returning true''
      else if failure_step
      then ''Flow job completed with error, and error handler was triggered. It completed with '' @ word @
           '', and with recover: '' @ (if result_has_recover_true nresult then ''true'' else ''false'')
      else ''Flow job completed with '' @ word) @ [CHR 0x0A]"

text \<open>
  The clean-up of the enterprise build: a nested flow hands its list to its parent, the root
  clears the arguments and results of the listed jobs, schedules the deletions, and applies
  its own deletion policy to all jobs of the run.
\<close>

definition clear_jobs :: "(uuid \<Rightarrow> bool) \<Rightarrow> db \<Rightarrow> db" where
  "clear_jobs P d = d\<lparr>
     d_job := (\<lambda>i. if P i then map_option (\<lambda>r. r\<lparr>jb_args := Some []\<rparr>) (d_job d i) else d_job d i),
     d_completed := (\<lambda>i. if P i then map_option (\<lambda>r. r\<lparr>co_result := Some (JObj [])\<rparr>) (d_completed d i)
                         else d_completed d i)\<rparr>"

definition clear_logs :: "(uuid \<Rightarrow> bool) \<Rightarrow> db \<Rightarrow> db" where
  "clear_logs P d = d\<lparr>d_logs := map (\<lambda>(i, s). if P i then (i, ''##DELETED##'') else (i, s)) (d_logs d)\<rparr>"

text \<open>\<open>schedule_job_deletion\<close> keeps an earlier schedule; for all the jobs of a run, the same.\<close>

definition schedule_job_deletion :: "env \<Rightarrow> uuid \<Rightarrow> int \<Rightarrow> db \<Rightarrow> db" where
  "schedule_job_deletion E j secs d =
     (if d_delete_at d j \<noteq> None then d
      else d\<lparr>d_delete_at := (d_delete_at d)(j \<mapsto> e_now E + secs * 1000000)\<rparr>)"

definition hand_over_cleanup :: "flow_cleanup_module \<Rightarrow> flow_status \<Rightarrow> flow_status" where
  "hand_over_cleanup cm s =
     (let m = fs_cleanup_module s in
      s\<lparr>fs_cleanup_module := \<lparr>flow_jobs_to_clean = flow_jobs_to_clean m @ flow_jobs_to_clean cm,
          flow_jobs_to_schedule_clean = flow_jobs_to_schedule_clean m @ flow_jobs_to_schedule_clean cm\<rparr>\<rparr>)"

definition schedule_deletions :: "env \<Rightarrow> (uuid \<Rightarrow> bool) \<Rightarrow> int \<Rightarrow> db \<Rightarrow> db" where
  "schedule_deletions E P secs d = d\<lparr>d_delete_at := (\<lambda>i.
     if P i \<and> d_delete_at d i = None then Some (e_now E + secs * 1000000) else d_delete_at d i)\<rparr>"

definition in_run :: "uuid \<Rightarrow> db \<Rightarrow> uuid \<Rightarrow> bool" where
  "in_run flow d i \<longleftrightarrow> i = flow \<or> Option.bind (d_job d i) jb_root = Some flow"

definition cleanup_flow :: "env \<Rightarrow> mini_job \<Rightarrow> flow_value \<Rightarrow> flow_cleanup_module \<Rightarrow> db \<Rightarrow> db" where
  "cleanup_flow E fj f cm d =
     (if \<not> e_enterprise E then d
      else case jb_parent (mj_job fj) of
        Some p \<Rightarrow> update_status p (hand_over_cleanup cm) d
      | None \<Rightarrow>
          let d1 = clear_jobs (\<lambda>i. i \<in> set (flow_jobs_to_clean cm)) d;
              d2 = fold (\<lambda>e. schedule_job_deletion E (fjs_id e) (fjs_delete_after_secs e))
                     (flow_jobs_to_schedule_clean cm) d1
          in case resolve_delete_after_secs (fv_delete_after_use f) (fv_delete_after_secs f) of
               None \<Rightarrow> d2
             | Some secs \<Rightarrow>
                 if secs = 0 then clear_logs (in_run (mj_id fj) d2) (clear_jobs (in_run (mj_id fj) d2) d2)
                 else schedule_deletions E (in_run (mj_id fj) d2) secs d2)"

text \<open>
  \<open>add_tool_message_to_conversation\<close>. The content is the text of the result: the code
  converts the text, not the value, into JSON, so it is always a string.
\<close>

definition add_tool_message ::
  "env \<Rightarrow> uuid \<Rightarrow> bool \<Rightarrow> bool \<Rightarrow> bool \<Rightarrow> json \<Rightarrow> bool \<Rightarrow> uuid option \<Rightarrow> db \<Rightarrow> db" where
  "add_tool_message E job success skipped is_ai result chat conversation d =
     (case conversation of
        Some cv \<Rightarrow>
          if \<not> skipped \<and> chat \<and> (\<not> is_ai \<or> \<not> success) \<and> cv \<in> d_conversation d
          then d\<lparr>d_message := d_message d @ [(cv, job, e_raw E result, success)]\<rparr>
          else d
      | None \<Rightarrow> d)"

text \<open>The flow job is completed: canceled, or with the result and the success computed here.\<close>

definition complete_flow ::
  "env \<Rightarrow> completion \<Rightarrow> step_info \<Rightarrow> mini_job \<Rightarrow> decision \<Rightarrow> json \<Rightarrow> flow_job_duration option act" where
  "complete_flow E c si fj de nresult =
     (if job_is_canceled fj
      then abind (add_completed_job_error E fj (Some (q_canceled_by (mj_q fj), q_canceled_reason (mj_q fj)))
                   (canceled_job_to_result (mj_q fj))) (\<lambda>_. ret (c_duration c))
      else
        let failure_step = at_failure_step (si_old si);
            success = (de_success de \<and> (\<not> failure_step \<or> result_has_recover_true nresult));
            skipped = (de_stop_early de \<and> de_skip de)
        in
        abind (aif (jb_cache_ttl (mj_job fj) \<noteq> None \<and> de_success de)
                 (modify (\<lambda>d. d\<lparr>d_cache := d_cache d @ [(mj_id fj, nresult)]\<rparr>))) (\<lambda>_.
        abind (modify (add_tool_message E (c_job c) success skipped
                 (case si_module si of Some m \<Rightarrow> is_ai_agent m | None \<Rightarrow> False) nresult
                 (unwrap_or False (fs_chat_input_enabled (si_old si))) (fs_memory_id (si_old si)))) (\<lambda>_.
        abind (add_completed_job E fj success skipped nresult (if success then None else c_canceled_by c) None False)
          (\<lambda>(duration, job_ids).
        abind (report_to_wac_parent E fj nresult success job_ids) (\<lambda>_.
        ret (map_option (\<lambda>x. \<lparr>fjd_started_at = x, fjd_duration_ms = duration\<rparr>) (q_started_at (mj_q fj))))))))"

text \<open>A nested flow reports to its parent as a step that ended; a root flow is done.\<close>

definition after_done ::
  "completion \<Rightarrow> step_info \<Rightarrow> mini_job \<Rightarrow> decision \<Rightarrow> json \<Rightarrow> flow_job_duration option \<Rightarrow> update_result" where
  "after_done c si fj de nresult dur =
     (case (is_flow_step fj, jb_parent (mj_job fj)) of
        (True, Some p) \<Rightarrow>
          let failure_step = at_failure_step (si_old si) in
          Rec \<lparr>c_flow = p, c_job = c_flow c,
               c_success = (de_success de \<and> \<not> failure_step),
               c_result = nresult,
               c_canceled_by = (if de_success de then None else c_canceled_by c),
               c_duration = dur,
               c_stop_early_override = (if de_stop_early de then Some (de_skip de) else None),
               c_error_handler = (de_handler de \<or> failure_step)\<rparr>
      | _ \<Rightarrow> Done fj)"

section \<open>The whole update\<close>

text \<open>
  \<open>handle\<close> is \<open>handle_flow\<close>, which pushes the next step. The update is one function of the
  snapshot \<open>si\<close> and the request; \<open>update_internal\<close> takes the snapshot from the database.
\<close>

text \<open>The transaction: \<open>Inl n\<close> when an iteration other than the last ended as the \<open>n\<close>-th.\<close>

definition completion_tx ::
  "env \<Rightarrow> string \<Rightarrow> completion \<Rightarrow> step_info \<Rightarrow> bool \<Rightarrow> decision \<Rightarrow>
   (nat + bool \<times> decision \<times> json \<times> mini_job) act" where
  "completion_tx E w c si continue_on_error de =
     transaction (abind (process_module_status E w c si continue_on_error de) (\<lambda>p.
       case p of
         NonLast n \<Rightarrow> ret (Inl n)
       | Processed inc new de \<Rightarrow>
           abind (store_outcome w c si inc new (override_nresult de)) (\<lambda>(nresult, fj).
           ret (Inr (inc, de, nresult, fj)))))"

type_synonym handler = "mini_job \<Rightarrow> flow_value \<Rightarrow> json option \<Rightarrow> unit act"

text \<open>What follows the commit.\<close>

definition after_completion ::
  "env \<Rightarrow> handler \<Rightarrow> string \<Rightarrow> completion \<Rightarrow> bool \<Rightarrow> step_info \<Rightarrow> bool \<Rightarrow> nat + bool \<times> decision \<times> json \<times> mini_job \<Rightarrow>
   update_result act" where
  "after_completion E handle w c unrecoverable si continue_on_error r =
     (case r of
       Inl n \<Rightarrow> abind (modify (non_last_parallel w c si n)) (\<lambda>_. ret NonLastParallelBranch)
     | Inr (inc, de, nresult, fj) \<Rightarrow>
         if is_preprocessor_step (si_step si) \<and> de_success de
         then abind (finish_preprocessing E c (si_flow si) fj) (\<lambda>_. ret PreprocessingDone)
         else
           let counter = (if inc then fs_step (si_old si) + 1 else fs_step (si_old si)) in
           abind (reads (should_continue_flow E c si fj unrecoverable continue_on_error
                     (past_last_step counter (si_old si)) de)) (\<lambda>continue.
           if continue then
             abind (attempt (handle fj (si_flow si) (Some nresult))) (\<lambda>h.
             case h of
               Inr _ \<Rightarrow> ret NotDone
             | Inl e \<Rightarrow>
                 let v = JObj [(''message'', JStr (e_show_err E e)), (''name'', JStr ''InternalError'')] in
                 abind (modify (append_logs (mj_id fj) ''Unexpected error during flow chaining'')) (\<lambda>_.
                 abind (attempt (add_completed_job_error E fj None v)) (\<lambda>_.
                 ret (after_done c si fj de nresult (c_duration c)))))
           else
             abind (modify (append_logs (mj_id fj) (completion_log fj (at_failure_step (si_old si)) de nresult))) (\<lambda>_.
             abind (modify (cleanup_flow E fj (si_flow si) (fs_cleanup_module (si_old si)))) (\<lambda>_.
             abind (complete_flow E c si fj de nresult) (\<lambda>dur.
             ret (after_done c si fj de nresult dur))))))"

definition update_from_snapshot ::
  "env \<Rightarrow> handler \<Rightarrow> string \<Rightarrow> completion \<Rightarrow> bool \<Rightarrow> step_info \<Rightarrow> update_result act" where
  "update_from_snapshot E handle w c unrecoverable si =
     abind (stop_early_decision E w c si) (\<lambda>(de, continue_on_error).
     abind (completion_tx E w c si continue_on_error de) (after_completion E handle w c unrecoverable si continue_on_error))"

definition update_internal ::
  "env \<Rightarrow> handler \<Rightarrow> string \<Rightarrow> completion \<Rightarrow> bool \<Rightarrow> update_result act" where
  "update_internal E handle w c unrecoverable =
     abind (reads (load_step w (c_flow c))) (\<lambda>si. update_from_snapshot E handle w c unrecoverable si)"

end
