(* ===== verification/ParallelJoin.thy ===== *)
theory ParallelJoin
  imports FlowCompletion
begin

text \<open>
  The join of a parallel loop or of parallel branches. The jobs of the module end on
  different workers; each worker reads the status of the flow, and later runs its
  transaction on whatever the row is by then. The step relation below interleaves the reads
  and the transactions of all workers in every order, with failed transactions and with
  unrelated changes of the database in between.
\<close>

section \<open>A module whose jobs run in parallel\<close>

definition counter_of :: "progress_info \<Rightarrow> (nat \<times> nat) option" where
  "counter_of p =
     (case pi_iterator p of
        Some it \<Rightarrow> Some (it_index it, itered_len_of it)
      | None \<Rightarrow> map_option (\<lambda>b. (ba_branch b, ba_len b)) (pi_branchall p))"

text \<open>
  The module runs \<open>jobs\<close>, \<open>k\<close> of which have ended. \<open>shape\<close> is what never changes while it
  runs: whether it is a loop or branches, and whether the successes are recorded.
\<close>

definition running :: "bool \<times> bool \<Rightarrow> uuid list \<Rightarrow> nat \<Rightarrow> flow_status_module \<Rightarrow> bool" where
  "running shape jobs k m =
     (case m of
        InProgress _ _ p info \<Rightarrow>
          pi_parallel p \<and> ji_flow_jobs info = Some jobs \<and> counter_of p = Some (k, length jobs) \<and>
          shape = (pi_iterator p \<noteq> None, ji_flow_jobs_success info \<noteq> None)
      | _ \<Rightarrow> False)"

definition recorded :: "(uuid \<rightharpoonup> bool) \<Rightarrow> uuid list \<Rightarrow> flow_status_module \<Rightarrow> bool" where
  "recorded ended jobs m =
     (case flow_jobs_success m of
        None \<Rightarrow> True
      | Some xs \<Rightarrow> length xs = length jobs \<and>
          (\<forall>i < length jobs. ended (jobs ! i) \<noteq> None \<longrightarrow> xs ! i = ended (jobs ! i)))"

lemma itered_len_of_index [simp]: "itered_len_of (it\<lparr>it_index := n\<rparr>) = itered_len_of it"
  by (simp add: itered_len_of_def split: option.splits)

lemma runningE:
  assumes "running shape jobs k m"
  obtains i j p info where "m = InProgress i j p info" "pi_parallel p" "ji_flow_jobs info = Some jobs"
    "counter_of p = Some (k, length jobs)" "shape = (pi_iterator p \<noteq> None, ji_flow_jobs_success info \<noteq> None)"
  using assms by (auto simp: running_def split: flow_status_module.splits)

lemma record_job_keeps [simp]:
  "ji_flow_jobs (record_job pos b v info) = ji_flow_jobs info"
  "ji_flow_jobs_success (record_job pos b v info) = None \<longleftrightarrow> ji_flow_jobs_success info = None"
  by (auto simp: record_job_def set_job_success_def set_job_duration_def split: option.splits)

text \<open>The increment of the counter, on a module as it is now.\<close>

lemma bump_running:
  assumes "running shape jobs k m"
  shows "\<exists>m'. (if fst shape then bump_iterator else bump_branchall) (record_job pos b v) m = Some (Suc k, m') \<and>
           running shape jobs (Suc k) m' \<and>
           flow_jobs_success m' = Option.bind (module_info m) (\<lambda>x. ji_flow_jobs_success (record_job pos b v x))"
proof -
  obtain i j p info where m: "m = InProgress i j p info" "pi_parallel p" "ji_flow_jobs info = Some jobs"
    "counter_of p = Some (k, length jobs)" "shape = (pi_iterator p \<noteq> None, ji_flow_jobs_success info \<noteq> None)"
    using assms by (rule runningE)
  then show ?thesis
    by (cases "pi_iterator p") (auto simp: running_def counter_of_def flow_jobs_success_def simp del: not_None_eq)
qed

lemma recorded_insert:
  assumes "recorded ended jobs m" and "distinct jobs" and "i < length jobs"
    and m': "flow_jobs_success m' = Option.bind (module_info m) (\<lambda>x. ji_flow_jobs_success (record_job (Some i) b v x))"
  shows "recorded (ended(jobs ! i \<mapsto> b)) jobs m'"
proof (cases "Option.bind (module_info m) ji_flow_jobs_success")
  case None
  then have "flow_jobs_success m' = None"
    using m' by (cases "module_info m") (auto simp: record_job_def set_job_duration_def set_job_success_def)
  then show ?thesis by (simp add: recorded_def)
next
  case (Some xs)
  then have len: "length xs = length jobs"
    and old: "\<And>n. n < length jobs \<Longrightarrow> ended (jobs ! n) \<noteq> None \<Longrightarrow> xs ! n = ended (jobs ! n)"
    using assms(1) by (auto simp: recorded_def flow_jobs_success_def)
  have "flow_jobs_success m' = Some (xs[i := Some b])"
    using m' Some len assms(3)
    by (cases "module_info m") (auto simp: record_job_def set_job_duration_def set_job_success_def jsonb_simps)
  then show ?thesis
    using len old assms(2,3) by (auto simp: recorded_def nth_list_update nth_eq_iff_index_eq)
qed

section \<open>One worker's transaction\<close>

text \<open>The row of the flow is at \<open>step\<close>, where its module is \<open>m\<close>.\<close>

definition row_at :: "uuid \<Rightarrow> nat \<Rightarrow> db \<Rightarrow> flow_status_module \<Rightarrow> bool" where
  "row_at flow step d m \<longleftrightarrow>
     (\<exists>s. d_status d flow = Some s \<and> fs_step s = int step \<and> step < length (fs_modules s) \<and>
          fs_modules s ! step = m)"

text \<open>A snapshot taken at \<open>step\<close> while the module was running, possibly long ago.\<close>

definition snapshot_at :: "nat \<Rightarrow> bool \<times> bool \<Rightarrow> uuid list \<Rightarrow> step_info \<Rightarrow> bool" where
  "snapshot_at step shape jobs si \<longleftrightarrow>
     fs_step (si_old si) = int step \<and> step < length (fs_modules (si_old si)) \<and>
     is_index_step (si_step si) \<and> (\<exists>k. running shape jobs k (si_status si))"

lemma load_step_snapshot:
  assumes "load_step w flow d = Inr si" and "row_at flow step d m" and "running shape jobs k m"
  shows "snapshot_at step shape jobs si"
  using assms
  by (auto simp: load_step_def row_at_def snapshot_at_def from_i32_and_len_def is_index_step_def Let_def
      result_simps split: option.splits if_splits)

lemma row_at_set_module:
  assumes "row_at flow step d m"
  shows "row_at flow step (update_status flow (set_module (int step) m') d) m'"
  using assms by (auto simp: row_at_def set_module_def jsonb_simps)

lemma get_module_row_at:
  "row_at flow step d m \<Longrightarrow> Option.bind (d_status d flow) (get_module (int step)) = Some m"
  by (auto simp: row_at_def get_module_def)

lemma row_at_frame:
  "d_status d' flow = d_status d flow \<Longrightarrow> row_at flow step d' m = row_at flow step d m"
  by (simp add: row_at_def)

lemma bump_counter_row:
  assumes "row_at flow step d m" and "bump m = Some (n, m')"
  shows "bump_counter flow (int step) bump d = (Inr n, update_status flow (set_module (int step) m') d)"
  using assms by (auto simp: row_at_def bump_counter_def updates_def get_module_def)

lemma advance_parallel_row:
  assumes "running shape jobs k0 (InProgress i0 j0 p info)" and "fs_step old = int step"
    and "row_at (c_flow c) step d m" and "running shape jobs k m" and "recorded ended jobs m"
    and "distinct jobs" and "c_job c \<in> set jobs"
  shows "\<exists>d' m'. advance_parallel c old p info jobs d = (Inr (Suc k, length jobs), d') \<and>
           row_at (c_flow c) step d' m' \<and> running shape jobs (Suc k) m' \<and>
           recorded (ended(c_job c \<mapsto> c_success c)) jobs m'"
proof -
  obtain i where i: "i < length jobs" "jobs ! i = c_job c"
    using assms(7) by (auto simp: in_set_conv_nth)
  have p: "pi_parallel p" "ji_flow_jobs info = Some jobs" "counter_of p = Some (k0, length jobs)"
    "shape = (pi_iterator p \<noteq> None, ji_flow_jobs_success info \<noteq> None)"
    using assms(1) by (auto simp: running_def)
  define pos where "pos = (if ji_flow_jobs_success info \<noteq> None then find_flow_job_index jobs (c_job c) else None)"
  define f where "f = record_job pos (c_success c) (c_duration c)"
  obtain m' where m': "(if fst shape then bump_iterator else bump_branchall) f m = Some (Suc k, m')"
    "running shape jobs (Suc k) m'"
    "flow_jobs_success m' = Option.bind (module_info m) (\<lambda>x. ji_flow_jobs_success (f x))"
    unfolding f_def using bump_running [OF assms(4)] by blast
  define d' where "d' = update_status (c_flow c) (set_module (int step) m') d"
  have "recorded (ended(c_job c \<mapsto> c_success c)) jobs m'"
  proof (cases "snd shape")
    case True
    then have "pos = Some i"
      using p i assms(6) by (auto simp: pos_def find_flow_job_index_def position_of_nth_distinct simp flip: i(2))
    then show ?thesis
      using recorded_insert [OF assms(5,6) i(1)] m'(3) i(2) by (simp add: f_def)
  next
    case False
    then have "flow_jobs_success m' = None"
      using m'(2) by (auto simp: running_def flow_jobs_success_def split: flow_status_module.splits)
    then show ?thesis by (simp add: recorded_def)
  qed
  moreover have "advance_parallel c old p info jobs d = (Inr (Suc k, length jobs), d')"
  proof -
    have "bump_counter (c_flow c) (int step) ((if fst shape then bump_iterator else bump_branchall) f) d =
            (Inr (Suc k), d')"
      unfolding d'_def using assms(3) m'(1) by (rule bump_counter_row)
    moreover have "advance_parallel c old p info jobs =
        (case (pi_iterator p, pi_branchall p) of
           (Some it, _) \<Rightarrow> abind (bump_counter (c_flow c) (int step) (bump_iterator f)) (\<lambda>n. ret (n, itered_len_of it))
         | (None, Some b) \<Rightarrow> abind (bump_counter (c_flow c) (int step) (bump_branchall f)) (\<lambda>n. ret (n, ba_len b))
         | _ \<Rightarrow> fail (InternalErr ''unexpected status for parallel module''))"
      by (simp only: advance_parallel_def Let_def f_def pos_def assms(2))
    ultimately show ?thesis
      using p(3,4) by (cases "pi_iterator p") (auto simp: counter_of_def abind_def ret_def)
  qed
  ultimately show ?thesis
    using m'(2) row_at_set_module [OF assms(3)] by (auto simp: d'_def)
qed

text \<open>
  The transaction of a worker, run on the row as it is: it never is the last one before all
  jobs have ended, and it is the last one when it makes the count complete; then the module
  is stored as ended, with every outcome recorded.
\<close>

definition ended_module :: "uuid list \<Rightarrow> flow_status_module \<Rightarrow> bool" where
  "ended_module jobs m \<longleftrightarrow> (is_success m \<or> is_failure m) \<and> flow_jobs m = Some jobs"

lemma record_read_success:
  assumes "recorded ended jobs m" and "c_job c \<in> set jobs" and "ended (c_job c) = Some (c_success c)"
    and "ji_flow_jobs_success info = flow_jobs_success m"
  shows "\<forall>xs. ji_flow_jobs_success (record_read jobs c info) = Some xs \<longrightarrow>
           length xs = length jobs \<and> (\<forall>i < length jobs. ended (jobs ! i) \<noteq> None \<longrightarrow> xs ! i = ended (jobs ! i))"
proof -
  obtain p where "position_of (c_job c) jobs = Some p"
    using assms(2) by (cases "position_of (c_job c) jobs") (auto simp: position_of_None_iff)
  moreover from this have "p < length jobs" "jobs ! p = c_job c"
    by (auto dest: position_of_SomeD)
  ultimately show ?thesis
    using assms by (auto simp: recorded_def record_read_def nth_list_update split: option.splits)
qed

lemma ended_moduleI:
  assumes "ji_flow_jobs info = Some jobs"
    and "\<forall>xs. ji_flow_jobs_success info = Some xs \<longrightarrow> length xs = length jobs \<and>
      (\<forall>i < length jobs. ended (jobs ! i) \<noteq> None \<longrightarrow> xs ! i = ended (jobs ! i))"
  shows "ended_module jobs (if b then Success i j info a f k else Failure i j info f')"
    and "recorded ended jobs (if b then Success i j info a f k else Failure i j info f')"
  using assms
  by (auto simp: ended_module_def is_success_def is_failure_def flow_jobs_def recorded_def
      flow_jobs_success_def split: option.splits)

lemma finish_parallel_row:
  assumes ok: "finish_parallel E w c si p jobs de d = (Inr r, d')"
    and row: "row_at (c_flow c) step d m" and st: "fs_step (si_old si) = int step"
    and rec: "recorded ended jobs m" and job: "c_job c \<in> set jobs" "ended (c_job c) = Some (c_success c)"
  shows "\<exists>inc m' de'. r = Processed inc (Some m') de' \<and> ended_module jobs m' \<and> recorded ended jobs m' \<and>
           d_status d' = d_status d"
proof -
  have read: "Option.bind (Option.bind (d_status d (c_flow c)) (get_module (fs_step (si_old si)))) module_info =
      module_info m"
    using get_module_row_at [OF row] by (simp add: st)
  let ?info = "record_read jobs c (no_jobs\<lparr>ji_flow_jobs := Some jobs,
                   ji_flow_jobs_success := Option.bind (module_info m) ji_flow_jobs_success,
                   ji_flow_jobs_duration := Option.bind (module_info m) ji_flow_jobs_duration\<rparr>)"
  have "\<forall>xs. ji_flow_jobs_success ?info = Some xs \<longrightarrow> length xs = length jobs \<and>
      (\<forall>i < length jobs. ended (jobs ! i) \<noteq> None \<longrightarrow> xs ! i = ended (jobs ! i))"
    by (rule record_read_success [OF rec job]) (simp add: flow_jobs_success_def)
  moreover have "ji_flow_jobs ?info = Some jobs"
    by (simp add: record_read_def Let_def)
  ultimately have "ended_module jobs (if b then Success i j ?info a f k else Failure i j ?info f')"
    "recorded ended jobs (if b then Success i j ?info a f k else Failure i j ?info f')" for b i j a f k f'
    by (rule ended_moduleI [rotated])+
  note ended = this
  obtain de1 where de1: "stop_after_all_iters E w c si de d = Inr de1"
    using ok by (auto simp: finish_parallel_def Let_def split: sum.splits)
  define b where "b = (\<not> stop_fails de1 \<and>
    (skip_loop_failures si \<or> all_completed_ok (jobs_filtered si (pi_branchall p \<noteq> None) jobs) d))"
  have "r = Processed b (Some (if b then Success (fsm_id (si_status si)) (c_job c) ?info [] []
                                 (de_stop_early de1 \<and> de_skip de1)
                               else Failure (fsm_id (si_status si)) (c_job c) ?info []))
          (de1\<lparr>de_success := b, de_handler := \<not> b \<and> fv_failure_module (si_flow si) \<noteq> None\<rparr>)"
    and d': "d' = d\<lparr>d_lock := filter (\<lambda>(f, j). f \<noteq> c_flow c) (d_lock d)\<rparr>"
    using ok unfolding finish_parallel_def Let_def read de1 b_def by (simp_all only: sum.case prod.inject sum.inject)
  then show ?thesis using ended by (simp add: d')
qed

definition module_at :: "uuid \<Rightarrow> nat \<Rightarrow> db \<Rightarrow> flow_status_module \<Rightarrow> bool" where
  "module_at flow step d m \<longleftrightarrow>
     (\<exists>s. d_status d flow = Some s \<and> step < length (fs_modules s) \<and> fs_modules s ! step = m)"

lemma module_at_row: "row_at flow step d m \<Longrightarrow> module_at flow step d m"
  by (auto simp: row_at_def module_at_def)

lemma module_at_update:
  assumes "module_at flow step d m" and "\<And>s. fs_modules (f s) = fs_modules s"
  shows "module_at flow step (update_status flow f d) m"
  using assms by (auto simp: module_at_def)

lemma module_at_set_module:
  assumes "module_at flow step d m"
  shows "module_at flow step (update_status flow (set_module (int step) m') d) m'"
  using assms by (auto simp: module_at_def set_module_def jsonb_simps)

lemma set_leaf_job_status [simp]: "d_status (set_leaf_job flow m d) = d_status d"
  by (auto simp: set_leaf_job_def Let_def split: option.splits)

lemma aif_update_status:
  "aif b (modify (update_status flow f)) d = (Inr u, d') \<Longrightarrow>
   d' = (if b then update_status flow f d else d)"
  by (cases b) (auto simp: act_iffs)

lemma store_outcome_row:
  assumes ok: "store_outcome w c si inc (Some m') de d = (Inr r, d')"
    and snap: "snapshot_at step shape jobs si" and row: "module_at (c_flow c) step d m"
  shows "module_at (c_flow c) step d' m'"
proof -
  obtain d1 d2 where d1: "aif inc (modify (update_status (c_flow c) (\<lambda>s. s\<lparr>fs_step := fs_step (si_old si) + 1\<rparr>))) d = (Inr (), d1)"
    and d2: "d2 = store_module (c_flow c) si m' d1"
    and d': "aif (fail_count (fs_retry (si_old si)) > 0 \<and> is_success m')
      (modify (update_status (c_flow c) (\<lambda>s. s\<lparr>fs_retry := retry_status_default\<rparr>))) d2 = (Inr (), d')"
    using ok by (auto simp: store_outcome_def Let_def act_iffs)
  have "module_at (c_flow c) step d1 m"
    using aif_update_status [OF d1] row by (auto intro: module_at_update)
  then have "module_at (c_flow c) step (update_status (c_flow c) (set_module (int step) m') d1) m'"
    by (rule module_at_set_module)
  moreover have "\<not> at_failure_step (si_old si)" "\<not> is_preprocessor_step (si_step si)" "fs_step (si_old si) = int step"
    using snap by (auto simp: snapshot_at_def at_failure_step_def is_index_step_def is_preprocessor_step_def
        split: step.splits)
  ultimately have "module_at (c_flow c) step d2 m'"
    by (simp add: d2 store_module_def module_at_def)
  then show ?thesis
    using aif_update_status [OF d'] by (auto intro: module_at_update)
qed

lemma completion_tx_row:
  assumes tx: "completion_tx E w c si coe de d = (Inr r, d')"
    and snap: "snapshot_at step shape jobs si" and row: "row_at (c_flow c) step d m"
    and run: "running shape jobs k m" and rec: "recorded ended jobs m"
    and jobs: "distinct jobs" "c_job c \<in> set jobs"
  shows "if Suc k = length jobs
         then (\<exists>x. r = Inr x) \<and> (\<exists>m'. module_at (c_flow c) step d' m' \<and> ended_module jobs m' \<and>
                recorded (ended(c_job c \<mapsto> c_success c)) jobs m')
         else r = Inl (Suc k) \<and> (\<exists>m'. row_at (c_flow c) step d' m' \<and> running shape jobs (Suc k) m' \<and>
                recorded (ended(c_job c \<mapsto> c_success c)) jobs m')"
proof -
  obtain k0 where k0: "running shape jobs k0 (si_status si)" and st: "fs_step (si_old si) = int step"
    using snap by (auto simp: snapshot_at_def)
  obtain i j p info where ms: "si_status si = InProgress i j p info" "pi_parallel p" "ji_flow_jobs info = Some jobs"
    using k0 by (rule runningE)
  obtain d1 m1 where adv: "advance_parallel c (si_old si) p info jobs d = (Inr (Suc k, length jobs), d1)"
    and m1: "row_at (c_flow c) step d1 m1" "running shape jobs (Suc k) m1"
      "recorded (ended(c_job c \<mapsto> c_success c)) jobs m1"
    using advance_parallel_row [OF k0 [unfolded ms(1)] st row run rec jobs] by blast
  let ?d2 = "reset_ping (c_flow c) d1"
  have row2: "row_at (c_flow c) step ?d2 m1"
    using m1(1) by (simp add: row_at_def)
  have proc: "process_module_status E w c si coe de d =
      (if Suc k = length jobs then finish_parallel E w c si p jobs de ?d2 else (Inr (NonLast (Suc k)), ?d2))"
    using ms adv by (simp add: process_module_status_def process_parallel_def abind_def modify_def ret_def)
  show ?thesis
  proof (cases "Suc k = length jobs")
    case False
    then show ?thesis
      using tx m1 row2 by (auto simp: completion_tx_def act_iffs proc)
  next
    case True
    with tx obtain q d3 where fin: "finish_parallel E w c si p jobs de ?d2 = (Inr q, d3)"
      and rest: "(case q of NonLast n \<Rightarrow> ret (Inl n) | Processed inc new de \<Rightarrow>
           abind (store_outcome w c si inc new (override_nresult de)) (\<lambda>(nresult, fj).
           ret (Inr (inc, de, nresult, fj)))) d3 = (Inr r, d')"
      by (auto simp: completion_tx_def act_iffs proc)
    obtain inc m' de' where q: "q = Processed inc (Some m') de'" "ended_module jobs m'"
      "recorded (ended(c_job c \<mapsto> c_success c)) jobs m'" "d_status d3 = d_status ?d2"
      using finish_parallel_row [OF fin row2 st m1(3) jobs(2)] by auto
    have "module_at (c_flow c) step d3 m1"
      using module_at_row [OF row2] q(4) by (simp add: module_at_def)
    then show ?thesis
      using rest q(2,3) True store_outcome_row [OF _ snap] by (fastforce simp: q(1) act_iffs)
  qed
qed

section \<open>All interleavings\<close>

text \<open>
  The database, the snapshots the workers hold, and for each job whose end has been recorded
  whether its transaction was the last one and whether the job succeeded.
\<close>

record join_state =
  jn_db :: db
  jn_snap :: "uuid \<rightharpoonup> step_info"
  jn_out :: "uuid \<rightharpoonup> bool \<times> bool"

text \<open>
  A worker reads the status (again, if its transaction failed); it runs its transaction,
  with whatever it decided about stopping early; a failed transaction may be repeated with
  another outcome; everything else leaves the status row of this flow alone.
\<close>

inductive join_step :: "env \<Rightarrow> string \<Rightarrow> uuid \<Rightarrow> uuid list \<Rightarrow> join_state \<Rightarrow> join_state \<Rightarrow> bool"
  for E w flow jobs where
  read_status: "j \<in> set jobs \<Longrightarrow> jn_out s j = None \<Longrightarrow> load_step w flow (jn_db s) = Inr si \<Longrightarrow>
    join_step E w flow jobs s (s\<lparr>jn_snap := (jn_snap s)(j \<mapsto> si)\<rparr>)"
| commit_other: "jn_snap s (c_job c) = Some si \<Longrightarrow> jn_out s (c_job c) = None \<Longrightarrow> c_flow c = flow \<Longrightarrow>
    completion_tx E w c si coe de (jn_db s) = (Inr (Inl n), d') \<Longrightarrow>
    join_step E w flow jobs s (s\<lparr>jn_db := non_last_parallel w c si n d',
      jn_out := (jn_out s)(c_job c \<mapsto> (False, c_success c))\<rparr>)"
| commit_last: "jn_snap s (c_job c) = Some si \<Longrightarrow> jn_out s (c_job c) = None \<Longrightarrow> c_flow c = flow \<Longrightarrow>
    completion_tx E w c si coe de (jn_db s) = (Inr (Inr x), d') \<Longrightarrow>
    join_step E w flow jobs s (s\<lparr>jn_db := d', jn_out := (jn_out s)(c_job c \<mapsto> (True, c_success c))\<rparr>)"
| commit_fails: "jn_snap s (c_job c) = Some si \<Longrightarrow> jn_out s (c_job c) = None \<Longrightarrow> c_flow c = flow \<Longrightarrow>
    completion_tx E w c si coe de (jn_db s) = (Inl e, d') \<Longrightarrow>
    join_step E w flow jobs s (s\<lparr>jn_db := d'\<rparr>)"
| elsewhere: "d_status d' flow = d_status (jn_db s) flow \<Longrightarrow>
    join_step E w flow jobs s (s\<lparr>jn_db := d'\<rparr>)"

inductive_cases join_stepE: "join_step E w flow jobs s s'"

text \<open>The module has just been started: no job has ended, no worker has read.\<close>

definition join_init :: "uuid \<Rightarrow> nat \<Rightarrow> uuid list \<Rightarrow> join_state \<Rightarrow> bool" where
  "join_init flow step jobs s \<longleftrightarrow>
     distinct jobs \<and> jobs \<noteq> [] \<and> jn_snap s = Map.empty \<and> jn_out s = Map.empty \<and>
     (\<exists>m shape. row_at flow step (jn_db s) m \<and> running shape jobs 0 m \<and> recorded Map.empty jobs m)"

definition ended_jobs :: "join_state \<Rightarrow> uuid set" where
  "ended_jobs s = dom (jn_out s)"

definition last_jobs :: "join_state \<Rightarrow> uuid set" where
  "last_jobs s = {j. \<exists>b. jn_out s j = Some (True, b)}"

definition outcomes :: "join_state \<Rightarrow> uuid \<rightharpoonup> bool" where
  "outcomes s = (\<lambda>j. map_option snd (jn_out s j))"

definition join_inv :: "uuid \<Rightarrow> nat \<Rightarrow> bool \<times> bool \<Rightarrow> uuid list \<Rightarrow> join_state \<Rightarrow> bool" where
  "join_inv flow step shape jobs s \<longleftrightarrow>
     ended_jobs s \<subseteq> set jobs \<and> dom (jn_snap s) \<subseteq> set jobs \<and>
     (\<forall>si \<in> ran (jn_snap s). snapshot_at step shape jobs si) \<and>
     (if card (ended_jobs s) < length jobs
      then last_jobs s = {} \<and>
           (\<exists>m. row_at flow step (jn_db s) m \<and> running shape jobs (card (ended_jobs s)) m \<and>
                recorded (outcomes s) jobs m)
      else (\<exists>j. last_jobs s = {j}) \<and>
           (\<exists>m. module_at flow step (jn_db s) m \<and> ended_module jobs m \<and> recorded (outcomes s) jobs m))"

lemma ended_jobs_upd: "jn_out s j = None \<Longrightarrow> finite (ended_jobs s) \<Longrightarrow>
   card (ended_jobs (s\<lparr>jn_db := d, jn_out := (jn_out s)(j \<mapsto> x)\<rparr>)) = Suc (card (ended_jobs s))"
  by (auto simp: ended_jobs_def domIff)

lemma outcomes_upd: "outcomes (s\<lparr>jn_db := d, jn_out := (jn_out s)(j \<mapsto> (l, b))\<rparr>) = (outcomes s)(j \<mapsto> b)"
  by (auto simp: outcomes_def)

lemma last_jobs_upd: "jn_out s j = None \<Longrightarrow>
   last_jobs (s\<lparr>jn_db := d, jn_out := (jn_out s)(j \<mapsto> (l, b))\<rparr>) = (if l then {j} else {}) \<union> last_jobs s"
  by (auto simp: last_jobs_def)

lemma not_all_ended:
  assumes "distinct jobs" and "ended_jobs s \<subseteq> set jobs" and "j \<in> set jobs" and "jn_out s j = None"
  shows "card (ended_jobs s) < length jobs"
proof -
  have "ended_jobs s \<subset> set jobs" using assms by (auto simp: ended_jobs_def)
  then have "card (ended_jobs s) < card (set jobs)" by (intro psubset_card_mono) auto
  then show ?thesis using assms(1) by (simp add: distinct_card)
qed

lemma non_last_parallel_status [simp]: "d_status (non_last_parallel w c si n d) = d_status d"
  by (simp add: non_last_parallel_def resume_waiting_def Let_def)

lemma completion_tx_fails:
  "completion_tx E w c si coe de d = (Inl e, d') \<Longrightarrow> d_status d' = d_status d"
  by (auto simp: completion_tx_def transaction_def split: prod.splits sum.splits)

lemma join_inv_commit:
  assumes inv: "join_inv flow step shape jobs s" and jobs: "distinct jobs"
    and snap: "jn_snap s (c_job c) = Some si" and out: "jn_out s (c_job c) = None" and flow: "c_flow c = flow"
    and tx: "completion_tx E w c si coe de (jn_db s) = (Inr r, d')"
    and upd: "d'' = (case r of Inl n \<Rightarrow> non_last_parallel w c si n d' | Inr x \<Rightarrow> d')"
  shows "join_inv flow step shape jobs (s\<lparr>jn_db := d'',
           jn_out := (jn_out s)(c_job c \<mapsto> (\<not> isl r, c_success c))\<rparr>)" (is "join_inv _ _ _ _ ?s")
proof -
  have j: "c_job c \<in> set jobs" and sub: "ended_jobs s \<subseteq> set jobs" and si: "snapshot_at step shape jobs si"
    using inv snap by (auto simp: join_inv_def intro: ranI)
  have less: "card (ended_jobs s) < length jobs" by (rule not_all_ended [OF jobs sub j out])
  then obtain m where m: "row_at flow step (jn_db s) m" "running shape jobs (card (ended_jobs s)) m"
      "recorded (outcomes s) jobs m" and none: "last_jobs s = {}"
    using inv by (auto simp: join_inv_def)
  have card: "card (ended_jobs ?s) = Suc (card (ended_jobs s))"
    using sub out by (intro ended_jobs_upd) (auto intro: finite_subset)
  have d'': "d_status d'' = d_status d'" using upd by (cases r) auto
  have sub': "ended_jobs ?s \<subseteq> set jobs" using sub j by (auto simp: ended_jobs_def)
  note tx_row = completion_tx_row [OF tx si m(1) [folded flow] m(2,3) jobs j]
  show ?thesis
  proof (cases "Suc (card (ended_jobs s)) = length jobs")
    case True
    then show ?thesis
      using tx_row inv sub' none last_jobs_upd [OF out] outcomes_upd flow d'' card
      by (auto simp: join_inv_def module_at_def)
  next
    case False
    then show ?thesis
      using tx_row inv sub' none last_jobs_upd [OF out] outcomes_upd flow d'' card less
      by (auto simp: join_inv_def row_at_def)
  qed
qed

lemma join_inv_step:
  assumes "join_step E w flow jobs s s'" and inv: "join_inv flow step shape jobs s" and jobs: "distinct jobs"
  shows "join_inv flow step shape jobs s'"
  using assms(1)
proof (cases rule: join_step.cases)
  case (read_status j si)
  have "card (ended_jobs s) < length jobs"
    using read_status inv jobs by (intro not_all_ended) (auto simp: join_inv_def)
  then obtain m where "row_at flow step (jn_db s) m" "running shape jobs (card (ended_jobs s)) m"
    using inv by (auto simp: join_inv_def)
  then have "snapshot_at step shape jobs si"
    using read_status by (intro load_step_snapshot)
  then show ?thesis
    using read_status inv
    by (auto simp: join_inv_def ended_jobs_def last_jobs_def outcomes_def ran_def split: if_splits)
next
  case (commit_other c si coe de n d')
  then show ?thesis
    using join_inv_commit [OF inv jobs commit_other(2-5), where d'' = "non_last_parallel w c si n d'"] by simp
next
  case (commit_last c si coe de x d')
  then show ?thesis
    using join_inv_commit [OF inv jobs commit_last(2-5), where d'' = d'] by simp
next
  case (commit_fails c si coe de e d')
  then have "d_status d' = d_status (jn_db s)" by (blast dest: completion_tx_fails)
  then show ?thesis
    using commit_fails(1) inv
    by (auto simp: join_inv_def ended_jobs_def last_jobs_def outcomes_def row_at_def module_at_def split: if_splits)
next
  case (elsewhere d')
  then show ?thesis
    using inv
    by (auto simp: join_inv_def ended_jobs_def last_jobs_def outcomes_def row_at_def module_at_def split: if_splits)
qed

lemma join_init_inv:
  assumes "join_init flow step jobs s"
  obtains shape where "join_inv flow step shape jobs s" "distinct jobs"
  using assms that by (auto simp: join_init_def join_inv_def ended_jobs_def last_jobs_def outcomes_def)

lemma join_inv_reachable:
  assumes "(join_step E w flow jobs)\<^sup>*\<^sup>* s s'" and "join_init flow step jobs s"
  obtains shape where "join_inv flow step shape jobs s'"
proof -
  obtain shape where "join_inv flow step shape jobs s" and jobs: "distinct jobs"
    by (rule join_init_inv [OF assms(2)])
  with assms(1) have "join_inv flow step shape jobs s'"
    by (induction rule: rtranclp_induct) (auto intro: join_inv_step)
  then show thesis by (rule that)
qed

text \<open>What holds of every state of the join: nothing is joined early, and nothing twice.\<close>

definition joined_once :: "uuid \<Rightarrow> nat \<Rightarrow> uuid list \<Rightarrow> join_state \<Rightarrow> bool" where
  "joined_once flow step jobs s \<longleftrightarrow>
     card (last_jobs s) = (if ended_jobs s = set jobs then 1 else 0) \<and>
     (\<exists>m. module_at flow step (jn_db s) m \<and>
          (if ended_jobs s = set jobs then ended_module jobs m
           else \<exists>shape. running shape jobs (card (ended_jobs s)) m) \<and>
          recorded (outcomes s) jobs m)"

lemma join_inv_joined:
  assumes inv: "join_inv flow step shape jobs s'" and "distinct jobs"
  shows "joined_once flow step jobs s'"
proof -
  have "ended_jobs s' \<subseteq> set jobs" using inv by (simp add: join_inv_def)
  with assms(2) have "ended_jobs s' = set jobs \<longleftrightarrow> \<not> card (ended_jobs s') < length jobs"
    by (metis List.finite_set card_subset_eq distinct_card linorder_neqE_nat psubset_card_mono not_less_iff_gr_or_eq psubsetI)
  then show ?thesis
    using inv unfolding joined_once_def by (cases shape) (auto simp: join_inv_def, (blast intro: module_at_row)+)
qed

lemma join_init_joined:
  assumes "join_init flow step jobs s" and "(join_step E w flow jobs)\<^sup>*\<^sup>* s s'"
  shows "joined_once flow step jobs s'"
proof -
  obtain shape where "join_inv flow step shape jobs s'"
    by (rule join_inv_reachable [OF assms(2,1)])
  moreover have "distinct jobs" using assms(1) by (simp add: join_init_def)
  ultimately show ?thesis by (rule join_inv_joined)
qed

text \<open>
  C1: However the workers interleave, and however stale their snapshots are, a parallel loop or
  parallel branches are joined exactly once: no transaction takes the flow on before every
  job has ended, and once they all have, exactly one did. Until then the module is in
  progress with a count equal to the number of recorded ends; afterwards it is stored as a
  success or a failure. In both cases the outcome of each job that ended is in the module's
  \<open>flow_jobs_success\<close>, where the module keeps one.
\<close>

theorem parallel_join_once:
  assumes "join_init flow step jobs s" and "(join_step E w flow jobs)\<^sup>*\<^sup>* s s'"
  shows "card (last_jobs s') = (if ended_jobs s' = set jobs then 1 else 0) \<and>
    (\<exists>m. module_at flow step (jn_db s') m \<and>
         (if ended_jobs s' = set jobs then ended_module jobs m
          else \<exists>shape. running shape jobs (card (ended_jobs s')) m) \<and>
         recorded (outcomes s') jobs m)"
  using join_init_joined [OF assms] by (simp only: joined_once_def)

section \<open>A run with two jobs\<close>

text \<open>
  A flow whose only module runs the jobs 2 and 3 in parallel: both workers read the status
  before either commits.
\<close>

definition two_flow :: flow_value where
  "two_flow = flow_value_default\<lparr>fv_modules := [FlowModule (opts_default ''a'') (RawValue (raw_default ''forloopflow'') None None None None)]\<rparr>"

definition two_status :: flow_status where
  "two_status = (flow_status_new two_flow)\<lparr>fs_modules :=
     [InProgress ''a'' 3
        \<lparr>pi_progress = None, pi_iterator = Some \<lparr>it_index = 0, it_itered = None, it_itered_len = Some 2\<rparr>,
         pi_branchall = None, pi_parallel = True, pi_while_loop = False\<rparr>
        (no_jobs\<lparr>ji_flow_jobs := Some [2, 3], ji_flow_jobs_success := Some [None, None]\<rparr>)]\<rparr>"

definition two_db :: db where
  "two_db = empty_db\<lparr>d_job := [1 \<mapsto> (plain_job None)\<lparr>jb_raw_flow := Some two_flow\<rparr>],
     d_queue := [1 \<mapsto> plain_queue], d_status := [1 \<mapsto> two_status],
     d_completed := (\<lambda>i. if i = 2 \<or> i = 3 then Some \<lparr>co_workspace = ''w'', co_status = StSuccess,
       co_result = Some (JInt 1), co_started_at = None, co_duration = 0, co_canceled_by = None,
       co_canceled_reason = None, co_flow_status = None, co_wac = None\<rparr> else None)\<rparr>"

definition two_req :: "uuid \<Rightarrow> completion" where
  "two_req j = \<lparr>c_flow = 1, c_job = j, c_success = True, c_result = JInt 1, c_canceled_by = None,
     c_duration = None, c_stop_early_override = None, c_error_handler = False\<rparr>"

definition two_snap :: step_info where
  "two_snap = (case load_step ''w'' 1 two_db of Inr si \<Rightarrow> si | Inl _ \<Rightarrow> undefined)"

definition two_tx :: "uuid \<Rightarrow> db \<Rightarrow> (nat + bool \<times> decision \<times> json \<times> mini_job) res \<times> db" where
  "two_tx j = completion_tx plain_env ''w'' (two_req j) two_snap False (initial_decision (two_req j) two_snap)"

definition two_db1 :: db where
  "two_db1 = non_last_parallel ''w'' (two_req 2) two_snap 1 (snd (two_tx 2 two_db))"

definition two_states :: "join_state \<times> join_state" where
  "two_states =
     (\<lparr>jn_db = two_db, jn_snap = Map.empty, jn_out = Map.empty\<rparr>,
      \<lparr>jn_db = snd (two_tx 3 two_db1), jn_snap = [2 \<mapsto> two_snap, 3 \<mapsto> two_snap],
       jn_out = [2 \<mapsto> (False, True), 3 \<mapsto> (True, True)]\<rparr>)"

lemma two_load: "load_step ''w'' 1 two_db = Inr two_snap"
proof -
  have "case load_step ''w'' 1 two_db of Inr si \<Rightarrow> True | Inl _ \<Rightarrow> False" by code_simp
  then show ?thesis by (auto simp: two_snap_def split: sum.splits)
qed

lemma two_commits:
  "two_tx 2 two_db = (Inr (Inl 1), snd (two_tx 2 two_db))"
  "\<exists>x. two_tx 3 two_db1 = (Inr (Inr x), snd (two_tx 3 two_db1))"
proof -
  have "case fst (two_tx 2 two_db) of Inr (Inl n) \<Rightarrow> n = 1 | _ \<Rightarrow> False"
    "case fst (two_tx 3 two_db1) of Inr (Inr _) \<Rightarrow> True | _ \<Rightarrow> False"
    by code_simp+
  then show "two_tx 2 two_db = (Inr (Inl 1), snd (two_tx 2 two_db))"
    "\<exists>x. two_tx 3 two_db1 = (Inr (Inr x), snd (two_tx 3 two_db1))"
    by (cases "two_tx 2 two_db", auto split: sum.splits) (cases "two_tx 3 two_db1", auto split: sum.splits)
qed

lemma two_init: "join_init 1 0 [2, 3] (fst two_states)"
proof -
  have "row_at 1 0 two_db (fs_modules two_status ! 0)" "running (True, True) [2, 3] 0 (fs_modules two_status ! 0)"
    "recorded Map.empty [2, 3] (fs_modules two_status ! 0)"
    by (simp_all add: row_at_def two_db_def two_status_def flow_status_new_def two_flow_def flow_value_default_def
        running_def counter_of_def itered_len_of_def recorded_def flow_jobs_success_def no_jobs_def)
  then show ?thesis by (auto simp: join_init_def two_states_def)
qed

lemma two_reach: "(join_step plain_env ''w'' 1 [2, 3])\<^sup>*\<^sup>* (fst two_states) (snd two_states)"
proof -
  let ?R = "join_step plain_env ''w'' 1 [2, 3]"
  obtain x where x: "two_tx 3 two_db1 = (Inr (Inr x), snd (two_tx 3 two_db1))"
    using two_commits(2) by blast
  let ?s2 = "\<lparr>jn_db = two_db, jn_snap = [2 \<mapsto> two_snap, 3 \<mapsto> two_snap], jn_out = Map.empty\<rparr>"
  let ?s3 = "\<lparr>jn_db = two_db1, jn_snap = [2 \<mapsto> two_snap, 3 \<mapsto> two_snap], jn_out = [2 \<mapsto> (False, True)]\<rparr>"
  have "?R (fst two_states) \<lparr>jn_db = two_db, jn_snap = [2 \<mapsto> two_snap], jn_out = Map.empty\<rparr>"
    using join_step.read_status [of 2 "[2, 3]" "fst two_states" "''w''" 1 two_snap plain_env] two_load
    by (simp add: two_states_def)
  moreover have "?R \<lparr>jn_db = two_db, jn_snap = [2 \<mapsto> two_snap], jn_out = Map.empty\<rparr> ?s2"
    using join_step.read_status [of 3 "[2, 3]" "\<lparr>jn_db = two_db, jn_snap = [2 \<mapsto> two_snap], jn_out = Map.empty\<rparr>"
        "''w''" 1 two_snap plain_env] two_load by simp
  moreover have "?R ?s2 ?s3"
  proof -
    have "completion_tx plain_env ''w'' (two_req 2) two_snap False (initial_decision (two_req 2) two_snap) (jn_db ?s2) =
        (Inr (Inl 1), snd (two_tx 2 two_db))"
      using two_commits(1) by (simp add: two_tx_def)
    from join_step.commit_other [OF _ _ _ this, of 1 "[2, 3]"] show ?thesis
      by (simp add: two_req_def two_db1_def)
  qed
  moreover have "?R ?s3 (snd two_states)"
  proof -
    have "completion_tx plain_env ''w'' (two_req 3) two_snap False (initial_decision (two_req 3) two_snap) (jn_db ?s3) =
        (Inr (Inr x), snd (two_tx 3 two_db1))"
      using x by (simp add: two_tx_def)
    from join_step.commit_last [OF _ _ _ this, of 1 "[2, 3]"] show ?thesis
      by (simp add: two_req_def two_states_def)
  qed
  ultimately show ?thesis
    by (meson converse_rtranclp_into_rtranclp rtranclp.rtrancl_refl)
qed

theorem parallel_join_once_witness:
  "card (last_jobs (snd two_states)) = 1 \<and> (\<exists>m. module_at 1 0 (jn_db (snd two_states)) m \<and> ended_module [2, 3] m)"
proof -
  have "ended_jobs (snd two_states) = set [2, 3]"
    by (auto simp: ended_jobs_def two_states_def)
  then show ?thesis
    using parallel_join_once [OF two_init two_reach] by auto
qed

end
