(* ===== verification/FlowPush.thy ===== *)
theory FlowPush
  imports FlowCompletion Push
begin

text \<open>
  Pushing the next step of a flow: \<open>handle_flow\<close>, \<open>push_next_flow_job\<close> and
  \<open>compute_next_flow_transform\<close> of \<open>windmill-worker/src/worker_flow.rs\<close>. The definitions follow
  the blocks of \<open>push_next_flow_job\<close>: the cases in which nothing is pushed, the gate of a
  suspended step, sleeping, retries and the error handler, the arguments, what to run next,
  the loop that pushes it, and the status that is stored.
\<close>

section \<open>Input transforms\<close>

definition js_ctx :: "(string \<times> json) list \<Rightarrow> args option \<Rightarrow> args option \<Rightarrow> id_context option \<Rightarrow> eval_ctx" where
  "js_ctx vars a env by_id = \<lparr>ec_vars = vars, ec_args = a, ec_env = env, ec_by_id = by_id, ec_extra = []\<rparr>"

definition as_execution_err :: "'a res \<Rightarrow> 'a res" where
  "as_execution_err r = (case r of Inl e \<Rightarrow> Inl (ExecutionErr ''evaluation of an expression'') | Inr x \<Rightarrow> Inr x)"

definition evaluate_input_transform ::
  "env \<Rightarrow> (json \<Rightarrow> 'a res) \<Rightarrow> 'a \<Rightarrow> input_transform \<Rightarrow> json \<Rightarrow> args \<Rightarrow> args option \<Rightarrow> id_context option \<Rightarrow>
   db \<Rightarrow> 'a res" where
  "evaluate_input_transform E dec dflt t last_result a env by_id d =
     (case t of
        Static v \<Rightarrow> as_execution_err (dec v)
      | Javascript expr \<Rightarrow>
          rbind (as_execution_err (e_js E expr
            (js_ctx [(''result'', last_result), (''previous_result'', last_result)] (Some a) env by_id) d))
          (\<lambda>v. as_execution_err (dec v))
      | Ai \<Rightarrow> Inr dflt)"

text \<open>The values which the expressions of a step see beside the arguments of the flow.\<close>

record step_vars =
  sv_args :: args
  sv_env :: "args option"
  sv_last :: json
  sv_resumes :: json
  sv_resume :: json
  sv_approvers :: json

fun map_inputs :: "(string \<Rightarrow> input_transform \<Rightarrow> json option res) \<Rightarrow> transforms \<Rightarrow> args res" where
  "map_inputs f [] = Inr []"
| "map_inputs f ((k, t) # ts) =
     rbind (f k t) (\<lambda>v. rbind (map_inputs f ts) (\<lambda>a. Inr (case v of Some x \<Rightarrow> (k, x) # a | None \<Rightarrow> a)))"

definition transform_input ::
  "env \<Rightarrow> step_vars \<Rightarrow> transforms \<Rightarrow> (json \<times> uuid) option \<Rightarrow> id_context \<Rightarrow> db \<Rightarrow> args res" where
  "transform_input E sv its failure_context by_id d =
     (let vars = [(''params'', JObj []), (''previous_result'', sv_last sv), (''resume'', sv_resume sv),
                  (''resumes'', sv_resumes sv), (''approvers'', sv_approvers sv)] @
                 (case failure_context of
                    Some (st, j) \<Rightarrow> [(''started_at'', st), (''flow_job_id'', JStr (show_uuid (e_text E) j))]
                  | None \<Rightarrow> [])
      in map_inputs (\<lambda>k t. case t of
           Static v \<Rightarrow> Inr (Some v)
         | Javascript expr \<Rightarrow>
             rbind (as_execution_err (e_js E expr (js_ctx vars (Some (sv_args sv)) (sv_env sv) (Some by_id)) d))
               (\<lambda>v. Inr (Some v))
         | Ai \<Rightarrow> Inr None) its)"

section \<open>Arguments of an iteration\<close>

text \<open>
  \<open>insert_iter_arg\<close>: an argument of the same name moves to \<open>..._parent\<close>, and so on. The
  recursion ends because the arguments are finitely many and the names get longer.
\<close>

definition longer_keys :: "args \<Rightarrow> string \<Rightarrow> string set" where
  "longer_keys a k = {k' \<in> fst ` set a. length k \<le> length k'}"

lemma longer_keys_parent:
  "map_of a k = Some v \<Longrightarrow> card (longer_keys a (k @ ''_parent'')) < card (longer_keys a k)"
proof (rule psubset_card_mono)
  assume "map_of a k = Some v"
  then have "k \<in> longer_keys a k" by (auto simp: longer_keys_def dest: map_of_SomeD intro: rev_image_eqI)
  moreover have "k \<notin> longer_keys a (k @ ''_parent'')" by (simp add: longer_keys_def)
  moreover have "longer_keys a (k @ ''_parent'') \<subseteq> longer_keys a k" by (auto simp: longer_keys_def)
  ultimately show "longer_keys a (k @ ''_parent'') \<subset> longer_keys a k" by blast
qed (simp add: longer_keys_def)

function insert_iter_arg :: "args \<Rightarrow> string \<Rightarrow> json \<Rightarrow> args" where
  "insert_iter_arg a k v =
     AList.update k v (case map_of a k of
       Some parent \<Rightarrow> insert_iter_arg a (k @ ''_parent'') parent
     | None \<Rightarrow> a)"
  by pat_completeness auto
termination
  by (relation "measure (\<lambda>(a, k, v). card (longer_keys a k))") (auto simp: longer_keys_parent)

declare insert_iter_arg.simps [simp del]

definition iter_json :: "int \<Rightarrow> json \<Rightarrow> json" where
  "iter_json i v = JObj [(''index'', JInt i), (''value'', v)]"

section \<open>Iterators in the database\<close>

definition write_itered :: "env \<Rightarrow> uuid \<Rightarrow> json list \<Rightarrow> json list option act" where
  "write_itered E j itered d =
     (if e_min_1_595 E then (Inr None, d\<lparr>d_itered := (d_itered d)(j \<mapsto> itered)\<rparr>)
      else (Inr (Some itered), d))"

definition read_itered :: "env \<Rightarrow> uuid \<Rightarrow> json list option \<Rightarrow> db \<Rightarrow> json list" where
  "read_itered E j status_itered d =
     (case (if e_min_1_595 E then d_itered d j else None) of
        Some xs \<Rightarrow> xs
      | None \<Rightarrow> unwrap_or [] status_itered)"

section \<open>Suspended steps, previous results\<close>

definition needs_resume :: "flow_value \<Rightarrow> flow_status \<Rightarrow> (suspend \<times> uuid) option" where
  "needs_resume f s =
     (let restarted_here =
            (case fs_restarted_from s of
               None \<Rightarrow> Some False
             | Some r \<Rightarrow>
                 if fs_step s < 0 then None
                 else map_option (\<lambda>m. rf_step_id r = fm_id m) (nth_opt (fv_modules f) (nat (fs_step s))))
      in if restarted_here \<noteq> Some False then None
         else if fs_step s < 1 then None
         else let prev = nat (fs_step s) - 1 in
           Option.bind (nth_opt (fv_modules f) prev) (\<lambda>m.
           Option.bind (fm_suspend m) (\<lambda>su.
           if unwrap_or 0 (required_events su) = 0 then None
           else case nth_opt (fs_modules s) prev of
                  Some (Success _ j _ _ _ _) \<Rightarrow> Some (su, j)
                | _ \<Rightarrow> None)))"

definition get_previous_job_result :: "string \<Rightarrow> flow_status \<Rightarrow> db \<Rightarrow> json option res" where
  "get_previous_job_result w s d =
     (if fs_step s < 1 then Inl (InternalErr ''No step preceding the current one'')
      else case nth_opt (fs_modules s) (nat (fs_step s) - 1) of
        Some (Success _ j info _ _ _) \<Rightarrow>
          (case ji_flow_jobs info of
             Some js \<Rightarrow> rbind (retrieve_flow_jobs_results w js d) (\<lambda>v. Inr (Some v))
           | None \<Rightarrow>
               if j = uuid_nil then Inr None
               else case d_completed d j of
                 Some c \<Rightarrow> if co_workspace c = w
                           then (case co_result c of Some v \<Rightarrow> Inr (Some v) | None \<Rightarrow> Inl (SqlErr ''unexpected null''))
                           else Inl (SqlErr ''no rows'')
               | None \<Rightarrow> Inl (SqlErr ''no rows''))
      | _ \<Rightarrow> Inr None)"

section \<open>What to run\<close>

record job_payload_with_tag =
  jp_payload :: job_payload
  jp_tag :: "string option"
  jp_delete_after_use :: bool
  jp_delete_after_secs :: "int option"
  jp_timeout :: "int option"
  jp_on_behalf_of :: "(string \<times> string) option" \<comment> \<open>e-mail, \<open>permissioned_as\<close>\<close>

definition plain_payload :: "job_payload \<Rightarrow> bool \<Rightarrow> int option \<Rightarrow> job_payload_with_tag" where
  "plain_payload p use secs = \<lparr>jp_payload = p, jp_tag = None, jp_delete_after_use = use,
     jp_delete_after_secs = secs, jp_timeout = None, jp_on_behalf_of = None\<rparr>"

definition username_to_permissioned_as :: "string \<Rightarrow> string" where
  "username_to_permissioned_as u =
     (if CHR ''@'' \<in> set u then u
      else case strip_prefix ''group-'' u of
             Some g \<Rightarrow> ''g/'' @ g
           | None \<Rightarrow> ''u/'' @ u)"

definition behalf :: "string option \<Rightarrow> string \<Rightarrow> (string \<times> string) option" where
  "behalf email user = map_option (\<lambda>e. (e, username_to_permissioned_as user)) email"

definition job_path :: "mini_job \<Rightarrow> string" where
  "job_path j = unwrap_or ''tmp/main'' (jb_runnable_path (mj_job j))"

definition payload_from_modules ::
  "flow_module list \<Rightarrow> int option \<Rightarrow> flow_module option \<Rightarrow> bool \<Rightarrow> string \<Rightarrow> string \<Rightarrow> bool \<Rightarrow> job_payload option" where
  "payload_from_modules modules node failure_module same_worker i path opt_empty =
     (if opt_empty \<and> modules = [] \<and> node = None then None
      else case node of
        Some n \<Rightarrow> Some (PFlowNode n path)
      | None \<Rightarrow>
          Some (PRawFlow (flow_value_default\<lparr>fv_modules := add_virtual_items_if_necessary modules,
             fv_failure_module := map_option (id_append i) failure_module, fv_same_worker := same_worker\<rparr>)
             (Some path) None))"

definition get_path :: "mini_job \<Rightarrow> flow_status \<Rightarrow> flow_module \<Rightarrow> string" where
  "get_path j s m =
     (case fs_preprocessor_module s of
        Some x \<Rightarrow> if fsm_id x = fm_id m then job_path j @ ''/preprocessor'' else job_path j @ ''/'' @ fm_id m
      | None \<Rightarrow> job_path j @ ''/'' @ fm_id m)"

text \<open>\<open>FlowModule.cache_ttl\<close> is a \<open>u32\<close> and is passed on as an \<open>i32\<close>.\<close>

definition module_ttl :: "flow_module \<Rightarrow> int option" where
  "module_ttl m = map_option sint (fm_cache_ttl m)"

definition raw_script_to_payload ::
  "string \<Rightarrow> string \<Rightarrow> script_lang \<Rightarrow> string option \<Rightarrow> concurrency_settings_with_custom \<Rightarrow> flow_module \<Rightarrow>
   string option \<Rightarrow> bool \<Rightarrow> int option \<Rightarrow> job_payload_with_tag" where
  "raw_script_to_payload path content language lock conc m tag use secs =
     (plain_payload (PCode \<lparr>rw_content = content, rw_path = Some path, rw_hash = None, rw_language = language,
        rw_lock = lock, rw_cache_ttl = module_ttl m,
        rw_cache_ignore_s3_path = mo_cache_ignore_s3_path (fm_opts m), rw_dedicated_worker = None,
        rw_concurrency = conc, rw_debouncing = debouncing_default, rw_modules = None\<rparr>) use secs)\<lparr>jp_tag := tag\<rparr>"

definition flow_script_payload ::
  "int \<Rightarrow> string option \<Rightarrow> script_lang \<Rightarrow> concurrency_settings_with_custom \<Rightarrow> flow_module \<Rightarrow> string \<Rightarrow>
   bool \<Rightarrow> int option \<Rightarrow> job_payload_with_tag" where
  "flow_script_payload i tag language conc m path use secs =
     (plain_payload (PFlowScript \<lparr>np_id = i, np_path = path, np_language = language, np_cache_ttl = module_ttl m,
        np_cache_ignore_s3_path = mo_cache_ignore_s3_path (fm_opts m), np_dedicated_worker = None,
        np_concurrency = from_with_custom conc\<rparr>) use secs)\<lparr>jp_tag := tag\<rparr>"

definition flow_to_payload :: "string \<Rightarrow> bool \<Rightarrow> int option \<Rightarrow> string \<Rightarrow> db \<Rightarrow> job_payload_with_tag res" where
  "flow_to_payload path use secs w d =
     rbind (ok_or (NotFound ''flow'') (d_flow_at d (w, path))) (\<lambda>i.
     Inr ((plain_payload (PFlow path None False (fi_version i) None) use secs)
       \<lparr>jp_tag := fi_tag i, jp_on_behalf_of := behalf (fi_on_behalf_of_email i) (fi_edited_by i)\<rparr>))"

text \<open>\<open>script_path_to_payload\<close>: a script of the hub, or the latest deployed one.\<close>

definition script_path_to_payload :: "env \<Rightarrow> string \<Rightarrow> string \<Rightarrow> bool option \<Rightarrow> db \<Rightarrow> job_payload_with_tag res" where
  "script_path_to_payload E path w skip_preprocessor d =
     (if str_starts_with path ''hub/''
      then rbind (e_hub E path) (\<lambda>(lang, has_pre).
           Inr (plain_payload (PScriptHub path (has_pre \<and> skip_preprocessor \<noteq> Some True)) False None))
      else rbind (ok_or (NotFound ''script'') (d_script_at d (w, path))) (\<lambda>i.
           Inr \<lparr>jp_payload = PScriptHash \<lparr>sp_hash = sc_hash i, sp_path = path, sp_cache_ttl = sc_cache_ttl i,
                  sp_cache_ignore_s3_path = sc_cache_ignore_s3_path i,
                  sp_dedicated_worker = sc_dedicated_worker i, sp_language = sc_language i,
                  sp_priority = sc_priority i,
                  sp_apply_preprocessor = (skip_preprocessor \<noteq> Some True \<and> sc_has_preprocessor i = Some True),
                  sp_concurrency = sc_concurrency i, sp_debouncing = sc_debouncing i, sp_labels = sc_labels i\<rparr>,
                jp_tag = sc_tag i, jp_delete_after_use = (sc_delete_after_use i = Some True),
                jp_delete_after_secs = sc_delete_after_secs i, jp_timeout = sc_timeout i,
                jp_on_behalf_of = behalf (sc_on_behalf_of_email i) (sc_created_by i)\<rparr>))"

text \<open>
  \<open>script_to_payload\<close>. For a script given by hash the time-to-live of the cache is
  \<open>module.cache_ttl.ok_or(cache_ttl).ok()\<close>: the one of the module or none at all.
\<close>

definition blank :: "string \<Rightarrow> bool" where
  "blank s \<longleftrightarrow> list_all (\<lambda>c. c = CHR '' '' \<or> (9 \<le> (of_char c :: nat) \<and> (of_char c :: nat) \<le> 13)) s"

definition script_to_payload ::
  "env \<Rightarrow> int option \<Rightarrow> string \<Rightarrow> mini_job \<Rightarrow> flow_module \<Rightarrow> string option \<Rightarrow> bool option \<Rightarrow> db \<Rightarrow>
   job_payload_with_tag res" where
  "script_to_payload E hash path fj m tag_override apply_preprocessor d =
     (let w = jb_workspace (mj_job fj);
          override = (case tag_override of Some t \<Rightarrow> if blank t then None else Some t | None \<Rightarrow> None) in
      rbind (case hash of
               None \<Rightarrow> script_path_to_payload E path w (Some True) d
             | Some h \<Rightarrow>
                 rbind (ok_or (NotFound ''script'') (d_script d (w, h))) (\<lambda>i.
                 Inr \<lparr>jp_payload = PScriptHash \<lparr>sp_hash = h, sp_path = path, sp_cache_ttl = module_ttl m,
                        sp_cache_ignore_s3_path = mo_cache_ignore_s3_path (fm_opts m),
                        sp_dedicated_worker = sc_dedicated_worker i, sp_language = sc_language i,
                        sp_priority = sc_priority i, sp_apply_preprocessor = (apply_preprocessor = Some True),
                        sp_concurrency = sc_concurrency i, sp_debouncing = sc_debouncing i, sp_labels = None\<rparr>,
                      jp_tag = sc_tag i, jp_delete_after_use = (sc_delete_after_use i = Some True),
                      jp_delete_after_secs = sc_delete_after_secs i, jp_timeout = sc_timeout i,
                      jp_on_behalf_of = behalf (sc_on_behalf_of_email i) (sc_created_by i)\<rparr>)) (\<lambda>p.
      Inr (p\<lparr>jp_tag := or_option override (jp_tag p),
             jp_delete_after_use := (mo_delete_after_use (fm_opts m) = Some True \<or> jp_delete_after_use p),
             jp_delete_after_secs := or_option (mo_delete_after_secs (fm_opts m)) (jp_delete_after_secs p),
             jp_timeout := (if mo_timeout (fm_opts m) \<noteq> None then None else jp_timeout p)\<rparr>)))"

text \<open>
  \<open>payload_from_simple_module\<close>: the value is that of the inner module, the options are those
  of the loop (the argument \<open>module\<close> of the code).
\<close>

definition payload_from_simple_module ::
  "env \<Rightarrow> flow_module_value \<Rightarrow> mini_job \<Rightarrow> flow_module \<Rightarrow> string \<Rightarrow> db \<Rightarrow> job_payload_with_tag res" where
  "payload_from_simple_module E v fj m inner_path d =
     (let use = unwrap_or False (mo_delete_after_use (fm_opts m)); secs = mo_delete_after_secs (fm_opts m) in
      case v of
        Flow its path pfid \<Rightarrow> flow_to_payload path use secs (jb_workspace (mj_job fj)) d
      | Script its path hash tag is_trigger pfid \<Rightarrow>
          script_to_payload E hash path fj m tag (mo_apply_preprocessor (fm_opts m)) d
      | RawScript its content lock path tag language conc is_trigger assets \<Rightarrow>
          Inr (raw_script_to_payload (unwrap_or inner_path path) content language lock conc m tag use secs)
      | FlowScript its i tag language conc is_trigger assets \<Rightarrow>
          Inr (flow_script_payload i tag language conc m inner_path use secs)
      | _ \<Rightarrow> Inl (InternalErr ''is simple flow''))"

section \<open>The next transform\<close>

record next_iteration = \<comment> \<open>\<open>ForloopNextIteration\<close>\<close>
  ni_index :: nat
  ni_itered :: "json list"
  ni_itered_len :: nat
  ni_flow_jobs :: "uuid list"
  ni_success :: "bool option list option"
  ni_duration :: "flow_jobs_duration option"
  ni_iter :: "int \<times> json"
  ni_while_loop :: bool

record next_branch =
  nb_status :: branch_all_status
  nb_flow_jobs :: "uuid list"
  nb_success :: "bool option list option"
  nb_duration :: "flow_jobs_duration option"

datatype for_loop_status =
    ParallelIteration "json list"
  | NextIteration next_iteration
  | EmptyIterator

datatype next_status =
    NextStep
  | BranchChosen branch_chosen
  | NextBranchStep next_branch
  | NextLoopIteration next_iteration "transforms option" bool \<comment> \<open>\<open>start_runners\<close>\<close>
  | AllFlowJobs "branch_all_status option" "flow_iterator option" "transforms option"

datatype next_flow_transform =
    EmptyInnerFlows "branch_chosen option"
  | Continue "job_payload_with_tag list" next_status

definition single :: "job_payload_with_tag \<Rightarrow> next_flow_transform" where
  "single p = Continue [p] NextStep"

definition is_simple_modules :: "flow_module list \<Rightarrow> flow_module option \<Rightarrow> bool" where
  "is_simple_modules ms failure_module \<longleftrightarrow>
     (case ms of
        [m] \<Rightarrow> is_simple m \<and> fm_sleep m = None \<and> fm_suspend m = None \<and> fm_cache_ttl m = None \<and>
          fm_retry m = None \<and> fm_stop_after_if m = None \<and> fm_stop_after_all_iters_if m = None \<and>
          fm_skip_if m = None \<and> (case fm_mock m of None \<Rightarrow> True | Some k \<Rightarrow> \<not> mock_enabled k) \<and>
          failure_module = None
      | _ \<Rightarrow> False)"

text \<open>The transforms of a simple module, which are taken out of it and run per iteration.\<close>

fun take_transforms :: "flow_module_value \<Rightarrow> transforms option" where
  "take_transforms (Script its p h t tr pf) = Some its"
| "take_transforms (RawScript its c l p t la co tr as) = Some its"
| "take_transforms (FlowScript its i t la co tr as) = Some its"
| "take_transforms (Flow its p pf) = Some its"
| "take_transforms _ = None"

text \<open>The fields common to the computations of one step of the flow.\<close>

record push_ctx =
  pc_flow :: flow_value
  pc_job :: mini_job
  pc_status :: flow_status
  pc_vars :: step_vars
  pc_previous_id :: string

definition transform_ctx :: "push_ctx \<Rightarrow> string \<Rightarrow> id_context" where
  "transform_ctx pc prev = get_transform_context (mj_id (pc_job pc)) prev (pc_status pc)"

definition next_loop_iteration ::
  "env \<Rightarrow> push_ctx \<Rightarrow> next_iteration \<Rightarrow> flow_module list \<Rightarrow> int option \<Rightarrow> bool \<Rightarrow> flow_module \<Rightarrow> bool \<Rightarrow>
   db \<Rightarrow> next_flow_transform res" where
  "next_loop_iteration E pc ns modules node simple m start_runners d =
     (let inner_path = job_path (pc_job pc) @ ''/loop-'' @ show_nat (ni_index ns) in
      if simple
      then rbind (get_value (hd modules)) (\<lambda>v.
           rbind (payload_from_simple_module E v (pc_job pc) m inner_path d) (\<lambda>p.
           Inr (Continue [p] (NextLoopIteration ns (take_transforms v) start_runners))))
      else
        case payload_from_modules modules node (fv_failure_module (pc_flow pc)) (fv_same_worker (pc_flow pc))
               (show_int (fs_step (pc_status pc)) @ ''-'' @ show_nat (ni_index ns)) inner_path True of
          None \<Rightarrow> Inr (EmptyInnerFlows None)
        | Some p \<Rightarrow>
            Inr (Continue [plain_payload p (unwrap_or False (mo_delete_after_use (fm_opts m))) None]
                  (NextLoopIteration ns None start_runners)))"

text \<open>The iterator expression, as an array.\<close>

definition eval_iterator :: "env \<Rightarrow> push_ctx \<Rightarrow> input_transform \<Rightarrow> id_context \<Rightarrow> db \<Rightarrow> json list res" where
  "eval_iterator E pc iterator by_id d =
     (let sv = pc_vars pc in
      rbind (case iterator of
               Static v \<Rightarrow> Inr v
             | Ai \<Rightarrow> Inl (ExecutionErr ''AI input transform not supported for iterator'')
             | Javascript expr \<Rightarrow>
                 e_js E expr (js_ctx [(''result'', sv_last sv), (''previous_result'', sv_last sv),
                   (''resumes'', sv_resumes sv), (''resume'', sv_resume sv), (''approvers'', sv_approvers sv)]
                   (Some (sv_args sv)) (sv_env sv) (Some by_id)) d) (\<lambda>v.
      case v of
        JArr xs \<Rightarrow> Inr xs
      | _ \<Rightarrow> Inl (ExecutionErr ''Expected an array value in the iterator expression'')))"

definition is_waiting :: "flow_status_module \<Rightarrow> bool" where
  "is_waiting m =
     (case m of
        WaitingForPriorSteps _ \<Rightarrow> True | WaitingForEvents _ _ _ \<Rightarrow> True | WaitingForExecutor _ _ \<Rightarrow> True
      | _ \<Rightarrow> False)"

definition first_iteration :: "json list \<Rightarrow> bool \<Rightarrow> for_loop_status" where
  "first_iteration itered parallel =
     (case itered of
        [] \<Rightarrow> EmptyIterator
      | x # _ \<Rightarrow>
          if parallel then ParallelIteration itered
          else NextIteration \<lparr>ni_index = 0, ni_itered = itered, ni_itered_len = length itered, ni_flow_jobs = [],
                 ni_success = Some [], ni_duration = Some (durations_new 0), ni_iter = (0, x),
                 ni_while_loop = False\<rparr>)"

definition next_forloop_status ::
  "env \<Rightarrow> push_ctx \<Rightarrow> flow_status_module \<Rightarrow> id_context option \<Rightarrow> input_transform \<Rightarrow> bool \<Rightarrow> db \<Rightarrow>
   for_loop_status res" where
  "next_forloop_status E pc ms by_id iterator parallel d =
     (let ctx = unwrap_or (transform_ctx pc (pc_previous_id pc)) by_id;
          bad = Inl (BadRequest ''Unrecognized module status for ForloopFlow'') in
      if is_waiting ms then
        rbind (eval_iterator E pc iterator ctx d) (\<lambda>itered. Inr (first_iteration itered parallel))
      else case ms of
        InProgress _ _ p info \<Rightarrow>
          (case (pi_iterator p, ji_flow_jobs info, parallel) of
             (Some it, Some jobs, False) \<Rightarrow>
               let stored = read_itered E (mj_id (pc_job pc)) (it_itered it) d in
               rbind (if stored = [] then eval_iterator E pc iterator ctx d else Inr stored) (\<lambda>itered.
               let i = it_index it + 1 in
               case nth_opt itered i of
                 None \<Rightarrow> Inl (InternalErr ''Could not find iteration number'')
               | Some next \<Rightarrow>
                   Inr (NextIteration \<lparr>ni_index = i, ni_itered = itered, ni_itered_len = length itered,
                     ni_flow_jobs = jobs, ni_success = ji_flow_jobs_success info,
                     ni_duration = ji_flow_jobs_duration info, ni_iter = (int i, next), ni_while_loop = False\<rparr>))
           | _ \<Rightarrow> bad)
      | _ \<Rightarrow> bad)"

text \<open>
  The branch of a \<open>BranchOne\<close>: the first one whose predicate holds. A predicate that cannot
  be evaluated is logged at the root flow and ends the step.
\<close>

definition root_flow_id_for :: "mini_job \<Rightarrow> uuid" where
  "root_flow_id_for j = unwrap_or (mj_id j) (jb_innermost (mj_job j))"

definition eval_branch :: "env \<Rightarrow> push_ctx \<Rightarrow> flow_module \<Rightarrow> nat \<Rightarrow> branch \<Rightarrow> bool act" where
  "eval_branch E pc m i b d =
     (let sv = pc_vars pc in
      case compute_bool_from_expr E (b_expr b) (sv_args sv) (sv_env sv) (sv_last sv) None
             (Some (transform_ctx pc (pc_previous_id pc)))
             (Some (sv_resumes sv, sv_resume sv, sv_approvers sv)) [] d of
        Inr x \<Rightarrow> (Inr x, d)
      | Inl e \<Rightarrow>
          (Inl e, append_logs (root_flow_id_for (pc_job pc))
             (predicate_error_log E (Some (fm_id m)) (''branchone branch '' @ show_nat i) (b_expr b) e) d))"

fun choose_branch :: "env \<Rightarrow> push_ctx \<Rightarrow> flow_module \<Rightarrow> nat \<Rightarrow> branch list \<Rightarrow> branch_chosen act" where
  "choose_branch E pc m i [] = ret ChosenDefault"
| "choose_branch E pc m i (b # bs) =
     abind (eval_branch E pc m i b) (\<lambda>x. if x then ret (ChosenBranch i) else choose_branch E pc m (Suc i) bs)"

text \<open>The payload of a loop or branch with its own modules, beside the options of the module.\<close>

definition inner_payload ::
  "push_ctx \<Rightarrow> flow_module \<Rightarrow> flow_module list \<Rightarrow> int option \<Rightarrow> string \<Rightarrow> string \<Rightarrow> bool \<Rightarrow>
   job_payload_with_tag option" where
  "inner_payload pc m modules node i suffix opt_empty =
     map_option (\<lambda>p. plain_payload p (unwrap_or False (mo_delete_after_use (fm_opts m)))
                       (mo_delete_after_secs (fm_opts m)))
       (payload_from_modules modules node (fv_failure_module (pc_flow pc)) (fv_same_worker (pc_flow pc)) i
          (job_path (pc_job pc) @ ''/'' @ suffix) opt_empty)"

definition all_payloads ::
  "job_payload_with_tag option list \<Rightarrow> branch_all_status option \<Rightarrow> flow_iterator option \<Rightarrow> next_flow_transform" where
  "all_payloads ps ba it =
     (let xs = List.map_filter id ps
      in if xs = [] then EmptyInnerFlows None else Continue xs (AllFlowJobs ba it None))"

definition step_text :: "push_ctx \<Rightarrow> nat \<Rightarrow> string" where
  "step_text pc i = show_int (fs_step (pc_status pc)) @ ''-'' @ show_nat i"

definition next_while ::
  "env \<Rightarrow> push_ctx \<Rightarrow> flow_module \<Rightarrow> flow_status_module \<Rightarrow> flow_module list \<Rightarrow> int option \<Rightarrow> bool option \<Rightarrow> db \<Rightarrow>
   next_flow_transform res" where
  "next_while E pc m ms modules node squash d =
     (let (jobs, succ, dur) =
            (case ms of
               InProgress _ _ _ info \<Rightarrow>
                 (case ji_flow_jobs info of
                    Some js \<Rightarrow> (js, ji_flow_jobs_success info, ji_flow_jobs_duration info)
                  | None \<Rightarrow> ([], Some [], Some (durations_new 0)))
             | _ \<Rightarrow> ([], Some [], Some (durations_new 0)));
          n = length jobs
      in next_loop_iteration E pc
           \<lparr>ni_index = n, ni_itered = [], ni_itered_len = 0, ni_flow_jobs = jobs, ni_success = succ,
            ni_duration = dur, ni_iter = (int n, JInt (int n)), ni_while_loop = True\<rparr>
           modules node (is_simple_modules modules (fv_failure_module (pc_flow pc))) m
           (n = 0 \<and> unwrap_or False squash) d)"

definition next_for ::
  "env \<Rightarrow> push_ctx \<Rightarrow> flow_module \<Rightarrow> flow_status_module \<Rightarrow> id_context option \<Rightarrow> input_transform \<Rightarrow>
   flow_module list \<Rightarrow> int option \<Rightarrow> bool \<Rightarrow> bool option \<Rightarrow> db \<Rightarrow> next_flow_transform res" where
  "next_for E pc m ms by_id iterator modules node parallel squash d =
     (let simple = (jb_kind (mj_job (pc_job pc)) \<noteq> KFlowPreview \<and> \<not> parallel \<and>
                    is_simple_modules modules (fv_failure_module (pc_flow pc))) in
      rbind (next_forloop_status E pc ms by_id iterator parallel d) (\<lambda>st.
      case st of
        EmptyIterator \<Rightarrow> Inr (EmptyInnerFlows None)
      | NextIteration ns \<Rightarrow>
          next_loop_iteration E pc ns modules node simple m (ni_index ns = 0 \<and> unwrap_or False squash) d
      | ParallelIteration itered \<Rightarrow>
          Inr (all_payloads
            (map (\<lambda>i. inner_payload pc m modules node (step_text pc i) (''forloop-'' @ show_nat i) True)
               [0..<length itered])
            None (Some \<lparr>it_index = 0, it_itered = Some itered, it_itered_len = Some (length itered)\<rparr>))))"

definition next_branch_one ::
  "env \<Rightarrow> push_ctx \<Rightarrow> flow_module \<Rightarrow> flow_status_module \<Rightarrow> branch list \<Rightarrow> flow_module list \<Rightarrow> int option \<Rightarrow>
   next_flow_transform act" where
  "next_branch_one E pc m ms branches dflt dflt_node =
     (if \<not> is_waiting ms then fail (BadRequest ''Unrecognized module status for BranchOne'')
      else abind (choose_branch E pc m 0 branches) (\<lambda>chosen.
           abind (lift_res (case chosen of
                    ChosenDefault \<Rightarrow> Inr (dflt, dflt_node, 0)
                  | ChosenBranch i \<Rightarrow>
                      rbind (ok_or (BadRequest ''Unrecognized branch for BranchOne'') (nth_opt branches i))
                        (\<lambda>b. Inr (b_modules b, b_modules_node b, Suc i)))) (\<lambda>(modules, node, k).
           case inner_payload pc m modules node (show_int (fs_step (pc_status pc)))
                  (''branchone-'' @ show_nat k) True of
             None \<Rightarrow> ret (EmptyInnerFlows (Some chosen))
           | Some p \<Rightarrow> ret (Continue [p] (BranchChosen chosen)))))"

text \<open>All branches: together, or one after the other with the branch counted in the status.\<close>

definition branch_payload :: "push_ctx \<Rightarrow> flow_module \<Rightarrow> nat \<Rightarrow> branch \<Rightarrow> job_payload_with_tag option" where
  "branch_payload pc m i b =
     inner_payload pc m (b_modules b) (b_modules_node b) (step_text pc i) (''branchall-'' @ show_nat i) False"

definition next_branch_all ::
  "push_ctx \<Rightarrow> flow_module \<Rightarrow> flow_status_module \<Rightarrow> branch list \<Rightarrow> bool \<Rightarrow> next_flow_transform res" where
  "next_branch_all pc m ms branches parallel =
     (let bad = Inl (BadRequest ''Unrecognized module status for BranchAll'');
          go = (\<lambda>nb. rbind (ok_or (BadRequest ''Unrecognized branch for BranchAll'')
                              (nth_opt branches (ba_branch (nb_status nb)))) (\<lambda>b.
                 case branch_payload pc m (ba_branch (nb_status nb)) b of
                   None \<Rightarrow> Inr (EmptyInnerFlows (Some ChosenDefault))
                 | Some p \<Rightarrow> Inr (Continue [p] (NextBranchStep nb)))) in
      if is_waiting ms then
        if branches = [] then Inr (EmptyInnerFlows None)
        else if parallel
        then Inr (all_payloads (map (\<lambda>(i, b). branch_payload pc m i b) (enumerate 0 branches))
                    (Some \<lparr>ba_branch = 0, ba_len = length branches\<rparr>) None)
        else go \<lparr>nb_status = \<lparr>ba_branch = 0, ba_len = length branches\<rparr>, nb_flow_jobs = [],
                 nb_success = Some [], nb_duration = Some (durations_new 0)\<rparr>
      else case ms of
        InProgress _ _ p info \<Rightarrow>
          (case (pi_branchall p, ji_flow_jobs info, parallel) of
             (Some ba, Some jobs, False) \<Rightarrow>
               go \<lparr>nb_status = ba\<lparr>ba_branch := ba_branch ba + 1\<rparr>, nb_flow_jobs = jobs,
                   nb_success = ji_flow_jobs_success info, nb_duration = ji_flow_jobs_duration info\<rparr>
           | _ \<Rightarrow> bad)
      | _ \<Rightarrow> bad)"

definition compute_next_flow_transform ::
  "env \<Rightarrow> push_ctx \<Rightarrow> flow_module \<Rightarrow> flow_status_module \<Rightarrow> id_context option \<Rightarrow> bool \<Rightarrow> next_flow_transform act" where
  "compute_next_flow_transform E pc m ms by_id is_skipped =
     (let use = unwrap_or False (mo_delete_after_use (fm_opts m)); secs = mo_delete_after_secs (fm_opts m);
          trivial = ret (single (plain_payload PIdentity False None));
          path = get_path (pc_job pc) (pc_status pc) m in
      if (case fm_mock m of Some k \<Rightarrow> mock_enabled k | None \<Rightarrow> False) then trivial
      else if is_skipped then trivial
      else abind (lift_res (get_value m)) (\<lambda>v.
      case v of
        Identity \<Rightarrow> trivial
      | Flow its p pf \<Rightarrow>
          abind (reads (flow_to_payload p use secs (jb_workspace (mj_job (pc_job pc))))) (\<lambda>x. ret (single x))
      | AIAgent its ts \<Rightarrow> ret (single (plain_payload (PAIAgent path) use secs))
      | Script its p h tag tr pf \<Rightarrow>
          abind (reads (script_to_payload E h p (pc_job pc) m tag (mo_apply_preprocessor (fm_opts m))))
            (\<lambda>x. ret (single x))
      | RawScript its content lock p tag lang conc tr as \<Rightarrow>
          ret (single (raw_script_to_payload (unwrap_or path p) content lang lock conc m tag use secs))
      | FlowScript its i tag lang conc tr as \<Rightarrow>
          ret (single (flow_script_payload i tag lang conc m path use secs))
      | WhileloopFlow modules node sf squash \<Rightarrow> reads (next_while E pc m ms modules node squash)
      | ForloopFlow iterator modules node sf parallel ps squash \<Rightarrow>
          reads (next_for E pc m ms by_id iterator modules node parallel squash)
      | BranchOne branches dflt dflt_node \<Rightarrow> next_branch_one E pc m ms branches dflt dflt_node
      | BranchAll branches parallel \<Rightarrow> lift_res (next_branch_all pc m ms branches parallel)))"

end
