(* ===== verification/FlowStep.thy ===== *)
theory FlowStep
  imports FlowPush
begin

text \<open>
  One round of \<open>push_next_flow_job\<close> and the loop of \<open>handle_flow\<close>
  (\<open>windmill-worker/src/worker_flow.rs\<close>). The round is cut at the places where the code leaves
  early: a flow that has nothing to run, the gate of a step that waits for approvals, sleep,
  the retry of a failed step or the switch to the error handler, skipping, the arguments, the
  pushes of one transaction and the status they leave behind.
\<close>

section \<open>Before anything is pushed\<close>

datatype pushed = PushRec flow_status | PushDone "update_flow option"

definition job_args :: "mini_job \<Rightarrow> args" where
  "job_args fj = unwrap_or [] (jb_args (mj_job fj))"

definition report :: "mini_job \<Rightarrow> bool \<Rightarrow> json \<Rightarrow> bool option \<Rightarrow> update_flow" where
  "report fj success result override = \<lparr>uf_flow = mj_id fj, uf_success = success, uf_result = result,
     uf_stop_early_override = override, uf_workspace = jb_workspace (mj_job fj)\<rparr>"

text \<open>The status of the module at the step, with that of the error handler as the fallback.\<close>

definition status_at :: "step \<Rightarrow> flow_status \<Rightarrow> flow_status_module" where
  "status_at st s =
     (let failure = module_status (fs_failure_module s) in
      case st of
        Step i _ \<Rightarrow> unwrap_or failure (nth_opt (fs_modules s) i)
      | PreprocessorStep \<Rightarrow> unwrap_or failure (fs_preprocessor_module s)
      | FailureStep \<Rightarrow> failure)"

definition at_first_step :: "step \<Rightarrow> bool" where
  "at_first_step st \<longleftrightarrow> (case st of Step i _ \<Rightarrow> i = 0 | _ \<Rightarrow> False)"

text \<open>An empty flow, or a step that is already done (an empty loop or branch).\<close>

definition already_done ::
  "mini_job \<Rightarrow> flow_value \<Rightarrow> step \<Rightarrow> flow_status_module \<Rightarrow> json option \<Rightarrow> update_flow option" where
  "already_done fj f st sm last_result =
     (if fv_modules f = [] \<and> \<not> is_preprocessor_step st \<or> is_success sm
      then Some (report fj True
        (if fv_modules f = [] then JObj (job_args fj)
         else if module_branch_chosen sm \<noteq> None then unwrap_or (JStr ''{}'') last_result
         else JArr []) None)
      else None)"

text \<open>
  A scheduled flow that must not overlap with another run of its schedule, and the
  expression that skips the whole flow; both are looked at on the first step only.
\<close>

definition overlapping :: "env \<Rightarrow> mini_job \<Rightarrow> string \<Rightarrow> db \<Rightarrow> uuid list" where
  "overlapping E fj schedule d =
     filter (\<lambda>j. case (d_job d j, d_queue d j) of
         (Some r, Some q) \<Rightarrow>
           jb_workspace r = jb_workspace (mj_job fj) \<and> jb_schedule r = Some schedule \<and>
           jb_runnable_path r = Some (job_path fj) \<and> jb_parent r = None \<and> j \<noteq> mj_id fj \<and> q_running q
       | _ \<Rightarrow> False) (e_ids E d)"

fun join_comma :: "string list \<Rightarrow> string" where
  "join_comma [] = []"
| "join_comma [x] = x"
| "join_comma (x # xs) = x @ '', '' @ join_comma xs"

definition check_overlap :: "env \<Rightarrow> mini_job \<Rightarrow> db \<Rightarrow> update_flow option res" where
  "check_overlap E fj d =
     (case (is_flow_step fj, jb_schedule (mj_job fj)) of
        (False, Some sp) \<Rightarrow>
          if \<not> e_schedule E (jb_workspace (mj_job fj)) sp then Inl (SqlErr ''no rows'')
          else let js = (if e_no_overlap E (jb_workspace (mj_job fj)) sp then overlapping E fj sp d else []) in
            if js = [] then Inr None
            else Inr (Some (report fj True (JStr (''not allowed to overlap with '' @
                   join_comma (map (show_uuid (e_text E)) js) @ '', scheduling next iteration'')) (Some True)))
      | _ \<Rightarrow> Inr None)"

definition check_skip_expr :: "env \<Rightarrow> mini_job \<Rightarrow> flow_value \<Rightarrow> args option \<Rightarrow> update_flow option act" where
  "check_skip_expr E fj f flow_env d =
     (case fv_skip_expr f of
        None \<Rightarrow> (Inr None, d)
      | Some expr \<Rightarrow>
          (case compute_bool_from_expr E expr (job_args fj) flow_env (JStr ''{}'') None None None
                  [(''WM_SCHEDULED_FOR'', e_show_date E (q_scheduled_for (mj_q fj)))] d of
             Inl e \<Rightarrow> (Inl e, append_logs (root_flow_id_for fj)
                        (predicate_error_log E None ''flow skip_expr'' expr e) d)
           | Inr b \<Rightarrow>
               (Inr (if b then Some (report fj True (JStr ''stopped early'') (Some True)) else None), d)))"

definition first_step_checks :: "env \<Rightarrow> mini_job \<Rightarrow> flow_value \<Rightarrow> args option \<Rightarrow> step \<Rightarrow> update_flow option act" where
  "first_step_checks E fj f flow_env st =
     (if \<not> at_first_step st then ret None
      else abind (reads (check_overlap E fj)) (\<lambda>o'.
           if o' \<noteq> None then ret o' else check_skip_expr E fj f flow_env))"

text \<open>The result the step sees as the previous one.\<close>

definition last_result_for ::
  "mini_job \<Rightarrow> flow_status \<Rightarrow> step \<Rightarrow> flow_status_module \<Rightarrow> json option \<Rightarrow> db \<Rightarrow> json res" where
  "last_result_for fj s st sm last_result d =
     (if is_failure sm then Inr (unwrap_or (JStr ''{}'') last_result)
      else if at_first_step st \<or> is_preprocessor_step st
      then Inr (case jb_args (mj_job fj) of Some a \<Rightarrow> JObj a | None \<Rightarrow> JNull)
      else case last_result of
        Some v \<Rightarrow> Inr v
      | None \<Rightarrow>
          rbind (get_previous_job_result (jb_workspace (mj_job fj)) s d) (\<lambda>v.
          Inr (unwrap_or (JStr ''{}'') v)))"

section \<open>The gate of a step that waits for approvals\<close>

text \<open>
  \<open>Open\<close> carries the messages of the resumes and their approvers into the step; \<open>Parked\<close>
  leaves, with or without a report.
\<close>

datatype gate = Open "json list" "string list" | Parked "update_flow option"

definition waits_for_prior_steps :: "flow_status_module \<Rightarrow> bool" where
  "waits_for_prior_steps m \<longleftrightarrow> (case m of WaitingForPriorSteps _ \<Rightarrow> True | _ \<Rightarrow> False)"

definition waits_for_events :: "flow_status_module \<Rightarrow> bool" where
  "waits_for_events m \<longleftrightarrow> (case m of WaitingForEvents _ _ _ \<Rightarrow> True | _ \<Rightarrow> False)"

definition resumes_for :: "uuid \<Rightarrow> uuid \<Rightarrow> db \<Rightarrow> resume_row list" where
  "resumes_for flow last_job d = filter (\<lambda>r. rs_job r = last_job \<or> rs_job r = flow) (d_resume d)"

definition groups_required ::
  "env \<Rightarrow> suspend \<Rightarrow> json \<Rightarrow> args \<Rightarrow> args option \<Rightarrow> db \<Rightarrow> string list res" where
  "groups_required E su last_result a flow_env d =
     (case user_groups_required su of
        None \<Rightarrow> Inr []
      | Some (Static v) \<Rightarrow>
          (case dec_vec dec_string v of
             Inr gs \<Rightarrow> Inr gs
           | Inl _ \<Rightarrow> Inl (InternalErr ''panic: Unable to deserialize group names''))
      | Some (Javascript expr) \<Rightarrow>
          rbind (as_execution_err (e_js E expr
            (js_ctx [(''result'', last_result), (''previous_result'', last_result)] (Some a) flow_env None) d))
          (\<lambda>v. as_execution_err (dec_vec dec_string v))
      | Some Ai \<Rightarrow> Inr [])"

definition approval_conditions_of ::
  "env \<Rightarrow> suspend \<Rightarrow> json \<Rightarrow> args \<Rightarrow> args option \<Rightarrow> db \<Rightarrow> approval_conditions option res" where
  "approval_conditions_of E su last_result a flow_env d =
     (if unwrap_or False (user_auth_required su)
      then rbind (groups_required E su last_result a flow_env d) (\<lambda>gs.
           Inr (Some \<lparr>ac_user_auth_required = True, ac_user_groups_required = gs,
             ac_self_approval_disabled = unwrap_or False (self_approval_disabled su)\<rparr>))
      else Inr None)"

text \<open>
  The number of events is cut to 16 bits. A disapproval, or waking up without enough
  messages, ends the wait unless the step is told to continue then.
\<close>

definition events_needed :: "suspend \<Rightarrow> 16 word" where
  "events_needed su = ucast (unwrap_or 0 (required_events su))"

definition can_be_resumed :: "suspend \<Rightarrow> resume_row list \<Rightarrow> bool" where
  "can_be_resumed su rs \<longleftrightarrow> list_all rs_approved rs \<and> unat (events_needed su) \<le> length rs"

definition continues_anyway :: "suspend \<Rightarrow> flow_status_module \<Rightarrow> resume_row list \<Rightarrow> bool" where
  "continues_anyway su sm rs \<longleftrightarrow> \<not> can_be_resumed su rs \<and>
     (\<not> list_all rs_approved rs \<or> \<not> waits_for_prior_steps sm) \<and>
     unwrap_or False (continue_on_disapprove_timeout su)"

definition refusal :: "resume_row list \<Rightarrow> string \<times> string" where
  "refusal rs =
     (case find (\<lambda>r. \<not> rs_approved r) rs of
        Some r \<Rightarrow> (''Disapproved by '' @ unwrap_or ''unknown'' (rs_approver r), ''SuspendedDisapproved'')
      | None \<Rightarrow> (''Timed out waiting to be resumed'', ''SuspendedTimedOut''))"

definition refusal_json :: "resume_row list \<Rightarrow> json" where
  "refusal_json rs = JObj [(''error'', JObj [(''message'', JStr (fst (refusal rs))), (''name'', JStr (snd (refusal rs)))])]"

fun set_approvers :: "approval list \<Rightarrow> flow_status_module \<Rightarrow> flow_status_module" where
  "set_approvers as (Success i j info _ fr sk) = Success i j info as fr sk"
| "set_approvers as m = m"

definition approvals :: "resume_row list \<Rightarrow> approval list" where
  "approvals rs = map (\<lambda>r. \<lparr>ap_resume_id = word_of_int (rs_resume_id r),
     ap_approver = unwrap_or ''unknown'' (rs_approver r)\<rparr>) rs"

definition record_approval :: "uuid \<Rightarrow> int \<Rightarrow> resume_row list \<Rightarrow> db \<Rightarrow> db" where
  "record_approval flow step rs =
     update_status flow (\<lambda>s. (map_module (step - 1) (set_approvers (approvals rs)) s)\<lparr>fs_approval_conditions := None\<rparr>)"

definition seconds :: "nat \<Rightarrow> int" where
  "seconds n = int n * 1000000"

definition park :: "env \<Rightarrow> uuid \<Rightarrow> suspend \<Rightarrow> flow_status_module \<Rightarrow> uuid \<Rightarrow> nat \<Rightarrow> db \<Rightarrow> db" where
  "park E flow su sm last_job got d =
     (let need = events_needed su in
      if d_queue d flow = None then reset_ping flow d
      else reset_ping flow (update_status flow (\<lambda>s. set_module (fs_step s) (WaitingForEvents (fsm_id sm) need last_job) s)
        (update_queue flow (\<lambda>q. q\<lparr>q_suspend := uint (need - of_nat got),
           q_suspend_until := Some (e_now E + seconds (case suspend_timeout su of Some t \<Rightarrow> unat t | None \<Rightarrow> 30 * 60))\<rparr>) d)))"

definition resume_gate ::
  "env \<Rightarrow> mini_job \<Rightarrow> flow_value \<Rightarrow> flow_status \<Rightarrow> flow_status_module \<Rightarrow> json \<Rightarrow> args option \<Rightarrow> gate act" where
  "resume_gate E fj f s sm last_result flow_env =
     (case (if waits_for_prior_steps sm \<or> waits_for_events sm then needs_resume f s else None) of
        None \<Rightarrow> ret (Open [] [])
      | Some (su, last_job) \<Rightarrow>
          abind (transaction
            (abind (reads (\<lambda>d. if d_queue d (mj_id fj) = None then Inl (SqlErr ''lock flow in queue'') else Inr ())) (\<lambda>_.
             abind (gets (resumes_for (mj_id fj) last_job)) (\<lambda>rs.
             abind (reads (approval_conditions_of E su last_result (job_args fj) flow_env)) (\<lambda>ac.
             abind (aif (ac \<noteq> None) (modify (update_status (mj_id fj) (\<lambda>s. s\<lparr>fs_approval_conditions := ac\<rparr>)))) (\<lambda>_.
             if can_be_resumed su rs \<or> continues_anyway su sm rs then
               abind (modify (record_approval (mj_id fj) (fs_step s) rs)) (\<lambda>_.
               ret (rs, Some (Open (map rs_value rs @ (if continues_anyway su sm rs then [refusal_json rs] else []))
                             (map (\<lambda>r. unwrap_or ''anonymous'' (rs_approver r)) rs))))
             else if waits_for_prior_steps sm \<and> list_all rs_approved rs then
               abind (modify (park E (mj_id fj) su sm last_job (length rs))) (\<lambda>_.
               ret (rs, Some (Parked None)))
             else ret (rs, None))))))) (\<lambda>(rs, g).
          case g of
            Some g \<Rightarrow> ret g
          | None \<Rightarrow>
              abind (modify (append_logs (mj_id fj) (fst (refusal rs)))) (\<lambda>_.
              ret (Parked (Some (report fj False (refusal_json rs) None))))))"

section \<open>Sleep\<close>

definition from_now :: "env \<Rightarrow> int \<Rightarrow> int" where
  "from_now E micros = min (e_now E + micros) (e_max_time E)"

text \<open>The cast of a float to \<open>u64\<close> truncates and saturates.\<close>

definition rat_to_u64 :: "rat \<Rightarrow> int" where
  "rat_to_u64 x = (if x < 0 then 0 else min \<lfloor>x\<rfloor> (2 ^ 64 - 1))"

definition sleep_of :: "flow_value \<Rightarrow> step \<Rightarrow> input_transform option" where
  "sleep_of f st =
     (case st of
        Step (Suc i) _ \<Rightarrow> Option.bind (nth_opt (fv_modules f) i) (\<lambda>m. fm_sleep m)
      | _ \<Rightarrow> None)"

definition wake_up_at ::
  "env \<Rightarrow> mini_job \<Rightarrow> flow_value \<Rightarrow> step \<Rightarrow> flow_status_module \<Rightarrow> json \<Rightarrow> args option \<Rightarrow> db \<Rightarrow> int option res" where
  "wake_up_at E fj f st sm last_result flow_env d =
     (case (if waits_for_prior_steps sm \<or> waits_for_events sm then sleep_of f st else None) of
        None \<Rightarrow> Inr None
      | Some t \<Rightarrow>
          rbind (as_execution_err
            (evaluate_input_transform E dec_value JNull t last_result (job_args fj) flow_env None d)) (\<lambda>v.
          case v of
            JInt n \<Rightarrow>
              if 0 \<le> n then Inr (Some (from_now E (n * 1000000)))
              else Inl (ExecutionErr ''Expected an integer'')
          | JFloat x \<Rightarrow> Inr (Some (from_now E (rat_to_u64 (x * 1000) * 1000)))
          | _ \<Rightarrow> Inl (ExecutionErr ''Expected an integer'')))"

section \<open>Retry, or the error handler\<close>

text \<open>What is about to run: the variables which the code updates while it decides.\<close>

record plan =
  pl_step :: step
  pl_module :: flow_module
  pl_ms :: flow_status_module
  pl_current_id :: string
  pl_previous_id :: string
  pl_scheduled_for :: "int option"
  pl_status :: flow_status
  pl_args_from :: "uuid option"

definition previous_id_at :: "flow_value \<Rightarrow> step \<Rightarrow> string" where
  "previous_id_at f st =
     (case st of Step (Suc i) _ \<Rightarrow> (case nth_opt (fv_modules f) i of Some m \<Rightarrow> fm_id m | None \<Rightarrow> []) | _ \<Rightarrow> [])"

fun set_failed_retries :: "uuid list \<Rightarrow> flow_status_module \<Rightarrow> flow_status_module" where
  "set_failed_retries js (Success i j info as _ sk) = Success i j info as js sk"
| "set_failed_retries js (Failure i j info _) = Failure i j info js"
| "set_failed_retries js m = m"

definition fails_over :: "flow_module \<Rightarrow> (32 word \<times> nat) option \<Rightarrow> flow_status_module \<Rightarrow> bool" where
  "fails_over m retry sm \<longleftrightarrow> is_failure sm \<and> (retry \<noteq> None \<or> fm_continue_on_error m \<noteq> Some True)"

definition retry_step :: "env \<Rightarrow> uuid \<Rightarrow> plan \<Rightarrow> 32 word \<Rightarrow> nat \<Rightarrow> plan act" where
  "retry_step E flow pl n secs =
     (let failed = failed_jobs (fs_retry (pl_status pl)) @ [fsm_job (pl_ms pl)];
          s = (pl_status pl)\<lparr>fs_retry := (fs_retry (pl_status pl))\<lparr>failed_jobs := failed\<rparr>\<rparr> in
      abind (modify (update_status flow (\<lambda>r.
               map_module (fs_step s) (set_failed_retries failed)
                 (r\<lparr>fs_retry := \<lparr>fail_count = n, failed_jobs = failed\<rparr>\<rparr>)))) (\<lambda>_.
      ret (pl\<lparr>pl_ms := WaitingForPriorSteps (fsm_id (pl_ms pl)), pl_scheduled_for := Some (from_now E (seconds secs)),
              pl_status := s, pl_args_from := Some (fsm_job (pl_ms pl))\<rparr>)))"

definition run_error_handler :: "uuid \<Rightarrow> flow_value \<Rightarrow> plan \<Rightarrow> plan act" where
  "run_error_handler flow f pl =
     abind (lift_res (ok_or (InternalErr ''missing failure module'') (fv_failure_module f))) (\<lambda>m.
     abind (aif (case fm_retry m of Some r \<Rightarrow> has_attempts r | None \<Rightarrow> False)
              (modify (update_status flow (\<lambda>r. r\<lparr>fs_retry := retry_status_default\<rparr>)))) (\<lambda>_.
     ret (pl\<lparr>pl_step := FailureStep, pl_previous_id := pl_current_id pl, pl_module := m,
             pl_ms := module_status (fs_failure_module (pl_status pl))\<rparr>)))"

definition retry_or_fail_over ::
  "env \<Rightarrow> mini_job \<Rightarrow> flow_value \<Rightarrow> json \<Rightarrow> args option \<Rightarrow> plan \<Rightarrow> plan act" where
  "retry_or_fail_over E fj f last_result flow_env pl =
     abind (if is_failure (pl_ms pl)
            then reads (evaluate_retry E (unwrap_or retry_default (fm_retry (pl_module pl))) (fs_retry (pl_status pl))
                   last_result (job_args fj) flow_env)
            else ret None) (\<lambda>retry.
     if fails_over (pl_module pl) retry (pl_ms pl)
     then (case retry of
             Some (n, secs) \<Rightarrow> retry_step E (mj_id fj) pl n secs
           | None \<Rightarrow> run_error_handler (mj_id fj) f pl)
     else ret pl)"

section \<open>Skipping and arguments\<close>

definition check_skip_if :: "env \<Rightarrow> push_ctx \<Rightarrow> flow_module \<Rightarrow> bool act" where
  "check_skip_if E pc m d =
     (case fm_skip_if m of
        None \<Rightarrow> (Inr False, d)
      | Some expr \<Rightarrow>
          let sv = pc_vars pc in
          (case compute_bool_from_expr E expr (sv_args sv) (sv_env sv) (sv_last sv) None
                  (Some (transform_ctx pc (pc_previous_id pc)))
                  (Some (sv_resumes sv, sv_resume sv, sv_approvers sv)) [] d of
             Inr b \<Rightarrow> (Inr b, d)
           | Inl e \<Rightarrow> (Inl e, append_logs (root_flow_id_for (pc_job pc))
                        (predicate_error_log E (Some (fm_id m)) ''skip_if'' expr e) d)))"

fun value_transforms :: "flow_module_value \<Rightarrow> transforms option" where
  "value_transforms (AIAgent its ts) = Some its"
| "value_transforms v = take_transforms v"

text \<open>
  The arguments of the step, which may be an error that is stored with the job instead of
  ending the flow here, and the context of ids when it was computed.
\<close>

definition step_args :: "env \<Rightarrow> push_ctx \<Rightarrow> plan \<Rightarrow> bool \<Rightarrow> db \<Rightarrow> (args res \<times> id_context option) res" where
  "step_args E pc pl skipped d =
     (let m = pl_module pl; fj = pc_job pc; a = job_args fj in
      case (if (case fm_mock m of Some k \<Rightarrow> mock_enabled k | None \<Rightarrow> False) then fm_mock m else None) of
        Some k \<Rightarrow> Inr (Inr [(''previous_result'', unwrap_or JNull (mock_return_value k))], None)
      | None \<Rightarrow>
          (case pl_args_from pl of
             Some j \<Rightarrow>
               Inr (Inr (case d_job d j of
                           Some r \<Rightarrow> if jb_workspace r = jb_workspace (mj_job fj) then unwrap_or [] (jb_args r) else []
                         | None \<Rightarrow> []), None)
           | None \<Rightarrow>
               if is_preprocessor_step (pl_step pl)
               then Inr (Inr (AList.update ''_ENTRYPOINT_OVERRIDE'' (JStr ''preprocessor'') a), None)
               else if unwrap_or False (mo_pass_flow_input_directly (fm_opts m)) then Inr (Inr a, None)
               else case get_value m of
                 Inl e \<Rightarrow> Inl (InternalErr ''module was not convertible to acceptable value'')
               | Inr v \<Rightarrow>
                   if v = Identity \<or> skipped then Inr (Inr [(''previous_result'', sv_last (pc_vars pc))], None)
                   else case value_transforms v of
                     Some its \<Rightarrow>
                       let ctx = transform_ctx pc (pl_previous_id pl);
                           fc = (if is_failure_step (pl_step pl)
                                 then map_option (\<lambda>t. (JStr (show_time (e_text E) t), mj_id fj)) (q_started_at (mj_q fj))
                                 else None)
                       in Inr (transform_input E (pc_vars pc) its fc ctx d, Some ctx)
                   | None \<Rightarrow> Inr (Inr a, None)))"

section \<open>Pushing the jobs of the step\<close>

text \<open>
  A loop or branch with nothing to run: its module is set to success in the row, at the index
  \<open>status.step\<close> (counted from the end when negative), and the flow is looked at again.
\<close>

definition empty_success :: "string \<Rightarrow> branch_chosen option \<Rightarrow> flow_status_module" where
  "empty_success i chosen =
     Success i uuid_nil
       (if chosen = None
        then no_jobs\<lparr>ji_flow_jobs := Some [], ji_flow_jobs_success := Some [], ji_flow_jobs_duration := Some (durations_new 0)\<rparr>
        else no_jobs\<lparr>ji_branch_chosen := chosen\<rparr>) [] [] False"

definition skip_empty_inner :: "uuid \<Rightarrow> plan \<Rightarrow> branch_chosen option \<Rightarrow> pushed act" where
  "skip_empty_inner flow pl chosen =
     abind (modify (update_status flow (set_module (fs_step (pl_status pl)) (empty_success (fsm_id (pl_ms pl)) chosen)))) (\<lambda>_.
     abind (reads (\<lambda>d. ok_or (BadRequest ''impossible to parse new flow status after applying inner flows'')
              (d_status d flow))) (\<lambda>s.
     ret (PushRec s)))"

text \<open>\<open>runners\<close> is the flow whose runners this worker holds, if it holds any.\<close>

record routing =
  ro_start_runners :: bool
  ro_drop_runners :: bool \<comment> \<open>\<open>do_not_pass_runners\<close>\<close>
  ro_with_runners :: bool
  ro_same_worker :: bool

definition routing_for :: "mini_job \<Rightarrow> flow_value \<Rightarrow> flow_module \<Rightarrow> uuid option \<Rightarrow> next_status \<Rightarrow> routing" where
  "routing_for fj f m runners next =
     (let start = (runners = None \<and> (case next of NextLoopIteration _ _ b \<Rightarrow> b | _ \<Rightarrow> False));
          drop = (next = NextStep \<and> runners = Some (mj_id fj));
          stays = (fm_suspend m = None \<and> fm_sleep m = None) in
      \<lparr>ro_start_runners = start, ro_drop_runners = drop,
       ro_with_runners = ((start \<or> runners \<noteq> None \<and> \<not> drop) \<and> stays),
       ro_same_worker = ((fv_same_worker f \<or> jb_same_worker (mj_job fj) \<and> jb_kind (mj_job fj) = KFlow \<and>
                          jb_runnable_id (mj_job fj) \<noteq> None) \<and> stays)\<rparr>)"

definition stays_here :: "routing \<Rightarrow> bool" where
  "stays_here ro \<longleftrightarrow> ro_same_worker ro \<or> ro_with_runners ro"

text \<open>The arguments of the \<open>i\<close>-th job, with \<open>iter\<close> for the iterations of a loop.\<close>

definition child_args ::
  "env \<Rightarrow> push_ctx \<Rightarrow> args res \<Rightarrow> next_status \<Rightarrow> nat \<Rightarrow> db \<Rightarrow> args res res" where
  "child_args E pc nargs next i d =
     (let with = (\<lambda>a its prev. case its of
            None \<Rightarrow> Inr a
          | Some ts \<Rightarrow> as_execution_err (transform_input E ((pc_vars pc)\<lparr>sv_args := a\<rparr>) ts None (transform_ctx pc prev) d)) in
      case next of
        NextLoopIteration ni its _ \<Rightarrow>
          let it = iter_json (fst (ni_iter ni)) (snd (ni_iter ni));
              a = (case nargs of Inr a \<Rightarrow> a | Inl _ \<Rightarrow> [])
          in Inr (with (AList.update ''iter'' it (insert_iter_arg a ''iter'' it)) its [])
      | AllFlowJobs None (Some it) its \<Rightarrow>
          (case nargs of
             Inl e \<Rightarrow> Inr (Inl e)
           | Inr a \<Rightarrow>
               (case it_itered it of
                  None \<Rightarrow> Inl (ExecutionErr ''iterator itered should never be none for parallel for loop jobs'')
                | Some xs \<Rightarrow>
                    Inr (with (insert_iter_arg a ''iter'' (iter_json (int i) (xs ! i))) its (pc_previous_id pc))))
      | _ \<Rightarrow> Inr nargs)"

text \<open>
  A subflow and the iterations of a parallel loop begin a scope of ids of their own; every
  other job belongs to that of the flow.
\<close>

definition is_parallel_loop :: "flow_module \<Rightarrow> bool" where
  "is_parallel_loop m \<longleftrightarrow> get_type m = ''forloopflow'' \<and> rv_parallel (rv_opts (fm_value m)) = Some True"

definition innermost_root :: "mini_job \<Rightarrow> flow_module \<Rightarrow> uuid option" where
  "innermost_root fj m =
     (if is_flow m \<or> is_parallel_loop m then None
      else Some (unwrap_or (mj_id fj) (jb_innermost (mj_job fj))))"

definition child_tag :: "mini_job \<Rightarrow> step \<Rightarrow> job_payload_with_tag \<Rightarrow> string option" where
  "child_tag fj st p =
     (let t = jb_tag (mj_job fj) in
      if is_preprocessor_step st \<or> t = ''flow'' \<or> t = ''flow-'' @ jb_workspace (mj_job fj)
      then jp_tag p else Some t)"

definition check_tag :: "env \<Rightarrow> mini_job \<Rightarrow> string \<Rightarrow> string option \<Rightarrow> unit res" where
  "check_tag E fj email tag =
     (case tag of
        Some t \<Rightarrow> if t \<noteq> [] \<and> t \<noteq> jb_tag (mj_job fj)
                   then e_tag_available E (jb_workspace (mj_job fj)) t email else Inr ()
      | None \<Rightarrow> Inr ())"

definition child_timeout :: "env \<Rightarrow> push_ctx \<Rightarrow> plan \<Rightarrow> job_payload_with_tag \<Rightarrow> db \<Rightarrow> int option res" where
  "child_timeout E pc pl p d =
     (case mo_timeout (fm_opts (pl_module pl)) of
        None \<Rightarrow> Inr (jp_timeout p)
      | Some t \<Rightarrow>
          rbind (evaluate_input_transform E (dec_signed 32) 0 t (sv_last (pc_vars pc)) (sv_args (pc_vars pc))
                   (sv_env (pc_vars pc)) (Some (transform_ctx pc (pl_previous_id pl))) d) (\<lambda>n.
          if n < 0 then Inl (ExecutionErr ''Timeout value cannot be negative'') else Inr (Some n)))"

definition child_request ::
  "push_ctx \<Rightarrow> plan \<Rightarrow> routing \<Rightarrow> job_payload_with_tag \<Rightarrow> args res \<Rightarrow> int option \<Rightarrow> push_req" where
  "child_request pc pl ro p a timeout =
     (let fj = pc_job pc; j = mj_job fj;
          (email, as_user) = unwrap_or (jb_email j, jb_permissioned_as j) (jp_on_behalf_of p) in
      \<lparr>pr_workspace = jb_workspace j, pr_payload = jp_payload p,
       pr_args = (case a of Inr a \<Rightarrow> a | Inl _ \<Rightarrow> []), pr_user = jb_created_by j, pr_email = email,
       pr_permissioned_as = as_user, pr_scheduled_for = pl_scheduled_for pl, pr_schedule = jb_schedule j,
       pr_parent = Some (mj_id fj), pr_root = Some (get_root_job_id fj),
       pr_innermost = innermost_root fj (pl_module pl), pr_job_id = None, pr_same_worker = ro_same_worker ro,
       pr_pre_run_error = (case a of Inl e \<Rightarrow> Some e | Inr _ \<Rightarrow> None), pr_tag = child_tag fj (pl_step pl) p,
       pr_timeout = timeout, pr_step_id = Some (fm_id (pl_module pl)),
       pr_priority = or_option (mo_priority (fm_opts (pl_module pl))) (jb_priority j),
       pr_running = ro_with_runners ro, pr_suspended_mode = None\<rparr>)"

text \<open>
  With a bound \<open>p\<close> on the parallelism, the \<open>i\<close>-th job starts when \<open>i - p + 1\<close> others have
  ended: it is suspended with that number, which \<open>resume_waiting\<close> looks for. Indices are cut
  to 16 bits.
\<close>

definition throttled :: "nat \<Rightarrow> 16 word \<Rightarrow> int option" where
  "throttled i p = (if p \<le> of_nat i then Some (uint (of_nat i - p + 1 :: 16 word)) else None)"

definition throttle_row :: "env \<Rightarrow> int \<Rightarrow> queue_row \<Rightarrow> queue_row" where
  "throttle_row E n q = q\<lparr>q_suspend := n, q_suspend_until := Some (e_now E + 14 * 24 * 3600 * 1000000), q_running := True\<rparr>"

definition throttle :: "env \<Rightarrow> push_ctx \<Rightarrow> plan \<Rightarrow> nat \<Rightarrow> uuid \<Rightarrow> unit act" where
  "throttle E pc pl i j =
     (case (if is_parallel_loop (pl_module pl) then get_parallelism (pl_module pl) else None) of
        None \<Rightarrow> ret ()
      | Some t \<Rightarrow>
          abind (reads (evaluate_input_transform E dec_word (0 :: 16 word) t (sv_last (pc_vars pc)) (sv_args (pc_vars pc))
                   (sv_env (pc_vars pc)) (Some (transform_ctx pc (pl_previous_id pl))))) (\<lambda>p.
          case throttled i p of
            None \<Rightarrow> ret ()
          | Some n \<Rightarrow> modify (update_queue j (throttle_row E n))))"

definition track_cleanup :: "mini_job \<Rightarrow> flow_module \<Rightarrow> job_payload_with_tag \<Rightarrow> uuid \<Rightarrow> db \<Rightarrow> db" where
  "track_cleanup fj m p j =
     (let top = unwrap_or (mj_id fj) (innermost_root fj m) in
      case resolve_delete_after_secs (if jp_delete_after_use p then Some True else None) (jp_delete_after_secs p) of
        None \<Rightarrow> id
      | Some n \<Rightarrow> update_status top (\<lambda>s. s\<lparr>fs_cleanup_module :=
          (let c = fs_cleanup_module s in
           if n = 0 then c\<lparr>flow_jobs_to_clean := flow_jobs_to_clean c @ [j]\<rparr>
           else c\<lparr>flow_jobs_to_schedule_clean := flow_jobs_to_schedule_clean c @ [\<lparr>fjs_id = j, fjs_delete_after_secs = n\<rparr>]\<rparr>)\<rparr>))"

definition keep_alive :: "env \<Rightarrow> uuid \<Rightarrow> nat \<Rightarrow> db \<Rightarrow> db" where
  "keep_alive E flow i d =
     (if i mod 100 = 0 \<and> i \<noteq> 0 \<and> (case d_ping d flow of Some t \<Rightarrow> t < e_now E | None \<Rightarrow> False)
      then d\<lparr>d_ping := (d_ping d)(flow \<mapsto> e_now E)\<rparr> else d)"

definition push_child ::
  "env \<Rightarrow> push_ctx \<Rightarrow> plan \<Rightarrow> routing \<Rightarrow> args res \<Rightarrow> next_status \<Rightarrow> nat \<Rightarrow> job_payload_with_tag \<Rightarrow> uuid act" where
  "push_child E pc pl ro nargs next i p =
     abind (modify (keep_alive E (mj_id (pc_job pc)) i)) (\<lambda>_.
     abind (reads (child_args E pc nargs next i)) (\<lambda>a.
     abind (lift_res (check_tag E (pc_job pc)
              (case jp_on_behalf_of p of Some (email, _) \<Rightarrow> email | None \<Rightarrow> jb_email (mj_job (pc_job pc)))
              (child_tag (pc_job pc) (pl_step pl) p))) (\<lambda>_.
     abind (reads (child_timeout E pc pl p)) (\<lambda>timeout.
     abind (push E (child_request pc pl ro p a timeout)) (\<lambda>j.
     abind (aif (stays_here ro) (modify (update_queue j (\<lambda>q. q\<lparr>q_worker := Some (e_worker E)\<rparr>)))) (\<lambda>_.
     abind (throttle E pc pl i j) (\<lambda>_.
     abind (modify (track_cleanup (pc_job pc) (pl_module pl) p j)) (\<lambda>_.
     ret j))))))))"

fun push_children ::
  "env \<Rightarrow> push_ctx \<Rightarrow> plan \<Rightarrow> routing \<Rightarrow> args res \<Rightarrow> next_status \<Rightarrow> nat \<Rightarrow> job_payload_with_tag list \<Rightarrow> uuid list act" where
  "push_children E pc pl ro nargs next i [] = ret []"
| "push_children E pc pl ro nargs next i (p # ps) =
     abind (push_child E pc pl ro nargs next i p) (\<lambda>j.
     abind (push_children E pc pl ro nargs next (Suc i) ps) (\<lambda>js.
     ret (j # js)))"

section \<open>The status of the step\<close>

definition one_uuid :: "uuid list \<Rightarrow> uuid res" where
  "one_uuid js = (case js of [j] \<Rightarrow> Inr j | _ \<Rightarrow> Inl (BadRequest ''Expected only one uuid''))"

definition push_info :: "uuid list \<Rightarrow> bool option list option \<Rightarrow> flow_jobs_duration option \<Rightarrow> uuid \<Rightarrow> jobs_info" where
  "push_info jobs succ dur j = no_jobs\<lparr>ji_flow_jobs := Some (jobs @ [j]),
     ji_flow_jobs_success := map_option (\<lambda>xs. xs @ [None]) succ,
     ji_flow_jobs_duration := map_option (\<lambda>ds. durations_push ds None) dur\<rparr>"

definition no_progress :: progress_info where
  "no_progress = \<lparr>pi_progress = None, pi_iterator = None, pi_branchall = None, pi_parallel = False, pi_while_loop = False\<rparr>"

definition new_status :: "env \<Rightarrow> uuid \<Rightarrow> string \<Rightarrow> next_status \<Rightarrow> uuid list \<Rightarrow> flow_status_module act" where
  "new_status E flow i next js =
     (case next of
        NextLoopIteration ni its b \<Rightarrow>
          abind (lift_res (one_uuid js)) (\<lambda>j.
          abind (write_itered E flow (ni_itered ni)) (\<lambda>itered.
          ret (InProgress i j
            (no_progress\<lparr>pi_iterator := Some \<lparr>it_index = ni_index ni, it_itered = itered, it_itered_len = Some (ni_itered_len ni)\<rparr>,
               pi_while_loop := ni_while_loop ni\<rparr>)
            (push_info (ni_flow_jobs ni) (ni_success ni) (ni_duration ni) j))))
      | AllFlowJobs ba it its \<Rightarrow>
          ret (InProgress i flow
            (no_progress\<lparr>pi_iterator := map_option (\<lambda>x. x\<lparr>it_itered := None\<rparr>) it, pi_branchall := ba, pi_parallel := True\<rparr>)
            (no_jobs\<lparr>ji_flow_jobs := Some js, ji_flow_jobs_success := Some (replicate (length js) None),
               ji_flow_jobs_duration := Some (durations_new (length js))\<rparr>))
      | NextBranchStep nb \<Rightarrow>
          abind (lift_res (one_uuid js)) (\<lambda>j.
          ret (InProgress i j (no_progress\<lparr>pi_branchall := Some (nb_status nb)\<rparr>)
            (push_info (nb_flow_jobs nb) (nb_success nb) (nb_duration nb) j)))
      | BranchChosen c \<Rightarrow>
          abind (lift_res (one_uuid js)) (\<lambda>j. ret (InProgress i j no_progress (no_jobs\<lparr>ji_branch_chosen := Some c\<rparr>)))
      | NextStep \<Rightarrow> abind (lift_res (one_uuid js)) (\<lambda>j. ret (WaitingForExecutor i j)))"

definition store_step :: "flow_value \<Rightarrow> plan \<Rightarrow> flow_status_module \<Rightarrow> flow_status \<Rightarrow> flow_status" where
  "store_step f pl m s =
     (case pl_step pl of
        FailureStep \<Rightarrow> s\<lparr>fs_failure_module := \<lparr>parent_module = Some (pl_current_id pl), module_status = m\<rparr>,
                         fs_step := int (length (fv_modules f))\<rparr>
      | PreprocessorStep \<Rightarrow> s\<lparr>fs_preprocessor_module := Some m, fs_step := - 1\<rparr>
      | Step i _ \<Rightarrow> (set_module (int i) m s)\<lparr>fs_step := int i\<rparr>)"

definition lock_jobs :: "uuid \<Rightarrow> uuid list \<Rightarrow> db \<Rightarrow> db" where
  "lock_jobs flow js d = (if length js = 1 then d else d\<lparr>d_lock := d_lock d @ map (\<lambda>j. (flow, j)) js\<rparr>)"

text \<open>The transaction of the pushes: the jobs, their locks, and the status that names them.\<close>

definition push_tx ::
  "env \<Rightarrow> push_ctx \<Rightarrow> plan \<Rightarrow> routing \<Rightarrow> args res \<Rightarrow> next_status \<Rightarrow> job_payload_with_tag list \<Rightarrow> uuid list act" where
  "push_tx E pc pl ro nargs next ps =
     (let flow = mj_id (pc_job pc) in
      transaction
        (abind (push_children E pc pl ro nargs next 0 ps) (\<lambda>js.
         abind (modify (lock_jobs flow js)) (\<lambda>_.
         abind (new_status E flow (fsm_id (pl_ms pl)) next js) (\<lambda>m.
         abind (modify (update_status flow (store_step (pc_flow pc) pl m))) (\<lambda>_.
         abind (modify (reset_ping flow)) (\<lambda>_.
         if stays_here ro \<and> length js \<noteq> 1
         then fail (BadRequest ''Cannot continue on same worker with multiple jobs'') else ret js)))))))"

definition send_same_worker :: "env \<Rightarrow> uuid \<Rightarrow> plan \<Rightarrow> routing \<Rightarrow> uuid option \<Rightarrow> uuid list \<Rightarrow> unit act" where
  "send_same_worker E flow pl ro runners js =
     aif (stays_here ro)
       (abind (if ro_start_runners ro
               then abind (lift_res (e_spawn_runners E flow (fm_id (pl_module pl)))) (\<lambda>_. ret (Some flow))
               else ret (if ro_drop_runners ro then None else runners)) (\<lambda>r.
        modify (\<lambda>d. d\<lparr>d_same_worker := d_same_worker d @ [(hd js, r)]\<rparr>)))"

section \<open>One round, and the loop of \<open>handle_flow\<close>\<close>

text \<open>
  \<open>push_step\<close> is the second half of the round, from the module on; it is entered with the
  messages and approvers which the gate lets through.
\<close>

definition step_ctx :: "flow_value \<Rightarrow> mini_job \<Rightarrow> plan \<Rightarrow> args option \<Rightarrow> json \<Rightarrow> json list \<Rightarrow> string list \<Rightarrow> push_ctx" where
  "step_ctx f fj pl flow_env last_result msgs approvers =
     \<lparr>pc_flow = f, pc_job = fj, pc_status = pl_status pl,
      pc_vars = \<lparr>sv_args = job_args fj, sv_env = flow_env, sv_last = last_result, sv_resumes = JArr msgs,
        sv_resume = (if msgs = [] then JNull else last msgs), sv_approvers = JArr (map JStr approvers)\<rparr>,
      pc_previous_id = pl_previous_id pl\<rparr>"

definition run_transform ::
  "env \<Rightarrow> uuid option \<Rightarrow> push_ctx \<Rightarrow> plan \<Rightarrow> args res \<Rightarrow> next_flow_transform \<Rightarrow> pushed act" where
  "run_transform E runners pc pl nargs t =
     (case t of
        EmptyInnerFlows chosen \<Rightarrow> skip_empty_inner (mj_id (pc_job pc)) pl chosen
      | Continue ps next \<Rightarrow>
          let ro = routing_for (pc_job pc) (pc_flow pc) (pl_module pl) runners next in
          abind (push_tx E pc pl ro nargs next ps) (\<lambda>js.
          abind (send_same_worker E (mj_id (pc_job pc)) pl ro runners js) (\<lambda>_.
          ret (PushDone None))))"

definition push_jobs :: "env \<Rightarrow> uuid option \<Rightarrow> push_ctx \<Rightarrow> plan \<Rightarrow> pushed act" where
  "push_jobs E runners pc pl =
     abind (check_skip_if E pc (pl_module pl)) (\<lambda>skipped.
     abind (reads (step_args E pc pl skipped)) (\<lambda>(nargs, by_id).
     abind (compute_next_flow_transform E pc (pl_module pl) (pl_ms pl) by_id skipped)
       (run_transform E runners pc pl nargs)))"

definition push_step ::
  "env \<Rightarrow> uuid option \<Rightarrow> mini_job \<Rightarrow> flow_status \<Rightarrow> flow_value \<Rightarrow> args option \<Rightarrow> step \<Rightarrow> flow_status_module \<Rightarrow>
   json \<Rightarrow> json list \<Rightarrow> string list \<Rightarrow> pushed act" where
  "push_step E runners fj s f flow_env st sm last_result msgs approvers =
     abind (lift_res (get_flow_module_at_step f st)) (\<lambda>m.
     abind (reads (wake_up_at E fj f st sm last_result flow_env)) (\<lambda>sched.
     abind (retry_or_fail_over E fj f last_result flow_env
              \<lparr>pl_step = st, pl_module = m, pl_ms = sm, pl_current_id = fm_id m, pl_previous_id = previous_id_at f st,
               pl_scheduled_for = sched, pl_status = s, pl_args_from = None\<rparr>) (\<lambda>pl.
     push_jobs E runners (step_ctx f fj pl flow_env last_result msgs approvers) pl)))"

definition after_gate ::
  "env \<Rightarrow> uuid option \<Rightarrow> mini_job \<Rightarrow> flow_status \<Rightarrow> flow_value \<Rightarrow> args option \<Rightarrow> step \<Rightarrow> flow_status_module \<Rightarrow>
   json \<Rightarrow> gate \<Rightarrow> pushed act" where
  "after_gate E runners fj s f flow_env st sm v g =
     (case g of
        Parked u \<Rightarrow> ret (PushDone u)
      | Open msgs approvers \<Rightarrow> push_step E runners fj s f flow_env st sm v msgs approvers)"

definition after_checks ::
  "env \<Rightarrow> uuid option \<Rightarrow> mini_job \<Rightarrow> flow_status \<Rightarrow> flow_value \<Rightarrow> args option \<Rightarrow> step \<Rightarrow> flow_status_module \<Rightarrow>
   json option \<Rightarrow> update_flow option \<Rightarrow> pushed act" where
  "after_checks E runners fj s f flow_env st sm last_job_result o' =
     (case o' of
        Some u \<Rightarrow> ret (PushDone (Some u))
      | None \<Rightarrow>
          abind (reads (last_result_for fj s st sm last_job_result)) (\<lambda>v.
          abind (resume_gate E fj f s sm v flow_env) (after_gate E runners fj s f flow_env st sm v)))"

definition push_next_flow_job ::
  "env \<Rightarrow> uuid option \<Rightarrow> mini_job \<Rightarrow> flow_value \<Rightarrow> args option \<Rightarrow> json option \<Rightarrow> flow_status \<Rightarrow> pushed act" where
  "push_next_flow_job E runners fj f flow_env last_job_result s =
     (let st = from_i32_and_len (fs_step s) (length (fv_modules f)); sm = status_at st s in
      case already_done fj f st sm last_job_result of
        Some u \<Rightarrow> ret (PushDone (Some u))
      | None \<Rightarrow> abind (first_step_checks E fj f flow_env st)
                  (after_checks E runners fj s f flow_env st sm last_job_result))"

text \<open>
  The next tick of a scheduled flow is pushed when its first step starts. An error of that,
  after the retries, disables the schedule (a table the model does not have) and does not
  stop the flow.
\<close>

definition schedule_flow :: "env \<Rightarrow> mini_job \<Rightarrow> flow_status \<Rightarrow> db \<Rightarrow> db" where
  "schedule_flow E fj s d =
     (case (is_flow_step fj, jb_schedule (mj_job fj), jb_runnable_path (mj_job fj)) of
        (False, Some sp, Some rp) \<Rightarrow>
          if fail_count (fs_retry s) = 0 \<and> fs_step s = 0 \<and> e_schedule E (jb_workspace (mj_job fj)) sp
          then (case e_try_schedule E fj d of Inr d' \<Rightarrow> d' | Inl _ \<Rightarrow> d)
          else d
      | _ \<Rightarrow> d)"

text \<open>
  The loop repeats the round on \<open>PushRec\<close>; \<open>n\<close> bounds the rounds, and running out of them is
  the error of a loop that does not end. The flow is looked at again only when an empty loop
  or branch has been set to success, which the next round reports: two rounds are enough
  (theorem \<open>handle_flow_rounds\<close>).
\<close>

fun push_rounds ::
  "nat \<Rightarrow> env \<Rightarrow> uuid option \<Rightarrow> mini_job \<Rightarrow> flow_value \<Rightarrow> args option \<Rightarrow> json option \<Rightarrow> flow_status \<Rightarrow>
   update_flow option option act" where
  "push_rounds 0 E runners fj f flow_env v s = ret None"
| "push_rounds (Suc n) E runners fj f flow_env v s =
     abind (push_next_flow_job E runners fj f flow_env v s) (\<lambda>p.
     case p of
       PushDone u \<Rightarrow> ret (Some u)
     | PushRec s' \<Rightarrow> push_rounds n E runners fj f flow_env v s')"

definition resolved_env :: "env \<Rightarrow> flow_value \<Rightarrow> args option" where
  "resolved_env E f = map_option (e_resolve_env E) (fv_flow_env f)"

definition handle_flow :: "nat \<Rightarrow> env \<Rightarrow> uuid option \<Rightarrow> mini_job \<Rightarrow> flow_value \<Rightarrow> json option \<Rightarrow> unit act" where
  "handle_flow n E runners fj f v =
     abind (lift_res (ok_or (InternalErr ''Unable to parse flow status'') (mj_status fj))) (\<lambda>s.
     abind (modify (schedule_flow E fj s)) (\<lambda>_.
     abind (push_rounds n E runners fj f (resolved_env E f) v s) (\<lambda>r.
     case r of
       None \<Rightarrow> fail (InternalErr ''the rounds do not end'')
     | Some None \<Rightarrow> ret ()
     | Some (Some u) \<Rightarrow> modify (\<lambda>d. d\<lparr>d_sent := d_sent d @ [u]\<rparr>))))"

end
