(* ===== verification/Rounds.thy ===== *)
theory Rounds
  imports FlowStep
begin

text \<open>
  The loop of \<open>handle_flow\<close>: a round that asks for another one has set the module of the
  step to success, which the next round reports. The exception is a preprocessor with
  nothing to run: its round writes to another module and the loop never ends.
\<close>

section \<open>What a round keeps of the status\<close>

lemma skip_expr_shape [keeps_intros]: "keeps (same_shape flow) (check_skip_expr E fj f flow_env)"
  by (auto simp: keeps_def check_skip_expr_def same_shape.frame_refl append_logs_frames
      split: option.splits sum.splits)

lemma first_step_checks_shape [keeps_intros]: "keeps (same_shape flow) (first_step_checks E fj f flow_env st)"
  unfolding first_step_checks_def by (auto intro!: keeps_intros)

lemma skip_if_shape [keeps_intros]: "keeps (same_shape flow) (check_skip_if E pc m)"
  by (auto simp: keeps_def check_skip_if_def Let_def same_shape.frame_refl append_logs_frames
      split: option.splits sum.splits)

lemma record_approval_shape [keeps_intros]: "same_shape flow d (record_approval j step rs d)"
  unfolding record_approval_def by (auto intro!: keeps_intros)

lemma same_shape_update_iff:
  "(\<And>s. fs_step (g s) = fs_step s) \<Longrightarrow> (\<And>s. length (fs_modules (g s)) = length (fs_modules s)) \<Longrightarrow>
     same_shape flow d (update_status j g d1) \<longleftrightarrow> same_shape flow d d1"
  by (simp add: update_status_def same_shape_def option.map_comp comp_def)

lemma gate_open_shape:
  assumes "resume_gate E fj f s sm v flow_env d = (Inr (Open msgs approvers), d')"
  shows "same_shape flow d d'"
  using assms
  by (auto simp: resume_gate_def act_iffs aif_def record_approval_def same_shape_update_iff same_shape.frame_refl
      split: option.splits if_splits)

lemma eval_branch_shape [keeps_intros]: "keeps (same_shape flow) (eval_branch E pc m i b)"
  by (auto simp: keeps_def eval_branch_def Let_def same_shape.frame_refl append_logs_frames split: sum.splits)

lemma choose_branch_shape [keeps_intros]: "keeps (same_shape flow) (choose_branch E pc m i bs)"
  by (induction bs arbitrary: i) (auto intro!: keeps_intros)

lemma compute_next_shape [keeps_intros]:
  "keeps (same_shape flow) (compute_next_flow_transform E pc m ms by_id skipped)"
  unfolding compute_next_flow_transform_def next_branch_one_def Let_def
  by (auto intro!: keeps_intros split: flow_module_value.splits option.splits)

lemma retry_or_fail_over_shape [keeps_intros]:
  "keeps (same_shape flow) (retry_or_fail_over E fj f v flow_env pl)"
  unfolding retry_or_fail_over_def retry_step_def run_error_handler_def Let_def
  by (auto intro!: keeps_intros split: option.splits)

section \<open>A round that asks for another one\<close>

lemma retry_or_fail_over_step:
  assumes "retry_or_fail_over E fj f v flow_env pl d = (Inr pl', d')"
  shows "fs_step (pl_status pl') = fs_step (pl_status pl)"
  using assms
  by (auto simp: retry_or_fail_over_def retry_step_def run_error_handler_def Let_def act_iffs
      split: option.splits if_splits)

lemma push_jobs_rec:
  assumes "push_jobs E runners pc pl d = (Inr (PushRec s'), d')"
  shows "\<exists>d1 row chosen. same_shape (mj_id (pc_job pc)) d d1 \<and> d_status d1 (mj_id (pc_job pc)) = Some row \<and>
    s' = set_module (fs_step (pl_status pl)) (empty_success (fsm_id (pl_ms pl)) chosen) row"
proof -
  from assms obtain skipped d1 by_id nargs t d2 where
    1: "check_skip_if E pc (pl_module pl) d = (Inr skipped, d1)"
    and 2: "compute_next_flow_transform E pc (pl_module pl) (pl_ms pl) by_id skipped d1 = (Inr t, d2)"
    and t: "run_transform E runners pc pl nargs t d2 = (Inr (PushRec s'), d')"
    by (auto simp: push_jobs_def act_iffs)
  from t obtain chosen where 3: "skip_empty_inner (mj_id (pc_job pc)) pl chosen d2 = (Inr (PushRec s'), d')"
    by (cases t) (auto simp: run_transform_def Let_def act_iffs)
  have "same_shape (mj_id (pc_job pc)) d d2"
    using same_shape.keeps_result [OF skip_if_shape 1] same_shape.keeps_result [OF compute_next_shape 2]
    by (rule same_shape.frame_trans)
  moreover obtain row where "d_status d2 (mj_id (pc_job pc)) = Some row"
    "s' = set_module (fs_step (pl_status pl)) (empty_success (fsm_id (pl_ms pl)) chosen) row"
    using 3 by (cases "d_status d2 (mj_id (pc_job pc))") (auto simp: skip_empty_inner_def act_iffs update_status_def)
  ultimately show ?thesis by blast
qed

lemma push_next_rec:
  assumes rec: "push_next_flow_job E runners fj f flow_env v s d = (Inr (PushRec s'), d')"
  shows "\<exists>d1 row chosen i. same_shape (mj_id fj) d d1 \<and> d_status d1 (mj_id fj) = Some row \<and>
    s' = set_module (fs_step s) (empty_success i chosen) row"
proof -
  let ?st = "from_i32_and_len (fs_step s) (length (fv_modules f))"
  from rec obtain u d1 where
    1: "first_step_checks E fj f flow_env ?st d = (Inr u, d1)"
    and u: "after_checks E runners fj s f flow_env ?st (status_at ?st s) v u d1 = (Inr (PushRec s'), d')"
    by (auto simp: push_next_flow_job_def Let_def act_iffs split: option.split_asm)
  from u obtain v' g d2 where g: "resume_gate E fj f s (status_at ?st s) v' flow_env d1 = (Inr g, d2)"
    and "after_gate E runners fj s f flow_env ?st (status_at ?st s) v' g d2 = (Inr (PushRec s'), d')"
    by (auto simp: after_checks_def act_iffs split: option.split_asm)
  then obtain msgs approvers where 2: "g = Open msgs approvers"
    and 3: "push_step E runners fj s f flow_env ?st (status_at ?st s) v' msgs approvers d2 = (Inr (PushRec s'), d')"
    by (cases g) (auto simp: after_gate_def act_iffs)
  obtain pl0 pl d3 where
    4: "retry_or_fail_over E fj f v' flow_env pl0 d2 = (Inr pl, d3)" and pl0: "pl_status pl0 = s"
    and 5: "push_jobs E runners (step_ctx f fj pl flow_env v' msgs approvers) pl d3 = (Inr (PushRec s'), d')"
    using 3 by (auto simp: push_step_def act_iffs)
  have job: "mj_id (pc_job (step_ctx f fj pl flow_env v' msgs approvers)) = mj_id fj" by (simp add: step_ctx_def)
  have "same_shape (mj_id fj) d d3"
    using same_shape.keeps_result [OF first_step_checks_shape 1] gate_open_shape [OF g [unfolded 2]]
      same_shape.keeps_result [OF retry_or_fail_over_shape 4]
    by (blast intro: same_shape.frame_trans)
  moreover have "fs_step (pl_status pl) = fs_step s"
    using retry_or_fail_over_step [OF 4] pl0 by simp
  ultimately show ?thesis
    using push_jobs_rec [OF 5] unfolding job by (metis same_shape.frame_trans)
qed

text \<open>The flow is at one of its modules, and the row in the database agrees with the status.\<close>

definition at_module :: "flow_value \<Rightarrow> mini_job \<Rightarrow> flow_status \<Rightarrow> db \<Rightarrow> bool" where
  "at_module f fj s d \<longleftrightarrow> 0 \<le> fs_step s \<and> nat (fs_step s) < length (fv_modules f) \<and>
     (case d_status d (mj_id fj) of
        Some row \<Rightarrow> fs_step row = fs_step s \<and> nat (fs_step s) < length (fs_modules row)
      | None \<Rightarrow> True)"

lemma second_round_reports:
  assumes rec: "push_next_flow_job E runners fj f flow_env v s d = (Inr (PushRec s'), d')"
    and at: "at_module f fj s d"
  shows "\<exists>u. push_next_flow_job E' runners' fj f flow_env' v' s' d'' = (Inr (PushDone (Some u)), d'')"
proof -
  obtain d1 row chosen i where 1: "same_shape (mj_id fj) d d1" "d_status d1 (mj_id fj) = Some row"
    "s' = set_module (fs_step s) (empty_success i chosen) row"
    using push_next_rec [OF rec] by blast
  then have "fs_step row = fs_step s" "nat (fs_step s) < length (fs_modules row)"
    using at by (auto simp: at_module_def same_shape_def split: option.splits)
  then have "fs_step s' = fs_step s" "nth_opt (fs_modules s') (nat (fs_step s)) = Some (empty_success i chosen)"
    using at by (auto simp: 1(3) at_module_def set_module_def jsonb_array_set_def nth_opt_def Let_def nat_less_iff)
  then have "is_success (status_at (from_i32_and_len (fs_step s') (length (fv_modules f))) s')"
    using at by (simp add: at_module_def from_i32_and_len_def status_at_def empty_success_def is_success_def unwrap_or_def nth_opt_def)
  then show ?thesis
    by (simp add: push_next_flow_job_def Let_def already_done_def ret_def)
qed

section \<open>Properties\<close>

text \<open>
  C4: The loop of \<open>handle_flow\<close> ends: for a flow that is at one of its modules two rounds are
  enough, whatever the modules are and whether the rounds succeed or fail, and more rounds
  give the same.
\<close>

theorem handle_flow_rounds:
  assumes "at_module f fj s d"
  shows "fst (push_rounds (n + 2) E runners fj f flow_env v s d) \<noteq> Inr None \<and>
    push_rounds (n + 2) E runners fj f flow_env v s d = push_rounds 2 E runners fj f flow_env v s d"
proof (cases "push_next_flow_job E runners fj f flow_env v s d")
  case (Pair r d')
  show ?thesis
  proof (cases "\<exists>s'. r = Inr (PushRec s')")
    case True
    then obtain s' where r: "r = Inr (PushRec s')" by blast
    obtain u where u: "push_next_flow_job E runners fj f flow_env v s' d' = (Inr (PushDone (Some u)), d')"
      using second_round_reports [OF Pair [unfolded r] assms] by blast
    have "push_rounds (k + 2) E runners fj f flow_env v s d = (Inr (Some (Some u)), d')" for k
      by (simp add: abind_def Pair r u ret_def)
    from this [of n] this [of 0] show ?thesis by (simp del: push_rounds.simps add: numeral_2_eq_2)
  next
    case False
    then have "push_rounds (k + 2) E runners fj f flow_env v s d =
        (case r of Inl e \<Rightarrow> Inl e | Inr (PushDone u) \<Rightarrow> Inr (Some u) | Inr (PushRec s') \<Rightarrow> Inr None, d')" for k
      by (auto simp: abind_def Pair ret_def split: sum.splits pushed.splits)
    from this [of n] this [of 0] False show ?thesis
      by (auto simp del: push_rounds.simps simp: numeral_2_eq_2 split: sum.splits pushed.splits)
  qed
qed

definition empty_loop_flow :: flow_value where
  "empty_loop_flow = flow_value_default\<lparr>fv_modules := [FlowModule (opts_default ''l'')
     (to_raw (ForloopFlow (Static (JArr [])) [sleeping_module] None True False None None))]\<rparr>"

definition empty_loop_job :: mini_job where
  "empty_loop_job = \<lparr>mj_id = 1, mj_job = plain_job None, mj_q = plain_queue,
     mj_status = Some (flow_status_new empty_loop_flow)\<rparr>"

definition empty_loop_db :: db where
  "empty_loop_db = empty_db\<lparr>d_job := [1 \<mapsto> plain_job None], d_queue := [1 \<mapsto> plain_queue],
     d_status := [1 \<mapsto> flow_status_new empty_loop_flow]\<rparr>"

theorem handle_flow_rounds_witness:
  "at_module empty_loop_flow empty_loop_job (flow_status_new empty_loop_flow) empty_loop_db \<and>
   fst (push_rounds 9 plain_env None empty_loop_job empty_loop_flow None None
          (flow_status_new empty_loop_flow) empty_loop_db) \<noteq> Inr None"
proof -
  have at: "at_module empty_loop_flow empty_loop_job (flow_status_new empty_loop_flow) empty_loop_db"
    by (simp add: at_module_def flow_status_new_def empty_loop_flow_def flow_value_default_def empty_loop_job_def
        empty_loop_db_def)
  then show ?thesis
    using conjunct1 [OF handle_flow_rounds [OF at, of 7 plain_env None None None]] by (simp del: push_rounds.simps)
qed

text \<open>
  C8: The loop does not end when the preprocessor of a flow is a branch with nothing to run:
  the round writes its success at the index \<open>-1\<close> of the modules, which is the last module of
  the flow, while the status of the preprocessor stays as it was, so every round asks for
  another one.
\<close>

theorem empty_preprocessor_never_ends:
  assumes f: "fv_preprocessor_module f = Some m" and v: "get_value m = Inr (BranchOne [] [] None)"
    and o: "fm_opts m = opts_default i"
    and s: "fs_step s < 0" "fs_preprocessor_module s = Some (WaitingForPriorSteps i')"
    and d: "d_status d (mj_id fj) = Some s"
  shows "fst (push_rounds n E runners fj f flow_env v' s d) = Inr None"
  using s d
proof (induction n arbitrary: s d)
  case (Suc n)
  let ?s' = "set_module (fs_step s) (empty_success i' (Some ChosenDefault)) s"
  have st: "from_i32_and_len (fs_step s) (length (fv_modules f)) = PreprocessorStep"
    using Suc.prems by (simp add: from_i32_and_len_def)
  have "push_next_flow_job E runners fj f flow_env v' s d =
      (Inr (PushRec ?s'), d\<lparr>d_status := (d_status d)(mj_id fj \<mapsto> ?s')\<rparr>)"
    using Suc.prems f v o st
    by (simp add: push_next_flow_job_def Let_def already_done_def is_preprocessor_step_def status_at_def unwrap_or_def
        is_success_def first_step_checks_def at_first_step_def after_checks_def abind_def reads_def ret_def
        last_result_for_def is_failure_def resume_gate_def waits_for_prior_steps_def needs_resume_def after_gate_def
        push_step_def lift_res_def get_flow_module_at_step_def wake_up_at_def sleep_of_def retry_or_fail_over_def
        fails_over_def push_jobs_def check_skip_if_def step_ctx_def opts_default_def step_args_def
        compute_next_flow_transform_def next_branch_one_def is_waiting_def inner_payload_def payload_from_modules_def
        run_transform_def skip_empty_inner_def modify_def update_status_def)
  moreover have "fst (push_rounds n E runners fj f flow_env v' ?s' (d\<lparr>d_status := (d_status d)(mj_id fj \<mapsto> ?s')\<rparr>)) = Inr None"
    using Suc.prems by (intro Suc.IH) auto
  ultimately show ?case by (simp add: abind_def)
qed (simp add: ret_def)

definition branching_flow :: flow_value where
  "branching_flow = flow_value_default\<lparr>fv_modules := [sleeping_module], fv_preprocessor_module :=
     Some (FlowModule (opts_default ''preprocessor'') (to_raw (BranchOne [] [] None)))\<rparr>"

theorem empty_preprocessor_never_ends_witness:
  "fst (push_rounds 12 plain_env None empty_loop_job branching_flow None None (flow_status_new branching_flow)
     (empty_loop_db\<lparr>d_status := [1 \<mapsto> flow_status_new branching_flow]\<rparr>)) = Inr None"
proof (rule empty_preprocessor_never_ends)
  show "fv_preprocessor_module branching_flow = Some (FlowModule (opts_default ''preprocessor'') (to_raw (BranchOne [] [] None)))"
    by (simp add: branching_flow_def)
  show "get_value (FlowModule (opts_default ''preprocessor'') (to_raw (BranchOne [] [] None))) = Inr (BranchOne [] [] None)"
    by (simp add: get_value_def parse_value_to_raw del: to_raw.simps)
qed (simp_all add: branching_flow_def flow_status_new_def flow_value_default_def empty_loop_job_def opts_default_def)

end
