(* ===== verification/Approvals.thy ===== *)
theory Approvals
  imports FlowStep
begin

text \<open>
  The gate of a step whose predecessor asks for approvals: what a round of
  \<open>push_next_flow_job\<close> does while the approvals are missing, and when they are there.
\<close>

section \<open>Parked flows\<close>

lemma park_queue:
  assumes "d_queue d flow = Some q" and "n < unat (events_needed su)"
  shows "\<exists>q'. d_queue (park E flow su sm j n d) flow = Some q' \<and>
    q_suspend q' = int (unat (events_needed su)) - int n"
proof -
  have "unat (of_nat n :: 16 word) = n"
    using assms(2) unsigned_less [of "events_needed su", where ?'a = nat] by (simp add: unat_of_nat)
  moreover from this have "(of_nat n :: 16 word) \<le> events_needed su"
    using assms(2) by (simp add: word_le_nat_alt)
  ultimately have "unat (events_needed su - of_nat n) = unat (events_needed su) - n"
    by (simp add: unat_sub)
  then have "uint (events_needed su - of_nat n) = int (unat (events_needed su)) - int n"
    using assms(2) unfolding uint_nat by simp
  then show ?thesis
    using assms(1) by (simp add: park_def Let_def reset_ping_def update_status_def update_queue_def)
qed

lemma park_frames [keeps_intros]: "same_jobs d (park E flow su sm j n d)"
  by (simp add: park_def Let_def reset_ping_def update_status_def update_queue_def same_jobs_def)

lemma record_approval_jobs [keeps_intros]: "same_jobs d (record_approval j step rs d)"
  unfolding record_approval_def by (rule keeps_intros)

lemma gate_jobs [keeps_intros]: "keeps same_jobs (resume_gate E fj f s sm v flow_env)"
  unfolding resume_gate_def by (auto intro!: keeps_intros split: option.split prod.split)

lemma needs_resume_step:
  assumes "needs_resume f s = Some x"
  shows "1 \<le> fs_step s" "fv_modules f \<noteq> []"
  using assms by (auto simp: needs_resume_def Let_def nth_opt_def split: if_splits)

text \<open>The round, up to the gate.\<close>

lemma push_next_at_gate:
  assumes "needs_resume f s = Some x"
    and "waits_for_prior_steps sm \<or> waits_for_events sm"
    and "sm = status_at st s" "st = from_i32_and_len (fs_step s) (length (fv_modules f))"
  shows "push_next_flow_job E runners fj f flow_env v s =
    abind (reads (last_result_for fj s st sm v)) (\<lambda>v'.
      abind (resume_gate E fj f s sm v' flow_env) (after_gate E runners fj s f flow_env st sm v'))"
proof -
  have "already_done fj f st sm v = None"
    using assms(2) needs_resume_step [OF assms(1)]
    by (cases sm) (auto simp: already_done_def is_success_def waits_for_prior_steps_def waits_for_events_def)
  moreover have "first_step_checks E fj f flow_env st = ret None"
    using needs_resume_step(1) [OF assms(1)]
    by (auto simp: first_step_checks_def at_first_step_def assms(4) from_i32_and_len_def split: step.splits)
  ultimately show ?thesis
    using assms(3,4) by (simp add: push_next_flow_job_def Let_def after_checks_def)
qed

lemma gate_closed:
  assumes "needs_resume f s = Some (su, j)" and "waits_for_prior_steps sm \<or> waits_for_events sm"
    and "\<not> can_be_resumed su (resumes_for (mj_id fj) j d)"
    and "\<not> continues_anyway su sm (resumes_for (mj_id fj) j d)"
    and "resume_gate E fj f s sm v flow_env d = (Inr g, d')"
  shows "if waits_for_prior_steps sm \<and> list_all rs_approved (resumes_for (mj_id fj) j d)
    then g = Parked None \<and> (\<exists>q. d_queue d' (mj_id fj) = Some q \<and>
           q_suspend q = int (unat (events_needed su)) - int (length (resumes_for (mj_id fj) j d)))
    else g = Parked (Some (report fj False (refusal_json (resumes_for (mj_id fj) j d)) None))"
proof -
  let ?rs = "resumes_for (mj_id fj) j d"
  have few: "length ?rs < unat (events_needed su)" if "list_all rs_approved ?rs"
    using assms(3) that by (simp add: can_be_resumed_def)
  show ?thesis
  proof (cases "waits_for_prior_steps sm \<and> list_all rs_approved ?rs")
    case True
    obtain ac d1 where q: "d_queue d (mj_id fj) \<noteq> None" and g: "g = Parked None"
      and ac: "aif (ac \<noteq> None) (modify (update_status (mj_id fj) (\<lambda>s. s\<lparr>fs_approval_conditions := ac\<rparr>))) d = (Inr (), d1)"
      and d': "d' = park E (mj_id fj) su sm j (length ?rs) d1"
      using assms True by (auto simp: resume_gate_def act_iffs split: if_split_asm)
    have "d_queue d1 = d_queue d" using ac by (auto simp: aif_def act_iffs update_status_def split: if_splits)
    with q d' obtain q' where "d_queue d1 (mj_id fj) = Some q'" by auto
    from park_queue [OF this few] True g d'
    show ?thesis by auto
  next
    case False
    then have "g = Parked (Some (report fj False (refusal_json ?rs) None))"
      using assms by (auto simp: resume_gate_def act_iffs aif_def split: if_splits)
    then show ?thesis using False by simp
  qed
qed

section \<open>Properties\<close>

text \<open>
  C3: A step whose predecessor asks for approvals is not started while they are missing: the
  round adds no job, whatever else it does. When the flow arrives at the step and nobody has
  refused, it is parked with exactly the number of approvals that are still missing; when
  somebody refused, or the flow wakes up without enough of them, it ends with an error.
  (Counts are those of the 16 bits the engine keeps, and a step that is told to continue on
  disapproval or timeout is excepted.)
\<close>

theorem approval_gate_holds:
  assumes "needs_resume f s = Some (su, j)"
    and "waits_for_prior_steps sm \<or> waits_for_events sm"
    and "sm = status_at (from_i32_and_len (fs_step s) (length (fv_modules f))) s"
    and "\<not> can_be_resumed su (resumes_for (mj_id fj) j d)"
    and "\<not> continues_anyway su sm (resumes_for (mj_id fj) j d)"
    and "push_next_flow_job E runners fj f flow_env v s d = (r, d')"
  shows "d_job d' = d_job d \<and>
    (\<forall>p. r = Inr p \<longrightarrow>
       (if waits_for_prior_steps sm \<and> list_all rs_approved (resumes_for (mj_id fj) j d)
        then p = PushDone None \<and> (\<exists>q. d_queue d' (mj_id fj) = Some q \<and>
               q_suspend q = int (unat (events_needed su)) - int (length (resumes_for (mj_id fj) j d)))
        else p = PushDone (Some (report fj False (refusal_json (resumes_for (mj_id fj) j d)) None))))"
proof -
  let ?st = "from_i32_and_len (fs_step s) (length (fv_modules f))"
  note round = push_next_at_gate [OF assms(1-3) refl]
  show ?thesis
  proof (cases "\<exists>v' g d1. last_result_for fj s ?st sm v d = Inr v' \<and> resume_gate E fj f s sm v' flow_env d = (Inr g, d1)")
    case True
    then obtain v' g d1 where v': "last_result_for fj s ?st sm v d = Inr v'"
      and g: "resume_gate E fj f s sm v' flow_env d = (Inr g, d1)" by blast
    note closed = gate_closed [OF assms(1,2,4,5) g]
    then obtain u where u: "g = Parked u" by (auto split: if_splits)
    then have "r = Inr (PushDone u)" "d' = d1"
      using assms(6) v' g by (auto simp: round abind_def reads_def after_gate_def ret_def)
    moreover have "d_job d1 = d_job d" using same_jobs.keeps_result [OF gate_jobs g] by (simp add: same_jobs_def)
    ultimately show ?thesis using closed u by (auto split: if_splits)
  next
    case False
    then have "d_job d' = d_job d \<and> (\<exists>e. r = Inl e)"
      using assms(6) same_jobs.keeps_result [OF gate_jobs]
      by (auto simp: round abind_def reads_def same_jobs_def split: sum.splits prod.splits)
    then show ?thesis by auto
  qed
qed

definition approval_flow :: flow_value where
  "approval_flow = flow_value_default\<lparr>fv_modules :=
     [FlowModule ((opts_default ''a'')\<lparr>mo_suspend := Some \<lparr>required_events = Some 2, suspend_timeout = None,
        user_auth_required = None, user_groups_required = None, self_approval_disabled = None,
        continue_on_disapprove_timeout = None\<rparr>\<rparr>) (to_raw Identity),
      FlowModule (opts_default ''b'') (to_raw Identity)]\<rparr>"

definition approval_status :: flow_status where
  "approval_status = (flow_status_new approval_flow)\<lparr>fs_step := 1,
     fs_modules := [Success ''a'' 2 no_jobs [] [] False, WaitingForPriorSteps ''b'']\<rparr>"

definition approval_job :: mini_job where
  "approval_job = \<lparr>mj_id = 1, mj_job = plain_job None, mj_q = plain_queue, mj_status = Some approval_status\<rparr>"

definition approval_db :: db where
  "approval_db = empty_db\<lparr>d_job := [1 \<mapsto> plain_job None], d_queue := [1 \<mapsto> plain_queue], d_status := [1 \<mapsto> approval_status],
     d_resume := [\<lparr>rs_job = 2, rs_value = JNull, rs_approver = Some ''ann'', rs_resume_id = 1, rs_approved = True\<rparr>]\<rparr>"

definition approval_round :: "pushed res \<times> db" where
  "approval_round = push_next_flow_job plain_env None approval_job approval_flow None (Some JNull) approval_status approval_db"

lemmas approval_example = approval_flow_def approval_status_def approval_job_def approval_db_def
  flow_status_new_def flow_value_default_def opts_default_def empty_db_def plain_queue_def plain_job_def

lemma approval_round_ok: "fst approval_round = Inr (PushDone None)"
  by (simp add: approval_round_def approval_example push_next_flow_job_def Let_def already_done_def from_i32_and_len_def
      status_at_def nth_opt_def unwrap_or_def is_success_def first_step_checks_def at_first_step_def after_checks_def
      abind_def reads_def ret_def gets_def last_result_for_def is_failure_def is_preprocessor_step_def resume_gate_def
      waits_for_prior_steps_def needs_resume_def transaction_def resumes_for_def approval_conditions_of_def
      can_be_resumed_def events_needed_def continues_anyway_def modify_def after_gate_def)

theorem approval_gate_holds_witness:
  "fst approval_round = Inr (PushDone None) \<and> d_job (snd approval_round) = d_job approval_db \<and>
   (\<exists>q. d_queue (snd approval_round) 1 = Some q \<and> q_suspend q = 1)"
proof -
  let ?su = "the (fm_suspend (hd (fv_modules approval_flow)))"
  have id: "mj_id approval_job = 1" by (simp add: approval_job_def)
  have rs: "resumes_for 1 2 approval_db =
      [\<lparr>rs_job = 2, rs_value = JNull, rs_approver = Some ''ann'', rs_resume_id = 1, rs_approved = True\<rparr>]"
    by (simp add: resumes_for_def approval_example)
  have need: "needs_resume approval_flow approval_status = Some (?su, 2)"
    by (simp add: needs_resume_def approval_example nth_opt_def unwrap_or_def)
  have sm: "status_at (from_i32_and_len (fs_step approval_status) (length (fv_modules approval_flow))) approval_status =
      WaitingForPriorSteps ''b''"
    by (simp add: status_at_def from_i32_and_len_def approval_example nth_opt_def unwrap_or_def)
  have "unat (events_needed ?su) = 2" by (simp add: events_needed_def approval_example unwrap_or_def)
  moreover have run: "push_next_flow_job plain_env None approval_job approval_flow None (Some JNull) approval_status approval_db =
      (Inr (PushDone None), snd approval_round)"
    using approval_round_ok by (metis approval_round_def prod.collapse)
  ultimately show ?thesis
    using approval_gate_holds [OF need _ refl _ _ run] approval_round_ok
    by (simp add: sm id rs waits_for_prior_steps_def can_be_resumed_def continues_anyway_def)
qed

end
