(* ===== verification/ParallelStart.thy ===== *)
theory ParallelStart
  imports Rounds ParallelJoin
begin

text \<open>
  From the push of a parallel loop or of parallel branches to their join: the transaction of
  the pushes leaves the module in the state which the join starts from.
\<close>

section \<open>The payloads of a parallel step\<close>

lemma map_filter_all_Some: "(\<And>x. x \<in> set xs \<Longrightarrow> f x \<noteq> None) \<Longrightarrow> length (List.map_filter f xs) = length xs"
  by (simp add: List.map_filter_def)

lemma map_filter_all_None: "(\<And>x. x \<in> set xs \<Longrightarrow> f x = None) \<Longrightarrow> List.map_filter f xs = []"
  by (simp add: List.map_filter_def)

lemma inner_payload_None_iff:
  "inner_payload pc m modules node i suffix opt_empty = None \<longleftrightarrow> opt_empty \<and> modules = [] \<and> node = None"
  by (auto simp: inner_payload_def payload_from_modules_def split: option.splits)

lemma all_payloads_uniform:
  assumes "all_payloads ps ba it = Continue xs next" and "(\<forall>p \<in> set ps. p = None) \<or> (\<forall>p \<in> set ps. p \<noteq> None)"
  shows "next = AllFlowJobs ba it None \<and> xs \<noteq> [] \<and> length xs = length ps"
  using assms map_filter_all_Some [of ps id] map_filter_all_None [of ps id]
  by (auto simp: all_payloads_def Let_def split: if_splits)

text \<open>The counter of the step: where it starts, and how many jobs it waits for.\<close>

definition fresh_counter :: "branch_all_status option \<Rightarrow> flow_iterator option \<Rightarrow> nat \<Rightarrow> bool" where
  "fresh_counter ba it n \<longleftrightarrow>
     (\<exists>xs. it = Some \<lparr>it_index = 0, it_itered = Some xs, it_itered_len = Some n\<rparr> \<and> ba = None \<and> length xs = n) \<or>
     it = None \<and> ba = Some \<lparr>ba_branch = 0, ba_len = n\<rparr>"

lemma next_loop_iteration_single:
  "next_loop_iteration E pc ns modules node simple m b d \<noteq> Inr (Continue ps (AllFlowJobs ba it its))"
  by (auto simp: next_loop_iteration_def Let_def rbind_Inr_iff split: option.splits)

lemma next_while_single:
  "next_while E pc m ms modules node sq d \<noteq> Inr (Continue ps (AllFlowJobs ba it its))"
  by (auto simp: next_while_def Let_def next_loop_iteration_single split: prod.split)

lemma next_for_parallel:
  assumes "next_for E pc m ms by_id iterator modules node parallel sq d = Inr (Continue ps (AllFlowJobs ba it its))"
  shows "its = None \<and> ps \<noteq> [] \<and> fresh_counter ba it (length ps)"
proof -
  obtain st where st: "next_forloop_status E pc ms by_id iterator parallel d = Inr st"
    using assms by (auto simp: next_for_def Let_def rbind_Inr_iff)
  from assms obtain itered where
    "all_payloads (map (\<lambda>i. inner_payload pc m modules node (step_text pc i) (''forloop-'' @ show_nat i) True) [0..<length itered])
       None (Some \<lparr>it_index = 0, it_itered = Some itered, it_itered_len = Some (length itered)\<rparr>) = Continue ps (AllFlowJobs ba it its)"
    by (cases st) (auto simp: next_for_def Let_def st next_loop_iteration_single)
  moreover let ?ps = "map (\<lambda>i. inner_payload pc m modules node (step_text pc i) (''forloop-'' @ show_nat i) True) [0..<length itered]"
  have "(\<forall>p \<in> set ?ps. p = None) \<or> (\<forall>p \<in> set ?ps. p \<noteq> None)"
    by (cases "modules = [] \<and> node = None") (auto simp: inner_payload_None_iff simp del: not_None_eq not_Some_eq)
  ultimately show ?thesis
    using all_payloads_uniform [of ?ps] by (fastforce simp: fresh_counter_def)
qed

lemma next_branch_all_parallel:
  assumes "next_branch_all pc m ms branches parallel = Inr (Continue ps (AllFlowJobs ba it its))"
  shows "its = None \<and> ps \<noteq> [] \<and> fresh_counter ba it (length ps)"
proof -
  from assms have
    "all_payloads (map (\<lambda>(i, b). branch_payload pc m i b) (enumerate 0 branches))
       (Some \<lparr>ba_branch = 0, ba_len = length branches\<rparr>) None = Continue ps (AllFlowJobs ba it its)"
    by (auto simp: next_branch_all_def Let_def rbind_Inr_iff split: option.splits if_splits flow_status_module.splits bool.splits)
  moreover let ?ps = "map (\<lambda>(i, b). branch_payload pc m i b) (enumerate 0 branches)"
  have "\<forall>p \<in> set ?ps. p \<noteq> None"
    by (auto split: prod.splits simp del: not_None_eq not_Some_eq simp: branch_payload_def inner_payload_None_iff)
  ultimately show ?thesis
    using all_payloads_uniform [of ?ps] by (fastforce simp: fresh_counter_def)
qed

lemma compute_next_parallel:
  assumes "compute_next_flow_transform E pc m ms by_id skipped d = (Inr (Continue ps (AllFlowJobs ba it its)), d')"
  shows "its = None \<and> ps \<noteq> [] \<and> fresh_counter ba it (length ps)"
proof -
  obtain v where v: "get_value m = Inr v"
    using assms by (auto simp: compute_next_flow_transform_def single_def Let_def act_iffs split: if_splits)
  note body = assms [unfolded compute_next_flow_transform_def]
  show ?thesis
  proof (cases v)
    case (ForloopFlow iterator modules node sf parallel pls sq)
    then show ?thesis
      using body v next_for_parallel [of E pc m ms by_id iterator modules node parallel sq d]
      by (auto simp: single_def Let_def act_iffs split: if_splits)
  next
    case (WhileloopFlow modules node sf sq)
    then show ?thesis
      using body v next_while_single [of E pc m ms modules node sq d]
      by (auto simp: single_def Let_def act_iffs split: if_splits)
  next
    case (BranchAll branches parallel)
    then show ?thesis
      using body v next_branch_all_parallel [of pc m ms branches parallel]
      by (auto simp: single_def Let_def act_iffs split: if_splits)
  next
    case (BranchOne branches dflt node)
    then show ?thesis
      using body v
      by (auto simp: next_branch_one_def single_def Let_def act_iffs split: if_splits option.splits)
  qed (use body v in \<open>auto simp: single_def Let_def act_iffs split: if_splits\<close>)
qed

section \<open>The jobs pushed for a step\<close>

text \<open>The children of a flow: new rows of distinct jobs whose parent it is.\<close>

definition children :: "uuid \<Rightarrow> uuid list \<Rightarrow> db \<Rightarrow> db \<Rightarrow> bool" where
  "children flow js d d' \<longleftrightarrow>
     distinct js \<and> (\<forall>j \<in> set js. d_job d j = None \<and> (\<exists>row. d_job d' j = Some row \<and> jb_parent row = Some flow)) \<and>
     (\<forall>i. i \<notin> set js \<longrightarrow> d_job d' i = d_job d i)"

lemma children_Nil [simp]: "children flow [] d d' \<longleftrightarrow> d_job d' = d_job d"
  by (auto simp: children_def)

lemma children_Cons:
  assumes "children flow [j] d d1" and "children flow js d1 d2"
  shows "children flow (j # js) d d2"
proof -
  have j: "j \<notin> set js" using assms by (auto simp: children_def)
  have new: "d_job d2 i = d_job d1 i" if "i \<notin> set js" for i using assms(2) that by (auto simp: children_def)
  show ?thesis
    using assms j new [OF j] unfolding children_def by (auto simp: new)
qed

lemma children_frame:
  "d_job d1 = d_job d \<Longrightarrow> d_job d2 = d_job d' \<Longrightarrow> children flow js d1 d2 = children flow js d d'"
  by (simp add: children_def)

lemma child_request_parent [simp]: "pr_parent (child_request pc pl ro p a t) = Some (mj_id (pc_job pc))"
  by (simp add: child_request_def Let_def split: prod.splits)

lemma keep_alive_frames [keeps_intros]:
  "same_jobs d (keep_alive E flow i d)" "same_shape g d (keep_alive E flow i d)"
  by (simp_all add: keep_alive_def same_jobs_def same_shape_def)

lemma throttle_frames [keeps_intros]:
  "keeps same_jobs (throttle E pc pl i j)" "keeps (same_shape flow) (throttle E pc pl i j)"
  by (auto simp: throttle_def intro!: keeps_intros split: option.split)

lemma track_cleanup_frames [keeps_intros]:
  "same_jobs d (track_cleanup fj m p j d)" "same_shape flow d (track_cleanup fj m p j d)"
  by (auto simp: track_cleanup_def Let_def same_jobs.frame_refl same_shape.frame_refl intro!: keeps_intros split: option.split)

definition after_push :: "env \<Rightarrow> push_ctx \<Rightarrow> plan \<Rightarrow> routing \<Rightarrow> nat \<Rightarrow> job_payload_with_tag \<Rightarrow> uuid \<Rightarrow> uuid act" where
  "after_push E pc pl ro i p j =
     abind (aif (stays_here ro) (modify (update_queue j (\<lambda>q. q\<lparr>q_worker := Some (e_worker E)\<rparr>)))) (\<lambda>_.
     abind (throttle E pc pl i j) (\<lambda>_.
     abind (modify (track_cleanup (pc_job pc) (pl_module pl) p j)) (\<lambda>_.
     ret j)))"

lemma after_push_frames:
  "keeps same_jobs (after_push E pc pl ro i p j)" "keeps (same_shape flow) (after_push E pc pl ro i p j)"
  unfolding after_push_def by (auto intro!: keeps_intros)

lemma after_push_Inr: "after_push E pc pl ro i p j d = (Inr k, d') \<Longrightarrow> k = j"
  by (auto simp: after_push_def act_iffs)

lemma push_child_effect:
  assumes "push_child E pc pl ro nargs next i p d = (Inr j, d')" and "d_job d (mj_id (pc_job pc)) \<noteq> None"
  shows "children (mj_id (pc_job pc)) [j] d d' \<and> same_shape (mj_id (pc_job pc)) d d'"
proof -
  let ?flow = "mj_id (pc_job pc)" and ?d = "keep_alive E (mj_id (pc_job pc)) i d"
  obtain a t d1 where push: "push E (child_request pc pl ro p a t) ?d = (Inr j, d1)"
    and rest: "after_push E pc pl ro i p j d1 = (Inr j, d')"
    using assms(1) by (fastforce simp: push_child_def act_iffs after_push_def)
  have "d_job ?d = d_job d" using keep_alive_frames(1) by (simp add: same_jobs_def)
  moreover have "d_job d' = d_job d1"
    using same_jobs.keeps_result [OF after_push_frames(1) rest] by (simp add: same_jobs_def)
  moreover obtain row where "d_job d1 = (d_job ?d)(j \<mapsto> row)" "jb_parent row = Some ?flow"
    using queue.push_row [OF push] by auto
  ultimately have "children ?flow [j] d d'"
    using queue.push_new [OF push] by (simp add: children_def)
  moreover have "?flow \<noteq> j" using queue.push_new [OF push] assms(2) \<open>d_job ?d = d_job d\<close> by auto
  then have "same_shape ?flow ?d d1"
    using queue.push_status [OF push, of ?flow] by (simp add: same_shape_def)
  ultimately show ?thesis
    using same_shape.keeps_result [OF after_push_frames(2) rest] keep_alive_frames(2) same_shape.frame_trans by blast
qed

lemma push_children_effect:
  assumes "push_children E pc pl ro nargs next i ps d = (Inr js, d')" and "d_job d (mj_id (pc_job pc)) \<noteq> None"
  shows "children (mj_id (pc_job pc)) js d d' \<and> same_shape (mj_id (pc_job pc)) d d' \<and> length js = length ps"
  using assms
proof (induction ps arbitrary: i d js d')
  case Nil
  then show ?case by (simp add: act_iffs same_shape.frame_refl)
next
  case (Cons p ps)
  then obtain j ks d1 where j: "push_child E pc pl ro nargs next i p d = (Inr j, d1)"
    and ks: "push_children E pc pl ro nargs next (Suc i) ps d1 = (Inr ks, d')" and js: "js = j # ks"
    by (auto simp: act_iffs)
  note 1 = push_child_effect [OF j Cons.prems(2)]
  then have "d_job d1 (mj_id (pc_job pc)) \<noteq> None" using Cons.prems(2) by (auto simp: children_def)
  from Cons.IH [OF ks this] 1 js show ?case
    by (auto intro: children_Cons same_shape.frame_trans)
qed

section \<open>From the push to the join\<close>

lemma lock_jobs_frames [keeps_intros]:
  "same_jobs d (lock_jobs flow js d)" "same_shape g d (lock_jobs flow js d)"
  by (simp_all add: lock_jobs_def same_jobs_def same_shape_def)

text \<open>The status of the step after the pushes: a parallel one is as \<open>join_init\<close> wants it.\<close>

lemma new_status_parallel:
  assumes "new_status E flow i next js d = (Inr (InProgress k j p info), d')" and "pi_parallel p"
  obtains ba it its where "next = AllFlowJobs ba it its"
  using assms
  by (cases "next") (auto simp: new_status_def no_progress_def act_iffs)

lemma new_status_running:
  assumes "new_status E flow i (AllFlowJobs ba it its) js d = (Inr m, d')" and "fresh_counter ba it (length js)"
  shows "d' = d \<and> (\<exists>shape. running shape js 0 m) \<and> recorded Map.empty js m"
  using assms
  by (auto simp: new_status_def act_iffs fresh_counter_def running_def counter_of_def itered_len_of_def no_progress_def
      no_jobs_def recorded_def flow_jobs_success_def)

lemma new_status_frame:
  "new_status E flow i next js d = (Inr m, d') \<Longrightarrow> d_job d' = d_job d \<and> d_status d' = d_status d"
  by (cases "next") (auto simp: new_status_def write_itered_def act_iffs split: if_splits)

lemma push_tx_effect:
  assumes tx: "push_tx E pc pl ro nargs next ps d = (Inr js, d')" and "pl_step pl = Step i n"
    and "d_job d (mj_id (pc_job pc)) \<noteq> None" and "d_status d (mj_id (pc_job pc)) = Some s" and "i < length (fs_modules s)"
  shows "children (mj_id (pc_job pc)) js d d' \<and> length js = length ps \<and>
    (\<exists>m d1 d2. row_at (mj_id (pc_job pc)) i d' m \<and>
       new_status E (mj_id (pc_job pc)) (fsm_id (pl_ms pl)) next js d1 = (Inr m, d2))"
proof -
  let ?flow = "mj_id (pc_job pc)"
  obtain d1 m d2 where 1: "push_children E pc pl ro nargs next 0 ps d = (Inr js, d1)"
    and 2: "new_status E ?flow (fsm_id (pl_ms pl)) next js (lock_jobs ?flow js d1) = (Inr m, d2)"
    and d': "d' = reset_ping ?flow (update_status ?flow (store_step (pc_flow pc) pl m) d2)"
    using tx by (auto simp: push_tx_def Let_def act_iffs split: if_splits)
  note kids = push_children_effect [OF 1 assms(3)]
  have d2: "d_job d2 = d_job d1" "d_status d2 = d_status d1"
    using new_status_frame [OF 2] by (simp_all add: lock_jobs_def)
  obtain s1 where "d_status d1 ?flow = Some s1" "length (fs_modules s1) = length (fs_modules s)"
    using kids assms(4) by (auto simp: same_shape_def)
  then have "row_at ?flow i d' m"
    using assms(2,5) d2 by (simp add: row_at_def d' reset_ping_def update_status_def store_step_def set_module_def jsonb_simps)
  moreover have "children ?flow js d d'"
    using kids d2 by (simp add: children_def d' reset_ping_def update_status_def)
  ultimately show ?thesis using kids 2 by blast
qed

lemma skip_if_jobs [keeps_intros]: "keeps same_jobs (check_skip_if E pc m)"
  by (auto simp: keeps_def check_skip_if_def Let_def same_jobs.frame_refl append_logs_frames
      split: option.splits sum.splits)

lemma choose_branch_jobs [keeps_intros]: "keeps same_jobs (choose_branch E pc m i bs)"
proof -
  have "keeps same_jobs (eval_branch E pc m i b)" for i b
    by (auto simp: keeps_def eval_branch_def Let_def same_jobs.frame_refl append_logs_frames split: sum.splits)
  then show ?thesis by (induction bs arbitrary: i) (auto intro!: keeps_intros)
qed

lemma compute_next_jobs [keeps_intros]:
  "keeps same_jobs (compute_next_flow_transform E pc m ms by_id skipped)"
  unfolding compute_next_flow_transform_def next_branch_one_def Let_def
  by (auto intro!: keeps_intros split: flow_module_value.splits option.splits)

lemma send_same_worker_frame:
  "send_same_worker E flow pl ro runners js d = (Inr u, d') \<Longrightarrow> d_job d' = d_job d \<and> d_status d' = d_status d"
  by (auto simp: send_same_worker_def aif_def act_iffs split: if_splits)

text \<open>
  C2: A round that leaves its step with a parallel loop or parallel branches has pushed new,
  distinct children of the flow, one for each iteration or branch, and from there the step is
  joined exactly once: in every interleaving of the completions of these children, no
  transaction takes the flow on before all of them have ended, and exactly one does so
  when they have.
\<close>

theorem parallel_step_joins_once:
  assumes "push_jobs E runners pc pl d = (Inr (PushDone None), d')" and "pl_step pl = Step i n"
    and "d_job d (mj_id (pc_job pc)) \<noteq> None" and "d_status d (mj_id (pc_job pc)) = Some s" and "i < length (fs_modules s)"
    and "row_at (mj_id (pc_job pc)) i d' (InProgress k j p info)" and "pi_parallel p"
  shows "\<exists>js. js \<noteq> [] \<and> ji_flow_jobs info = Some js \<and> children (mj_id (pc_job pc)) js d d' \<and>
    (\<forall>E' w st. (join_step E' w (mj_id (pc_job pc)) js)\<^sup>*\<^sup>* \<lparr>jn_db = d', jn_snap = Map.empty, jn_out = Map.empty\<rparr> st \<longrightarrow>
       joined_once (mj_id (pc_job pc)) i js st)"
proof -
  let ?flow = "mj_id (pc_job pc)" and ?init = "\<lparr>jn_db = d', jn_snap = Map.empty, jn_out = Map.empty\<rparr>"
  from assms(1) obtain skipped d1 by_id nargs t d2 where
    1: "check_skip_if E pc (pl_module pl) d = (Inr skipped, d1)"
    and 2: "compute_next_flow_transform E pc (pl_module pl) (pl_ms pl) by_id skipped d1 = (Inr t, d2)"
    and 3: "run_transform E runners pc pl nargs t d2 = (Inr (PushDone None), d')"
    by (auto simp: push_jobs_def act_iffs)
  from 3 obtain ps "next" ro js d3 where t: "t = Continue ps next" and tx: "push_tx E pc pl ro nargs next ps d2 = (Inr js, d3)"
    and d': "d_job d' = d_job d3" "d_status d' = d_status d3"
    by (cases t) (auto simp: run_transform_def skip_empty_inner_def Let_def act_iffs dest: send_same_worker_frame)
  have d2: "d_job d2 = d_job d"
    using same_jobs.keeps_result [OF skip_if_jobs 1] same_jobs.keeps_result [OF compute_next_jobs 2]
    by (simp add: same_jobs_def)
  obtain s2 where s2: "d_status d2 ?flow = Some s2" "i < length (fs_modules s2)"
    using same_shape.keeps_result [OF skip_if_shape [of ?flow] 1] assms(4,5)
      same_shape.keeps_result [OF compute_next_shape [of ?flow] 2]
    by (auto simp: same_shape_def)
  obtain m d4 d5 where kids: "children ?flow js d2 d3" "length js = length ps"
    and m: "row_at ?flow i d3 m" "new_status E ?flow (fsm_id (pl_ms pl)) next js d4 = (Inr m, d5)"
    using push_tx_effect [OF tx assms(2) _ s2] assms(3) d2 by auto
  have "m = InProgress k j p info" using m(1) assms(6) d' by (auto simp: row_at_def)
  moreover from this obtain ba it its where "next": "next = AllFlowJobs ba it its"
    using new_status_parallel m(2) assms(7) by metis
  moreover have "ps \<noteq> []" "fresh_counter ba it (length js)"
    using compute_next_parallel [OF 2 [unfolded t "next"]] kids(2) by auto
  ultimately have "js \<noteq> []" "ji_flow_jobs info = Some js" "join_init ?flow i js ?init"
    using kids m assms(6) new_status_running [of E ?flow "fsm_id (pl_ms pl)" ba it its js d4 m d5]
    by (auto simp: join_init_def children_def running_def)
  moreover have "children ?flow js d d'" using kids(1) d2 d' by (simp add: children_def)
  ultimately show ?thesis using join_init_joined by blast
qed

definition twice_flow :: flow_value where
  "twice_flow = flow_value_default\<lparr>fv_modules := [FlowModule (opts_default ''l'')
     (to_raw (ForloopFlow (Static (JArr [JInt 10, JInt 20])) [sleeping_module] None True True None None))]\<rparr>"

definition twice_job :: mini_job where
  "twice_job = \<lparr>mj_id = 1, mj_job = plain_job None, mj_q = plain_queue, mj_status = Some (flow_status_new twice_flow)\<rparr>"

definition twice_db :: db where
  "twice_db = empty_db\<lparr>d_job := [1 \<mapsto> plain_job None], d_queue := [1 \<mapsto> plain_queue],
     d_status := [1 \<mapsto> flow_status_new twice_flow]\<rparr>"

definition twice_plan :: plan where
  "twice_plan = \<lparr>pl_step = Step 0 1, pl_module = hd (fv_modules twice_flow), pl_ms = WaitingForPriorSteps ''l'',
     pl_current_id = ''l'', pl_previous_id = '''', pl_scheduled_for = None, pl_status = flow_status_new twice_flow,
     pl_args_from = None\<rparr>"

definition twice_push :: "pushed res \<times> db" where
  "twice_push = push_jobs plain_env None (step_ctx twice_flow twice_job twice_plan None JNull [] []) twice_plan twice_db"

lemma twice_push_ok: "fst twice_push = Inr (PushDone None)"
  by code_simp

lemma twice_push_row: "map_option (\<lambda>s. (fs_step s, fs_modules s)) (d_status (snd twice_push) 1) =
    Some (0, [InProgress ''l'' 1
      \<lparr>pi_progress = None, pi_iterator = Some \<lparr>it_index = 0, it_itered = None, it_itered_len = Some 2\<rparr>, pi_branchall = None,
       pi_parallel = True, pi_while_loop = False\<rparr>
      (no_jobs\<lparr>ji_flow_jobs := Some [100, 101], ji_flow_jobs_success := Some [None, None],
         ji_flow_jobs_duration := Some (durations_new 2)\<rparr>)])"
  by code_simp

theorem parallel_step_joins_once_witness:
  "fst twice_push = Inr (PushDone None) \<and> children 1 [100, 101] twice_db (snd twice_push) \<and>
   {st. (join_step plain_env ''w'' 1 [100, 101])\<^sup>*\<^sup>* \<lparr>jn_db = snd twice_push, jn_snap = Map.empty, jn_out = Map.empty\<rparr> st}
     \<subseteq> Collect (joined_once 1 0 [100, 101])"
proof -
  let ?pc = "step_ctx twice_flow twice_job twice_plan None JNull [] []"
  have id: "mj_id (pc_job ?pc) = 1" by (simp add: step_ctx_def twice_job_def)
  have run: "push_jobs plain_env None ?pc twice_plan twice_db = (Inr (PushDone None), snd twice_push)"
    using twice_push_ok by (metis twice_push_def prod.collapse)
  obtain s where s: "d_status (snd twice_push) 1 = Some s" "fs_step s = 0"
    "fs_modules s = [InProgress ''l'' 1
      \<lparr>pi_progress = None, pi_iterator = Some \<lparr>it_index = 0, it_itered = None, it_itered_len = Some 2\<rparr>, pi_branchall = None,
       pi_parallel = True, pi_while_loop = False\<rparr>
      (no_jobs\<lparr>ji_flow_jobs := Some [100, 101], ji_flow_jobs_success := Some [None, None],
         ji_flow_jobs_duration := Some (durations_new 2)\<rparr>)]"
    using twice_push_row by auto
  then have row: "row_at (mj_id (pc_job ?pc)) 0 (snd twice_push) (fs_modules s ! 0)" by (simp add: row_at_def id)
  have "d_status twice_db 1 = Some (flow_status_new twice_flow)" "0 < length (fs_modules (flow_status_new twice_flow))"
    "d_job twice_db 1 \<noteq> None" "pl_step twice_plan = Step 0 1"
    by (simp_all add: twice_db_def twice_flow_def flow_status_new_def flow_value_default_def twice_plan_def)
  then show ?thesis
    using parallel_step_joins_once [OF run, of 0 1 "flow_status_new twice_flow", unfolded id] row [unfolded id s(3)]
      twice_push_ok by fastforce
qed

end
