(* ===== verification/Wac.thy ===== *)
theory Wac
  imports Completed FlowPush
begin

text \<open>
  Workflows as code: the checkpoint of a workflow and its persistence
  (\<open>windmill-common/src/wac.rs\<close>), what is done before a run resumes and the output of a run
  (\<open>windmill-worker/src/wac_executor.rs\<close>), and how the worker acts on that output
  (\<open>handle_wac_v2_output\<close> of \<open>windmill-worker/src/bun_executor.rs\<close>): it dispatches children,
  waits for an approval, sleeps, or stores the result of an inline step.
\<close>

section \<open>The checkpoint\<close>

record wac_pending =
  wp_mode :: string
  wp_keys :: "string list"
  wp_job_ids :: fields

record wac_checkpoint =
  wc_source_hash :: string
  wc_completed_steps :: fields
  wc_pending_steps :: "wac_pending option"
  wc_input_args :: fields
  wc_job_ids :: fields
  wc_executing_key :: "string option"

definition checkpoint_default :: wac_checkpoint where
  "checkpoint_default = \<lparr>wc_source_hash = [], wc_completed_steps = [], wc_pending_steps = None, wc_input_args = [],
     wc_job_ids = [], wc_executing_key = None\<rparr>"

fun dec_fields :: "json \<Rightarrow> fields res" where
  "dec_fields (JObj fs) = Inr fs"
| "dec_fields _ = Inl (InvalidType ''map'')"

definition enc_pending :: "wac_pending \<Rightarrow> json" where
  "enc_pending p = JObj [(''mode'', JStr (wp_mode p)), (''keys'', enc_vec JStr (wp_keys p)), (''job_ids'', JObj (wp_job_ids p))]"

definition dec_pending :: "json \<Rightarrow> wac_pending res" where
  "dec_pending = dec_struct (\<lambda>fs.
     rbind (take_req dec_string ''mode'' fs) (\<lambda>m.
     rbind (take_req (dec_vec dec_string) ''keys'' fs) (\<lambda>ks.
     rbind (take_req dec_fields ''job_ids'' fs) (\<lambda>ids.
     Inr \<lparr>wp_mode = m, wp_keys = ks, wp_job_ids = ids\<rparr>))))"

definition enc_checkpoint :: "wac_checkpoint \<Rightarrow> json" where
  "enc_checkpoint c = JObj
     ([(''source_hash'', JStr (wc_source_hash c)), (''completed_steps'', JObj (wc_completed_steps c))] @
      put_opt ''pending_steps'' enc_pending (wc_pending_steps c) @
      [(''input_args'', JObj (wc_input_args c)), (''job_ids'', JObj (wc_job_ids c))] @
      put_opt ''_executing_key'' JStr (wc_executing_key c))"

definition dec_checkpoint :: "json \<Rightarrow> wac_checkpoint res" where
  "dec_checkpoint = dec_struct (\<lambda>fs.
     rbind (take_default [] dec_string ''source_hash'' fs) (\<lambda>h.
     rbind (take_default [] dec_fields ''completed_steps'' fs) (\<lambda>done.
     rbind (take_opt dec_pending ''pending_steps'' fs) (\<lambda>p.
     rbind (take_default [] dec_fields ''input_args'' fs) (\<lambda>a.
     rbind (take_default [] dec_fields ''job_ids'' fs) (\<lambda>ids.
     rbind (take_opt dec_string ''_executing_key'' fs) (\<lambda>k.
     Inr \<lparr>wc_source_hash = h, wc_completed_steps = done, wc_pending_steps = p, wc_input_args = a, wc_job_ids = ids,
          wc_executing_key = k\<rparr>)))))))"

interpretation pending_codec: json_codec enc_pending dec_pending "\<lambda>_. True"
proof unfold_locales
  fix p
  have "rcollect dec_string (map JStr ks) = Inr ks" for ks by (induction ks) auto
  then show "dec_pending (enc_pending p) = Inr p"
    by (simp add: enc_pending_def dec_pending_def take_req_def enc_vec_def json_simps)
qed (simp add: enc_pending_def)

interpretation checkpoint_codec: json_codec enc_checkpoint dec_checkpoint "\<lambda>_. True"
proof unfold_locales
  fix c
  show "dec_checkpoint (enc_checkpoint c) = Inr c"
    using pending_codec.opt_dec_enc [of "wc_pending_steps c"] string_codec.opt_dec_enc [of "wc_executing_key c"]
    by (simp add: enc_checkpoint_def dec_checkpoint_def take_default_def take_opt_def json_simps option.pred_True)
qed (simp add: enc_checkpoint_def)

section \<open>Persistence\<close>

text \<open>A checkpoint that cannot be read is taken as an empty one.\<close>

definition read_checkpoint :: "fields option \<Rightarrow> wac_checkpoint" where
  "read_checkpoint s =
     (case Option.bind s (get_field ''_checkpoint'') of
        Some v \<Rightarrow> (case dec_checkpoint v of Inr c \<Rightarrow> c | Inl _ \<Rightarrow> checkpoint_default)
      | None \<Rightarrow> checkpoint_default)"

definition load_checkpoint :: "uuid \<Rightarrow> db \<Rightarrow> wac_checkpoint" where
  "load_checkpoint j d = read_checkpoint (d_wac d j)"

text \<open>
  What the statements that write the column can fail on: \<open>text\<close> and \<open>jsonb\<close> have no character
  of code 0, and the row of \<open>v2_job_status\<close> references the row of the queue (and is deleted
  with it), so that an insert for a job that is not queued is refused.
\<close>

definition text_storable :: "string \<Rightarrow> bool" where
  "text_storable s \<longleftrightarrow> CHR 0x00 \<notin> set s"

fun jsonb_storable :: "json \<Rightarrow> bool" where
  "jsonb_storable (JStr s) = text_storable s"
| "jsonb_storable (JArr xs) = list_all jsonb_storable xs"
| "jsonb_storable (JObj fs) = list_all (\<lambda>(k, v). text_storable k \<and> jsonb_storable v) fs"
| "jsonb_storable _ = True"

text \<open>\<open>jsonb_set(COALESCE(workflow_as_code_status, '{}'), '{k}', v)\<close>\<close>

definition put_wac_field :: "uuid \<Rightarrow> string \<Rightarrow> json \<Rightarrow> db \<Rightarrow> db" where
  "put_wac_field j k v d = d\<lparr>d_wac := (d_wac d)(j \<mapsto> insert_field k v (unwrap_or [] (d_wac d j)))\<rparr>"

text \<open>The \<open>INSERT ... ON CONFLICT (id) DO UPDATE\<close> of a checkpoint; the message is that of the caller.\<close>

definition upsert_checkpoint :: "string \<Rightarrow> uuid \<Rightarrow> json \<Rightarrow> unit act" where
  "upsert_checkpoint msg j v d =
     (if jsonb_storable v \<and> d_queue d j \<noteq> None then (Inr (), put_wac_field j ''_checkpoint'' v d)
      else (Inl (InternalErr msg), d))"

definition save_checkpoint :: "uuid \<Rightarrow> wac_checkpoint \<Rightarrow> unit act" where
  "save_checkpoint j c = upsert_checkpoint ''Failed to save WAC checkpoint'' j (enc_checkpoint c)"

text \<open>The \<open>UPDATE\<close> of another entry of the column, which a job without a row is left out of.\<close>

definition set_wac_field :: "string \<Rightarrow> uuid \<Rightarrow> string \<Rightarrow> json \<Rightarrow> unit act" where
  "set_wac_field msg j k v d =
     (if \<not> (text_storable k \<and> jsonb_storable v) then (Inl (InternalErr msg), d)
      else if d_status d j = None \<and> d_wac d j = None \<and> d_wac_conditions d j = None then (Inr (), d)
      else (Inr (), put_wac_field j k v d))"

definition has_key :: "fields \<Rightarrow> string \<Rightarrow> bool" where
  "has_key fs k \<longleftrightarrow> get_field k fs \<noteq> None"

definition all_pending_complete :: "wac_checkpoint \<Rightarrow> bool" where
  "all_pending_complete c =
     (case wc_pending_steps c of
        None \<Rightarrow> True
      | Some p \<Rightarrow> list_all (has_key (wc_completed_steps c)) (wp_keys p))"

definition add_completed_step :: "string \<Rightarrow> json \<Rightarrow> wac_checkpoint \<Rightarrow> wac_checkpoint" where
  "add_completed_step k v c =
     (let c' = c\<lparr>wc_completed_steps := insert_field k v (wc_completed_steps c)\<rparr>
      in if all_pending_complete c' then c'\<lparr>wc_pending_steps := None\<rparr> else c')"

definition step_entry :: "string \<Rightarrow> string" where
  "step_entry k = ''_step/'' @ k"

definition source_changed :: wm_error where
  "source_changed = ExecutionErr ''Workflow source code changed between replays''"

definition check_source :: "string \<Rightarrow> wac_checkpoint \<Rightarrow> wac_checkpoint res" where
  "check_source hash c =
     (if hash = [] then Inr c
      else if wc_source_hash c = [] then Inr (c\<lparr>wc_source_hash := hash\<rparr>)
      else if wc_source_hash c \<noteq> hash then Inl source_changed
      else Inr c)"

definition persist_inline_checkpoint_delta ::
  "env \<Rightarrow> uuid \<Rightarrow> string option \<Rightarrow> string \<Rightarrow> json \<Rightarrow> string option \<Rightarrow> nat option \<Rightarrow> unit act" where
  "persist_inline_checkpoint_delta E j hash k v started duration =
     abind (reads (\<lambda>d. check_source (unwrap_or [] hash) (load_checkpoint j d))) (\<lambda>c.
     abind (save_checkpoint j (add_completed_step k v c)) (\<lambda>_.
     let t = JStr (unwrap_or (show_time (e_text E) (e_now E)) started) in
     set_wac_field ''Failed to write step timeline'' j (step_entry k)
       (JObj ([(''scheduled_for'', t), (''started_at'', t), (''name'', JStr k)] @ put_opt ''duration_ms'' enc_nat duration))))"

section \<open>Before a run resumes\<close>

definition approval_answer :: "resume_row option \<Rightarrow> json" where
  "approval_answer r =
     (case r of
        Some r \<Rightarrow> JObj [(''value'', rs_value r), (''approver'', JStr (unwrap_or ''anonymous'' (rs_approver r))),
                         (''approved'', JBool (rs_approved r))]
      | None \<Rightarrow> JObj [(''value'', JNull), (''approver'', JNull), (''approved'', JBool False)])"

text \<open>
  The duration in the entry of the approval: without a start the new value is \<open>NULL\<close>, and so is
  the column; with one that is not a time the statement fails, which is ignored.
\<close>

definition set_step_duration :: "env \<Rightarrow> string \<Rightarrow> fields \<Rightarrow> fields option" where
  "set_step_duration E k fs =
     (case get_field k fs of
        None \<Rightarrow> Some fs
      | Some v \<Rightarrow>
          (case json_get ''started_at'' (Some v) of
             Some (JStr s) \<Rightarrow>
               (case parse_time (e_text E) s of
                  Some t \<Rightarrow> Some (insert_field k (concat_entry v ''duration_ms'' (JFloat (of_int (e_now E - t) / 1000))) fs)
                | None \<Rightarrow> Some fs)
           | None \<Rightarrow> None
           | Some JNull \<Rightarrow> None
           | _ \<Rightarrow> Some fs))"

definition first_key :: "wac_checkpoint \<Rightarrow> string" where
  "first_key c = (case wc_pending_steps c of Some p \<Rightarrow> (case wp_keys p of k # _ \<Rightarrow> k | [] \<Rightarrow> []) | None \<Rightarrow> [])"

definition resumed_with :: "string \<Rightarrow> json \<Rightarrow> wac_checkpoint \<Rightarrow> wac_checkpoint" where
  "resumed_with k v c = c\<lparr>wc_completed_steps := insert_field k v (wc_completed_steps c), wc_pending_steps := None\<rparr>"

definition prepare_checkpoint_for_resume :: "env \<Rightarrow> uuid \<Rightarrow> wac_checkpoint \<Rightarrow> wac_checkpoint act" where
  "prepare_checkpoint_for_resume E j c =
     (let mode = map_option wp_mode (wc_pending_steps c); k = first_key c in
      if mode = Some ''approval'' then
        abind (gets (\<lambda>d. find (\<lambda>r. rs_job r = j) (d_resume d))) (\<lambda>r.
        let c' = resumed_with k (approval_answer r) c in
        abind (save_checkpoint j c') (\<lambda>_.
        abind (modify (\<lambda>d. d\<lparr>d_wac := (d_wac d)(j := Option.bind (d_wac d j) (set_step_duration E (step_entry k)))\<rparr>)) (\<lambda>_.
        ret c')))
      else if mode = Some ''sleep'' then
        let c' = resumed_with k (JBool True) c in
        abind (save_checkpoint j c') (\<lambda>_. ret c')
      else ret c)"

section \<open>The output of a run\<close>

record wac_step =
  ws_name :: string
  ws_script :: string
  ws_args :: fields
  ws_key :: string
  ws_dispatch_type :: string
  ws_timeout :: "int option"
  ws_tag :: "string option"
  ws_cache_ttl :: "int option"
  ws_priority :: "int option"
  ws_concurrent_limit :: "int option"
  ws_concurrency_key :: "string option"
  ws_concurrency_time_window_s :: "int option"

datatype wac_output =
    Dispatch string "wac_step list"
  | Complete json
  | InlineCheckpoint string json "string option" "nat option"
  | Approval string "32 word option" "json option" "bool option"
  | Sleep string "32 word"

definition dec_step :: "json \<Rightarrow> wac_step res" where
  "dec_step = dec_struct (\<lambda>fs.
     rbind (take_req dec_string ''name'' fs) (\<lambda>n.
     rbind (take_req dec_string ''script'' fs) (\<lambda>s.
     rbind (take_req dec_fields ''args'' fs) (\<lambda>a.
     rbind (take_req dec_string ''key'' fs) (\<lambda>k.
     rbind (take_default ''inline'' dec_string ''dispatch_type'' fs) (\<lambda>t.
     rbind (take_opt (dec_signed 32) ''timeout'' fs) (\<lambda>timeout.
     rbind (take_opt dec_string ''tag'' fs) (\<lambda>tag.
     rbind (take_opt (dec_signed 32) ''cache_ttl'' fs) (\<lambda>ttl.
     rbind (take_opt (dec_signed 16) ''priority'' fs) (\<lambda>prio.
     rbind (take_opt (dec_signed 32) ''concurrent_limit'' fs) (\<lambda>limit.
     rbind (take_opt dec_string ''concurrency_key'' fs) (\<lambda>ckey.
     rbind (take_opt (dec_signed 32) ''concurrency_time_window_s'' fs) (\<lambda>window.
     Inr \<lparr>ws_name = n, ws_script = s, ws_args = a, ws_key = k, ws_dispatch_type = t, ws_timeout = timeout, ws_tag = tag,
          ws_cache_ttl = ttl, ws_priority = prio, ws_concurrent_limit = limit, ws_concurrency_key = ckey,
          ws_concurrency_time_window_s = window\<rparr>)))))))))))))"

definition parse_wac_output :: "json \<Rightarrow> wac_output res" where
  "parse_wac_output = dec_struct (\<lambda>fs.
     rbind (take_req dec_string ''type'' fs) (\<lambda>t.
     if t = ''dispatch'' then
       rbind (take_req dec_string ''mode'' fs) (\<lambda>m.
       rbind (take_req (dec_vec dec_step) ''steps'' fs) (\<lambda>ss. Inr (Dispatch m ss)))
     else if t = ''complete'' then rbind (take_req dec_value ''result'' fs) (\<lambda>v. Inr (Complete v))
     else if t = ''inline_checkpoint'' then
       rbind (take_req dec_string ''key'' fs) (\<lambda>k.
       rbind (take_req dec_value ''result'' fs) (\<lambda>v.
       rbind (take_opt dec_string ''started_at'' fs) (\<lambda>s.
       rbind (take_opt dec_nat ''duration_ms'' fs) (\<lambda>dur. Inr (InlineCheckpoint k v s dur)))))
     else if t = ''approval'' then
       rbind (take_req dec_string ''key'' fs) (\<lambda>k.
       rbind (take_opt dec_word ''timeout'' fs) (\<lambda>timeout.
       rbind (take_opt dec_value ''form'' fs) (\<lambda>form.
       rbind (take_opt dec_bool ''self_approval_disabled'' fs) (\<lambda>sad. Inr (Approval k timeout form sad)))))
     else if t = ''sleep'' then
       rbind (take_req dec_string ''key'' fs) (\<lambda>k.
       rbind (take_req dec_word ''seconds'' fs) (\<lambda>n. Inr (Sleep k n)))
     else Inl (UnknownVariant t)))"

section \<open>Dispatching children\<close>

definition update_checkpoint_for_dispatch ::
  "env \<Rightarrow> wac_step list \<Rightarrow> string \<Rightarrow> (string \<times> uuid) list \<Rightarrow> wac_checkpoint \<Rightarrow> wac_checkpoint" where
  "update_checkpoint_for_dispatch E steps mode job_ids c =
     (let ids = fold (\<lambda>(k, j). insert_field k (JStr (show_uuid (e_text E) j))) job_ids [] in
      c\<lparr>wc_job_ids := fold (\<lambda>(k, v). insert_field k v) ids (wc_job_ids c),
        wc_pending_steps := Some \<lparr>wp_mode = mode, wp_keys = map ws_key steps, wp_job_ids = ids\<rparr>\<rparr>)"

text \<open>
  The arguments of the workflow, read from its row at the first dispatch and kept in the
  checkpoint. A row whose arguments are \<open>NULL\<close> cannot be read as a value.
\<close>

definition parent_args :: "mini_job \<Rightarrow> wac_checkpoint \<Rightarrow> db \<Rightarrow> (fields \<times> wac_checkpoint) res" where
  "parent_args j c d =
     (if wc_input_args c \<noteq> [] then Inr (wc_input_args c, c)
      else case d_job d (mj_id j) of
        Some r \<Rightarrow>
          if jb_workspace r = jb_workspace (mj_job j)
          then rbind (ok_or (SqlErr ''unexpected null'') (jb_args r)) (\<lambda>a. Inr (a, c\<lparr>wc_input_args := a\<rparr>))
          else Inr ([], c)
      | None \<Rightarrow> Inr ([], c))"

definition check_unique_keys :: "wac_step list \<Rightarrow> unit res" where
  "check_unique_keys steps =
     (if distinct (map ws_key steps) then Inr () else Inl (InternalErr ''WAC v2 duplicate step key''))"

definition settings_with_custom_default :: concurrency_settings_with_custom where
  "settings_with_custom_default =
     \<lparr>custom_concurrency_key = None, wc_concurrent_limit = None, wc_concurrency_time_window_s = None\<rparr>"

definition code_payload :: "mini_job \<Rightarrow> string \<Rightarrow> script_lang \<Rightarrow> string option \<Rightarrow> job_payload" where
  "code_payload j content lang lock =
     PCode \<lparr>rw_content = content, rw_path = jb_runnable_path (mj_job j), rw_hash = None, rw_language = lang, rw_lock = lock,
       rw_cache_ttl = jb_cache_ttl (mj_job j), rw_cache_ignore_s3_path = q_cache_ignore_s3_path (mj_q j),
       rw_dedicated_worker = None, rw_concurrency = settings_with_custom_default, rw_debouncing = debouncing_default,
       rw_modules = None\<rparr>"

definition payload_template :: "mini_job \<Rightarrow> db \<Rightarrow> job_payload res" where
  "payload_template j d =
     (let r = mj_job j; lang = unwrap_or Bun (jb_lang r) in
      case jb_kind r of
        KScript \<Rightarrow>
          (case jb_runnable_id r of
             Some hash \<Rightarrow>
               Inr (PScriptHash \<lparr>sp_hash = hash, sp_path = unwrap_or [] (jb_runnable_path r), sp_cache_ttl = jb_cache_ttl r,
                 sp_cache_ignore_s3_path = q_cache_ignore_s3_path (mj_q j), sp_dedicated_worker = None, sp_language = lang,
                 sp_priority = jb_priority r, sp_apply_preprocessor = False, sp_concurrency = concurrency_default,
                 sp_debouncing = debouncing_default, sp_labels = None\<rparr>)
           | None \<Rightarrow> Inl (InternalErr ''WAC v2 Script job missing runnable_id''))
      | KPreview \<Rightarrow>
          let (code, lock) = unwrap_or ([], None) (Option.bind (d_job d (mj_id j)) (\<lambda>x.
                if jb_workspace x = jb_workspace r then jb_raw_code x else None))
          in Inr (code_payload j code lang lock)
      | _ \<Rightarrow> Inl (InternalErr ''WAC v2 unsupported job kind''))"

text \<open>The first transaction: the parent knows its children and waits for them before any is visible.\<close>

definition dispatch_entry :: "env \<Rightarrow> string \<Rightarrow> json" where
  "dispatch_entry E k = JObj [(''scheduled_for'', JStr (show_time (e_text E) (e_now E))), (''name'', JStr k)]"

definition suspend_until :: "uuid \<Rightarrow> int \<Rightarrow> int \<Rightarrow> db \<Rightarrow> db" where
  "suspend_until j n t = update_queue j (\<lambda>q. q\<lparr>q_suspend := n, q_suspend_until := Some t\<rparr>)"

definition note_child :: "env \<Rightarrow> uuid \<Rightarrow> wac_step \<times> string \<times> uuid \<Rightarrow> unit act" where
  "note_child E j = (\<lambda>(s, _, child).
     set_wac_field ''Failed to update WAC timeline status'' j (show_uuid (e_text E) child) (dispatch_entry E (ws_key s)))"

definition suspend_for_children ::
  "env \<Rightarrow> uuid \<Rightarrow> wac_checkpoint \<Rightarrow> wac_step list \<Rightarrow> string \<Rightarrow> (string \<times> uuid) list \<Rightarrow> unit act" where
  "suspend_for_children E j c steps mode job_ids =
     transaction
       (abind (save_checkpoint j (update_checkpoint_for_dispatch E steps mode job_ids c)) (\<lambda>_.
        abind (aeach (note_child E j) (zip steps job_ids)) (\<lambda>_.
        modify (suspend_until j (int (length steps)) (e_now E + 14 * 24 * 3600 * 1000000)))))"

type_synonym script_modules = "(string \<times> (string \<times> script_lang \<times> string option)) list option"

definition resolve_parent_module :: "script_modules \<Rightarrow> string \<Rightarrow> (string \<times> script_lang \<times> string option) res" where
  "resolve_parent_module ms k =
     ok_or (ExecutionErr ''Module not found in script modules'') (Option.bind ms (\<lambda>xs. map_of xs k))"

text \<open>The payload of a step with its arguments, and whether it is a script or flow of its own.\<close>

definition step_payload ::
  "env \<Rightarrow> mini_job \<Rightarrow> script_modules \<Rightarrow> job_payload \<Rightarrow> fields \<Rightarrow> wac_step \<Rightarrow> db \<Rightarrow> (job_payload \<times> fields \<times> bool) res" where
  "step_payload E j ms template pargs s d =
     (let w = jb_workspace (mj_job j) in
      if ws_dispatch_type s = ''script'' then
        (case strip_prefix ''./'' (ws_script s) of
           Some k \<Rightarrow> rbind (resolve_parent_module ms k) (\<lambda>(content, lang, lock).
                      Inr (code_payload j content lang lock, ws_args s, True))
         | None \<Rightarrow> rbind (script_path_to_payload E (ws_script s) w (Some True) d) (\<lambda>p. Inr (jp_payload p, ws_args s, True)))
      else if ws_dispatch_type s = ''flow'' then
        rbind (ok_or (NotFound ''flow'') (d_flow_at d (w, ws_script s))) (\<lambda>i.
        Inr (PFlow (ws_script s) (fi_dedicated_worker i) False (fi_version i) (fi_labels i), ws_args s, True))
      else Inr (template, pargs, False))"

fun override_cache :: "wac_step \<Rightarrow> job_payload \<Rightarrow> job_payload" where
  "override_cache s (PScriptHash p) = PScriptHash (p\<lparr>sp_cache_ttl := or_option (ws_cache_ttl s) (sp_cache_ttl p)\<rparr>)"
| "override_cache s (PCode c) = PCode (c\<lparr>rw_cache_ttl := or_option (ws_cache_ttl s) (rw_cache_ttl c)\<rparr>)"
| "override_cache s p = p"

fun override_concurrency :: "wac_step \<Rightarrow> job_payload \<Rightarrow> job_payload" where
  "override_concurrency s (PScriptHash p) =
     PScriptHash (p\<lparr>sp_concurrency :=
       (let c = sp_concurrency p in
        \<lparr>concurrency_key = or_option (ws_concurrency_key s) (concurrency_key c),
         concurrent_limit = or_option (ws_concurrent_limit s) (concurrent_limit c),
         concurrency_time_window_s = or_option (ws_concurrency_time_window_s s) (concurrency_time_window_s c)\<rparr>)\<rparr>)"
| "override_concurrency s (PCode r) =
     PCode (r\<lparr>rw_concurrency :=
       (let c = rw_concurrency r in
        \<lparr>custom_concurrency_key = or_option (ws_concurrency_key s) (custom_concurrency_key c),
         wc_concurrent_limit = or_option (ws_concurrent_limit s) (wc_concurrent_limit c),
         wc_concurrency_time_window_s = or_option (ws_concurrency_time_window_s s) (wc_concurrency_time_window_s c)\<rparr>)\<rparr>)"
| "override_concurrency s p = p"

definition child_push :: "mini_job \<Rightarrow> wac_step \<Rightarrow> job_payload \<Rightarrow> fields \<Rightarrow> uuid \<Rightarrow> push_req" where
  "child_push j s p a child =
     (let r = mj_job j in
      \<lparr>pr_workspace = jb_workspace r, pr_payload = override_concurrency s (override_cache s p), pr_args = a,
       pr_user = jb_created_by r, pr_email = jb_email r, pr_permissioned_as = jb_permissioned_as r, pr_scheduled_for = None,
       pr_schedule = None, pr_parent = Some (mj_id j), pr_root = or_option (jb_root r) (Some (mj_id j)),
       pr_innermost = jb_innermost r, pr_job_id = Some child, pr_same_worker = False, pr_pre_run_error = None,
       pr_tag = or_option (ws_tag s) (Some (jb_tag r)), pr_timeout = or_option (ws_timeout s) (jb_timeout r),
       pr_step_id = None, pr_priority = map_option word_of_int (ws_priority s), pr_running = False,
       pr_suspended_mode = None\<rparr>)"

text \<open>An inline step runs the workflow again, with the key of the step in its checkpoint.\<close>

definition seed_checkpoint :: "wac_checkpoint \<Rightarrow> string \<Rightarrow> json" where
  "seed_checkpoint c k = JObj [(''completed_steps'', JObj (wc_completed_steps c)), (''_executing_key'', JStr k)]"

definition push_wac_child ::
  "env \<Rightarrow> mini_job \<Rightarrow> script_modules \<Rightarrow> job_payload \<Rightarrow> fields \<Rightarrow> wac_checkpoint \<Rightarrow> wac_step \<Rightarrow> uuid \<Rightarrow> unit act" where
  "push_wac_child E j ms template pargs c s child =
     abind (reads (step_payload E j ms template pargs s)) (\<lambda>(p, a, external).
     transaction
       (abind (push E (child_push j s p a child)) (\<lambda>_.
        aif (\<not> external) (upsert_checkpoint ''Failed to seed child checkpoint'' child (seed_checkpoint c (ws_key s))))))"

text \<open>The children in order; \<open>Inl\<close> is the error, beside the children that were pushed before it.\<close>

fun push_wac_children ::
  "env \<Rightarrow> mini_job \<Rightarrow> script_modules \<Rightarrow> job_payload \<Rightarrow> fields \<Rightarrow> wac_checkpoint \<Rightarrow> (wac_step \<times> uuid) list \<Rightarrow> uuid list \<Rightarrow>
   (uuid list \<times> wm_error option) act" where
  "push_wac_children E j ms template pargs c [] pushed = ret (pushed, None)"
| "push_wac_children E j ms template pargs c ((s, child) # rest) pushed =
     abind (attempt (push_wac_child E j ms template pargs c s child)) (\<lambda>r.
     case r of
       Inl e \<Rightarrow> ret (pushed, Some e)
     | Inr _ \<Rightarrow> push_wac_children E j ms template pargs c rest (pushed @ [child]))"

definition cancel_child :: "uuid \<Rightarrow> db \<Rightarrow> db" where
  "cancel_child j = update_queue j (\<lambda>q. q\<lparr>q_canceled_by := Some ''system'',
     q_canceled_reason := Some ''WAC dispatch failed: not all children could be pushed''\<rparr>)"

definition undo_dispatch :: "uuid \<Rightarrow> uuid list \<Rightarrow> db \<Rightarrow> db" where
  "undo_dispatch j pushed d =
     update_queue j (\<lambda>q. q\<lparr>q_suspend := 0, q_suspend_until := None\<rparr>)
       (update_wac j clear_pending_steps (fold cancel_child pushed d))"

text \<open>The checks and the first transaction; the children are named but not pushed yet.\<close>

definition begin_dispatch ::
  "env \<Rightarrow> mini_job \<Rightarrow> string \<Rightarrow> wac_step list \<Rightarrow> (wac_checkpoint \<times> fields \<times> job_payload \<times> (string \<times> uuid) list) act" where
  "begin_dispatch E j mode steps =
     (if steps = [] then fail (InternalErr ''WAC v2 dispatch with no steps'')
      else
        abind (gets (load_checkpoint (mj_id j))) (\<lambda>c.
        abind (lift_res (check_source (case jb_runnable_id (mj_job j) of Some h \<Rightarrow> show_int h | None \<Rightarrow> []) c)) (\<lambda>c.
        abind (reads (parent_args j c)) (\<lambda>(pargs, c).
        abind (lift_res (check_unique_keys steps)) (\<lambda>_.
        abind (gets (\<lambda>d. zip (map ws_key steps) (e_new_ids E (length steps) d))) (\<lambda>job_ids.
        abind (reads (payload_template j)) (\<lambda>template.
        abind (suspend_for_children E (mj_id j) c steps mode job_ids) (\<lambda>_.
        ret (c, pargs, template, job_ids)))))))))"

definition dispatch_children :: "env \<Rightarrow> mini_job \<Rightarrow> script_modules \<Rightarrow> string \<Rightarrow> wac_step list \<Rightarrow> uuid list act" where
  "dispatch_children E j ms mode steps =
     abind (begin_dispatch E j mode steps) (\<lambda>(c, pargs, template, job_ids).
     abind (push_wac_children E j ms template pargs c (zip steps (map snd job_ids)) []) (\<lambda>(pushed, err).
     case err of
       Some e \<Rightarrow> abind (modify (undo_dispatch (mj_id j) pushed)) (\<lambda>_. fail e)
     | None \<Rightarrow> ret pushed))"

text \<open>A workflow that has to wait ends its run with an error of its own kind.\<close>

definition dispatch :: "env \<Rightarrow> mini_job \<Rightarrow> script_modules \<Rightarrow> string \<Rightarrow> wac_step list \<Rightarrow> json act" where
  "dispatch E j ms mode steps =
     abind (dispatch_children E j ms mode steps) (\<lambda>_. fail (WacSuspended ''suspended waiting for child jobs''))"

section \<open>Approvals, sleep and inline steps\<close>

definition wait_for :: "string \<Rightarrow> string \<Rightarrow> wac_checkpoint \<Rightarrow> wac_checkpoint" where
  "wait_for mode k c = c\<lparr>wc_pending_steps := Some \<lparr>wp_mode = mode, wp_keys = [k], wp_job_ids = []\<rparr>\<rparr>"

definition await_approval ::
  "env \<Rightarrow> mini_job \<Rightarrow> string \<Rightarrow> 32 word option \<Rightarrow> json option \<Rightarrow> bool option \<Rightarrow> json act" where
  "await_approval E j k timeout form sad =
     (let secs = uint (unwrap_or 1800 timeout); disabled = unwrap_or False sad; now = JStr (show_time (e_text E) (e_now E));
          form' = unwrap_or JNull form; i = mj_id j in
      abind (gets (load_checkpoint i)) (\<lambda>c.
      abind (transaction
        (abind (upsert_checkpoint ''Failed to save checkpoint'' i (enc_checkpoint (wait_for ''approval'' k c))) (\<lambda>_.
         abind (if \<not> disabled then ret ()
                else if \<not> e_enterprise E then fail (ExecutionErr ''Disabling self-approval is an enterprise only feature'')
                else modify (\<lambda>d. d\<lparr>d_wac_conditions := (d_wac_conditions d)(i \<mapsto>
                  \<lparr>ac_user_auth_required = True, ac_user_groups_required = [], ac_self_approval_disabled = True\<rparr>)\<rparr>)) (\<lambda>_.
         abind (reads (e_approval_urls E (jb_workspace (mj_job j)) i k)) (\<lambda>(resume, cancel, page).
         abind (set_wac_field ''Failed to save approval meta'' i ''_approval''
           (JObj [(''key'', JStr k), (''form'', form'), (''timeout'', JInt secs), (''self_approval_disabled'', JBool disabled),
                  (''resume'', JStr resume), (''cancel'', JStr cancel), (''approvalPage'', JStr page)])) (\<lambda>_.
         abind (set_wac_field ''Failed to write approval timeline'' i (step_entry k)
           (JObj [(''scheduled_for'', now), (''started_at'', now), (''name'', JStr k), (''approval'', JBool True),
                  (''self_approval_disabled'', JBool disabled), (''form'', form'), (''resume'', JStr resume),
                  (''cancel'', JStr cancel), (''approvalPage'', JStr page)])) (\<lambda>_.
         modify (suspend_until i 1 (e_now E + secs * 1000000))))))))) (\<lambda>_.
      fail (WacSuspended ''suspended waiting for approval''))))"

definition sleep_for :: "env \<Rightarrow> mini_job \<Rightarrow> string \<Rightarrow> 32 word \<Rightarrow> json act" where
  "sleep_for E j k n =
     (let i = mj_id j in
      abind (gets (load_checkpoint i)) (\<lambda>c.
      abind (transaction
        (abind (upsert_checkpoint ''Failed to save checkpoint'' i (enc_checkpoint (wait_for ''sleep'' k c))) (\<lambda>_.
         abind (set_wac_field ''Failed to write sleep timeline'' i (step_entry k)
           (JObj [(''scheduled_for'', JStr (show_time (e_text E) (e_now E))), (''name'', JStr k), (''sleep_duration_s'', enc_word n)])) (\<lambda>_.
         modify (suspend_until i 1 (e_now E + max 1 (uint n) * 1000000)))))) (\<lambda>_.
      fail (WacSuspended ''sleeping''))))"

definition inline_checkpoint :: "env \<Rightarrow> mini_job \<Rightarrow> string \<Rightarrow> json \<Rightarrow> string option \<Rightarrow> nat option \<Rightarrow> json act" where
  "inline_checkpoint E j k v started duration =
     abind (transaction
       (abind (persist_inline_checkpoint_delta E (mj_id j) (map_option show_int (jb_runnable_id (mj_job j))) k v started duration) (\<lambda>_.
        modify (update_queue (mj_id j) (\<lambda>q. q\<lparr>q_running := False, q_started_at := None\<rparr>))))) (\<lambda>_.
     fail (WacSuspended ''inline checkpoint''))"

definition handle_wac_v2_output :: "env \<Rightarrow> json \<Rightarrow> mini_job \<Rightarrow> script_modules \<Rightarrow> json act" where
  "handle_wac_v2_output E result j ms =
     (case parse_wac_output result of
        Inl e \<Rightarrow> fail (InternalErr ''Failed to parse WAC output'')
      | Inr (Complete v) \<Rightarrow> ret v
      | Inr (Dispatch mode steps) \<Rightarrow> dispatch E j ms mode steps
      | Inr (Approval k timeout form sad) \<Rightarrow> await_approval E j k timeout form sad
      | Inr (Sleep k n) \<Rightarrow> sleep_for E j k n
      | Inr (InlineCheckpoint k v started duration) \<Rightarrow> inline_checkpoint E j k v started duration)"

section \<open>Properties\<close>

lemma checkpoint_saved_and_loaded: "save_checkpoint j c d = (Inr (), d') \<Longrightarrow> load_checkpoint j d' = c"
  by (auto simp: load_checkpoint_def read_checkpoint_def save_checkpoint_def upsert_checkpoint_def put_wac_field_def
      checkpoint_codec.dec_enc split: if_splits)



end
