(* ===== verification/WacJoin.thy ===== *)
theory WacJoin
  imports Wac
begin

text \<open>
  The children of a workflow-as-code job: from the dispatch, which makes the parent wait,
  to the last child, which wakes it up. Children end on different workers; each first writes
  its duration, and reads the ids of the pending steps with that, and then records its
  result, at any later time. The detailed steps refine an abstract barrier.
\<close>

section \<open>The barrier\<close>

text \<open>How many results are missing, and those that are there, by the key of the step.\<close>

record barrier =
  br_missing :: int
  br_results :: "string \<rightharpoonup> json"

definition arrive :: "string \<Rightarrow> json \<Rightarrow> barrier \<Rightarrow> barrier" where
  "arrive k v b = \<lparr>br_missing = max (br_missing b - 1) 0, br_results = (br_results b)(k \<mapsto> v)\<rparr>"

text \<open>The checkpoint in the row of the workflow; what a reader of the row makes of it.\<close>

definition checkpoint_at :: "uuid \<Rightarrow> db \<Rightarrow> fields option" where
  "checkpoint_at p d = (case Option.bind (d_wac d p) (get_field ''_checkpoint'') of Some (JObj c) \<Rightarrow> Some c | _ \<Rightarrow> None)"

definition results_at :: "uuid \<Rightarrow> db \<Rightarrow> string \<rightharpoonup> json" where
  "results_at p d =
     (case Option.bind (checkpoint_at p d) (get_field ''completed_steps'') of
        Some (JObj fs) \<Rightarrow> (\<lambda>k. get_field k fs)
      | _ \<Rightarrow> Map.empty)"

definition pending_steps_at :: "uuid \<Rightarrow> db \<Rightarrow> json option" where
  "pending_steps_at p d = Option.bind (checkpoint_at p d) (get_field ''pending_steps'')"

definition pending_ids :: "uuid \<Rightarrow> db \<Rightarrow> json option" where
  "pending_ids p d = json_get ''job_ids'' (pending_steps_at p d)"

definition barrier_at :: "uuid \<Rightarrow> db \<Rightarrow> barrier" where
  "barrier_at p d = \<lparr>br_missing = (case d_queue d p of Some q \<Rightarrow> q_suspend q | None \<Rightarrow> 0), br_results = results_at p d\<rparr>"

text \<open>A row that has been through a dispatch: both parts of the barrier are there.\<close>

definition awaiting :: "uuid \<Rightarrow> db \<Rightarrow> bool" where
  "awaiting p d \<longleftrightarrow> d_queue d p \<noteq> None \<and>
     (\<exists>c fs. checkpoint_at p d = Some c \<and> get_field ''completed_steps'' c = Some (JObj fs))"

lemma get_field_remove [json_simps]: "get_field k (remove_field k' fs) = (if k = k' then None else get_field k fs)"
  by (induction fs) (auto simp: remove_field_def json_simps)

lemma awaitingE:
  assumes "awaiting p d"
  obtains q s c fs where "d_queue d p = Some q" "d_wac d p = Some s" "get_field ''_checkpoint'' s = Some (JObj c)"
    "get_field ''completed_steps'' c = Some (JObj fs)"
proof -
  from assms obtain q where "d_queue d p = Some q" by (auto simp: awaiting_def)
  moreover from assms obtain s c fs where "d_wac d p = Some s" "get_field ''_checkpoint'' s = Some (JObj c)"
    "get_field ''completed_steps'' c = Some (JObj fs)"
    by (auto simp: awaiting_def checkpoint_at_def bind_eq_Some_conv split: option.splits json.splits)
  ultimately show thesis by (rule that)
qed

text \<open>
  All that a report may change: the count in the row of the queue, and in the checkpoint of the
  workflow the completed and the pending steps.
\<close>

definition only_reported :: "uuid \<Rightarrow> db \<Rightarrow> db \<Rightarrow> bool" where
  "only_reported p d d' \<longleftrightarrow>
     d' = d\<lparr>d_queue := (d_queue d)(p := map_option (\<lambda>q. q\<lparr>q_suspend := max (q_suspend q - 1) 0\<rparr>) (d_queue d p)),
            d_wac := (d_wac d)(p := d_wac d' p)\<rparr> \<and>
     (\<forall>f. f \<noteq> ''_checkpoint'' \<longrightarrow> Option.bind (d_wac d' p) (get_field f) = Option.bind (d_wac d p) (get_field f)) \<and>
     (\<forall>f. f \<noteq> ''completed_steps'' \<and> f \<noteq> ''pending_steps'' \<longrightarrow>
        Option.bind (checkpoint_at p d') (get_field f) = Option.bind (checkpoint_at p d) (get_field f))"

lemma record_child_effect:
  assumes "awaiting p d"
  shows "\<exists>d'. record_child p k v d = (Inr (), d') \<and> awaiting p d' \<and> barrier_at p d' = arrive k v (barrier_at p d) \<and>
    pending_steps_at p d' = (if br_missing (barrier_at p d) \<le> 1 then None else pending_steps_at p d) \<and> only_reported p d d'"
proof -
  obtain q s c fs where row: "d_queue d p = Some q" "d_wac d p = Some s" "get_field ''_checkpoint'' s = Some (JObj c)"
    "get_field ''completed_steps'' c = Some (JObj fs)"
    using assms by (rule awaitingE)
  let ?c = "insert_field ''completed_steps'' (JObj (insert_field k v fs)) c"
  let ?s = "insert_field ''_checkpoint'' (JObj ?c) s"
  let ?d = "decrement_suspend p (d\<lparr>d_wac := (d_wac d)(p \<mapsto> ?s)\<rparr>)"
  have store: "store_completed_step p k v d = (Inr (), d\<lparr>d_wac := (d_wac d)(p \<mapsto> ?s)\<rparr>)"
    using row by (simp add: store_completed_step_def merge_completed_step_def)
  define d' where "d' = (if max (q_suspend q - 1) 0 = 0 then update_wac p clear_pending_steps ?d else ?d)"
  have run: "record_child p k v d = (Inr (), d')"
    using row by (auto simp: d'_def record_child_def transaction_def abind_def store modify_def gets_def aif_def ret_def
        decrement_suspend_def update_queue_def)
  have "awaiting p d' \<and> barrier_at p d' = arrive k v (barrier_at p d) \<and>
      pending_steps_at p d' = (if br_missing (barrier_at p d) \<le> 1 then None else pending_steps_at p d)"
    unfolding d'_def using row
    by (auto simp: awaiting_def barrier_at_def arrive_def results_at_def checkpoint_at_def pending_steps_at_def update_wac_def
        clear_pending_steps_def decrement_suspend_def update_queue_def json_simps max_def fun_eq_iff)
  moreover have "only_reported p d d'"
    unfolding d'_def only_reported_def using row
    by (auto simp: checkpoint_at_def update_wac_def clear_pending_steps_def decrement_suspend_def update_queue_def json_simps)
  ultimately show ?thesis using run by blast
qed

lemma notify_wac_parent_effect:
  assumes "awaiting p d" and "jb_parent (mj_job m) = Some p" and "\<not> is_flow_step m"
    and "show_uuid (e_text E) (mj_id m) \<noteq> ''_checkpoint''"
  shows "\<exists>d'. notify_wac_parent E m n d = (Inr (pending_ids p d), d') \<and> awaiting p d' \<and>
    barrier_at p d' = barrier_at p d \<and> pending_ids p d' = pending_ids p d"
proof -
  obtain q s c fs where "d_queue d p = Some q" "d_wac d p = Some s" "get_field ''_checkpoint'' s = Some (JObj c)"
    "get_field ''completed_steps'' c = Some (JObj fs)"
    using assms(1) by (rule awaitingE)
  moreover have "json_get k (get_field k' c) = json_get k (Option.bind (Some c) (get_field k'))" for k k' by simp
  ultimately show ?thesis
    using assms(2-4)
    by (auto simp: notify_wac_parent_def Let_def awaiting_def barrier_at_def results_at_def checkpoint_at_def pending_ids_def pending_steps_at_def
        set_wac_duration_def)
qed

section \<open>The steps of the children\<close>

text \<open>
  The children of a dispatch, by the key of their step. \<open>wj_ids\<close> holds what each child has read
  when it was completed, \<open>wj_results\<close> what it then reported.
\<close>

record wac_join =
  wj_db :: db
  wj_ids :: "uuid \<rightharpoonup> json option"
  wj_results :: "uuid \<rightharpoonup> json \<times> bool"

inductive child_step :: "env \<Rightarrow> uuid \<Rightarrow> (string \<times> uuid) list \<Rightarrow> wac_join \<Rightarrow> wac_join \<Rightarrow> bool"
  for E :: env and p :: uuid and kids :: "(string \<times> uuid) list" where
  complete: "child_step E p kids s (s\<lparr>wj_db := d', wj_ids := (wj_ids s)(mj_id m \<mapsto> ids)\<rparr>)"
    if "mj_id m \<in> snd ` set kids" and "wj_ids s (mj_id m) = None"
      and "jb_parent (mj_job m) = Some p" and "\<not> is_flow_step m"
      and "notify_wac_parent E m n (wj_db s) = (Inr ids, d')"
| report: "child_step E p kids s (s\<lparr>wj_db := d', wj_results := (wj_results s)(child \<mapsto> (v, ok))\<rparr>)"
    if "wj_ids s child = Some (Some ids)" and "wj_results s child = None"
      and "handle_wac_child_completion E child p w v ok ids (wj_db s) = (Inr b, d')"
| other: "child_step E p kids s (s\<lparr>wj_db := d'\<rparr>)"
    if "d_wac d' p = d_wac (wj_db s) p" and "d_queue d' p = d_queue (wj_db s) p"

definition id_map :: "env \<Rightarrow> (string \<times> uuid) list \<Rightarrow> fields" where
  "id_map E kids = map (\<lambda>(k, j). (k, JStr (show_uuid (e_text E) j))) kids"

lemma find_step_key_id_map:
  assumes "text_ok (e_text E)" and "distinct (map snd kids)" and "(k, j) \<in> set kids"
  shows "find_step_key E j (id_map E kids) = Some k"
proof -
  have inj: "show_uuid (e_text E) i = show_uuid (e_text E) j \<longleftrightarrow> i = j" for i
    using assms(1) by (metis option.inject text_ok_def)
  show ?thesis
    using assms(2,3)
    by (induction kids) (auto simp: find_step_key_def id_map_def inj, force)
qed

text \<open>The results that the reports of the children give, beside those of earlier steps.\<close>

definition reported :: "env \<Rightarrow> (string \<times> uuid) list \<Rightarrow> (uuid \<rightharpoonup> json \<times> bool) \<Rightarrow> string \<rightharpoonup> json" where
  "reported E kids rs k =
     (case map_of kids k of
        Some j \<Rightarrow> map_option (\<lambda>(v, ok). step_value E k j v ok) (rs j)
      | None \<Rightarrow> None)"

definition children_inv :: "env \<Rightarrow> uuid \<Rightarrow> (string \<times> uuid) list \<Rightarrow> (string \<rightharpoonup> json) \<Rightarrow> wac_join \<Rightarrow> bool" where
  "children_inv E p kids old s \<longleftrightarrow>
     awaiting p (wj_db s) \<and> dom (wj_results s) \<subseteq> dom (wj_ids s) \<and> dom (wj_ids s) \<subseteq> snd ` set kids \<and>
     barrier_at p (wj_db s) = \<lparr>br_missing = int (length kids) - int (card (dom (wj_results s))),
                               br_results = old ++ reported E kids (wj_results s)\<rparr> \<and>
     (dom (wj_results s) \<noteq> snd ` set kids \<longrightarrow> pending_ids p (wj_db s) = Some (JObj (id_map E kids))) \<and>
     (dom (wj_results s) = snd ` set kids \<longrightarrow> kids \<noteq> [] \<longrightarrow> pending_ids p (wj_db s) = None) \<and>
     (\<forall>j ids. wj_ids s j = Some ids \<longrightarrow> ids = Some (JObj (id_map E kids)))"

lemma reported_upd:
  assumes "distinct (map fst kids)" "distinct (map snd kids)" "(k, j) \<in> set kids" "rs j = None"
  shows "reported E kids (rs(j \<mapsto> (v, ok))) = (reported E kids rs)(k \<mapsto> step_value E k j v ok)"
proof
  fix k'
  have k: "map_of kids k = Some j" using assms(1,3) by simp
  have "k' = k" if "map_of kids k' = Some j"
    using eq_key_imp_eq_value [of "map prod.swap kids" j] map_of_SomeD [OF that] assms(2,3)
    by (force simp: comp_def)
  then have "k' \<noteq> k \<Longrightarrow> map_of kids k' \<noteq> Some j" by blast
  with k show "reported E kids (rs(j \<mapsto> (v, ok))) k' = ((reported E kids rs)(k \<mapsto> step_value E k j v ok)) k'"
    by (cases "k' = k"; cases "map_of kids k'") (auto simp: reported_def)
qed

lemma children_inv_complete:
  assumes "children_inv E p kids old s" and "mj_id m \<in> snd ` set kids" and "wj_ids s (mj_id m) = None"
    and "jb_parent (mj_job m) = Some p" and "\<not> is_flow_step m"
    and "notify_wac_parent E m n (wj_db s) = (Inr ids, d')"
    and tok: "\<And>j. show_uuid (e_text E) j \<noteq> ''_checkpoint''"
  shows "children_inv E p kids old (s\<lparr>wj_db := d', wj_ids := (wj_ids s)(mj_id m \<mapsto> ids)\<rparr>)"
proof -
  have "awaiting p (wj_db s)" using assms(1) by (simp add: children_inv_def)
  then have "ids = pending_ids p (wj_db s)" "awaiting p d'" "barrier_at p d' = barrier_at p (wj_db s)"
    "pending_ids p d' = pending_ids p (wj_db s)"
    using notify_wac_parent_effect [of p "wj_db s" m E n] assms(4-6) tok by auto
  moreover have "dom (wj_results s) \<noteq> snd ` set kids"
  proof
    assume "dom (wj_results s) = snd ` set kids"
    then have "mj_id m \<in> dom (wj_ids s)" using assms(1,2) unfolding children_inv_def by blast
    then show False using assms(3) by (simp add: domIff)
  qed
  ultimately show ?thesis using assms(1,2) by (auto simp: children_inv_def)
qed

lemma children_inv_report:
  assumes inv: "children_inv E p kids old s" and "wj_ids s j = Some (Some ids)" and new: "wj_results s j = None"
    and run: "handle_wac_child_completion E j p w v ok ids (wj_db s) = (Inr b, d')"
    and tok: "text_ok (e_text E)" and kids: "distinct (map fst kids)" "distinct (map snd kids)"
  shows "children_inv E p kids old (s\<lparr>wj_db := d', wj_results := (wj_results s)(j \<mapsto> (v, ok))\<rparr>)"
proof -
  let ?R = "wj_results s" and ?d = "wj_db s"
  have ids: "ids = JObj (id_map E kids)" and wait: "awaiting p ?d" and sub: "dom ?R \<subseteq> snd ` set kids"
    using inv assms(2) by (auto simp: children_inv_def)
  have "j \<in> snd ` set kids" using inv assms(2) by (auto simp: children_inv_def)
  then obtain k where k: "(k, j) \<in> set kids" by auto
  have fin: "finite (dom ?R)" using sub by (rule finite_subset) simp
  have j: "j \<notin> dom ?R" using new by (simp add: domIff)
  have card: "card (insert j (dom ?R)) = Suc (card (dom ?R))" using fin j by simp
  have "insert j (dom ?R) \<subseteq> snd ` set kids" using sub \<open>j \<in> snd ` set kids\<close> by blast
  moreover have n: "card (snd ` set kids) = length kids"
    using kids(2) by (metis card_image distinct_card distinct_map length_map list.set_map)
  ultimately have le: "Suc (card (dom ?R)) \<le> length kids" and
    last: "insert j (dom ?R) = snd ` set kids \<longleftrightarrow> Suc (card (dom ?R)) = length kids"
    using card card_mono [of "snd ` set kids" "insert j (dom ?R)"] card_subset_eq [of "snd ` set kids" "insert j (dom ?R)"]
    by auto
  obtain d1 where d1: "record_child p k (step_value E k j v ok) ?d = (Inr (), d1)" "awaiting p d1"
    "barrier_at p d1 = arrive k (step_value E k j v ok) (barrier_at p ?d)"
    "pending_ids p d1 = (if br_missing (barrier_at p ?d) \<le> 1 then None else pending_ids p ?d)"
    using record_child_effect [OF wait, of k "step_value E k j v ok"] by (auto simp: pending_ids_def split: if_splits)
  have "d' = d1"
    using run d1(1) by (auto simp: ids handle_wac_child_completion_def find_step_key_id_map [OF tok kids(2) k] act_iffs)
  moreover have "dom ?R \<noteq> snd ` set kids" using j \<open>j \<in> snd ` set kids\<close> by blast
  ultimately show ?thesis
    using inv d1 le last card assms(2) kids k new
    by (auto simp: children_inv_def arrive_def reported_upd max_def)
qed

lemma children_inv_step:
  assumes "child_step E p kids s s'" and "children_inv E p kids old s"
    and tok: "text_ok (e_text E)" and "\<And>j. show_uuid (e_text E) j \<noteq> ''_checkpoint''"
    and "distinct (map fst kids)" "distinct (map snd kids)"
  shows "children_inv E p kids old s'"
  using assms(1)
proof cases
  case (complete m n ids d')
  then show ?thesis using children_inv_complete assms(2,4) by metis
next
  case (report child ids w v ok b d')
  then show ?thesis using children_inv_report assms(2,5,6) tok by metis
next
  case (other d')
  then have "awaiting p d' = awaiting p (wj_db s)" "barrier_at p d' = barrier_at p (wj_db s)"
    "pending_ids p d' = pending_ids p (wj_db s)"
    by (simp_all add: awaiting_def barrier_at_def results_at_def pending_ids_def pending_steps_at_def checkpoint_at_def)
  then show ?thesis using assms(2) other(1) by (simp add: children_inv_def)
qed

section \<open>The dispatch\<close>

lemma fold_insert_new:
  "distinct (map fst kvs) \<Longrightarrow> fst ` set kvs \<inter> fst ` set fs = {} \<Longrightarrow> fold (\<lambda>(k, v). insert_field k v) kvs fs = fs @ kvs"
proof (induction kvs arbitrary: fs)
  case (Cons kv kvs)
  obtain k v where kv: "kv = (k, v)" by (cases kv)
  have "k \<notin> fst ` set gs \<Longrightarrow> insert_field k v gs = gs @ [(k, v)]" for gs
    by (induction gs) auto
  then have "insert_field k v fs = fs @ [(k, v)]" using Cons.prems kv by auto
  then show ?case using Cons kv by (auto simp: Int_Un_distrib)
qed simp

lemma dispatch_id_map:
  assumes "distinct (map fst kids)"
  shows "fold (\<lambda>(k, j). insert_field k (JStr (show_uuid (e_text E) j))) kids [] = id_map E kids"
proof -
  have "fold (\<lambda>(k, j). insert_field k (JStr (show_uuid (e_text E) j))) kids [] =
      fold (\<lambda>(k, v). insert_field k v) (id_map E kids) []"
    by (simp add: id_map_def fold_map comp_def case_prod_unfold)
  also have "\<dots> = id_map E kids"
    using fold_insert_new [of "id_map E kids" "[]"] assms by (simp add: id_map_def comp_def case_prod_unfold)
  finally show ?thesis .
qed

lemma note_children_tables: "\<exists>w. snd (aeach (note_child E p) xs d) = d\<lparr>d_wac := w\<rparr>"
proof (induction xs arbitrary: d)
  case Nil
  show ?case by (auto simp: ret_def intro: exI [of _ "d_wac d"])
next
  case (Cons x xs)
  have "\<exists>w. snd (note_child E p x d) = d\<lparr>d_wac := w\<rparr>"
    by (cases x) (auto simp: note_child_def set_wac_field_def put_wac_field_def intro: exI [of _ "d_wac d"])
  then obtain r w where one: "note_child E p x d = (r, d\<lparr>d_wac := w\<rparr>)" by (metis prod.collapse)
  obtain w' where "snd (aeach (note_child E p) xs (d\<lparr>d_wac := w\<rparr>)) = d\<lparr>d_wac := w'\<rparr>"
    using Cons.IH [of "d\<lparr>d_wac := w\<rparr>"] by auto
  with one show ?case by (cases r) (auto simp: abind_def)
qed

lemma note_children_checkpoint:
  assumes "\<And>j. show_uuid (e_text E) j \<noteq> ''_checkpoint''" and "d_wac d p \<noteq> None" and "aeach (note_child E p) xs d = (r, d')"
  shows "checkpoint_at p d' = checkpoint_at p d"
  using assms(2,3)
proof (induction xs arbitrary: d)
  case (Cons x xs)
  obtain r1 d1 where one: "note_child E p x d = (r1, d1)" by fastforce
  then have same: "d_wac d1 p \<noteq> None" "checkpoint_at p d1 = checkpoint_at p d"
    using Cons.prems(1) assms(1)
    by (cases x; auto simp: note_child_def set_wac_field_def put_wac_field_def checkpoint_at_def split: if_splits)+
  then show ?case using Cons.IH [OF same(1)] Cons.prems(2) one by (auto simp: abind_def split: sum.splits)
qed (simp add: ret_def)

lemma suspend_for_children_Inl:
  assumes "suspend_for_children E p c steps mode kids d = (Inl e, d')"
  shows "d' = d"
proof -
  obtain r d1 where save: "save_checkpoint p (update_checkpoint_for_dispatch E steps mode kids c) d = (r, d1)" by fastforce
  have "\<exists>w. d1 = d\<lparr>d_wac := w\<rparr>"
    using save by (auto simp: save_checkpoint_def upsert_checkpoint_def put_wac_field_def split: if_splits intro: exI [of _ "d_wac d"])
  then obtain w where d1: "d1 = d\<lparr>d_wac := w\<rparr>" by blast
  obtain w' where "snd (aeach (note_child E p) (zip steps kids) d1) = d\<lparr>d_wac := w'\<rparr>"
    using note_children_tables [of E p "zip steps kids" d1] d1 by auto
  then show ?thesis
    using assms save d1
    by (auto simp: suspend_for_children_def transaction_def abind_def modify_def split: sum.splits prod.splits)
qed

lemma suspend_for_children_Inr:
  assumes "suspend_for_children E p c steps mode kids d = (Inr (), d')"
  obtains d1 d2 where "save_checkpoint p (update_checkpoint_for_dispatch E steps mode kids c) d = (Inr (), d1)"
    "aeach (note_child E p) (zip steps kids) d1 = (Inr (), d2)"
    "d' = suspend_until p (int (length steps)) (e_now E + 14 * 24 * 3600 * 1000000) d2"
    "d_queue d1 = d_queue d" "d_queue d2 = d_queue d" "d_queue d p \<noteq> None"
proof -
  from assms obtain d1 d2 where steps: "save_checkpoint p (update_checkpoint_for_dispatch E steps mode kids c) d = (Inr (), d1)"
    "aeach (note_child E p) (zip steps kids) d1 = (Inr (), d2)"
    "d' = suspend_until p (int (length steps)) (e_now E + 14 * 24 * 3600 * 1000000) d2"
    by (auto simp: suspend_for_children_def act_iffs)
  moreover have "d_queue d1 = d_queue d" "d_queue d p \<noteq> None"
    using steps(1) by (auto simp: save_checkpoint_def upsert_checkpoint_def put_wac_field_def split: if_splits)
  moreover have "d_queue d2 = d_queue d1" using note_children_tables [of E p "zip steps kids" d1] steps(2) by auto
  ultimately show thesis using that by metis
qed

lemma suspended_for_children:
  assumes "\<And>j. show_uuid (e_text E) j \<noteq> ''_checkpoint''" and "distinct (map fst kids)"
    and "suspend_for_children E p c steps mode kids d = (Inr (), d')"
  shows "awaiting p d'" "barrier_at p d' = \<lparr>br_missing = int (length steps), br_results = (\<lambda>k. get_field k (wc_completed_steps c))\<rparr>"
    "pending_ids p d' = Some (JObj (id_map E kids))"
proof -
  let ?c = "update_checkpoint_for_dispatch E steps mode kids c"
  obtain d1 d2 where run: "save_checkpoint p ?c d = (Inr (), d1)" "aeach (note_child E p) (zip steps kids) d1 = (Inr (), d2)"
    "d' = suspend_until p (int (length steps)) (e_now E + 14 * 24 * 3600 * 1000000) d2"
    "d_queue d2 = d_queue d" "d_queue d p \<noteq> None"
    using suspend_for_children_Inr [OF assms(3)] by metis
  have d1: "d_wac d1 p \<noteq> None" "checkpoint_at p d1 = (case enc_checkpoint ?c of JObj fs \<Rightarrow> Some fs)"
    using run(1) by (auto simp: save_checkpoint_def upsert_checkpoint_def put_wac_field_def checkpoint_at_def enc_checkpoint_def
        split: if_splits)
  then have "checkpoint_at p d' = (case enc_checkpoint ?c of JObj fs \<Rightarrow> Some fs)"
    and "map_option q_suspend (d_queue d' p) = Some (int (length steps))"
    using note_children_checkpoint [OF assms(1) d1(1) run(2)] run(3-5)
    by (auto simp: suspend_until_def update_queue_def checkpoint_at_def)
  moreover have "wc_completed_steps ?c = wc_completed_steps c"
    "wc_pending_steps ?c = Some \<lparr>wp_mode = mode, wp_keys = map ws_key steps, wp_job_ids = id_map E kids\<rparr>"
    using dispatch_id_map [OF assms(2)] by (simp_all add: update_checkpoint_for_dispatch_def Let_def)
  ultimately show "awaiting p d'" "pending_ids p d' = Some (JObj (id_map E kids))"
    "barrier_at p d' = \<lparr>br_missing = int (length steps), br_results = (\<lambda>k. get_field k (wc_completed_steps c))\<rparr>"
    by (auto simp: awaiting_def barrier_at_def results_at_def pending_ids_def pending_steps_at_def enc_checkpoint_def
        enc_pending_def json_simps)
qed

lemma transaction_Inl:
  "transaction m d = (Inl e, d') \<Longrightarrow> d_queue d' = d_queue d \<and> d_wac d' = d_wac d \<and> d_job d' = d_job d"
  by (auto simp: transaction_def split: prod.splits sum.splits)

lemma push_wac_child_effect:
  assumes "push_wac_child E j ms tpl a c s child d = (r, d')" and "i \<noteq> child"
  shows "d_wac d' i = d_wac d i \<and> d_queue d' i = d_queue d i \<and> (\<forall>e. r = Inl e \<longrightarrow> d_queue d' = d_queue d)"
proof (cases r)
  case (Inl e)
  then show ?thesis
    using assms(1) transaction_Inl
    by (fastforce simp: push_wac_child_def abind_def reads_def split: sum.splits)
next
  case (Inr u)
  then obtain r' k d1 where "push E r' d = (Inr k, d1)" "pr_job_id r' = Some child"
    and d': "d' = d1 \<or> (\<exists>v. d' = put_wac_field child ''_checkpoint'' v d1)"
    using assms(1) by (fastforce simp: push_wac_child_def act_iffs aif_def child_push_def upsert_checkpoint_def Let_def split: if_splits)
  then have "d_wac d1 = d_wac d" "k = child" "d_queue d1 i = d_queue d i"
    using queue.push_wac queue.push_named queue.push_keeps_queue assms(2) by blast+
  then show ?thesis using d' assms(2) Inr by (auto simp: put_wac_field_def)
qed

lemma push_wac_children_effect:
  assumes "push_wac_children E j ms tpl a c xs pushed d = (Inr (out, err), d')" and "i \<notin> snd ` set xs"
  shows "d_wac d' i = d_wac d i \<and> d_queue d' i = d_queue d i"
  using assms
proof (induction xs arbitrary: d pushed)
  case (Cons x xs)
  obtain s child where x: "x = (s, child)" by (cases x)
  obtain r d1 where r: "push_wac_child E j ms tpl a c s child d = (r, d1)" by fastforce
  note one = push_wac_child_effect [OF r, of i]
  show ?case
  proof (cases r)
    case (Inl e)
    then show ?thesis using Cons.prems one x r by (auto simp: abind_def attempt_def ret_def)
  next
    case (Inr u)
    then have "push_wac_children E j ms tpl a c xs (pushed @ [child]) d1 = (Inr (out, err), d')"
      using Cons.prems(1) x r by (simp add: abind_def attempt_def)
    from Cons.IH [OF this] show ?thesis using one Cons.prems(2) x by auto
  qed
qed (simp add: ret_def)

lemma push_wac_children_out:
  assumes "push_wac_children E j ms tpl a c xs pushed d = (Inr (out, err), d')"
  shows "(\<exists>n. out = pushed @ take n (map snd xs)) \<and> (err = None \<longrightarrow> out = pushed @ map snd xs) \<and>
    (\<forall>i. i \<notin> set out \<longrightarrow> d_queue d' i = d_queue d i)"
  using assms
proof (induction xs arbitrary: d pushed)
  case (Cons x xs)
  obtain s child where x: "x = (s, child)" by (cases x)
  obtain r d1 where r: "push_wac_child E j ms tpl a c s child d = (r, d1)" by fastforce
  note one = push_wac_child_effect [OF r]
  show ?case
  proof (cases r)
    case (Inl e)
    then have "out = pushed" "err = Some e" "d' = d1" using Cons.prems x r by (auto simp: abind_def attempt_def ret_def)
    moreover have "d_queue d1 i = d_queue d i" for i
      using push_wac_child_effect [OF r, of "child + 1"] Inl by simp
    ultimately show ?thesis by (auto intro: exI [of _ 0])
  next
    case (Inr u)
    then have "push_wac_children E j ms tpl a c xs (pushed @ [child]) d1 = (Inr (out, err), d')"
      using Cons.prems x r by (simp add: abind_def attempt_def)
    note IH = Cons.IH [OF this]
    then obtain n where "out = (pushed @ [child]) @ take n (map snd xs)" by blast
    then have "out = pushed @ take (Suc n) (map snd (x # xs))" "child \<in> set out" using x by auto
    moreover have "d_queue d' i = d_queue d i" if "i \<notin> set out" for i
      using IH that one [of i] \<open>child \<in> set out\<close> by metis
    ultimately show ?thesis using IH x by (auto intro: exI [of _ "Suc n"])
  qed
qed (auto simp: ret_def)

lemma push_wac_children_returns: "\<exists>out err d'. push_wac_children E j ms tpl a c xs pushed d = (Inr (out, err), d')"
proof (induction xs arbitrary: pushed d)
  case (Cons x xs)
  obtain s child where x: "x = (s, child)" by (cases x)
  obtain r d1 where "push_wac_child E j ms tpl a c s child d = (r, d1)" by fastforce
  then show ?case using Cons.IH x by (cases r) (auto simp: abind_def attempt_def ret_def)
qed (simp add: ret_def)

lemma begin_dispatch_Inl: "begin_dispatch E j mode steps d = (Inl e, d') \<Longrightarrow> d' = d"
  by (auto simp: begin_dispatch_def fail_def abind_def gets_def lift_res_def reads_def ret_def
      dest!: suspend_for_children_Inl split: if_splits sum.splits prod.splits)

lemma begin_dispatch_Inr:
  assumes "begin_dispatch E j mode steps d = (Inr (c, a, tpl, kids), d1)"
  shows "steps \<noteq> []" "distinct (map ws_key steps)" "wc_completed_steps c = wc_completed_steps (load_checkpoint (mj_id j) d)"
    "kids = zip (map ws_key steps) (e_new_ids E (length steps) d)"
    "suspend_for_children E (mj_id j) c steps mode kids d = (Inr (), d1)"
proof -
  let ?hash = "case jb_runnable_id (mj_job j) of Some h \<Rightarrow> show_int h | None \<Rightarrow> []"
  from assms obtain c1 where ok: "steps \<noteq> []" "check_source ?hash (load_checkpoint (mj_id j) d) = Inr c1"
    "parent_args j c1 d = Inr (a, c)" "check_unique_keys steps = Inr ()"
    "kids = zip (map ws_key steps) (e_new_ids E (length steps) d)"
    "suspend_for_children E (mj_id j) c steps mode kids d = (Inr (), d1)"
    by (auto simp: begin_dispatch_def act_iffs split: if_splits)
  then show "steps \<noteq> []" "kids = zip (map ws_key steps) (e_new_ids E (length steps) d)"
    "suspend_for_children E (mj_id j) c steps mode kids d = (Inr (), d1)" by simp_all
  show "wc_completed_steps c = wc_completed_steps (load_checkpoint (mj_id j) d)"
    using ok(2,3) by (auto simp: check_source_def parent_args_def result_simps split: if_splits option.splits)
  show "distinct (map ws_key steps)" using ok(4) by (simp add: check_unique_keys_def split: if_splits)
qed

section \<open>Properties\<close>

lemma children_inv_reachable:
  assumes "(child_step E p kids)\<^sup>*\<^sup>* s s'" and "children_inv E p kids old s"
    and "text_ok (e_text E)" and "\<And>j. show_uuid (e_text E) j \<noteq> ''_checkpoint''"
    and "distinct (map fst kids)" "distinct (map snd kids)"
  shows "children_inv E p kids old s'"
  using assms(1,2) by (induction rule: rtranclp_induct) (auto intro: children_inv_step [OF _ _ assms(3-6)])

lemma snd_set_zip: "length xs = length ys \<Longrightarrow> snd ` set (zip xs ys) = set ys"
  by (metis list.set_map map_snd_zip)

lemma dispatch_starts_join:
  assumes "dispatch_children E j ms mode steps d = (Inr out, d0)"
    and "length (e_new_ids E (length steps) d) = length steps" and "mj_id j \<notin> set (e_new_ids E (length steps) d)"
    and "\<And>i. show_uuid (e_text E) i \<noteq> ''_checkpoint''"
  shows "out = e_new_ids E (length steps) d \<and> distinct (map ws_key steps) \<and>
    children_inv E (mj_id j) (zip (map ws_key steps) out)
      (\<lambda>k. get_field k (wc_completed_steps (load_checkpoint (mj_id j) d)))
      \<lparr>wj_db = d0, wj_ids = Map.empty, wj_results = Map.empty\<rparr>"
proof -
  let ?ids = "e_new_ids E (length steps) d" and ?p = "mj_id j"
  let ?kids = "zip (map ws_key steps) ?ids"
  from assms(1) obtain c a tpl kids d1 where beg: "begin_dispatch E j mode steps d = (Inr (c, a, tpl, kids), d1)"
    and run: "push_wac_children E j ms tpl a c (zip steps (map snd kids)) [] d1 = (Inr (out, None), d0)"
    by (auto simp: dispatch_children_def act_iffs split: option.splits)
  note start = begin_dispatch_Inr [OF beg]
  have kids: "distinct (map fst ?kids)" "map snd ?kids = ?ids" "zip steps ?ids \<noteq> []"
    using start(1,2) assms(2) by (cases steps; cases ?ids; auto)+
  have out: "out = ?ids" using push_wac_children_out [OF run] start(4) kids(2) assms(2) by simp
  have "d_wac d0 ?p = d_wac d1 ?p \<and> d_queue d0 ?p = d_queue d1 ?p"
    using push_wac_children_effect [OF run, of ?p] start(4) assms(2,3) kids(2) by (simp add: snd_set_zip)
  then have "awaiting ?p d0 = awaiting ?p d1" "barrier_at ?p d0 = barrier_at ?p d1" "pending_ids ?p d0 = pending_ids ?p d1"
    by (simp_all add: awaiting_def barrier_at_def results_at_def pending_ids_def pending_steps_at_def checkpoint_at_def)
  moreover have "reported E ?kids Map.empty = Map.empty" by (auto simp: reported_def fun_eq_iff split: option.splits)
  moreover have "?kids \<noteq> []" using start(1) assms(2) by (cases steps; cases ?ids) auto
  ultimately show ?thesis
    using suspended_for_children [OF assms(4) kids(1) start(5) [unfolded start(4)]] out start(2,3) assms(2)
    by (simp add: children_inv_def)
qed

text \<open>
  C18: The children of a workflow wake it up exactly once, when the last of them has reported.
  Take a successful dispatch and any interleaving of what the children then do on their
  workers (each is completed, and later reports its result or its error) with anything that
  leaves the two rows of the workflow alone. In every state that is reached, the workflow
  waits for exactly the children that have not reported, so it can be resumed (its \<open>suspend\<close>
  is 0) when and only when all have; and its checkpoint holds, beside the results of earlier
  steps, the result of each child that has reported, under the key of its step.
\<close>

theorem wac_children_join:
  assumes "dispatch_children E j ms mode steps d = (Inr ids, d0)"
    and "length (e_new_ids E (length steps) d) = length steps" and "distinct (e_new_ids E (length steps) d)"
    and "mj_id j \<notin> set (e_new_ids E (length steps) d)"
    and "text_ok (e_text E)" and "\<And>i. show_uuid (e_text E) i \<noteq> ''_checkpoint''"
    and "(child_step E (mj_id j) (zip (map ws_key steps) ids))\<^sup>*\<^sup>* \<lparr>wj_db = d0, wj_ids = Map.empty, wj_results = Map.empty\<rparr> s"
  shows "(\<exists>q. d_queue (wj_db s) (mj_id j) = Some q \<and>
       q_suspend q = int (length steps) - int (card (dom (wj_results s))) \<and>
       (q_suspend q = 0 \<longleftrightarrow> dom (wj_results s) = set ids)) \<and>
    results_at (mj_id j) (wj_db s) =
      (\<lambda>k. get_field k (wc_completed_steps (load_checkpoint (mj_id j) d))) ++
      reported E (zip (map ws_key steps) ids) (wj_results s)"
proof -
  let ?p = "mj_id j" and ?kids = "zip (map ws_key steps) ids" and ?R = "dom (wj_results s)"
  note start = dispatch_starts_join [OF assms(1,2,4,6)]
  have kids: "distinct (map fst ?kids)" "distinct (map snd ?kids)" "snd ` set ?kids = set ids" "length ?kids = length steps"
    using start assms(2,3) by (simp_all add: snd_set_zip)
  have inv: "children_inv E ?p ?kids (\<lambda>k. get_field k (wc_completed_steps (load_checkpoint ?p d))) s"
    using children_inv_reachable [OF assms(7) _ assms(5,6) kids(1,2)] start by blast
  then obtain q where q: "d_queue (wj_db s) ?p = Some q" by (auto simp: children_inv_def awaiting_def)
  have suspend: "q_suspend q = int (length steps) - int (card ?R)"
    using inv q kids(4) by (auto simp: children_inv_def barrier_at_def)
  have "?R \<subseteq> dom (wj_ids s)" "dom (wj_ids s) \<subseteq> snd ` set ?kids" using inv by (simp_all only: children_inv_def)
  then have "?R \<subseteq> set ids" using kids(3) by simp
  moreover have "card (set ids) = length steps" using start assms(2,3) by (simp add: distinct_card)
  ultimately have "card ?R = length steps \<longleftrightarrow> ?R = set ids"
    by (metis List.finite_set card_subset_eq)
  moreover have "results_at ?p (wj_db s) = (\<lambda>k. get_field k (wc_completed_steps (load_checkpoint ?p d))) ++
      reported E ?kids (wj_results s)"
    using inv by (simp add: children_inv_def barrier_at_def)
  ultimately show ?thesis using suspend q by auto
qed

definition two_steps :: "wac_step list" where
  "two_steps = map (\<lambda>k. \<lparr>ws_name = k, ws_script = [], ws_args = [], ws_key = k, ws_dispatch_type = ''inline'', ws_timeout = None,
     ws_tag = None, ws_cache_ttl = None, ws_priority = None, ws_concurrent_limit = None, ws_concurrency_key = None,
     ws_concurrency_time_window_s = None\<rparr>) [''a'', ''b'']"

definition workflow_job :: mini_job where
  "workflow_job = \<lparr>mj_id = 1, mj_job = (plain_job None)\<lparr>jb_kind := KScript, jb_runnable_id := Some 5, jb_args := Some []\<rparr>,
     mj_q = plain_queue, mj_status = None\<rparr>"

definition workflow_db :: db where
  "workflow_db = empty_db\<lparr>d_job := [1 \<mapsto> mj_job workflow_job], d_queue := [1 \<mapsto> plain_queue]\<rparr>"

definition workflow_run :: "uuid list res \<times> db" where
  "workflow_run = dispatch_children plain_env workflow_job None ''parallel'' two_steps workflow_db"

definition workflow_child :: mini_job where
  "workflow_child = \<lparr>mj_id = 100, mj_job = (plain_job None)\<lparr>jb_kind := KScript, jb_parent := Some 1\<rparr>, mj_q = plain_queue, mj_status = None\<rparr>"

definition child_noted :: "json option res \<times> db" where
  "child_noted = notify_wac_parent plain_env workflow_child 7 (snd workflow_run)"

definition child_reported :: "bool res \<times> db" where
  "child_reported = handle_wac_child_completion plain_env 100 1 ''w'' (JInt 3) True
     (JObj (id_map plain_env [(''a'', 100), (''b'', 101)])) (snd child_noted)"

lemma workflow_example:
  "e_new_ids plain_env 2 workflow_db = [100, 101]" "fst workflow_run = Inr [100, 101]" "fst child_noted = Inr (Some (JObj (id_map plain_env [(''a'', 100), (''b'', 101)])))"
  "fst child_reported = Inr True"
  by code_simp+

lemma workflow_reach:
  "(child_step plain_env 1 [(''a'', 100), (''b'', 101)])\<^sup>*\<^sup>* \<lparr>wj_db = snd workflow_run, wj_ids = Map.empty, wj_results = Map.empty\<rparr>
     \<lparr>wj_db = snd child_reported, wj_ids = [100 \<mapsto> Some (JObj (id_map plain_env [(''a'', 100), (''b'', 101)]))],
      wj_results = [100 \<mapsto> (JInt 3, True)]\<rparr>"
proof -
  let ?ids = "JObj (id_map plain_env [(''a'', 100), (''b'', 101)])" and ?kids = "[(''a'', 100), (''b'', 101)]"
  let ?s0 = "\<lparr>wj_db = snd workflow_run, wj_ids = Map.empty, wj_results = Map.empty\<rparr>"
  let ?s1 = "\<lparr>wj_db = snd child_noted, wj_ids = [100 \<mapsto> Some ?ids], wj_results = Map.empty\<rparr>"
  have note_eq: "notify_wac_parent plain_env workflow_child 7 (snd workflow_run) = (Inr (Some ?ids), snd child_noted)"
    using workflow_example(3) by (metis child_noted_def prod.collapse)
  have "child_step plain_env 1 ?kids ?s0 ?s1"
    using child_step.complete [of workflow_child ?kids ?s0 1 plain_env 7 "Some ?ids" "snd child_noted"] note_eq
    by (simp add: workflow_child_def is_flow_step_def plain_job_def)
  moreover have "child_step plain_env 1 ?kids ?s1
      \<lparr>wj_db = snd child_reported, wj_ids = [100 \<mapsto> Some ?ids], wj_results = [100 \<mapsto> (JInt 3, True)]\<rparr>"
  proof -
    have "handle_wac_child_completion plain_env 100 1 ''w'' (JInt 3) True ?ids (snd child_noted) = (Inr True, snd child_reported)"
      using workflow_example(4) by (metis child_reported_def prod.collapse)
    then show ?thesis
      using child_step.report [of ?s1 100 ?ids plain_env 1 "''w''" "JInt 3" True True "snd child_reported" ?kids] by simp
  qed
  ultimately show ?thesis by (meson converse_rtranclp_into_rtranclp rtranclp.rtrancl_refl)
qed

theorem wac_children_join_witness:
  "(\<exists>q. d_queue (snd child_reported) 1 = Some q \<and> q_suspend q = 1) \<and>
   results_at 1 (snd child_reported) ''a'' = Some (JInt 3)"
proof -
  have run: "dispatch_children plain_env workflow_job None ''parallel'' two_steps workflow_db = (Inr [100, 101], snd workflow_run)"
    using workflow_example(2) by (metis workflow_run_def prod.collapse)
  have id: "mj_id workflow_job = 1" and n: "length two_steps = 2" and keys: "map ws_key two_steps = [''a'', ''b'']"
    by (simp_all add: workflow_job_def two_steps_def)
  have "text_ok (e_text plain_env)" by (simp add: plain_env_def unary_text_ok)
  moreover have "show_uuid (e_text plain_env) i \<noteq> ''_checkpoint''" for i
    by (cases "unat i") (simp_all add: plain_env_def unary_text_def)
  ultimately show ?thesis
    using wac_children_join [OF run, unfolded id n keys workflow_example(1)] workflow_reach
    by (fastforce simp: reported_def step_value_def)
qed

text \<open>
  C19: Reports refine the barrier. On a workflow that is waiting, the report of a child whose
  step is found is one \<open>arrive\<close> of the abstract barrier: one result less is missing, never less
  than none, and the result is there under its key; the row stays one that is waiting, and
  the pending steps are forgotten with the last report and not before. Nothing else changes:
  the rest of the row of the queue, the other entries of the row and of the checkpoint, the
  rows of other jobs and all other tables are as before (\<open>only_reported\<close>).
\<close>

theorem wac_report_refines_barrier:
  assumes "awaiting p d" and "find_step_key E child ids = Some k"
  shows "\<exists>d'. handle_wac_child_completion E child p w v ok (JObj ids) d = (Inr True, d') \<and> awaiting p d' \<and>
    barrier_at p d' = arrive k (step_value E k child v ok) (barrier_at p d) \<and>
    pending_steps_at p d' = (if br_missing (barrier_at p d) \<le> 1 then None else pending_steps_at p d) \<and>
    only_reported p d d'"
proof -
  obtain d' where "record_child p k (step_value E k child v ok) d = (Inr (), d')" "awaiting p d'"
    "barrier_at p d' = arrive k (step_value E k child v ok) (barrier_at p d)"
    "pending_steps_at p d' = (if br_missing (barrier_at p d) \<le> 1 then None else pending_steps_at p d)" "only_reported p d d'"
    using record_child_effect [OF assms(1)] by blast
  then show ?thesis
    using assms(2) by (intro exI [of _ d']) (simp add: handle_wac_child_completion_def abind_def ret_def)
qed

lemma workflow_awaiting: "awaiting 1 (snd child_noted)"
proof -
  have "d_queue (snd child_noted) 1 \<noteq> None" by code_simp
  moreover have "Option.bind (checkpoint_at 1 (snd child_noted)) (get_field ''completed_steps'') = Some (JObj [])" by code_simp
  ultimately show ?thesis by (auto simp: awaiting_def bind_eq_Some_conv)
qed

theorem wac_report_refines_barrier_witness:
  "\<exists>d'. handle_wac_child_completion plain_env 100 1 ''w'' (JInt 3) True (JObj (id_map plain_env [(''a'', 100)])) (snd child_noted) =
      (Inr True, d') \<and> barrier_at 1 d' = arrive ''a'' (JInt 3) (barrier_at 1 (snd child_noted)) \<and>
      only_reported 1 (snd child_noted) d'"
proof -
  have "find_step_key plain_env 100 (id_map plain_env [(''a'', 100)]) = Some ''a''"
    by (simp add: find_step_key_def id_map_def)
  from wac_report_refines_barrier [OF workflow_awaiting this, of "''w''" "JInt 3" True]
  show ?thesis by (auto simp: step_value_def)
qed

section \<open>A dispatch that fails\<close>

lemma cancel_children_queue:
  "d_queue (fold cancel_child js d) i = (if i \<in> set js then map_option (\<lambda>q. q\<lparr>q_canceled_by := Some ''system'',
     q_canceled_reason := Some ''WAC dispatch failed: not all children could be pushed''\<rparr>) (d_queue d i) else d_queue d i)"
proof (induction js arbitrary: d)
  case (Cons j js)
  then show ?case by (cases "d_queue d j") (auto simp: cancel_child_def update_queue_def)
qed simp

lemma cancel_children_wac [simp]: "d_wac (fold cancel_child js d) = d_wac d"
  by (induction js arbitrary: d) (simp_all add: cancel_child_def update_queue_def)

lemma suspend_for_children_queue:
  "suspend_for_children E p c steps mode kids d = (Inr (), d') \<Longrightarrow> i \<noteq> p \<Longrightarrow> d_queue d' i = d_queue d i"
  by (erule suspend_for_children_Inr) (simp add: suspend_until_def update_queue_def)

lemma push_wac_children_fails:
  assumes "push_wac_children E j ms tpl a c (take n xs) pushed d = (Inr (out, None), d1)"
    and "n < length xs" and "xs ! n = (s, child)" and "push_wac_child E j ms tpl a c s child d1 = (Inl e, d2)"
  shows "push_wac_children E j ms tpl a c xs pushed d = (Inr (out, Some e), d2)"
  using assms
proof (induction xs arbitrary: n d pushed)
  case (Cons x xs)
  show ?case
  proof (cases n)
    case 0
    with Cons.prems show ?thesis by (auto simp: ret_def abind_def attempt_def)
  next
    case (Suc m)
    obtain s' child' where x: "x = (s', child')" by (cases x)
    obtain u d' where one: "push_wac_child E j ms tpl a c s' child' d = (Inr u, d')"
      and rest: "push_wac_children E j ms tpl a c (take m xs) (pushed @ [child']) d' = (Inr (out, None), d1)"
      using Cons.prems(1) Suc x by (auto simp: abind_def attempt_def ret_def split: prod.splits sum.splits)
    from Cons.IH [OF rest] Cons.prems(2-4) Suc show ?thesis
      by (simp add: x one abind_def attempt_def)
  qed
qed simp

text \<open>What is left of a dispatch that failed: a workflow that does not wait, and no child that runs.\<close>

definition dispatch_undone :: "uuid \<Rightarrow> uuid list \<Rightarrow> db \<Rightarrow> bool" where
  "dispatch_undone p ids d \<longleftrightarrow>
     (\<exists>q. d_queue d p = Some q \<and> q_suspend q = 0 \<and> q_suspend_until q = None) \<and> pending_steps_at p d = None \<and>
     (\<forall>i \<in> set ids. d_queue d i \<noteq> None \<longrightarrow> canceled d i)"

lemma failed_push_undone:
  assumes beg: "begin_dispatch E j mode steps d = (Inr (c, a, tpl, kids), d1)"
    and run: "push_wac_children E j ms tpl a c (zip steps (map snd kids)) [] d1 = (Inr (out, err), d2)"
    and ids: "length (e_new_ids E (length steps) d) = length steps"
      "\<And>i. i \<in> set (e_new_ids E (length steps) d) \<Longrightarrow> d_queue d i = None"
    and tok: "\<And>i. show_uuid (e_text E) i \<noteq> ''_checkpoint''"
  shows "dispatch_undone (mj_id j) (map snd kids) (undo_dispatch (mj_id j) out d2)"
proof -
  let ?p = "mj_id j" and ?d' = "undo_dispatch (mj_id j) out d2"
  note start = begin_dispatch_Inr [OF beg]
  have kids: "map snd kids = e_new_ids E (length steps) d" "distinct (map fst kids)" using start(2,4) ids(1) by simp_all
  have queued: "d_queue d ?p \<noteq> None" by (rule suspend_for_children_Inr [OF start(5)])
  have new: "?p \<notin> set (map snd kids)" using queued ids(2) kids(1) by metis
  have len: "length steps = length (map snd kids)" using ids(1) kids(1) by simp
  have p: "d_wac d2 ?p = d_wac d1 ?p" "d_queue d2 ?p = d_queue d1 ?p" "?p \<notin> set out"
    using push_wac_children_effect [OF run, of ?p] push_wac_children_out [OF run] new
    unfolding snd_set_zip [OF len] map_snd_zip [OF len] by (auto dest: in_set_takeD)
  obtain q0 s0 c0 fs where "d_queue d2 ?p = Some q0" "d_wac d2 ?p = Some s0" "get_field ''_checkpoint'' s0 = Some (JObj c0)"
    using suspended_for_children(1) [OF tok kids(2) start(5)] p(1,2) by (auto elim: awaitingE)
  then have "(\<exists>q. d_queue ?d' ?p = Some q \<and> q_suspend q = 0 \<and> q_suspend_until q = None) \<and> pending_steps_at ?p ?d' = None"
    using p(3) by (auto simp: undo_dispatch_def update_queue_def update_wac_def cancel_children_queue pending_steps_at_def
        checkpoint_at_def clear_pending_steps_def json_simps)
  moreover have "canceled ?d' i" if i: "i \<in> set (map snd kids)" "d_queue ?d' i \<noteq> None" for i
  proof -
    have "i \<noteq> ?p" using i(1) new by blast
    then have queue: "d_queue ?d' i = d_queue (fold cancel_child out d2) i"
      by (simp add: undo_dispatch_def update_queue_def update_wac_def)
    have "i \<in> set out"
    proof (rule ccontr)
      assume "i \<notin> set out"
      then have "d_queue ?d' i = d_queue d1 i"
        using push_wac_children_out [OF run] queue by (simp add: cancel_children_queue)
      also have "\<dots> = d_queue d i" by (rule suspend_for_children_queue [OF start(5) \<open>i \<noteq> ?p\<close>])
      finally show False using ids(2) i kids(1) by simp
    qed
    then show ?thesis using i(2) queue by (auto simp: canceled_def cancel_children_queue)
  qed
  ultimately show ?thesis by (simp add: dispatch_undone_def)
qed

text \<open>
  C20: A dispatch that fails leaves nothing behind that could run or wait. When the checks or the
  first transaction fail, the dispatch fails with that error and nothing has changed. When the
  first \<open>n\<close> children have been pushed and the push of the next one fails, the dispatch fails with
  the error of that child, the workflow is not suspended and has no pending steps, and none of
  the children it meant to dispatch is in the queue without being canceled.
\<close>

theorem failed_dispatch_cleans_up:
  assumes "length (e_new_ids E (length steps) d) = length steps"
    and "\<And>i. i \<in> set (e_new_ids E (length steps) d) \<Longrightarrow> d_queue d i = None"
    and "\<And>i. show_uuid (e_text E) i \<noteq> ''_checkpoint''"
  shows "(\<forall>e d1. begin_dispatch E j mode steps d = (Inl e, d1) \<longrightarrow> dispatch_children E j ms mode steps d = (Inl e, d)) \<and>
    (\<forall>c a tpl kids d1 n out d2 e d3.
       begin_dispatch E j mode steps d = (Inr (c, a, tpl, kids), d1) \<and> n < length steps \<and>
       push_wac_children E j ms tpl a c (take n (zip steps (map snd kids))) [] d1 = (Inr (out, None), d2) \<and>
       push_wac_child E j ms tpl a c (steps ! n) (snd (kids ! n)) d2 = (Inl e, d3) \<longrightarrow>
       (\<exists>d'. dispatch_children E j ms mode steps d = (Inl e, d') \<and> dispatch_undone (mj_id j) (map snd kids) d'))"
proof (intro conjI allI impI)
  fix e d1
  assume "begin_dispatch E j mode steps d = (Inl e, d1)"
  then show "dispatch_children E j ms mode steps d = (Inl e, d)"
    using begin_dispatch_Inl by (fastforce simp: dispatch_children_def abind_def)
next
  fix c a tpl kids d1 n out d2 e d3
  assume fails: "begin_dispatch E j mode steps d = (Inr (c, a, tpl, kids), d1) \<and> n < length steps \<and>
    push_wac_children E j ms tpl a c (take n (zip steps (map snd kids))) [] d1 = (Inr (out, None), d2) \<and>
    push_wac_child E j ms tpl a c (steps ! n) (snd (kids ! n)) d2 = (Inl e, d3)"
  then have "length kids = length steps" using begin_dispatch_Inr(4) assms(1) by fastforce
  with fails have run: "push_wac_children E j ms tpl a c (zip steps (map snd kids)) [] d1 = (Inr (out, Some e), d3)"
    by (intro push_wac_children_fails [where n = n]) auto
  then have "dispatch_children E j ms mode steps d = (Inl e, undo_dispatch (mj_id j) out d3)"
    using fails by (simp add: dispatch_children_def abind_def modify_def fail_def)
  with failed_push_undone [OF _ run assms] fails
  show "\<exists>d'. dispatch_children E j ms mode steps d = (Inl e, d') \<and> dispatch_undone (mj_id j) (map snd kids) d'" by blast
qed

definition lost_step :: "wac_step list" where
  "lost_step = [hd two_steps, (last two_steps)\<lparr>ws_dispatch_type := ''flow''\<rparr>]"

definition lost_begin :: "(wac_checkpoint \<times> fields \<times> job_payload \<times> (string \<times> uuid) list) res \<times> db" where
  "lost_begin = begin_dispatch plain_env workflow_job ''parallel'' lost_step workflow_db"

definition lost_first :: "(uuid list \<times> wm_error option) res \<times> db" where
  "lost_first = (case lost_begin of (Inr (c, a, tpl, kids), d1) \<Rightarrow>
     push_wac_children plain_env workflow_job None tpl a c (take 1 (zip lost_step (map snd kids))) [] d1)"

definition lost_second :: "unit res \<times> db" where
  "lost_second = (case lost_begin of (Inr (c, a, tpl, kids), d1) \<Rightarrow>
     push_wac_child plain_env workflow_job None tpl a c (lost_step ! 1) (snd (kids ! 1)) (snd lost_first))"

text \<open>The first child is pushed, the second is a flow that is not there.\<close>

theorem failed_dispatch_cleans_up_witness:
  "\<exists>d'. dispatch_children plain_env workflow_job None ''parallel'' lost_step workflow_db = (Inl (NotFound ''flow''), d') \<and>
     dispatch_undone 1 [100, 101] d'"
proof -
  let ?kids = "[(''a'', 100), (''b'', 101)] :: (string \<times> uuid) list"
  have "map_sum id (\<lambda>(_, _, _, kids). kids) (fst lost_begin) = Inr ?kids" by code_simp
  then obtain c a tpl d1 where beg: "lost_begin = (Inr (c, a, tpl, ?kids), d1)"
    by (cases "fst lost_begin") (auto simp: prod_eq_iff)
  have "fst lost_first = Inr ([100], None)" "fst lost_second = Inl (NotFound ''flow'')" by code_simp+
  moreover have "lost_first = push_wac_children plain_env workflow_job None tpl a c (take 1 (zip lost_step (map snd ?kids))) [] d1"
    and "lost_second = push_wac_child plain_env workflow_job None tpl a c (lost_step ! 1) (snd (?kids ! 1)) (snd lost_first)"
    unfolding lost_first_def [unfolded beg] lost_second_def [unfolded beg] by simp_all
  ultimately have first: "push_wac_children plain_env workflow_job None tpl a c (take 1 (zip lost_step (map snd ?kids))) [] d1 =
        (Inr ([100], None), snd lost_first)"
    and second: "push_wac_child plain_env workflow_job None tpl a c (lost_step ! 1) (snd (?kids ! 1)) (snd lost_first) =
        (Inl (NotFound ''flow''), snd lost_second)"
    by (metis prod.collapse)+
  have id: "mj_id workflow_job = 1" and n: "length lost_step = 2"
    and q: "d_queue workflow_db 100 = None" "d_queue workflow_db 101 = None"
    by (simp_all add: workflow_job_def lost_step_def workflow_db_def empty_db_def)
  have tok: "show_uuid (e_text plain_env) i \<noteq> ''_checkpoint''" for i
    by (cases "unat i") (simp_all add: plain_env_def unary_text_def)
  have "\<And>i. i \<in> set [100, 101] \<Longrightarrow> d_queue workflow_db i = None" using q by auto
  note rule = failed_dispatch_cleans_up [of plain_env lost_step workflow_db workflow_job "''parallel''" None,
      unfolded id n workflow_example(1), OF _ this tok, THEN conjunct2, rule_format]
  have "\<exists>d'. dispatch_children plain_env workflow_job None ''parallel'' lost_step workflow_db = (Inl (NotFound ''flow''), d') \<and>
     dispatch_undone 1 (map snd ?kids) d'"
    by (rule rule [of c a tpl _ d1 1 "[100]" "snd lost_first" _ "snd lost_second"])
      (use beg first second in \<open>simp_all add: lost_begin_def n\<close>)
  then show ?thesis by simp
qed

end
