(* ===== verification/Scopes.thy ===== *)
theory Scopes
  imports Prelude
begin

text \<open>
  Scopes of tokens (\<open>windmill-api-auth/src/scopes.rs\<close>) and the checks of
  \<open>windmill-api-auth/src/lib.rs\<close>: the textual form of a scope, which scope includes which,
  patterns of resources, the access of a token to a route, the ownership of paths. A text is
  the sequence of its UTF-8 bytes.
\<close>

named_theorems scope_simps \<open>unfolding rules of the scope checks\<close>

section \<open>Scopes\<close>

record scope_definition =
  sd_domain :: string
  sd_action :: string
  sd_kind :: "string option"
  sd_resource :: "string list option"

definition new_scope :: "string \<Rightarrow> string \<Rightarrow> string option \<Rightarrow> string list option \<Rightarrow> scope_definition" where
  "new_scope d a k r = \<lparr>sd_domain = d, sd_action = a, sd_kind = k, sd_resource = r\<rparr>"

definition is_run :: "string \<Rightarrow> string \<Rightarrow> bool" where
  "is_run d a \<longleftrightarrow> d = ''jobs'' \<and> a = ''run''"

definition from_scope_string :: "string \<Rightarrow> scope_definition res" where
  "from_scope_string scope =
     (case split_char CHR '':'' scope of
        [d, a] \<Rightarrow> Inr (new_scope d a None None)
      | [d, a, x] \<Rightarrow>
          if is_run d a then Inr (new_scope d a (Some x) None)
          else Inr (new_scope d a None (Some (split_char CHR '','' x)))
      | [d, a, k, r] \<Rightarrow>
          if is_run d a then Inr (new_scope d a (Some k) (Some (split_char CHR '','' r)))
          else Inl (BadRequest ''Invalid 4-part scope'')
      | _ \<Rightarrow> Inl (BadRequest ''Invalid scope format''))"

definition as_string :: "scope_definition \<Rightarrow> string" where
  "as_string s =
     (case (sd_kind s, sd_resource s) of
        (Some k, Some r) \<Rightarrow> join_char CHR '':'' [sd_domain s, sd_action s, k, join_char CHR '','' r]
      | (Some k, None) \<Rightarrow> join_char CHR '':'' [sd_domain s, sd_action s, k]
      | (None, Some r) \<Rightarrow> join_char CHR '':'' [sd_domain s, sd_action s, join_char CHR '','' r]
      | (None, None) \<Rightarrow> join_char CHR '':'' [sd_domain s, sd_action s])"

section \<open>Resources\<close>

text \<open>
  \<open>chars().nth(n)\<close> counts characters, while the length of the prefix counts bytes. A character
  begins at every byte that is not a continuation byte.
\<close>

definition is_continuation :: "char \<Rightarrow> bool" where
  "is_continuation c = (let n = of_char c :: nat in 128 \<le> n \<and> n < 192)"

definition nth_char :: "nat \<Rightarrow> string \<Rightarrow> char option" where
  "nth_char n s = nth_opt (filter (\<lambda>c. \<not> is_continuation c) s) n"

definition matches_wildcard :: "string \<Rightarrow> string \<Rightarrow> bool" where
  "matches_wildcard pattern resource =
     (case strip_prefix ''*/'' (rev pattern) of
        None \<Rightarrow> False
      | Some r \<Rightarrow>
          let prefix = rev r in
          str_starts_with resource prefix \<and>
          (length resource = length prefix \<or> nth_char (length prefix) resource = Some CHR ''/''))"

definition resource_matches_pattern :: "string \<Rightarrow> string \<Rightarrow> bool" where
  "resource_matches_pattern scope accepted \<longleftrightarrow>
     scope = accepted \<or> matches_wildcard scope accepted \<or> matches_wildcard accepted scope"

definition resources_match_small :: "string list \<Rightarrow> string list \<Rightarrow> bool" where
  "resources_match_small scope accepted \<longleftrightarrow>
     list_ex (\<lambda>required. list_ex (\<lambda>s. resource_matches_pattern s required) scope) accepted"

definition resources_match_large :: "string list \<Rightarrow> string list \<Rightarrow> bool" where
  "resources_match_large scope accepted \<longleftrightarrow>
     (let patterns = filter (\<lambda>s. CHR ''*'' \<in> set s) scope; exact = filter (\<lambda>s. CHR ''*'' \<notin> set s) scope in
      list_ex (\<lambda>a. a \<in> set exact \<or> list_ex (\<lambda>p. resource_matches_pattern p a) patterns) accepted)"

definition resources_match :: "string list \<Rightarrow> string list \<Rightarrow> bool" where
  "resources_match scope accepted \<longleftrightarrow>
     ''*'' \<in> set scope \<or> ''*'' \<in> set accepted \<or>
     (if length scope \<le> 4 \<and> length accepted \<le> 4 then resources_match_small scope accepted
      else resources_match_large scope accepted)"

definition includes_resource :: "scope_definition \<Rightarrow> scope_definition \<Rightarrow> bool" where
  "includes_resource s other =
     (case (sd_resource s, sd_resource other) of
        (Some r, Some r') \<Rightarrow> resources_match r r'
      | (Some _, None) \<Rightarrow> False
      | (None, _) \<Rightarrow> True)"

definition scope_includes :: "scope_definition \<Rightarrow> scope_definition \<Rightarrow> bool" where
  "scope_includes s other =
     (if sd_domain s \<noteq> sd_domain other then False
      else if \<not> (sd_action s = ''write'' \<and> sd_action other = ''read'' \<or> sd_action s = sd_action other) then False
      else if is_run (sd_domain s) (sd_action s) then
        (case (sd_kind s, sd_kind other) of
           (Some k, Some k') \<Rightarrow> k = k' \<and> includes_resource s other
         | (Some _, None) \<Rightarrow> False
         | (None, _) \<Rightarrow> True)
      else includes_resource s other)"

section \<open>Domains and actions\<close>

datatype scope_domain =
    DJobs | DScripts | DFlows | DApps | DVariables | DResources
  | DSchedules | DFolders | DUsers | DGroups | DWorkspaces | DHttpTriggers
  | DWebsocketTriggers | DKafkaTriggers | DNatsTriggers | DMqttTriggers | DSqsTriggers | DGcpTriggers
  | DPostgresTriggers | DEmailTriggers | DNativeTriggers | DAudit | DSettings | DWorkers
  | DServiceLogs | DConfigs | DOAuth | DAI | DIndexer | DTeams
  | DGitSync | DCapture | DDrafts | DFavorites | DInputs | DJobHelpers
  | DConcurrencyGroups | DOidc | DOpenapi | DAcls | DRawApps | DAgentWorkers
  | DMcp

definition domain_as_str :: "scope_domain \<Rightarrow> string" where
  "domain_as_str d =
     (case d of
        DJobs \<Rightarrow> ''jobs''
      | DScripts \<Rightarrow> ''scripts''
      | DFlows \<Rightarrow> ''flows''
      | DApps \<Rightarrow> ''apps''
      | DVariables \<Rightarrow> ''variables''
      | DResources \<Rightarrow> ''resources''
      | DSchedules \<Rightarrow> ''schedules''
      | DFolders \<Rightarrow> ''folders''
      | DUsers \<Rightarrow> ''users''
      | DGroups \<Rightarrow> ''groups''
      | DWorkspaces \<Rightarrow> ''workspaces''
      | DHttpTriggers \<Rightarrow> ''http_triggers''
      | DWebsocketTriggers \<Rightarrow> ''websocket_triggers''
      | DKafkaTriggers \<Rightarrow> ''kafka_triggers''
      | DNatsTriggers \<Rightarrow> ''nats_triggers''
      | DMqttTriggers \<Rightarrow> ''mqtt_triggers''
      | DSqsTriggers \<Rightarrow> ''sqs_triggers''
      | DGcpTriggers \<Rightarrow> ''gcp_triggers''
      | DPostgresTriggers \<Rightarrow> ''postgres_triggers''
      | DEmailTriggers \<Rightarrow> ''email_triggers''
      | DNativeTriggers \<Rightarrow> ''native_triggers''
      | DAudit \<Rightarrow> ''audit''
      | DSettings \<Rightarrow> ''settings''
      | DWorkers \<Rightarrow> ''workers''
      | DServiceLogs \<Rightarrow> ''service_logs''
      | DConfigs \<Rightarrow> ''configs''
      | DOAuth \<Rightarrow> ''oauth''
      | DAI \<Rightarrow> ''ai''
      | DIndexer \<Rightarrow> ''indexer''
      | DTeams \<Rightarrow> ''teams''
      | DGitSync \<Rightarrow> ''git_sync''
      | DCapture \<Rightarrow> ''capture''
      | DDrafts \<Rightarrow> ''drafts''
      | DFavorites \<Rightarrow> ''favorites''
      | DInputs \<Rightarrow> ''inputs''
      | DJobHelpers \<Rightarrow> ''job_helpers''
      | DConcurrencyGroups \<Rightarrow> ''concurrency_groups''
      | DOidc \<Rightarrow> ''oidc''
      | DOpenapi \<Rightarrow> ''openapi''
      | DAcls \<Rightarrow> ''acls''
      | DRawApps \<Rightarrow> ''raw_apps''
      | DAgentWorkers \<Rightarrow> ''agent_workers''
      | DMcp \<Rightarrow> ''mcp'')"

definition domain_arms :: "(string \<times> scope_domain) list" where
  "domain_arms =
    [(''jobs'', DJobs),
     (''jobs_u'', DJobs),
     (''scripts'', DScripts),
     (''flows'', DFlows),
     (''apps'', DApps),
     (''apps_u'', DApps),
     (''variables'', DVariables),
     (''resources'', DResources),
     (''schedules'', DSchedules),
     (''folders'', DFolders),
     (''users'', DUsers),
     (''groups'', DGroups),
     (''workspaces'', DWorkspaces),
     (''http_triggers'', DHttpTriggers),
     (''websocket_triggers'', DWebsocketTriggers),
     (''kafka_triggers'', DKafkaTriggers),
     (''nats_triggers'', DNatsTriggers),
     (''mqtt_triggers'', DMqttTriggers),
     (''sqs_triggers'', DSqsTriggers),
     (''gcp_triggers'', DGcpTriggers),
     (''postgres_triggers'', DPostgresTriggers),
     (''email_triggers'', DEmailTriggers),
     (''audit'', DAudit),
     (''settings'', DSettings),
     (''workers'', DWorkers),
     (''service_logs'', DServiceLogs),
     (''configs'', DConfigs),
     (''oauth'', DOAuth),
     (''ai'', DAI),
     (''indexer'', DIndexer),
     (''srch'', DIndexer),
     (''teams'', DTeams),
     (''native_triggers'', DNativeTriggers),
     (''git_sync'', DGitSync),
     (''github_app'', DGitSync),
     (''capture'', DCapture),
     (''drafts'', DDrafts),
     (''favorites'', DFavorites),
     (''inputs'', DInputs),
     (''job_helpers'', DJobHelpers),
     (''concurrency_groups'', DConcurrencyGroups),
     (''oidc'', DOidc),
     (''openapi'', DOpenapi),
     (''acls'', DAcls),
     (''raw_apps'', DRawApps),
     (''agent_workers'', DAgentWorkers),
     (''mcp'', DMcp)]"

definition domain_from_str :: "string \<Rightarrow> scope_domain option" where
  "domain_from_str = map_of domain_arms"

datatype scope_action = Read | Write | Run

fun action_as_str :: "scope_action \<Rightarrow> string" where
  "action_as_str Read = ''read''"
| "action_as_str Write = ''write''"
| "action_as_str Run = ''run''"

definition action_from_str :: "string \<Rightarrow> scope_action option" where
  "action_from_str = map_of [(''read'', Read), (''write'', Write), (''delete'', Write), (''run'', Run)]"

definition action_includes :: "scope_action \<Rightarrow> scope_action \<Rightarrow> bool" where
  "action_includes a b \<longleftrightarrow> (a = Write \<and> b = Read) \<or> (a = Run \<and> b = Read) \<or> a = b"

section \<open>Routes\<close>

definition script_job_routes :: "string list" where
  "script_job_routes =
    [''jobs/run/p'', ''jobs/run/h'', ''jobs/run_wait_result/p'', ''jobs/run_wait_result/h'',
     ''jobs/run/preview_bundle'', ''jobs/run/preview'', ''jobs/run_and_stream/p'', ''jobs/run_and_stream/h'']"

definition flow_job_routes :: "string list" where
  "flow_job_routes =
    [''jobs/run/f'', ''jobs/run_wait_result/f'', ''jobs/run/preview_flow'', ''jobs/restart/f'',
     ''jobs/flow/resume'', ''jobs/run_and_stream/f'']"

definition run_path_actions :: "string list" where
  "run_path_actions =
    [''jobs/resume/'', ''jobs/run/batch_rerun_jobs'', ''jobs/run/workflow_as_code'',
     ''jobs/run/dependencies'', ''jobs/run/flow_dependencies'', ''apps_u/execute_component''] @ script_job_routes @ flow_job_routes"

text \<open>Methods are ASCII tokens, so that \<open>to_uppercase\<close> is the one of ASCII letters.\<close>

definition ascii_upper :: "char \<Rightarrow> char" where
  "ascii_upper c = (let n = of_char c :: nat in if 97 \<le> n \<and> n \<le> 122 then char_of (n - 32) else c)"

definition map_http_method_to_action :: "string \<Rightarrow> string \<Rightarrow> scope_action" where
  "map_http_method_to_action verb route =
     (if list_ex (str_contains route) run_path_actions then Run
      else if map ascii_upper verb \<in> {''GET'', ''HEAD'', ''OPTIONS''} then Read
      else if map ascii_upper verb \<in> {''POST'', ''PUT'', ''PATCH'', ''DELETE''} then Write
      else Read)"

definition determine_kind_from_route :: "string \<Rightarrow> string option" where
  "determine_kind_from_route route =
     (if str_starts_with route ''jobs'' then
        if list_ex (str_starts_with route) flow_job_routes then Some ''flows''
        else if list_ex (str_starts_with route) script_job_routes then Some ''scripts''
        else None
      else None)"

definition extract_domain_from_route :: "string \<Rightarrow> (scope_domain \<times> string option \<times> string option) res" where
  "extract_domain_from_route route =
     (let parts = split_char CHR ''/'' route;
          (domain, kind, suffix) =
            (if 5 \<le> length parts \<and> parts ! 1 = ''api'' \<and> parts ! 2 = ''w'' then
               let suffix = join_char CHR ''/'' (drop 4 parts)
               in (domain_from_str (parts ! 4), determine_kind_from_route suffix, Some suffix)
             else if 3 \<le> length parts \<and> parts ! 1 = ''api'' then
               (domain_from_str (parts ! 2), None, Some (join_char CHR ''/'' (drop 2 parts)))
             else (None, None, None))
      in case domain of
           Some d \<Rightarrow> Inr (d, kind, suffix)
         | None \<Rightarrow> Inl (BadRequest ''Could not extract domain from route''))"

definition run_whitelisted_get_paths :: "string list" where
  "run_whitelisted_get_paths =
    [''jobs_u/get_flow/'', ''jobs_u/get_root_job_id/'', ''jobs_u/get/'',
     ''jobs_u/get_logs/'', ''jobs_u/get_flow_all_logs/'', ''jobs_u/get_args/'',
     ''jobs_u/get_flow_debug_info/'', ''jobs_u/completed/get/'', ''jobs_u/completed/get_result/'',
     ''jobs_u/completed/get_result_maybe/'', ''jobs_u/getupdate/'', ''jobs_u/getupdate_sse/'',
     ''jobs_u/get_log_file/'', ''jobs/result_by_id/'', ''jobs/resume_urls/'',
     ''jobs/flow/user_states/'', ''jobs/job_signature/'', ''jobs/completed/get/'',
     ''jobs/completed/get_result/'', ''jobs/completed/get_result_maybe/'']"

definition whitelisted :: "string option \<Rightarrow> bool" where
  "whitelisted route = (case route of None \<Rightarrow> False | Some p \<Rightarrow> list_ex (str_starts_with p) run_whitelisted_get_paths)"

definition scope_grants_access ::
  "scope_definition \<Rightarrow> scope_domain \<Rightarrow> scope_action \<Rightarrow> string option \<Rightarrow> string option \<Rightarrow> bool res" where
  "scope_grants_access s domain action kind route =
     rbind (ok_or (BadRequest ''Invalid scope domain'') (domain_from_str (sd_domain s))) (\<lambda>d.
     if d \<noteq> domain then Inr False
     else
       rbind (ok_or (BadRequest ''Invalid scope action'') (action_from_str (sd_action s))) (\<lambda>a.
       if \<not> action_includes a action \<and> \<not> (d = DJobs \<and> action = Read \<and> whitelisted route) then Inr False
       else if d = DJobs \<and> action = Run then
         (case (sd_kind s, kind) of
            (Some k, Some k') \<Rightarrow> Inr (k = k')
          | (None, _) \<Rightarrow> Inr True
          | (Some _, None) \<Rightarrow> Inr False)
       else Inr True))"

definition is_filter_tags :: "string \<Rightarrow> bool" where
  "is_filter_tags s = str_starts_with s ''if_jobs:filter_tags:''"

text \<open>The loop over the scopes: \<open>Inr True\<close> when one of them grants the access.\<close>

fun any_grants :: "string list \<Rightarrow> scope_domain \<Rightarrow> scope_action \<Rightarrow> string option \<Rightarrow> string option \<Rightarrow> bool res" where
  "any_grants [] domain action kind route = Inr False"
| "any_grants (s # ss) domain action kind route =
     (if is_filter_tags s then any_grants ss domain action kind route
      else case from_scope_string s of
        Inl _ \<Rightarrow> any_grants ss domain action kind route
      | Inr d \<Rightarrow>
          rbind (scope_grants_access d domain action kind route) (\<lambda>ok.
          if ok then Inr True else any_grants ss domain action kind route))"

definition check_route_access :: "string list \<Rightarrow> string \<Rightarrow> string \<Rightarrow> unit res" where
  "check_route_access scopes route verb =
     (let action = map_http_method_to_action verb route; scoped = list_ex (\<lambda>s. \<not> is_filter_tags s) scopes in
      rbind (extract_domain_from_route route) (\<lambda>(domain, kind, suffix).
      if domain = DMcp then
        if \<not> scoped \<or> list_ex (\<lambda>s. str_starts_with s ''mcp:'') scopes then Inr ()
        else Inl (NotAuthorized ''mcp:*'')
      else
        rbind (any_grants scopes domain action kind suffix) (\<lambda>ok.
        if ok \<or> \<not> scoped then Inr ()
        else Inl (NotAuthorized (join_char CHR '':'' ([domain_as_str domain, action_as_str action] @
               (case kind of Some k \<Rightarrow> [k] | None \<Rightarrow> [])))))))"

definition check_scopes_for_route :: "string list option \<Rightarrow> string \<Rightarrow> string \<Rightarrow> unit res" where
  "check_scopes_for_route scopes route verb =
     (case scopes of
        Some s \<Rightarrow> if s \<noteq> [] then check_route_access s route verb else Inr ()
      | None \<Rightarrow> Inr ())"

section \<open>Users and their paths\<close>

record api_authed =
  au_email :: string
  au_username :: string
  au_is_admin :: bool
  au_is_operator :: bool
  au_groups :: "string list"
  au_folders :: "(string \<times> bool \<times> bool) list"
  au_scopes :: "string list option"
  au_username_override :: "string option"
  au_token_prefix :: "string option"

definition check_scopes :: "api_authed \<Rightarrow> string \<Rightarrow> unit res" where
  "check_scopes u required =
     (case au_scopes u of
        None \<Rightarrow> Inr ()
      | Some scopes \<Rightarrow>
          rbind (from_scope_string required) (\<lambda>req.
          if list_ex (\<lambda>s. \<not> is_filter_tags s \<and> (case from_scope_string s of Inr d \<Rightarrow> scope_includes d req | Inl _ \<Rightarrow> False)) scopes
          then Inr ()
          else if list_ex (\<lambda>s. \<not> is_filter_tags s) scopes then Inl (NotAuthorized (as_string req))
          else Inr ()))"

definition is_owner :: "api_authed \<Rightarrow> string \<Rightarrow> bool" where
  "is_owner u name \<longleftrightarrow> au_is_admin u \<or> list_ex (\<lambda>(f, write, owner). f = name \<and> owner) (au_folders u)"

definition require_is_owner :: "api_authed \<Rightarrow> string \<Rightarrow> unit res" where
  "require_is_owner u name =
     (if is_owner u name then Inr () else Inl (NotAuthorized ''You are not owner of the folder''))"

definition require_owner_of_path :: "api_authed \<Rightarrow> string \<Rightarrow> unit res" where
  "require_owner_of_path u path =
     (if au_is_admin u then Inr ()
      else if path = [] then Inl (BadRequest ''Cannot be owner of an empty path'')
      else
        let parts = split_char CHR ''/'' path; second = ok_or (Panic ''index out of bounds'') (nth_opt parts 1) in
        if parts ! 0 = ''u'' then
          rbind second (\<lambda>n. if n = au_username u then Inr () else Inl (BadRequest ''only the owner is authorized''))
        else if parts ! 0 = ''f'' then rbind second (require_is_owner u)
        else Inl (BadRequest ''Not recognized path kind''))"

text \<open>\<open>trim_start_matches\<close> takes the prefix away as often as it is there.\<close>

function trim_filter_tags :: "string \<Rightarrow> string" where
  "trim_filter_tags s =
     (case strip_prefix ''if_jobs:filter_tags:'' s of None \<Rightarrow> s | Some r \<Rightarrow> trim_filter_tags r)"
  by pat_completeness auto

termination
  by (relation "measure length") (auto simp: strip_prefix_iff)

declare trim_filter_tags.simps [simp del]

definition get_scope_tags :: "api_authed \<Rightarrow> string list option" where
  "get_scope_tags u =
     Option.bind (au_scopes u) (\<lambda>ss.
     map_option (\<lambda>s. split_char CHR '','' (trim_filter_tags s)) (find is_filter_tags ss))"

section \<open>The textual form\<close>

text \<open>What a parsed scope looks like: a kind only for \<open>jobs:run\<close>, and there before any resource.\<close>

definition scope_wf :: "scope_definition \<Rightarrow> bool" where
  "scope_wf s \<longleftrightarrow>
     CHR '':'' \<notin> set (sd_domain s) \<and> CHR '':'' \<notin> set (sd_action s) \<and>
     pred_option (\<lambda>k. CHR '':'' \<notin> set k) (sd_kind s) \<and>
     pred_option (\<lambda>rs. rs \<noteq> [] \<and> list_all (\<lambda>r. CHR '':'' \<notin> set r \<and> CHR '','' \<notin> set r) rs) (sd_resource s) \<and>
     (if is_run (sd_domain s) (sd_action s) then sd_kind s = None \<longrightarrow> sd_resource s = None else sd_kind s = None)"

lemma set_join_char: "set (join_char x ws) \<subseteq> insert x (\<Union> (set ` set ws))"
  by (induction x ws rule: join_char.induct) auto

lemma join_char_free: "y \<noteq> x \<Longrightarrow> list_all (\<lambda>w. y \<notin> set w) ws \<Longrightarrow> y \<notin> set (join_char x ws)"
  using set_join_char [of x ws] by (auto simp: list_all_iff)

lemma split_resources:
  assumes "CHR '':'' \<notin> set x"
  shows "list_all (\<lambda>r. CHR '':'' \<notin> set r \<and> CHR '','' \<notin> set r) (split_char CHR '','' x)"
proof -
  have "set w \<subseteq> set x" if "w \<in> set (split_char CHR '','' x)" for w
    using that by (induction x arbitrary: w) (auto split: list.splits if_splits, blast+)
  with assms show ?thesis by (auto simp: list_all_iff dest: split_char_free)
qed

lemma from_scope_string_wf:
  assumes "from_scope_string s = Inr d"
  shows "scope_wf d \<and> as_string d = s"
proof -
  obtain ws where ws: "split_char CHR '':'' s = ws" by blast
  with split_char_free have free: "CHR '':'' \<notin> set w" if "w \<in> set ws" for w using that by blast
  from ws join_split_char have s: "s = join_char CHR '':'' ws" by metis
  from assms consider (two) x a where "ws = [x, a]" "d = new_scope x a None None"
    | (kind) x a k where "ws = [x, a, k]" "is_run x a" "d = new_scope x a (Some k) None"
    | (resource) x a r where "ws = [x, a, r]" "\<not> is_run x a" "d = new_scope x a None (Some (split_char CHR '','' r))"
    | (both) x a k r where "ws = [x, a, k, r]" "is_run x a" "d = new_scope x a (Some k) (Some (split_char CHR '','' r))"
    unfolding from_scope_string_def ws by (auto split: list.splits if_splits)
  then show ?thesis
    using free unfolding s
    by cases (simp_all add: scope_wf_def as_string_def new_scope_def join_split_char split_resources)
qed

lemma split_scope_parts:
  "ws \<noteq> [] \<Longrightarrow> list_all (\<lambda>w. CHR '':'' \<notin> set w) ws \<Longrightarrow> split_char CHR '':'' (join_char CHR '':'' ws) = ws"
  by (rule split_join_char) (auto simp: list_all_iff)

lemma join_resources:
  assumes "rs \<noteq> []" and "list_all (\<lambda>r. CHR '':'' \<notin> set r \<and> CHR '','' \<notin> set r) rs"
  shows "CHR '':'' \<notin> set (join_char CHR '','' rs)" and "split_char CHR '','' (join_char CHR '','' rs) = rs"
  using assms join_char_free [of "CHR '':''" "CHR '',''" rs] by (simp_all add: list_all_iff split_join_char)

lemma scope_wf_parsed:
  assumes "scope_wf d"
  shows "from_scope_string (as_string d) = Inr d"
proof (cases "sd_kind d"; cases "sd_resource d")
  note wf = assms [unfolded scope_wf_def]
  {
    assume "sd_kind d = None" "sd_resource d = None"
    with wf show ?thesis
      using split_scope_parts [of "[sd_domain d, sd_action d]"]
      by (simp add: as_string_def from_scope_string_def new_scope_def)
  next
    fix rs assume "sd_kind d = None" "sd_resource d = Some rs"
    with wf show ?thesis
      using split_scope_parts [of "[sd_domain d, sd_action d, join_char CHR '','' rs]"] join_resources [of rs]
      by (simp add: as_string_def from_scope_string_def new_scope_def split: if_splits)
  next
    fix k assume "sd_kind d = Some k" "sd_resource d = None"
    with wf show ?thesis
      using split_scope_parts [of "[sd_domain d, sd_action d, k]"]
      by (simp add: as_string_def from_scope_string_def new_scope_def split: if_splits)
  next
    fix k rs assume "sd_kind d = Some k" "sd_resource d = Some rs"
    with wf show ?thesis
      using split_scope_parts [of "[sd_domain d, sd_action d, k, join_char CHR '','' rs]"] join_resources [of rs]
      by (simp add: as_string_def from_scope_string_def new_scope_def split: if_splits)
  }
qed

text \<open>
  C29: A text is read as a scope exactly when the scope is well formed and the text is its
  textual form: reading and writing are inverse to each other, and nothing else is read.
\<close>

theorem scope_string_iff: "from_scope_string s = Inr d \<longleftrightarrow> scope_wf d \<and> as_string d = s"
  using from_scope_string_wf scope_wf_parsed by blast

section \<open>Which resources a scope covers\<close>

definition is_ascii :: "char \<Rightarrow> bool" where
  "is_ascii c \<longleftrightarrow> of_char c < (128 :: nat)"

definition plain_path :: "string \<Rightarrow> bool" where
  "plain_path r \<longleftrightarrow> list_all is_ascii r \<and> CHR ''*'' \<notin> set r"

text \<open>The meaning of a resource of a scope: the path itself, or everything below it.\<close>

definition covers :: "string \<Rightarrow> string \<Rightarrow> bool" where
  "covers s r \<longleftrightarrow> s = r \<or> (\<exists>q. s = q @ ''/*'' \<and> (r = q \<or> (\<exists>t. r = q @ CHR ''/'' # t)))"

lemma nth_char_ascii: "list_all is_ascii s \<Longrightarrow> nth_char n s = nth_opt s n"
proof -
  assume "list_all is_ascii s"
  then have "filter (\<lambda>c. \<not> is_continuation c) s = s"
    by (auto simp: filter_id_conv list_all_iff is_ascii_def is_continuation_def)
  then show ?thesis by (simp add: nth_char_def)
qed

lemma strip_wildcard: "strip_prefix ''*/'' (rev p) = Some r \<longleftrightarrow> p = rev r @ ''/*''"
proof -
  have "rev p = ''*/'' @ r \<longleftrightarrow> p = rev (''*/'' @ r)" by (rule rev_swap)
  then show ?thesis by (simp add: strip_prefix_iff)
qed

lemma matches_wildcard_iff:
  assumes "list_all is_ascii r"
  shows "matches_wildcard p r \<longleftrightarrow> (\<exists>q. p = q @ ''/*'' \<and> (r = q \<or> (\<exists>t. r = q @ CHR ''/'' # t)))"
proof (cases "strip_prefix ''*/'' (rev p)")
  case None
  then have "p \<noteq> q @ ''/*''" for q using strip_wildcard [of p "rev q"] by auto
  with None show ?thesis by (simp add: matches_wildcard_def)
next
  case (Some x)
  then have p: "p = rev x @ ''/*''" by (simp add: strip_wildcard)
  have next_char: "length q + length t = length q \<or> nth_opt (q @ t) (length q) = Some CHR ''/'' \<longleftrightarrow>
      t = [] \<or> (\<exists>u. t = CHR ''/'' # u)" for q t
    by (cases t) simp_all
  have "matches_wildcard p r \<longleftrightarrow> (\<exists>t. r = rev x @ t \<and> (t = [] \<or> (\<exists>u. t = CHR ''/'' # u)))"
  proof (cases "str_starts_with r (rev x)")
    case True
    then obtain t where r: "r = rev x @ t" by (auto simp: str_starts_with_iff)
    have "matches_wildcard p r \<longleftrightarrow> length r = length (rev x) \<or> nth_opt r (length (rev x)) = Some CHR ''/''"
      using Some True nth_char_ascii [OF assms] by (simp add: matches_wildcard_def)
    also have "\<dots> \<longleftrightarrow> t = [] \<or> (\<exists>u. t = CHR ''/'' # u)"
      using next_char [of "rev x" t] by (simp add: r)
    finally show ?thesis by (simp add: r)
  next
    case False
    then have "\<not> matches_wildcard p r" using Some by (simp add: matches_wildcard_def)
    with False show ?thesis by (auto simp: str_starts_with_iff)
  qed
  with p show ?thesis by auto
qed

lemma resource_matches_plain:
  assumes "plain_path r"
  shows "resource_matches_pattern s r \<longleftrightarrow> covers s r"
proof -
  have "\<not> matches_wildcard r s"
  proof
    assume "matches_wildcard r s"
    then obtain x where "strip_prefix ''*/'' (rev r) = Some x" by (auto simp: matches_wildcard_def split: option.splits)
    then show False using assms by (auto simp: strip_wildcard plain_path_def)
  qed
  with assms show ?thesis
    by (auto simp: resource_matches_pattern_def covers_def plain_path_def matches_wildcard_iff)
qed

lemma covers_exact: "CHR ''*'' \<notin> set s \<Longrightarrow> covers s r \<longleftrightarrow> s = r"
  by (auto simp: covers_def)

text \<open>
  C28: For paths of ASCII characters without a star, whichever of its two routines
  \<open>resources_match\<close> takes, it answers the same question: whether the scope holds \<open>*\<close> or one of
  its resources is one of the paths or a folder above it.
\<close>

theorem resources_match_iff:
  assumes "list_all plain_path paths"
  shows "resources_match scope paths \<longleftrightarrow>
    ''*'' \<in> set scope \<or> (\<exists>s r. s \<in> set scope \<and> r \<in> set paths \<and> covers s r)"
proof -
  have star: "''*'' \<notin> set paths" using assms by (auto simp: list_all_iff plain_path_def)
  have small: "resources_match_small scope paths \<longleftrightarrow> (\<exists>s r. s \<in> set scope \<and> r \<in> set paths \<and> covers s r)"
    using assms by (auto simp: resources_match_small_def list_ex_iff list_all_iff resource_matches_plain)
  have large: "resources_match_large scope paths \<longleftrightarrow> (\<exists>s r. s \<in> set scope \<and> r \<in> set paths \<and> covers s r)"
  proof -
    have "resources_match_large scope paths \<longleftrightarrow>
      (\<exists>r \<in> set paths. \<exists>s \<in> set scope. CHR ''*'' \<notin> set s \<and> s = r \<or> CHR ''*'' \<in> set s \<and> covers s r)"
      using assms by (auto simp: resources_match_large_def Let_def list_ex_iff list_all_iff resource_matches_plain)
    also have "\<dots> \<longleftrightarrow> (\<exists>r \<in> set paths. \<exists>s \<in> set scope. covers s r)" using covers_exact by metis
    finally show ?thesis by blast
  qed
  show ?thesis using star small large by (simp add: resources_match_def)
qed

theorem resources_match_iff_witness:
  "list_all plain_path [''f/ops/restart'', ''u/ann/x''] \<and>
   (resources_match [''f/ops/*''] [''f/ops/restart'', ''u/ann/x''] \<longleftrightarrow>
    ''*'' \<in> set [''f/ops/*''] \<or>
    (\<exists>s r. s \<in> set [''f/ops/*''] \<and> r \<in> set [''f/ops/restart'', ''u/ann/x''] \<and> covers s r))"
proof -
  have "list_all plain_path [''f/ops/restart'', ''u/ann/x'']"
    by (simp add: plain_path_def is_ascii_def)
  then show ?thesis using resources_match_iff by blast
qed

text \<open>
  Outside these hypotheses the routines disagree: with a pattern among the accepted resources
  a longer scope covers less, and a name with a character of two bytes lets a pattern reach
  into a folder whose name it only begins, and keeps it from its own.
\<close>

lemma longer_scope_covers_less:
  "resources_match [''f/a/b''] [''f/a/*'']"
  "\<not> resources_match [''f/a/b'', ''1'', ''2'', ''3'', ''4''] [''f/a/*'']"
  by code_simp+

lemma pattern_of_two_byte_name:
  "resource_matches_pattern (''f/'' @ [CHR 0xC3, CHR 0xA9] @ ''/*'') (''f/'' @ [CHR 0xC3, CHR 0xA9] @ ''s/x'')"
  "\<not> resource_matches_pattern (''f/'' @ [CHR 0xC3, CHR 0xA9] @ ''/*'') (''f/'' @ [CHR 0xC3, CHR 0xA9] @ ''/x'')"
  by code_simp+

section \<open>Which routes a token may use\<close>

lemma domain_from_as_str [simp]: "domain_from_str (domain_as_str d) = Some d"
  by (cases d) (simp_all add: domain_from_str_def domain_as_str_def domain_arms_def)

lemma action_includes_iff [simp]: "action_includes a b \<longleftrightarrow> a = b \<or> b = Read"
  by (cases a; cases b) (auto simp: action_includes_def)

lemma scope_grants_eq:
  "scope_grants_access s domain action kind route =
     (case domain_from_str (sd_domain s) of
        None \<Rightarrow> Inl (BadRequest ''Invalid scope domain'')
      | Some d \<Rightarrow>
          if d \<noteq> domain then Inr False
          else case action_from_str (sd_action s) of
            None \<Rightarrow> Inl (BadRequest ''Invalid scope action'')
          | Some a \<Rightarrow> Inr ((a = action \<or> action = Read) \<and>
              (domain \<noteq> DJobs \<or> action \<noteq> Run \<or> sd_kind s = None \<or> sd_kind s = kind)))"
proof -
  have kinds: "(case (k, k') of (Some x, Some y) \<Rightarrow> Inr (x = y) | (None, _) \<Rightarrow> Inr True | (Some _, None) \<Rightarrow> Inr False)
      = (Inr (k = None \<or> k = k') :: bool res)" for k k' :: "string option"
    by (cases k; cases k') auto
  show ?thesis
    unfolding scope_grants_access_def kinds
    by (cases "domain_from_str (sd_domain s)"; cases "action_from_str (sd_action s)") auto
qed

text \<open>Every action includes reading, so that the paths on the list of exceptions are no exceptions.\<close>

lemma whitelist_has_no_effect:
  "scope_grants_access s domain action kind route = scope_grants_access s domain action kind None"
  by (simp only: scope_grants_eq)

text \<open>The meaning of a scope for a route: domain, action and kind.\<close>

definition scope_allows :: "string \<Rightarrow> scope_domain \<Rightarrow> scope_action \<Rightarrow> string option \<Rightarrow> bool" where
  "scope_allows s domain action kind \<longleftrightarrow>
     \<not> is_filter_tags s \<and>
     (\<exists>d a. from_scope_string s = Inr d \<and> domain_from_str (sd_domain d) = Some domain \<and>
        action_from_str (sd_action d) = Some a \<and> (a = action \<or> action = Read) \<and>
        (domain \<noteq> DJobs \<or> action \<noteq> Run \<or> sd_kind d = None \<or> sd_kind d = kind))"

text \<open>
  The loop over the scopes passes by a scope without an error: a filter of tags and a text that
  is no scope are skipped; of a scope the domain is known, and the action where it is needed.
\<close>

definition raises_no_error :: "scope_domain \<Rightarrow> string \<Rightarrow> bool" where
  "raises_no_error domain s \<longleftrightarrow>
     is_filter_tags s \<or>
     (case from_scope_string s of
        Inl _ \<Rightarrow> True
      | Inr d \<Rightarrow> (case domain_from_str (sd_domain d) of
                    None \<Rightarrow> False
                  | Some d' \<Rightarrow> d' \<noteq> domain \<or> action_from_str (sd_action d) \<noteq> None))"

lemma scope_grants_iff:
  assumes "from_scope_string s = Inr d" and "\<not> is_filter_tags s"
  shows "scope_grants_access d domain action kind route = Inr True \<longleftrightarrow> scope_allows s domain action kind"
    and "raises_no_error domain s \<longleftrightarrow> (\<exists>b. scope_grants_access d domain action kind route = Inr b)"
  using assms
  by (auto simp: scope_grants_eq scope_allows_def raises_no_error_def split: option.splits)

lemma any_grants_sound:
  "any_grants ss domain action kind route = Inr True \<Longrightarrow> list_ex (\<lambda>s. scope_allows s domain action kind) ss"
proof (induction ss)
  case (Cons s ss)
  show ?case
  proof (cases "is_filter_tags s \<or> (\<exists>e. from_scope_string s = Inl e)")
    case True
    with Cons show ?thesis by (auto split: sum.splits)
  next
    case False
    then obtain d where d: "from_scope_string s = Inr d" by (cases "from_scope_string s") auto
    with Cons False show ?thesis
      by (auto simp: result_simps scope_grants_iff(1) split: if_splits)
  qed
qed simp

lemma first_split:
  "(\<exists>before x after. s # ss = before @ x # after \<and> list_all P before \<and> Q x) \<longleftrightarrow>
   Q s \<or> P s \<and> (\<exists>before x after. ss = before @ x # after \<and> list_all P before \<and> Q x)" (is "?L \<longleftrightarrow> ?R")
proof
  assume ?L
  then obtain before x after where "s # ss = before @ x # after" "list_all P before" "Q x" by blast
  then show ?R by (cases before) auto
next
  assume ?R
  then show ?L
  proof
    assume "Q s"
    then have "s # ss = [] @ s # ss \<and> list_all P [] \<and> Q s" by simp
    then show ?L by blast
  next
    assume "P s \<and> (\<exists>before x after. ss = before @ x # after \<and> list_all P before \<and> Q x)"
    then obtain before x after where "s # ss = (s # before) @ x # after \<and> list_all P (s # before) \<and> Q x" by auto
    then show ?L by blast
  qed
qed

lemma any_grants_iff:
  "any_grants ss domain action kind route = Inr True \<longleftrightarrow>
   (\<exists>before s after. ss = before @ s # after \<and> list_all (raises_no_error domain) before \<and> scope_allows s domain action kind)"
proof (induction ss)
  case (Cons s ss)
  show ?case
  proof (cases "is_filter_tags s \<or> (\<exists>e. from_scope_string s = Inl e)")
    case True
    then have "\<not> scope_allows s domain action kind" "raises_no_error domain s"
      by (auto simp: scope_allows_def raises_no_error_def)
    with True Cons show ?thesis unfolding first_split by (auto split: sum.splits)
  next
    case False
    then obtain d where d: "from_scope_string s = Inr d" by (cases "from_scope_string s") auto
    note iff = scope_grants_iff [OF d, of domain action kind route]
    show ?thesis
    proof (cases "scope_grants_access d domain action kind route")
      case (Inl e)
      with iff False d show ?thesis unfolding first_split by simp
    next
      case (Inr b)
      with iff False d Cons show ?thesis unfolding first_split by (cases b) auto
    qed
  qed
qed simp

text \<open>
  C26: A token with scopes reaches a route only if the route belongs to a domain and, unless
  all that its scopes do is to filter the tags of jobs, one of them is for this domain, for
  the action the request needs (or any action, to read) and, to run jobs, for their kind; on
  the routes of MCP one of them begins with \<open>mcp:\<close>.
\<close>

theorem route_access_sound:
  assumes "scopes \<noteq> []" and "check_scopes_for_route (Some scopes) route verb = Inr ()"
  shows "\<exists>domain kind suffix. extract_domain_from_route route = Inr (domain, kind, suffix) \<and>
    (list_all is_filter_tags scopes \<or>
     domain = DMcp \<and> list_ex (\<lambda>s. str_starts_with s ''mcp:'') scopes \<or>
     domain \<noteq> DMcp \<and> list_ex (\<lambda>s. scope_allows s domain (map_http_method_to_action verb route) kind) scopes)"
proof -
  have scoped: "\<not> list_ex (\<lambda>s. \<not> is_filter_tags s) scopes \<longleftrightarrow> list_all is_filter_tags scopes"
    by (simp add: list_ex_iff list_all_iff)
  show ?thesis
    using assms scoped
    by (auto simp: check_scopes_for_route_def check_route_access_def Let_def result_simps
        split: if_splits dest: any_grants_sound)
qed

theorem route_access_sound_witness:
  "\<exists>domain kind suffix. extract_domain_from_route ''/api/w/dev/jobs/run/f/u/ann/x'' = Inr (domain, kind, suffix) \<and>
    (list_all is_filter_tags [''jobs:run:flows''] \<or>
     domain = DMcp \<and> list_ex (\<lambda>s. str_starts_with s ''mcp:'') [''jobs:run:flows''] \<or>
     domain \<noteq> DMcp \<and> list_ex (\<lambda>s. scope_allows s domain
       (map_http_method_to_action ''POST'' ''/api/w/dev/jobs/run/f/u/ann/x'') kind) [''jobs:run:flows''])"
  by (rule route_access_sound) (simp, code_simp)

text \<open>
  C27: A token with a list of scopes is let through exactly in these cases: the list is empty;
  the route belongs to a domain and all scopes are filters of tags; the route is one of MCP and
  some scope begins with \<open>mcp:\<close>, whatever else it says; or the route is another one and some scope
  allows the request, where every scope before it in the list is one that the loop passes by
  without an error.
\<close>

theorem route_access_iff:
  "check_scopes_for_route (Some scopes) route verb = Inr () \<longleftrightarrow>
   scopes = [] \<or>
   (\<exists>domain kind suffix. extract_domain_from_route route = Inr (domain, kind, suffix) \<and>
      (list_all is_filter_tags scopes \<or>
       domain = DMcp \<and> list_ex (\<lambda>s. str_starts_with s ''mcp:'') scopes \<or>
       domain \<noteq> DMcp \<and>
         (\<exists>before s after. scopes = before @ s # after \<and> list_all (raises_no_error domain) before \<and>
            scope_allows s domain (map_http_method_to_action verb route) kind)))"
proof -
  have scoped: "list_ex (\<lambda>s. \<not> is_filter_tags s) scopes \<longleftrightarrow> \<not> list_all is_filter_tags scopes"
    by (simp add: list_ex_iff list_all_iff)
  have filters: "list_all is_filter_tags scopes \<Longrightarrow> any_grants scopes domain action kind suffix = Inr False" for domain action kind suffix
    by (induction scopes) simp_all
  show ?thesis
  proof (cases "scopes = []")
    case False
    have "check_route_access scopes route verb = Inr () \<longleftrightarrow>
      (\<exists>domain kind suffix. extract_domain_from_route route = Inr (domain, kind, suffix) \<and>
        (list_all is_filter_tags scopes \<or> domain = DMcp \<and> list_ex (\<lambda>s. str_starts_with s ''mcp:'') scopes \<or>
         domain \<noteq> DMcp \<and> any_grants scopes domain (map_http_method_to_action verb route) kind suffix = Inr True))"
      by (cases "extract_domain_from_route route") (auto simp: check_route_access_def Let_def scoped result_simps filters split: if_splits)
    with False show ?thesis unfolding any_grants_iff by (simp add: check_scopes_for_route_def)
  qed (simp add: check_scopes_for_route_def)
qed

theorem route_access_iff_witness:
  "check_scopes_for_route (Some [''scripts:write'', ''jobs:read'']) ''/api/w/dev/jobs/list'' ''GET'' = Inr ()"
proof -
  have domain: "extract_domain_from_route ''/api/w/dev/jobs/list'' = Inr (DJobs, None, Some ''jobs/list'')" by code_simp
  have "raises_no_error DJobs ''scripts:write''" by code_simp
  moreover have "scope_allows ''jobs:read'' DJobs (map_http_method_to_action ''GET'' ''/api/w/dev/jobs/list'') None"
  proof -
    have "from_scope_string ''jobs:read'' = Inr \<lparr>sd_domain = ''jobs'', sd_action = ''read'', sd_kind = None, sd_resource = None\<rparr>"
      "domain_from_str ''jobs'' = Some DJobs" "action_from_str ''read'' = Some Read" "\<not> is_filter_tags ''jobs:read''"
      "map_http_method_to_action ''GET'' ''/api/w/dev/jobs/list'' = Read" by code_simp+
    then show ?thesis by (simp add: scope_allows_def)
  qed
  ultimately have "\<exists>before s after. [''scripts:write'', ''jobs:read''] = before @ s # after \<and>
      list_all (raises_no_error DJobs) before \<and>
      scope_allows s DJobs (map_http_method_to_action ''GET'' ''/api/w/dev/jobs/list'') None"
    by (intro exI [of _ "[''scripts:write'']"] exI [of _ "''jobs:read''"] exI [of _ "[]"]) simp
  moreover have "DJobs \<noteq> DMcp" by simp
  ultimately show ?thesis
    unfolding route_access_iff using domain by blast
qed

text \<open>
  A scope that the server does not understand closes the routes a later scope would open; a
  path that happens to contain one of the run paths needs the action of running; the scope \<open>*\<close>
  is no scope.
\<close>

lemma scope_order_matters:
  "check_scopes_for_route (Some [''jobs:read'', ''jobz:read'']) ''/api/w/dev/jobs/list'' ''GET'' = Inr ()"
  "check_scopes_for_route (Some [''jobz:read'', ''jobs:read'']) ''/api/w/dev/jobs/list'' ''GET'' =
    Inl (BadRequest ''Invalid scope domain'')"
  by code_simp+

lemma path_decides_action:
  "check_scopes_for_route (Some [''scripts:read'']) ''/api/w/dev/scripts/get/p/f/x'' ''GET'' = Inr ()"
  "check_scopes_for_route (Some [''scripts:read'']) ''/api/w/dev/scripts/get/p/f/jobs/run/p'' ''GET'' =
    Inl (NotAuthorized ''scripts:run'')"
  by code_simp+

lemma star_scope_denied:
  "check_scopes_for_route (Some [''*'']) ''/api/w/dev/jobs/list'' ''GET'' = Inl (NotAuthorized ''jobs:read'')"
  by code_simp

section \<open>Who owns a path\<close>

text \<open>
  C30: A user owns a path exactly if she is an administrator, the path is in her own space,
  or it is in a folder of which she is an owner.
\<close>

theorem owner_of_path_iff:
  "require_owner_of_path u path = Inr () \<longleftrightarrow>
    au_is_admin u \<or> (\<exists>rest. split_char CHR ''/'' path = ''u'' # au_username u # rest) \<or>
    (\<exists>folder write rest. split_char CHR ''/'' path = ''f'' # folder # rest \<and> (folder, write, True) \<in> set (au_folders u))"
proof -
  obtain x xs where parts: "split_char CHR ''/'' path = x # xs" by (cases "split_char CHR ''/'' path") auto
  have empty: "path = [] \<Longrightarrow> x = []" using parts by simp
  show ?thesis
    using parts empty
    by (cases xs) (auto simp: require_owner_of_path_def Let_def result_simps require_is_owner_def is_owner_def list_ex_iff
        nth_opt_def)
qed

lemma owner_of_bare_path_panics:
  "\<not> au_is_admin u \<Longrightarrow> require_owner_of_path u ''u'' = Inl (Panic ''index out of bounds'')"
  "\<not> au_is_admin u \<Longrightarrow> require_owner_of_path u ''f'' = Inl (Panic ''index out of bounds'')"
  by (simp_all add: require_owner_of_path_def nth_opt_def)

end
