(* ===== verification/Resume.thy ===== *)
theory Resume
  imports Approvals Scopes
begin

unbundle bit_operations_syntax

text \<open>
  The requests that resume or refuse a suspended flow (\<open>windmill-api/src/jobs.rs\<close>): by a signed
  link, by an owner of the flow, or from the page of approvals; who may send them, what they
  write, and how they meet the gate of the next step. The audit log is left out.
\<close>

section \<open>Signatures and tokens\<close>

text \<open>The keyed hash, the hexadecimal text of bytes and the keys of the workspaces are parameters.\<close>

record crypto =
  cr_mac :: "string \<Rightarrow> string \<Rightarrow> string" \<comment> \<open>HMAC-SHA256: key, message\<close>
  cr_hex :: "string \<Rightarrow> string"
  cr_unhex :: "string \<Rightarrow> string option"
  cr_key :: "string \<Rightarrow> string option" \<comment> \<open>\<open>workspace_key\<close>\<close>

definition crypto_ok :: "crypto \<Rightarrow> bool" where
  "crypto_ok C \<longleftrightarrow> (\<forall>b. cr_unhex C (cr_hex C b) = Some b)"

text \<open>\<open>to_be_bytes\<close>, and \<open>as_bytes\<close> of a \<open>Uuid\<close>.\<close>

definition be_bytes :: "nat \<Rightarrow> nat \<Rightarrow> string" where
  "be_bytes n x = map (\<lambda>i. char_of (x div 256 ^ (n - 1 - i))) [0..<n]"

definition signed_message :: "uuid \<Rightarrow> 32 word \<Rightarrow> string option \<Rightarrow> string" where
  "signed_message job rid approver = be_bytes 16 (unat job) @ be_bytes 4 (unat rid) @ unwrap_or [] approver"

definition get_workspace_key :: "crypto \<Rightarrow> string \<Rightarrow> string res" where
  "get_workspace_key C w = ok_or (InternalErr ''fetching workspace key'') (cr_key C w)"

definition create_signature :: "crypto \<Rightarrow> string \<Rightarrow> uuid \<Rightarrow> 32 word \<Rightarrow> string option \<Rightarrow> string" where
  "create_signature C key job rid approver = cr_hex C (cr_mac C key (signed_message job rid approver))"

definition create_job_signature :: "crypto \<Rightarrow> string \<Rightarrow> uuid \<Rightarrow> 32 word \<Rightarrow> string option \<Rightarrow> string res" where
  "create_job_signature C w job rid approver =
     rbind (get_workspace_key C w) (\<lambda>key. Inr (create_signature C key job rid approver))"

definition verify_suspended_secret :: "crypto \<Rightarrow> string \<Rightarrow> uuid \<Rightarrow> 32 word \<Rightarrow> string option \<Rightarrow> string \<Rightarrow> unit res" where
  "verify_suspended_secret C w job rid approver secret =
     rbind (get_workspace_key C w) (\<lambda>key.
     rbind (ok_or (InternalErr ''invalid hex'') (cr_unhex C secret)) (\<lambda>bytes.
     if bytes = cr_mac C key (signed_message job rid approver) then Inr () else Inl (InternalErr ''Invalid signature'')))"

definition generate_approval_token :: "crypto \<Rightarrow> string \<Rightarrow> uuid \<Rightarrow> string res" where
  "generate_approval_token C w job =
     rbind (get_workspace_key C w) (\<lambda>key. Inr (cr_hex C (cr_mac C key (be_bytes 16 (unat job) @ ''approval_token''))))"

definition validate_approval_token :: "crypto \<Rightarrow> string \<Rightarrow> uuid \<Rightarrow> string \<Rightarrow> unit res" where
  "validate_approval_token C token job w =
     rbind (generate_approval_token C w job) (\<lambda>expected.
     if token \<noteq> expected then Inl (NotAuthorized ''Invalid approval token'') else Inr ())"

section \<open>The suspended flow\<close>

text \<open>
  The value of \<open>flow_status\<close> that the requests see: a status of a flow, the conditions of a
  workflow-as-code job, or the object of the workflow where the query falls back to it.
\<close>

datatype status_value = Classic flow_status | Conditions approval_conditions | WacStatus fields

record flow_info =
  in_id :: uuid
  in_status :: "status_value option"
  in_suspend :: int
  in_path :: "string option"
  in_email :: "string option"

definition status_column :: "uuid \<Rightarrow> db \<Rightarrow> status_value option" where
  "status_column j d =
     (case d_status d j of Some s \<Rightarrow> Some (Classic s) | None \<Rightarrow> map_option Conditions (d_wac_conditions d j))"

fun as_flow_status :: "env \<Rightarrow> status_value \<Rightarrow> flow_status option" where
  "as_flow_status E (Classic s) = Some s"
| "as_flow_status E (Conditions ac) = None"
| "as_flow_status E (WacStatus fs) = res_ok (dec_status (e_text E) fs)"

fun conditions_field :: "status_value \<Rightarrow> approval_conditions option" where
  "conditions_field (Classic s) = fs_approval_conditions s"
| "conditions_field (Conditions ac) = Some ac"
| "conditions_field (WacStatus fs) = Option.bind (get_field ''approval_conditions'' fs) (\<lambda>v. res_ok (dec_conditions v))"

definition waiting_job :: "flow_status \<Rightarrow> uuid option" where
  "waiting_job s = (case current_step s of Some (WaitingForEvents _ _ j) \<Rightarrow> Some j | _ \<Rightarrow> None)"

definition is_flow_level :: "job_kind \<Rightarrow> bool" where
  "is_flow_level k \<longleftrightarrow> k = KFlow \<or> k = KFlowPreview"

text \<open>
  \<open>get_flow_info_for_resume\<close>: of a flow itself, of the parent of a step, or of a workflow-as-code
  job itself. The query locks the row of the queue and runs on the pool, so that the lock ends
  with the query.
\<close>

definition get_flow_info_for_resume :: "uuid \<Rightarrow> db \<Rightarrow> (flow_info \<times> bool \<times> bool) res" where
  "get_flow_info_for_resume job d =
     (case d_job d job of
        None \<Rightarrow> Inl (InternalErr ''job not found or parent flow not in queue'')
      | Some r \<Rightarrow>
          let target = (if is_flow_level (jb_kind r) then job else unwrap_or job (jb_parent r)) in
          (case (d_queue d target, d_job d target) of
             (Some q, Some t) \<Rightarrow>
               Inr (\<lparr>in_id = target, in_status = status_column target d, in_suspend = q_suspend q,
                     in_path = jb_runnable_path t, in_email = Some (jb_email t)\<rparr>,
                    is_flow_level (jb_kind r), \<not> is_flow_level (jb_kind r) \<and> target = job)
           | _ \<Rightarrow> Inl (InternalErr ''job not found or parent flow not in queue'')))"

definition get_suspended_flow_info :: "env \<Rightarrow> uuid \<Rightarrow> db \<Rightarrow> (flow_info \<times> uuid \<times> bool) res" where
  "get_suspended_flow_info E job d =
     (case (d_queue d job, d_job d job) of
        (Some q, Some r) \<Rightarrow>
          let status = or_option (status_column job d) (map_option WacStatus (d_wac d job));
              info = \<lparr>in_id = job, in_status = status, in_suspend = q_suspend q, in_path = jb_runnable_path r,
                      in_email = Some (jb_email r)\<rparr> in
          (case Option.bind (Option.bind status (as_flow_status E)) waiting_job of
             Some step_job \<Rightarrow> Inr (info, step_job, False)
           | None \<Rightarrow>
               if q_suspend q > 0 then Inr (info\<lparr>in_status := status_column job d\<rparr>, job, True)
               else Inl (InternalErr ''the flow is not in a suspended state anymore''))
      | _ \<Rightarrow> Inl (InternalErr ''parent flow job not found''))"

section \<open>Who may approve\<close>

definition conditionally_require_authed_user ::
  "env \<Rightarrow> api_authed option \<Rightarrow> approval_conditions option \<Rightarrow> string \<Rightarrow> unit res" where
  "conditionally_require_authed_user E authed conditions trigger_email =
     (case conditions of
        None \<Rightarrow> Inr ()
      | Some ac \<Rightarrow>
          if ac_self_approval_disabled ac \<and>
             (case authed of Some u \<Rightarrow> \<not> au_is_admin u \<and> au_email u = trigger_email | None \<Rightarrow> False)
          then Inl (PermissionDenied ''Self-approval is disabled for this flow step'')
          else if \<not> ac_user_auth_required ac then Inr ()
          else if \<not> e_enterprise E then Inl (BadRequest ''Approvals for logged in users is an enterprise only feature'')
          else
            (case authed of
               None \<Rightarrow> Inl (NotAuthorized ''Only logged in users can approve this flow step'')
             | Some u \<Rightarrow>
                 if au_is_admin u \<or> ac_user_groups_required ac = [] then Inr ()
                 else if list_ex (\<lambda>g. g \<in> set (au_groups u)) (ac_user_groups_required ac) then Inr ()
                 else Inl (PermissionDenied ''Only users from one of the required groups'')))"

section \<open>What a request writes\<close>

text \<open>
  The key of a row of \<open>resume_job\<close> is made of the job and the number of the request; the flow
  has to be in the queue (a foreign key).
\<close>

definition resume_key :: "uuid \<Rightarrow> 32 word \<Rightarrow> uuid" where
  "resume_key job rid = job XOR ucast rid"

definition row_key :: "resume_row \<Rightarrow> uuid" where
  "row_key r = resume_key (rs_job r) (word_of_int (rs_resume_id r))"

definition insert_resume_job ::
  "32 word \<Rightarrow> uuid \<Rightarrow> flow_info \<Rightarrow> json \<Rightarrow> string option \<Rightarrow> bool \<Rightarrow> unit act" where
  "insert_resume_job rid job info v approver approved =
     updates (\<lambda>d.
       if resume_key job rid \<in> row_key ` set (d_resume d) then Inl (SqlErr ''duplicate key value'')
       else if d_queue d (in_id info) = None then Inl (SqlErr ''violates foreign key constraint'')
       else Inr ((), d\<lparr>d_resume := d_resume d @ [\<lparr>rs_job = job, rs_value = v, rs_approver = approver,
              rs_resume_id = sint rid, rs_approved = approved\<rparr>]\<rparr>))"

definition set_suspend :: "uuid \<Rightarrow> int \<Rightarrow> db \<Rightarrow> db" where
  "set_suspend j n = update_queue j (\<lambda>q. q\<lparr>q_suspend := n\<rparr>)"

definition resume_immediately_if_relevant :: "env \<Rightarrow> flow_info \<Rightarrow> uuid \<Rightarrow> unit act" where
  "resume_immediately_if_relevant E info job =
     (if 0 < in_suspend info then
        (case in_status info of
           None \<Rightarrow> fail (InternalErr ''no flow status'')
         | Some v \<Rightarrow>
             (case as_flow_status E v of
                None \<Rightarrow> fail (InternalErr ''deserialize flow status'')
              | Some s \<Rightarrow> aif (waiting_job s = Some job) (modify (set_suspend (in_id info) (in_suspend info - 1)))))
      else ret ())"

definition resume_immediately_for_flow_level :: "flow_info \<Rightarrow> unit act" where
  "resume_immediately_for_flow_level info =
     aif (0 < in_suspend info) (modify (set_suspend (in_id info) (in_suspend info - 1)))"

definition resume_wac :: "flow_info \<Rightarrow> unit act" where
  "resume_wac info =
     aif (0 < in_suspend info)
       (modify (update_queue (in_id info) (\<lambda>q. q\<lparr>q_suspend := max (q_suspend q - 1) 0\<rparr>)))"

section \<open>The requests\<close>

text \<open>
  A signed link. What is read is read before the transaction, and the secret is all it takes:
  the conditions of the step are not checked.
\<close>

record resume_request =
  rq_workspace :: string
  rq_job :: uuid
  rq_resume_id :: "32 word"
  rq_approver :: "string option"
  rq_secret :: string
  rq_value :: "json option"
  rq_user :: "api_authed option"
  rq_approved :: bool

definition resume_read :: "crypto \<Rightarrow> resume_request \<Rightarrow> db \<Rightarrow> (flow_info \<times> bool \<times> bool) res" where
  "resume_read C rq d =
     rbind (verify_suspended_secret C (rq_workspace rq) (rq_job rq) (rq_resume_id rq) (rq_approver rq) (rq_secret rq)) (\<lambda>_.
     rbind (get_flow_info_for_resume (rq_job rq) d) (\<lambda>info.
     if resume_key (rq_job rq) (rq_resume_id rq) \<in> row_key ` set (d_resume d)
     then Inl (InternalErr ''resume request already sent'') else Inr info))"

definition approver_name :: "resume_request \<Rightarrow> string option" where
  "approver_name rq =
     (if rq_user rq = None \<or> (case rq_approver rq of Some a \<Rightarrow> a \<noteq> [] | None \<Rightarrow> False) then rq_approver rq
      else map_option au_username (rq_user rq))"

definition resume_commit :: "env \<Rightarrow> resume_request \<Rightarrow> flow_info \<times> bool \<times> bool \<Rightarrow> unit act" where
  "resume_commit E rq = (\<lambda>(info, flow_level, wac).
     transaction
       (abind (insert_resume_job (rq_resume_id rq) (rq_job rq) info (unwrap_or JNull (rq_value rq)) (approver_name rq)
                (rq_approved rq)) (\<lambda>_.
        if \<not> rq_approved rq then modify (set_suspend (in_id info) 0)
        else if wac then resume_wac info
        else if flow_level then resume_immediately_for_flow_level info
        else resume_immediately_if_relevant E info (rq_job rq))))"

definition resume_suspended_job_internal :: "env \<Rightarrow> crypto \<Rightarrow> resume_request \<Rightarrow> unit act" where
  "resume_suspended_job_internal E C rq = abind (reads (resume_read C rq)) (resume_commit E rq)"

text \<open>The owner of the flow; the number of the request is always 0.\<close>

definition check_workspace :: "string \<Rightarrow> uuid \<Rightarrow> db \<Rightarrow> unit res" where
  "check_workspace w j d =
     (if map_option jb_workspace (d_job d j) \<noteq> Some w then Inl (NotFound ''Job not found in this workspace'') else Inr ())"

definition resume_suspended_flow_as_owner :: "env \<Rightarrow> api_authed \<Rightarrow> string \<Rightarrow> uuid \<Rightarrow> json option \<Rightarrow> unit act" where
  "resume_suspended_flow_as_owner E u w flow v =
     transaction
       (abind (reads (get_suspended_flow_info E flow)) (\<lambda>(info, job, wac).
        abind (reads (check_workspace w (in_id info))) (\<lambda>_.
        let path = unwrap_or [] (in_path info) in
        abind (lift_res (require_owner_of_path u path)) (\<lambda>_.
        abind (lift_res (check_scopes u (''jobs:run:flows:'' @ path))) (\<lambda>_.
        abind (lift_res (case in_status info of
                 None \<Rightarrow> Inr ()
               | Some s \<Rightarrow> conditionally_require_authed_user E (Some u)
                   (or_option (Option.bind (as_flow_status E s) fs_approval_conditions) (conditions_field s))
                   (unwrap_or [] (in_email info)))) (\<lambda>_.
        abind (insert_resume_job 0 job info (unwrap_or JNull v) (Some (au_username u)) True) (\<lambda>_.
        if wac then resume_wac info else resume_immediately_if_relevant E info job)))))))"

text \<open>The page of approvals; \<open>rid\<close> is the random number of the request.\<close>

definition suspended_conditions :: "env \<Rightarrow> flow_info \<Rightarrow> bool \<Rightarrow> approval_conditions option" where
  "suspended_conditions E info wac =
     Option.bind (in_status info) (\<lambda>s.
       if wac then conditions_field s else Option.bind (as_flow_status E s) fs_approval_conditions)"

text \<open>Whether the user owns the path of the flow; a panic of the check is not caught.\<close>

definition owns_flow :: "api_authed \<Rightarrow> flow_info \<Rightarrow> bool res" where
  "owns_flow u info =
     (case in_path info of
        None \<Rightarrow> Inr False
      | Some p \<Rightarrow> (case require_owner_of_path u p of Inr () \<Rightarrow> Inr True | Inl (Panic e) \<Rightarrow> Inl (Panic e) | Inl _ \<Rightarrow> Inr False))"

definition may_approve :: "env \<Rightarrow> api_authed option \<Rightarrow> flow_info \<Rightarrow> approval_conditions option \<Rightarrow> unit res" where
  "may_approve E user info ac =
     (case user of
        None \<Rightarrow> Inr ()
      | Some u \<Rightarrow>
          rbind (owns_flow u info) (\<lambda>owner.
          if \<not> au_is_admin u \<and> \<not> owner
          then conditionally_require_authed_user E (Some u) ac (unwrap_or [] (in_email info))
          else Inr ()))"

definition resume_suspended ::
  "env \<Rightarrow> crypto \<Rightarrow> 32 word \<Rightarrow> api_authed option \<Rightarrow> string \<Rightarrow> uuid \<Rightarrow> json option \<Rightarrow> string option \<Rightarrow> bool option \<Rightarrow> unit act" where
  "resume_suspended E C rid user w job payload token approved =
     (let has_token = (case token of Some t \<Rightarrow> validate_approval_token C t job w = Inr () | None \<Rightarrow> False);
          approved = unwrap_or True approved in
      if user = None \<and> \<not> has_token then fail (NotAuthorized ''Must be logged in or provide a valid approval token'')
      else
        transaction
          (abind (reads (get_suspended_flow_info E job)) (\<lambda>(info, resume_job, wac).
           abind (reads (check_workspace w (in_id info))) (\<lambda>_.
           let ac = suspended_conditions E info wac in
           abind (if user = None \<and> (case ac of Some ac \<Rightarrow> ac_user_auth_required ac | None \<Rightarrow> False)
                  then fail (NotAuthorized ''This approval requires a logged-in user'') else ret ()) (\<lambda>_.
           abind (lift_res (may_approve E user info ac)) (\<lambda>_.
           abind (reads (\<lambda>d. if resume_key resume_job rid \<in> row_key ` set (d_resume d)
                    then Inl (BadRequest ''Resume request already sent'') else Inr ())) (\<lambda>_.
           abind (insert_resume_job rid resume_job info (unwrap_or JNull payload) (map_option au_username user) approved) (\<lambda>_.
           if \<not> approved then modify (set_suspend (in_id info) 0)
           else if wac then resume_wac info
           else resume_immediately_if_relevant E info resume_job))))))))"

text \<open>\<open>make_suspended_pull_query\<close>: the suspended jobs that a worker may take up again.\<close>

definition can_be_pulled :: "int \<Rightarrow> queue_row \<Rightarrow> bool" where
  "can_be_pulled now q = (case q_suspend_until q of None \<Rightarrow> False | Some t \<Rightarrow> q_suspend q \<le> 0 \<or> t \<le> now)"

section \<open>Signatures\<close>

definition well_signed :: "crypto \<Rightarrow> resume_request \<Rightarrow> bool" where
  "well_signed C rq \<longleftrightarrow>
     verify_suspended_secret C (rq_workspace rq) (rq_job rq) (rq_resume_id rq) (rq_approver rq) (rq_secret rq) = Inr ()"

lemma signature_accepted:
  "crypto_ok C \<Longrightarrow> create_job_signature C w job rid approver = Inr sig \<Longrightarrow>
   verify_suspended_secret C w job rid approver sig = Inr ()"
  by (auto simp: create_job_signature_def verify_suspended_secret_def create_signature_def crypto_ok_def result_simps)

text \<open>
  C25: The token of the page of approvals, which is meant to allow an attempt under the
  conditions of the step, is itself the secret of a signed link: the request with the number
  whose four bytes spell \<open>appr\<close> in the name of the approver \<open>oval_token\<close> signs the same message,
  and signed links skip those conditions.
\<close>

theorem approval_token_is_a_secret:
  assumes "crypto_ok C" and "generate_approval_token C w job = Inr token"
  shows "verify_suspended_secret C w job 0x61707072 (Some ''oval_token'') token = Inr ()"
proof -
  have "be_bytes 4 (unat (0x61707072 :: 32 word)) @ ''oval_token'' = ''approval_token''"
    by (simp add: be_bytes_def upt_rec char_of_def) (simp add: bit_iff_odd)
  then show ?thesis
    using assms by (auto simp: generate_approval_token_def verify_suspended_secret_def signed_message_def crypto_ok_def result_simps)
qed

text \<open>A concrete key and a hash that is the message itself, to evaluate with.\<close>

definition plain_crypto :: crypto where
  "plain_crypto = \<lparr>cr_mac = (\<lambda>k m. k @ m), cr_hex = id, cr_unhex = Some, cr_key = (\<lambda>w. Some (''key of '' @ w))\<rparr>"

lemma plain_crypto_ok: "crypto_ok plain_crypto"
  by (simp add: crypto_ok_def plain_crypto_def)

theorem approval_token_is_a_secret_witness:
  "verify_suspended_secret plain_crypto ''dev'' 7 0x61707072 (Some ''oval_token'')
     (''key of dev'' @ be_bytes 16 7 @ ''approval_token'') = Inr ()"
  by (rule approval_token_is_a_secret [OF plain_crypto_ok])
    (simp add: generate_approval_token_def get_workspace_key_def plain_crypto_def)

section \<open>Approvals of a parked flow\<close>

text \<open>The step \<open>job\<close> of \<open>flow\<close> waits for \<open>n\<close> more approvals.\<close>

definition parked :: "db \<Rightarrow> uuid \<Rightarrow> uuid \<Rightarrow> int \<Rightarrow> bool" where
  "parked d job flow n \<longleftrightarrow>
     (\<exists>q. d_queue d flow = Some q \<and> q_suspend q = n) \<and>
     (\<exists>s. d_status d flow = Some s \<and> waiting_job s = Some job) \<and>
     (\<exists>r. d_job d job = Some r \<and> \<not> is_flow_level (jb_kind r) \<and> jb_parent r = Some flow) \<and>
     flow \<noteq> job \<and> d_job d flow \<noteq> None"

definition resume_row_of :: "resume_request \<Rightarrow> resume_row" where
  "resume_row_of rq = \<lparr>rs_job = rq_job rq, rs_value = unwrap_or JNull (rq_value rq), rs_approver = approver_name rq,
     rs_resume_id = sint (rq_resume_id rq), rs_approved = rq_approved rq\<rparr>"

definition request_key :: "resume_request \<Rightarrow> uuid" where
  "request_key rq = resume_key (rq_job rq) (rq_resume_id rq)"

lemma row_key_of [simp]: "row_key (resume_row_of rq) = request_key rq"
  by (simp add: row_key_def resume_row_of_def request_key_def)

definition fresh_request :: "db \<Rightarrow> resume_request \<Rightarrow> bool" where
  "fresh_request d rq \<longleftrightarrow> request_key rq \<notin> row_key ` set (d_resume d)"

definition add_resume :: "resume_request \<Rightarrow> db \<Rightarrow> db" where
  "add_resume rq d = d\<lparr>d_resume := d_resume d @ [resume_row_of rq]\<rparr>"

lemma resume_read_parked:
  assumes "parked d job flow n" and "rq_job rq = job" and "well_signed C rq" and "fresh_request d rq"
  obtains info s where "resume_read C rq d = Inr (info, False, False)"
    and "in_id info = flow" "in_suspend info = n" "in_status info = Some (Classic s)" "waiting_job s = Some job"
  using assms
  by (auto simp: parked_def resume_read_def well_signed_def fresh_request_def request_key_def get_flow_info_for_resume_def
      status_column_def Let_def)

text \<open>The commit takes the number of missing approvals from what was read, not from the row it writes.\<close>

lemma resume_commit_parked:
  assumes "in_id info = flow" and "in_status info = Some (Classic s)" and "waiting_job s = Some (rq_job rq)"
    and "rq_approved rq" and "fresh_request d rq" and "d_queue d flow \<noteq> None"
  shows "resume_commit E rq (info, False, False) d =
    (Inr (), if 0 < in_suspend info then set_suspend flow (in_suspend info - 1) (add_resume rq d) else add_resume rq d)"
  using assms
  by (simp add: resume_commit_def transaction_def abind_def insert_resume_job_def updates_def fresh_request_def request_key_def
      resume_immediately_if_relevant_def aif_def modify_def ret_def add_resume_def resume_row_of_def)

lemma parked_after:
  assumes "parked d job flow n"
  shows "parked (set_suspend flow m (add_resume rq d)) job flow m" and "parked (add_resume rq d) job flow n"
  using assms by (auto simp: parked_def set_suspend_def update_queue_def add_resume_def)

lemma approve_parked:
  assumes "parked d job flow n" and "rq_job rq = job" and "well_signed C rq" and "rq_approved rq" and "fresh_request d rq"
  shows "\<exists>d'. resume_suspended_job_internal E C rq d = (Inr (), d') \<and> parked d' job flow (if 0 < n then n - 1 else n) \<and>
    d_resume d' = d_resume d @ [resume_row_of rq] \<and>
    map_option q_suspend_until (d_queue d' flow) = map_option q_suspend_until (d_queue d flow)"
proof -
  obtain info s where read: "resume_read C rq d = Inr (info, False, False)"
    and info: "in_id info = flow" "in_suspend info = n" "in_status info = Some (Classic s)" "waiting_job s = Some (rq_job rq)"
    using resume_read_parked [OF assms(1-3,5)] assms(2) by metis
  have "d_queue d flow \<noteq> None" using assms(1) by (auto simp: parked_def)
  note commit = resume_commit_parked [OF info(1,3,4) assms(4,5) this]
  let ?d = "if 0 < n then set_suspend flow (n - 1) (add_resume rq d) else add_resume rq d"
  have "resume_suspended_job_internal E C rq d = (Inr (), ?d)"
    using read commit info(2) by (simp add: resume_suspended_job_internal_def abind_def reads_def)
  moreover have "parked ?d job flow (if 0 < n then n - 1 else n)"
    using parked_after [OF assms(1)] by simp
  moreover have "d_resume ?d = d_resume d @ [resume_row_of rq]"
    by (simp add: set_suspend_def update_queue_def add_resume_def)
  moreover have "map_option q_suspend_until (d_queue ?d flow) = map_option q_suspend_until (d_queue d flow)"
    by (simp add: set_suspend_def update_queue_def add_resume_def option.map_comp comp_def)
  ultimately show ?thesis by blast
qed

lemma approve_all_parked:
  assumes "parked d job flow n" and "int (length rqs) \<le> n"
    and "list_all (\<lambda>rq. rq_job rq = job \<and> rq_approved rq \<and> well_signed C rq \<and> fresh_request d rq) rqs"
    and "distinct (map request_key rqs)"
  shows "\<exists>d'. aeach (resume_suspended_job_internal E C) rqs d = (Inr (), d') \<and> parked d' job flow (n - int (length rqs)) \<and>
    d_resume d' = d_resume d @ map resume_row_of rqs \<and>
    map_option q_suspend_until (d_queue d' flow) = map_option q_suspend_until (d_queue d flow)"
  using assms
proof (induction rqs arbitrary: d n)
  case Nil
  then show ?case by (simp add: ret_def)
next
  case (Cons rq rqs)
  then obtain d1 where d1: "resume_suspended_job_internal E C rq d = (Inr (), d1)" "parked d1 job flow (n - 1)"
      "d_resume d1 = d_resume d @ [resume_row_of rq]"
      "map_option q_suspend_until (d_queue d1 flow) = map_option q_suspend_until (d_queue d flow)"
    using approve_parked [of d job flow n rq C E] by auto
  have "list_all (\<lambda>rq. rq_job rq = job \<and> rq_approved rq \<and> well_signed C rq \<and> fresh_request d1 rq) rqs"
    using Cons.prems(3,4) d1(3) by (auto simp: list_all_iff fresh_request_def) (metis image_eqI)
  then obtain d2 where "aeach (resume_suspended_job_internal E C) rqs d1 = (Inr (), d2)"
      "parked d2 job flow (n - 1 - int (length rqs))" "d_resume d2 = d_resume d1 @ map resume_row_of rqs"
      "map_option q_suspend_until (d_queue d2 flow) = map_option q_suspend_until (d_queue d1 flow)"
    using Cons.IH [OF d1(2)] Cons.prems by auto
  with d1 show ?case by (auto simp: abind_def algebra_simps)
qed
text \<open>What the gate leaves when it parks a flow.\<close>

lemma waiting_job_parked:
  assumes "0 \<le> fs_step s" and "fs_step s < int (length (fs_modules s))"
  shows "waiting_job (set_module (fs_step s) (WaitingForEvents i n j) s) = Some j"
  using assms by (simp add: waiting_job_def current_step_def set_module_def jsonb_simps nth_opt_def nat_less_iff)

lemma gate_parks:
  assumes "resume_gate E fj f s sm v flow_env d0 = (Inr (Parked None), d)" and "needs_resume f s = Some (su, job)"
    and "waits_for_prior_steps sm"
  shows "\<exists>d1 g. d = park E (mj_id fj) su sm job (length (resumes_for (mj_id fj) job d0)) d1 \<and>
    d1 = update_status (mj_id fj) g d0 \<and> (\<forall>s. fs_step (g s) = fs_step s \<and> fs_modules (g s) = fs_modules s) \<and>
    d_queue d0 (mj_id fj) \<noteq> None \<and> list_all rs_approved (resumes_for (mj_id fj) job d0) \<and>
    length (resumes_for (mj_id fj) job d0) < unat (events_needed su)"
proof -
  have id: "update_status (mj_id fj) (\<lambda>s. s) d0 = d0" by (simp add: update_status_def option.map_ident)
  have "\<exists>ac. (let rs = resumes_for (mj_id fj) job d0; d1 = (if ac = None then d0
       else update_status (mj_id fj) (\<lambda>s. s\<lparr>fs_approval_conditions := ac\<rparr>) d0) in
     d = park E (mj_id fj) su sm job (length rs) d1 \<and> d_queue d0 (mj_id fj) \<noteq> None \<and> list_all rs_approved rs \<and>
     \<not> can_be_resumed su rs)"
    using assms by (auto simp: resume_gate_def act_iffs aif_def Let_def split: if_splits)
  then obtain ac where ac: "d = park E (mj_id fj) su sm job (length (resumes_for (mj_id fj) job d0)) (if ac = None then d0
       else update_status (mj_id fj) (\<lambda>s. s\<lparr>fs_approval_conditions := ac\<rparr>) d0)"
      "d_queue d0 (mj_id fj) \<noteq> None" "list_all rs_approved (resumes_for (mj_id fj) job d0)"
      "\<not> can_be_resumed su (resumes_for (mj_id fj) job d0)"
    by (auto simp: Let_def)
  moreover from ac(3,4) have "length (resumes_for (mj_id fj) job d0) < unat (events_needed su)"
    by (simp add: can_be_resumed_def)
  moreover have "\<exists>g. (if ac = None then d0 else update_status (mj_id fj) (\<lambda>s. s\<lparr>fs_approval_conditions := ac\<rparr>) d0) =
      update_status (mj_id fj) g d0 \<and> (\<forall>s. fs_step (g s) = fs_step s \<and> fs_modules (g s) = fs_modules s)"
  proof (cases "ac = None")
    case True
    then show ?thesis using id by (intro exI [of _ "\<lambda>s. s"]) simp
  next
    case False
    then show ?thesis by (intro exI [of _ "\<lambda>s. s\<lparr>fs_approval_conditions := ac\<rparr>"]) auto
  qed
  ultimately show ?thesis by blast
qed

text \<open>
  C22: Approvals open the gate they are for. When the gate has parked a flow, and as many
  requests as were missing arrive one after the other, each approving the step with a valid
  signature and a number of its own, then all are accepted, a worker may take up the flow
  again, at once, and the gate finds the approvals it asks for.
\<close>

theorem approvals_open_gate:
  assumes "resume_gate E fj f s sm v flow_env d0 = (Inr (Parked None), d)" and "d_status d0 (mj_id fj) = Some s"
    and "needs_resume f s = Some (su, job)" and "waits_for_prior_steps sm"
    and "fs_step s < int (length (fs_modules s))"
    and "d_job d0 job = Some r" and "\<not> is_flow_level (jb_kind r)" and "jb_parent r = Some (mj_id fj)"
    and "job \<noteq> mj_id fj" and "d_job d0 (mj_id fj) \<noteq> None"
    and "length rqs = unat (events_needed su) - length (resumes_for (mj_id fj) job d0)"
    and "list_all (\<lambda>rq. rq_job rq = job \<and> rq_approved rq \<and> well_signed C rq \<and> fresh_request d0 rq) rqs"
    and "distinct (map request_key rqs)"
  shows "\<exists>d' q. aeach (resume_suspended_job_internal E C) rqs d = (Inr (), d') \<and>
    d_queue d' (mj_id fj) = Some q \<and> can_be_pulled now q \<and> can_be_resumed su (resumes_for (mj_id fj) job d')"
proof -
  let ?rs = "resumes_for (mj_id fj) job d0" and ?n = "int (length rqs)"
  obtain d1 g where park: "d = park E (mj_id fj) su sm job (length ?rs) d1" "d1 = update_status (mj_id fj) g d0"
      "\<And>s. fs_step (g s) = fs_step s" "\<And>s. fs_modules (g s) = fs_modules s"
      "d_queue d0 (mj_id fj) \<noteq> None" "list_all rs_approved ?rs" "length ?rs < unat (events_needed su)"
    using gate_parks [OF assms(1,3,4)] by blast
  then obtain q0 where q0: "d_queue d1 (mj_id fj) = Some q0" by auto
  from park_queue [OF q0 park(7), of E sm job] park(1,7) assms(11)
  obtain q1 where q1: "d_queue d (mj_id fj) = Some q1" "q_suspend q1 = ?n" by auto
  have until: "q_suspend_until q1 \<noteq> None" and same: "d_resume d = d_resume d0" "d_job d = d_job d0"
    using park(1,2) q0 q1(1) by (auto simp: park_def Let_def reset_ping_def update_status_def update_queue_def)
  have "waiting_job (set_module (fs_step (g s)) (WaitingForEvents i k job) (g s)) = Some job" for i k
    by (rule waiting_job_parked) (use needs_resume_step(1) [OF assms(3)] assms(5) park(3,4) in simp_all)
  then have "\<exists>s'. d_status d (mj_id fj) = Some s' \<and> waiting_job s' = Some job"
    using park(1,2) assms(2) q0 by (simp add: park_def Let_def update_queue_def)
  with q1 same assms(6-10) have "parked d job (mj_id fj) ?n" by (auto simp: parked_def)
  from approve_all_parked [OF this order_refl, of C E] assms(12,13) same(1)
  obtain d' where d': "aeach (resume_suspended_job_internal E C) rqs d = (Inr (), d')" "parked d' job (mj_id fj) 0"
      "d_resume d' = d_resume d0 @ map resume_row_of rqs"
      "map_option q_suspend_until (d_queue d' (mj_id fj)) = Some (q_suspend_until q1)"
    using q1(1) by (auto simp: fresh_request_def)
  have "filter (\<lambda>r. rs_job r = job \<or> rs_job r = mj_id fj) (map resume_row_of rqs) = map resume_row_of rqs"
    using assms(12) by (auto simp: filter_id_conv list_all_iff resume_row_of_def)
  then have "resumes_for (mj_id fj) job d' = ?rs @ map resume_row_of rqs" by (simp add: resumes_for_def d'(3))
  then have "can_be_resumed su (resumes_for (mj_id fj) job d')"
    using park(6) assms(11,12) by (auto simp: can_be_resumed_def list_all_iff resume_row_of_def)
  moreover obtain q where "d_queue d' (mj_id fj) = Some q" "can_be_pulled now q"
    using d'(2,4) until by (auto simp: parked_def can_be_pulled_def split: option.splits)
  ultimately show ?thesis using d'(1) by blast
qed

text \<open>The flow of \<open>approval_round\<close>, one approval short, and a request for it signed in some workspace.\<close>

definition approval_world :: db where
  "approval_world = approval_db\<lparr>d_job := [1 \<mapsto> plain_job None, 2 \<mapsto> (plain_job (Some 1))\<lparr>jb_kind := KScript\<rparr>]\<rparr>"

definition approval_parked :: "gate res \<times> db" where
  "approval_parked = resume_gate plain_env approval_job approval_flow approval_status (WaitingForPriorSteps ''b'') JNull None
     approval_world"

definition signed_request :: "string \<Rightarrow> 32 word \<Rightarrow> resume_request" where
  "signed_request w n = \<lparr>rq_workspace = w, rq_job = 2, rq_resume_id = n, rq_approver = Some ''bob'',
     rq_secret = create_signature plain_crypto (''key of '' @ w) 2 n (Some ''bob''), rq_value = None, rq_user = None,
     rq_approved = True\<rparr>"

lemma signed_request_ok: "well_signed plain_crypto (signed_request w n)"
  by (simp add: well_signed_def signed_request_def verify_suspended_secret_def get_workspace_key_def create_signature_def
      plain_crypto_def)

lemma approval_parked_ok: "approval_parked = (Inr (Parked None), snd approval_parked)"
  by (simp add: approval_parked_def approval_world_def approval_example resume_gate_def waits_for_prior_steps_def
      needs_resume_def nth_opt_def unwrap_or_def transaction_def abind_def reads_def gets_def resumes_for_def
      approval_conditions_of_def can_be_resumed_def events_needed_def continues_anyway_def modify_def ret_def aif_def)
theorem approvals_open_gate_witness:
  "\<exists>d' q. aeach (resume_suspended_job_internal plain_env plain_crypto) [signed_request ''dev'' 9] (snd approval_parked) = (Inr (), d') \<and>
    d_queue d' 1 = Some q \<and> can_be_pulled 0 q \<and>
    can_be_resumed (the (fm_suspend (hd (fv_modules approval_flow)))) (resumes_for 1 2 d')"
proof -
  let ?su = "the (fm_suspend (hd (fv_modules approval_flow)))"
  have id: "mj_id approval_job = 1" by (simp add: approval_job_def)
  have gate: "resume_gate plain_env approval_job approval_flow approval_status (WaitingForPriorSteps ''b'') JNull None
      approval_world = (Inr (Parked None), snd approval_parked)"
    using approval_parked_ok by (simp add: approval_parked_def)
  have status: "d_status approval_world (mj_id approval_job) = Some approval_status"
    by (simp add: id approval_world_def approval_db_def)
  have need: "needs_resume approval_flow approval_status = Some (?su, 2)"
    by (simp add: needs_resume_def approval_example nth_opt_def unwrap_or_def)
  have "fresh_request approval_world (signed_request ''dev'' 9)"
    by (simp add: fresh_request_def request_key_def signed_request_def approval_world_def approval_example row_key_def resume_key_def)
  moreover have "unat (events_needed ?su) - length (resumes_for 1 2 approval_world) = 1"
    by (simp add: approval_world_def approval_example events_needed_def resumes_for_def unwrap_or_def)
  moreover have "rq_job (signed_request ''dev'' 9) = 2" "rq_approved (signed_request ''dev'' 9)"
    by (simp_all add: signed_request_def)
  ultimately show ?thesis
    using approvals_open_gate [OF gate status need, where C = plain_crypto and rqs = "[signed_request ''dev'' 9]"
        and r = "(plain_job (Some 1))\<lparr>jb_kind := KScript\<rparr>" and now = 0] signed_request_ok
    by (simp add: id waits_for_prior_steps_def approval_world_def approval_example is_flow_level_def)
qed

text \<open>
  C24: Approvals that overlap are lost. When two requests have both read the state of the
  flow before either has written, both are recorded and the flow needs no further approval,
  but its counter goes down by one only: the second writes the number that it had read, for
  the lock under which it read it is gone. With two approvals missing, the flow is not taken
  up although it could go on, until its time is over.
\<close>

theorem overlapping_approvals_lose_one:
  assumes "parked d job flow n" and "0 < n"
    and "rq_job a = job" "rq_job b = job" "rq_approved a" "rq_approved b" "well_signed C a" "well_signed C b"
    and "fresh_request d a" "fresh_request d b" "request_key a \<noteq> request_key b"
  shows "\<exists>ia ib da db. resume_read C a d = Inr ia \<and> resume_read C b d = Inr ib \<and>
    resume_commit E a ia d = (Inr (), da) \<and> resume_commit E b ib da = (Inr (), db) \<and>
    d_resume db = d_resume d @ [resume_row_of a, resume_row_of b] \<and> parked db job flow (n - 1)"
proof -
  obtain ia sa where a: "resume_read C a d = Inr (ia, False, False)" "in_id ia = flow" "in_suspend ia = n"
      "in_status ia = Some (Classic sa)" "waiting_job sa = Some (rq_job a)"
    using resume_read_parked [OF assms(1,3,7,9)] assms(3) by metis
  obtain ib sb where b: "resume_read C b d = Inr (ib, False, False)" "in_id ib = flow" "in_suspend ib = n"
      "in_status ib = Some (Classic sb)" "waiting_job sb = Some (rq_job b)"
    using resume_read_parked [OF assms(1,4,8,10)] assms(4) by metis
  have q: "d_queue d flow \<noteq> None" using assms(1) by (auto simp: parked_def)
  let ?da = "set_suspend flow (n - 1) (add_resume a d)"
  let ?db = "set_suspend flow (n - 1) (add_resume b ?da)"
  have "resume_commit E a (ia, False, False) d = (Inr (), ?da)"
    using resume_commit_parked [OF a(2,4,5) assms(5,9) q] assms(2) a(3) by simp
  moreover have "fresh_request ?da b"
    using assms(10,11) by (auto simp: fresh_request_def set_suspend_def update_queue_def add_resume_def)
  then have "resume_commit E b (ib, False, False) ?da = (Inr (), ?db)"
    using resume_commit_parked [OF b(2,4,5) assms(6), of ?da E] q assms(2) b(3)
    by (simp add: set_suspend_def update_queue_def add_resume_def)
  moreover have "d_resume ?db = d_resume d @ [resume_row_of a, resume_row_of b]"
    by (simp add: set_suspend_def update_queue_def add_resume_def)
  moreover have "parked ?db job flow (n - 1)"
    using parked_after(1) [OF parked_after(1) [OF assms(1)]] by blast
  ultimately show ?thesis using a(1) b(1) by blast
qed

definition two_missing :: db where
  "two_missing = approval_world\<lparr>d_resume := [], d_queue := [1 \<mapsto> plain_queue\<lparr>q_suspend := 2, q_suspend_until := Some 9\<rparr>],
     d_status := [1 \<mapsto> set_module 1 (WaitingForEvents ''b'' 2 2) approval_status]\<rparr>"

lemma two_missing_parked: "parked two_missing 2 1 2"
  by (simp add: parked_def two_missing_def approval_world_def approval_example is_flow_level_def waiting_job_def
      current_step_def set_module_def jsonb_array_set_def nth_opt_def)

theorem overlapping_approvals_lose_one_witness:
  "\<exists>ia ib da db. resume_read plain_crypto (signed_request ''dev'' 1) two_missing = Inr ia \<and>
    resume_read plain_crypto (signed_request ''dev'' 2) two_missing = Inr ib \<and>
    resume_commit plain_env (signed_request ''dev'' 1) ia two_missing = (Inr (), da) \<and>
    resume_commit plain_env (signed_request ''dev'' 2) ib da = (Inr (), db) \<and>
    d_resume db = [resume_row_of (signed_request ''dev'' 1), resume_row_of (signed_request ''dev'' 2)] \<and> parked db 2 1 1"
proof -
  have fresh: "fresh_request two_missing rq" for rq by (simp add: fresh_request_def two_missing_def)
  have keys: "request_key (signed_request ''dev'' 1) \<noteq> request_key (signed_request ''dev'' 2)"
    by (simp add: request_key_def signed_request_def resume_key_def)
  have "rq_job (signed_request ''dev'' n) = 2" "rq_approved (signed_request ''dev'' n)" for n
    by (simp_all add: signed_request_def)
  then show ?thesis
    using overlapping_approvals_lose_one [OF two_missing_parked, where a = "signed_request ''dev'' 1"
        and b = "signed_request ''dev'' 2" and C = plain_crypto and E = plain_env] signed_request_ok fresh keys
    by (simp add: two_missing_def)
qed
text \<open>
  The other overlap, with the worker that parks the flow: an approval that was read before the
  flow was parked and is written after it is recorded but not counted, so that the flow waits
  for an approval that is there.
\<close>

lemma approval_read_before_parking:
  assumes "parked d (rq_job rq) flow n" and "rq_approved rq" and "fresh_request d rq"
    and "in_id info = flow" and "in_suspend info = 0"
  shows "resume_commit E rq (info, False, False) d = (Inr (), add_resume rq d)" and "parked (add_resume rq d) (rq_job rq) flow n"
  using assms parked_after(2) [OF assms(1)]
  by (auto simp: resume_commit_def transaction_def abind_def insert_resume_job_def updates_def fresh_request_def request_key_def
      resume_immediately_if_relevant_def ret_def add_resume_def resume_row_of_def parked_def)

section \<open>Who approves, and how often\<close>

text \<open>What the conditions of a step ask of a user who is neither administrator nor owner.\<close>

definition meets_conditions :: "env \<Rightarrow> api_authed \<Rightarrow> flow_info \<Rightarrow> approval_conditions option \<Rightarrow> bool" where
  "meets_conditions E u info conditions =
     (case conditions of
        None \<Rightarrow> True
      | Some c \<Rightarrow> \<not> (ac_self_approval_disabled c \<and> Some (au_email u) = in_email info) \<and>
          (\<not> ac_user_auth_required c \<or>
           e_enterprise E \<and> (ac_user_groups_required c = [] \<or> set (ac_user_groups_required c) \<inter> set (au_groups u) \<noteq> {})))"

lemma conditions_met:
  assumes "conditionally_require_authed_user E (Some u) ac (unwrap_or [] (in_email info)) = Inr ()"
    and "\<not> au_is_admin u" and "in_email info \<noteq> None"
  shows "meets_conditions E u info ac"
  using assms
  by (auto simp: conditionally_require_authed_user_def meets_conditions_def list_ex_iff split: if_splits option.splits)

lemma may_approve_user:
  assumes "may_approve E (Some u) info ac = Inr ()" and "in_email info \<noteq> None"
  shows "au_is_admin u \<or> owns_flow u info = Inr True \<or> meets_conditions E u info ac"
  using assms conditions_met [of E u ac info] by (auto simp: may_approve_def result_simps split: if_splits)

text \<open>
  C23: The page of approvals lets a request through only for a job of the workspace, and only
  from a holder of the job's token where no login is asked for, or from a user who is an
  administrator, owns the path of the flow, or meets the conditions of the step: she did not
  start the flow where that is forbidden, and, where a login is asked for (which takes the
  enterprise edition), belongs to one of the groups, if any are named.
\<close>

theorem approval_page_authorised:
  assumes "resume_suspended E C rid user w job payload token approved d = (Inr (), d')"
  shows "\<exists>info rjob wac. get_suspended_flow_info E job d = Inr (info, rjob, wac) \<and>
    map_option jb_workspace (d_job d job) = Some w \<and>
    (case user of
       None \<Rightarrow> (\<exists>t. token = Some t \<and> validate_approval_token C t job w = Inr ()) \<and>
              (case suspended_conditions E info wac of None \<Rightarrow> True | Some c \<Rightarrow> \<not> ac_user_auth_required c)
     | Some u \<Rightarrow> au_is_admin u \<or> owns_flow u info = Inr True \<or> meets_conditions E u info (suspended_conditions E info wac))"
proof -
  obtain info rjob wac where info: "get_suspended_flow_info E job d = Inr (info, rjob, wac)"
    and w: "check_workspace w (in_id info) d = Inr ()"
    and token: "user = None \<Longrightarrow> (\<exists>t. token = Some t \<and> validate_approval_token C t job w = Inr ())"
    and auth: "user = None \<Longrightarrow> (case suspended_conditions E info wac of Some c \<Rightarrow> \<not> ac_user_auth_required c | None \<Rightarrow> True)"
    and may: "may_approve E user info (suspended_conditions E info wac) = Inr ()"
    using assms by (auto simp: resume_suspended_def Let_def act_iffs split: if_splits option.splits)
  have id: "in_id info = job" and email: "in_email info \<noteq> None"
    using info by (auto simp: get_suspended_flow_info_def Let_def split: option.splits if_splits)
  have "map_option jb_workspace (d_job d job) = Some w" using w id by (simp add: check_workspace_def split: if_splits)
  with info token auth may may_approve_user [OF _ email] show ?thesis
    by (cases user) (auto split: option.splits)
qed

definition approver_bob :: api_authed where
  "approver_bob = \<lparr>au_email = ''bob@dev'', au_username = ''bob'', au_is_admin = False, au_is_operator = False, au_groups = [],
     au_folders = [], au_scopes = None, au_username_override = None, au_token_prefix = None\<rparr>"

lemma approval_page_example:
  "fst (resume_suspended plain_env plain_crypto 5 (Some approver_bob) ''w'' 1 None None None two_missing) = Inr ()"
  by code_simp

theorem approval_page_authorised_witness:
  "\<exists>info rjob wac. get_suspended_flow_info plain_env 1 two_missing = Inr (info, rjob, wac) \<and>
    map_option jb_workspace (d_job two_missing 1) = Some ''w'' \<and>
    (au_is_admin approver_bob \<or> owns_flow approver_bob info = Inr True \<or>
     meets_conditions plain_env approver_bob info (suspended_conditions plain_env info wac))"
proof -
  obtain d' where "resume_suspended plain_env plain_crypto 5 (Some approver_bob) ''w'' 1 None None None two_missing = (Inr (), d')"
    using approval_page_example by (metis prod.collapse)
  from approval_page_authorised [OF this] show ?thesis by (simp only: option.case)
qed

definition keys_distinct :: "db \<Rightarrow> bool" where
  "keys_distinct d \<longleftrightarrow> distinct (map row_key (d_resume d))"

definition keeps_keys :: "db \<Rightarrow> db \<Rightarrow> bool" where
  "keeps_keys d d' \<longleftrightarrow> (keys_distinct d \<longrightarrow> keys_distinct d')"

interpretation keeps_keys: db_frame keeps_keys
  by unfold_locales (auto simp: keeps_keys_def keys_distinct_def)

lemma keys_updates [keeps_intros]:
  "keeps_keys d (set_suspend j n d)" "keeps_keys d (update_queue j f d)"
  by (simp_all add: keeps_keys_def keys_distinct_def set_suspend_def update_queue_def)

lemma keys_insert [keeps_intros]: "keeps keeps_keys (insert_resume_job rid job info v approver approved)"
  unfolding insert_resume_job_def
  by (rule keeps_keys.keeps_updates)
    (auto simp: keeps_keys_def keys_distinct_def row_key_def resume_key_def image_iff split: if_splits)

lemma keys_resumes [keeps_intros]:
  "keeps keeps_keys (resume_wac info)" "keeps keeps_keys (resume_immediately_for_flow_level info)"
  "keeps keeps_keys (resume_immediately_if_relevant E info job)"
  by (auto simp: resume_wac_def resume_immediately_for_flow_level_def resume_immediately_if_relevant_def
      intro!: keeps_intros split: option.split)

lemma keys_commit [keeps_intros]: "keeps keeps_keys (resume_commit E rq x)"
  by (cases x) (auto simp: resume_commit_def intro!: keeps_intros)

text \<open>
  No request is recorded twice: whichever requests arrive, by link, by an owner or from
  the page, and whether they succeed or fail, the rows of \<open>resume_job\<close> keep distinct keys, so
  that each pair of a step and a number counts at most once.
\<close>

lemma resume_requests_recorded_once:
  assumes "keys_distinct d"
  shows "keys_distinct (snd (resume_suspended_job_internal E C rq d)) \<and>
    keys_distinct (snd (resume_suspended_flow_as_owner E u w flow v d)) \<and>
    keys_distinct (snd (resume_suspended E C rid user w job payload token approved d))"
proof -
  have "keeps keeps_keys (resume_suspended_job_internal E C rq)"
    unfolding resume_suspended_job_internal_def by (intro keeps_intros)
  moreover have "keeps keeps_keys (resume_suspended_flow_as_owner E u w flow v)"
    unfolding resume_suspended_flow_as_owner_def Let_def by (auto intro!: keeps_intros split: prod.split)
  moreover have "keeps keeps_keys (resume_suspended E C rid user w job payload token approved)"
    unfolding resume_suspended_def Let_def by (auto intro!: keeps_intros split: prod.split)
  ultimately show ?thesis using assms by (auto simp: keeps_def keeps_keys_def)
qed

text \<open>
  The owner of a flow can approve a step once: the number of her request is always 0, and the
  second is refused whoever sends it.
\<close>

lemma owner_approves_once:
  "fst (resume_suspended_flow_as_owner plain_env (approver_bob\<lparr>au_is_admin := True\<rparr>) ''w'' 1 None two_missing) = Inr ()"
  "fst (resume_suspended_flow_as_owner plain_env (approver_bob\<lparr>au_is_admin := True\<rparr>) ''w'' 1 None
     (snd (resume_suspended_flow_as_owner plain_env (approver_bob\<lparr>au_is_admin := True\<rparr>) ''w'' 1 None two_missing))) =
   Inl (SqlErr ''duplicate key value'')"
  by code_simp+

text \<open>A link signed in any workspace resumes a flow of any other: the job's workspace is not looked at.\<close>

lemma foreign_signature_accepted:
  "map_option jb_workspace (d_job two_missing 1) = Some ''w''"
  "fst (resume_suspended_job_internal plain_env plain_crypto (signed_request ''other'' 1) two_missing) = Inr ()"
proof -
  show "map_option jb_workspace (d_job two_missing 1) = Some ''w''" by code_simp
  have "rq_job (signed_request ''other'' 1) = 2" "rq_approved (signed_request ''other'' 1)"
    "fresh_request two_missing (signed_request ''other'' 1)"
    by (simp_all add: signed_request_def fresh_request_def two_missing_def)
  from approve_parked [OF two_missing_parked this(1) signed_request_ok this(2,3), of plain_env]
  show "fst (resume_suspended_job_internal plain_env plain_crypto (signed_request ''other'' 1) two_missing) = Inr ()" by auto
qed

end
