(* ===== verification/ResultProcessor.thy ===== *)
theory ResultProcessor
  imports FlowCompletion ParallelStart
begin

text \<open>
  The result processor of a worker (\<open>windmill-worker/src/result_processor.rs\<close>) and the loop over
  the flows above a job (\<open>update_flow_status_after_job_completion\<close> of \<open>worker_flow.rs\<close>): a job that
  has run is completed, the flow it is a step of is updated, and a flow that ends by this is
  reported to the flow above it. An error on the way completes the job, or the flow, as failed.
\<close>

section \<open>The loop over the parents\<close>

text \<open>
  One turn: when the update of the flow fails, it is repeated once with the error as the
  result of the job, as unrecoverable.
\<close>

definition failed_update :: "env \<Rightarrow> wm_error \<Rightarrow> completion \<Rightarrow> completion" where
  "failed_update E e c = c\<lparr>c_success := False, c_canceled_by := None, c_result := JObj [(''error'', JStr (e_show_err E e))]\<rparr>"

definition update_turn :: "env \<Rightarrow> handler \<Rightarrow> string \<Rightarrow> completion \<Rightarrow> bool \<Rightarrow> update_result act" where
  "update_turn E handle w c unrecoverable =
     abind (attempt (update_internal E handle w c unrecoverable)) (\<lambda>r.
     case r of
       Inr x \<Rightarrow> ret x
     | Inl e \<Rightarrow> update_internal E handle w (failed_update E e c) True)"

text \<open>The loop, with fuel; \<open>None\<close> is a loop that has not ended.\<close>

fun update_loop :: "nat \<Rightarrow> env \<Rightarrow> handler \<Rightarrow> string \<Rightarrow> completion \<Rightarrow> bool \<Rightarrow> mini_job option option act" where
  "update_loop 0 E handle w c unrecoverable = ret None"
| "update_loop (Suc n) E handle w c unrecoverable =
     abind (update_turn E handle w c unrecoverable) (\<lambda>r.
     case r of
       Done j \<Rightarrow> ret (Some (Some j))
     | Rec c' \<Rightarrow> update_loop n E handle w c' False
     | NonLastParallelBranch \<Rightarrow> ret (Some None)
     | NotDone \<Rightarrow> ret (Some None)
     | PreprocessingDone \<Rightarrow> ret (Some None))"

text \<open>The caller of the loop; the fuel also bounds the rounds of \<open>handle_flow\<close>, of which two are enough.\<close>

record update_request =
  ur_flow :: uuid
  ur_job :: uuid
  ur_workspace :: string
  ur_success :: bool
  ur_canceled_by :: "(string option \<times> string option) option"
  ur_result :: json
  ur_duration :: "flow_job_duration option"
  ur_unrecoverable :: bool
  ur_stop_early_override :: "bool option"
  ur_runners :: "uuid option"

definition first_completion :: "update_request \<Rightarrow> completion" where
  "first_completion u =
     \<lparr>c_flow = ur_flow u, c_job = ur_job u, c_success = ur_success u, c_result = ur_result u, c_canceled_by = ur_canceled_by u,
      c_duration = ur_duration u, c_stop_early_override = ur_stop_early_override u, c_error_handler = False\<rparr>"

definition update_flow_status_after_job_completion :: "nat \<Rightarrow> env \<Rightarrow> update_request \<Rightarrow> mini_job option act" where
  "update_flow_status_after_job_completion n E u =
     abind (update_loop n E (handle_flow n E (ur_runners u)) (ur_workspace u) (first_completion u) (ur_unrecoverable u)) (\<lambda>r.
     lift_res (ok_or (InternalErr ''the loop over the parents has not ended'') r))"

section \<open>A job that has run\<close>

record job_completed =
  jc_job :: mini_job
  jc_success :: bool
  jc_result :: json
  jc_cached :: bool \<comment> \<open>\<open>cached_res_path\<close> is given\<close>
  jc_canceled_by :: "(string option \<times> string option) option"
  jc_duration :: "int option"
  jc_preprocessed_args :: "args option"
  jc_from_cache :: bool
  jc_runners :: "uuid option"

definition update_job :: "uuid \<Rightarrow> (job_row \<Rightarrow> job_row) \<Rightarrow> db \<Rightarrow> db" where
  "update_job j f d = d\<lparr>d_job := (d_job d)(j := map_option f (d_job d j))\<rparr>"

text \<open>The arguments of a preprocessor are dropped; those a preprocessor computed replace the script's own.\<close>

definition discard_args :: "job_row \<Rightarrow> job_row" where
  "discard_args r =
     (if jb_preprocessed r = Some False
      then r\<lparr>jb_args := Some [(''reason'', JStr ''PREPROCESSOR_ARGS_ARE_DISCARDED'')], jb_preprocessed := Some True\<rparr> else r)"

definition store_preprocessed :: "job_completed \<Rightarrow> db \<Rightarrow> db" where
  "store_preprocessed jc =
     (let j = jc_job jc in
      if jb_step_id (mj_job j) = Some ''preprocessor'' then update_job (mj_id j) discard_args
      else case jc_preprocessed_args jc of
        Some a \<Rightarrow> update_job (mj_id j) (\<lambda>r. r\<lparr>jb_args := Some a, jb_preprocessed := Some True\<rparr>)
      | None \<Rightarrow> id)"

definition request_of :: "mini_job \<Rightarrow> uuid \<Rightarrow> bool \<Rightarrow> (string option \<times> string option) option \<Rightarrow> json \<Rightarrow>
    flow_job_duration option \<Rightarrow> uuid option \<Rightarrow> update_request" where
  "request_of j p success canceled_by result dur runners =
     \<lparr>ur_flow = p, ur_job = mj_id j, ur_workspace = jb_workspace (mj_job j), ur_success = success, ur_canceled_by = canceled_by,
      ur_result = result, ur_duration = dur, ur_unrecoverable = False, ur_stop_early_override = None, ur_runners = runners\<rparr>"

definition process_success :: "nat \<Rightarrow> env \<Rightarrow> job_completed \<Rightarrow> mini_job option act" where
  "process_success n E jc =
     (let j = jc_job jc; result = jc_result jc in
      abind (aif (jc_cached jc) (modify (\<lambda>d. d\<lparr>d_cache := d_cache d @ [(mj_id j, result)]\<rparr>))) (\<lambda>_.
      abind (modify (store_preprocessed jc)) (\<lambda>_.
      abind (add_completed_job E j True False result (jc_canceled_by jc) (jc_duration jc) (jc_from_cache jc)) (\<lambda>(duration, job_ids).
      case (is_flow_step j, jb_parent (mj_job j), job_ids) of
        (True, Some p, _) \<Rightarrow>
          update_flow_status_after_job_completion n E (request_of j p True (jc_canceled_by jc) result
            (map_option (\<lambda>t. \<lparr>fjd_started_at = t, fjd_duration_ms = duration\<rparr>) (q_started_at (mj_q j))) (jc_runners jc))
      | (False, Some p, Some ids) \<Rightarrow>
          abind (attempt (handle_wac_child_completion E (mj_id j) p (jb_workspace (mj_job j)) result True ids)) (\<lambda>_. ret None)
      | _ \<Rightarrow> ret None))))"

definition pending_job_ids :: "uuid \<Rightarrow> db \<Rightarrow> json option" where
  "pending_job_ids p d =
     Option.bind (d_wac d p) (\<lambda>fs. json_get ''job_ids'' (json_get ''pending_steps'' (get_field ''_checkpoint'' fs)))"

definition process_failure :: "nat \<Rightarrow> env \<Rightarrow> job_completed \<Rightarrow> mini_job option act" where
  "process_failure n E jc =
     (let j = jc_job jc in
      abind (add_completed_job_error E j (jc_canceled_by jc) (jc_result jc)) (\<lambda>result.
      case (is_flow_step j, jb_parent (mj_job j)) of
        (True, Some p) \<Rightarrow>
          update_flow_status_after_job_completion n E (request_of j p False (jc_canceled_by jc) result
            (Option.bind (jc_duration jc) (\<lambda>dur.
               map_option (\<lambda>t. \<lparr>fjd_started_at = t, fjd_duration_ms = dur\<rparr>) (q_started_at (mj_q j)))) (jc_runners jc))
      | (False, Some p) \<Rightarrow>
          abind (gets (pending_job_ids p)) (\<lambda>ids.
          case ids of
            Some ids \<Rightarrow>
              abind (attempt (handle_wac_child_completion E (mj_id j) p (jb_workspace (mj_job j)) result False ids)) (\<lambda>_. ret None)
          | None \<Rightarrow> ret None)
      | _ \<Rightarrow> ret None))"

definition process_completed_job :: "nat \<Rightarrow> env \<Rightarrow> job_completed \<Rightarrow> mini_job option act" where
  "process_completed_job n E jc = (if jc_success jc then process_success n E jc else process_failure n E jc)"

section \<open>Errors\<close>

text \<open>\<open>error_to_value\<close>, with the names of the variants the model tells apart.\<close>

fun error_name :: "wm_error \<Rightarrow> string" where
  "error_name (ExecutionErr _) = ''ExecutionErr''"
| "error_name (BadRequest m) = (if m = ''ResultTooLarge'' \<or> m = ''AlreadyCompleted'' then m else ''BadRequest'')"
| "error_name (NotAuthorized _) = ''NotAuthorized''"
| "error_name (PermissionDenied _) = ''PermissionDenied''"
| "error_name (NotFound _) = ''NotFound''"
| "error_name (QuotaExceeded _) = ''QuotaExceeded''"
| "error_name (SqlErr _) = ''SqlErr''"
| "error_name (WacSuspended _) = ''WacSuspended''"
| "error_name (MissingField _) = ''SerdeJson''"
| "error_name (UnknownVariant _) = ''SerdeJson''"
| "error_name (InvalidType _) = ''SerdeJson''"
| "error_name (InternalErr _) = ''InternalErr''"
| "error_name (Panic _) = ''InternalErr''"

definition error_to_value :: "env \<Rightarrow> wm_error \<Rightarrow> json" where
  "error_to_value E e = JObj [(''message'', JStr (e_show_err E e)), (''name'', JStr (error_name e))]"

definition handle_non_flow_job_error ::
  "env \<Rightarrow> mini_job \<Rightarrow> (string option \<times> string option) option \<Rightarrow> string \<Rightarrow> json \<Rightarrow> json act" where
  "handle_non_flow_job_error E j canceled_by err_string err_json =
     abind (modify (append_logs (mj_id j) (''Unexpected error during job execution:'' @ [CHR 0x0A] @ err_string))) (\<lambda>_.
     add_completed_job_error E j canceled_by err_json)"

text \<open>When even the update of the flow with the error fails, the flow itself is completed as failed.\<close>

definition fail_parent ::
  "env \<Rightarrow> mini_job \<Rightarrow> (string option \<times> string option) option \<Rightarrow> wm_error \<Rightarrow> unit act" where
  "fail_parent E j canceled_by e =
     (case jb_parent (mj_job j) of
        None \<Rightarrow> ret ()
      | Some p \<Rightarrow>
          abind (gets (get_mini_completed_job p (jb_workspace (mj_job j)))) (\<lambda>m.
          case m of
            None \<Rightarrow> ret ()
          | Some pj \<Rightarrow>
              abind (modify (append_logs (mj_id pj)
                (''Unexpected error during flow job error handling:'' @ [CHR 0x0A] @ e_show_err E e))) (\<lambda>_.
              abind (attempt (add_completed_job_error E pj canceled_by
                (JObj [(''message'', JStr (e_show_err E e)), (''name'', JStr ''InternalErr'')]))) (\<lambda>_. ret ()))))"

definition handle_job_error ::
  "nat \<Rightarrow> env \<Rightarrow> mini_job \<Rightarrow> (string option \<times> string option) option \<Rightarrow> wm_error \<Rightarrow> bool \<Rightarrow> unit act" where
  "handle_job_error n E j canceled_by err unrecoverable =
     (let err_json = error_to_value E err;
          update_job = attempt (handle_non_flow_job_error E j canceled_by (error_name err @ '': '' @ e_show_err E err) err_json) in
      if is_flow_step j \<or> kind_is_flow (jb_kind (mj_job j)) then
        abind (case jb_parent (mj_job j) of
                 Some p \<Rightarrow> abind update_job (\<lambda>_. ret (p, mj_id j))
               | None \<Rightarrow> ret (mj_id j, uuid_nil)) (\<lambda>(flow, job).
        abind (attempt (update_flow_status_after_job_completion n E
          \<lparr>ur_flow = flow, ur_job = job, ur_workspace = jb_workspace (mj_job j), ur_success = False, ur_canceled_by = canceled_by,
           ur_result = JObj [(''error'', err_json)], ur_duration = None, ur_unrecoverable = unrecoverable,
           ur_stop_early_override = None, ur_runners = None\<rparr>)) (\<lambda>r.
        case r of
          Inl e \<Rightarrow> fail_parent E j canceled_by e
        | Inr _ \<Rightarrow> ret ()))
      else abind update_job (\<lambda>_. ret ()))"

definition handle_receive_completed_job :: "nat \<Rightarrow> env \<Rightarrow> job_completed \<Rightarrow> mini_job option act" where
  "handle_receive_completed_job n E jc =
     abind (attempt (process_completed_job n E jc)) (\<lambda>r.
     case r of
       Inl err \<Rightarrow> abind (handle_job_error n E (jc_job jc) (jc_canceled_by jc) err False) (\<lambda>_. ret None)
     | Inr r \<Rightarrow> ret r)"

text \<open>The message \<open>UpdateFlow\<close>, of a flow that ended without a job of it having ended.\<close>

definition handle_update_flow :: "nat \<Rightarrow> env \<Rightarrow> update_flow \<Rightarrow> unit act" where
  "handle_update_flow n E u =
     abind (attempt (update_flow_status_after_job_completion n E
       \<lparr>ur_flow = uf_flow u, ur_job = uuid_nil, ur_workspace = uf_workspace u, ur_success = uf_success u, ur_canceled_by = None,
        ur_result = uf_result u, ur_duration = None, ur_unrecoverable = True,
        ur_stop_early_override = uf_stop_early_override u, ur_runners = None\<rparr>)) (\<lambda>_. ret ())"

end
