(* ===== verification/Evolution.thy ===== *)
theory Evolution
  imports ResultProcessor Approvals
begin

text \<open>
  The loop over the flows above a job ends: no operation of the engine changes the parent of a
  job, and every turn of the loop goes to the parent of the flow of the turn before.
\<close>

section \<open>The parent of a job does not change\<close>

definition evolves :: "db \<Rightarrow> db \<Rightarrow> bool" where
  "evolves d d' \<longleftrightarrow> (\<forall>j r. d_job d j = Some r \<longrightarrow>
     (\<exists>r'. d_job d' j = Some r' \<and> jb_parent r' = jb_parent r) \<and>
     (d_queue d j = None \<longrightarrow> d_queue d' j = None) \<and> (d_completed d j \<noteq> None \<longrightarrow> d_completed d' j \<noteq> None))"

interpretation evolves: db_frame evolves
  by unfold_locales (auto simp: evolves_def, metis+)

lemma same_jobs_evolves: "same_jobs d d' \<Longrightarrow> evolves d d'"
  by (simp add: same_jobs_def evolves_def)

lemma keeps_jobs_evolves: "keeps same_jobs m \<Longrightarrow> keeps evolves m"
  by (simp add: keeps_def same_jobs_evolves)

text \<open>What the scheduling of the next tick must not touch: the parents of the jobs there are.\<close>

definition schedule_evolves :: "env \<Rightarrow> bool" where
  "schedule_evolves E \<longleftrightarrow> (\<forall>j d d'. e_try_schedule E j d = Inr d' \<longrightarrow> evolves d d')"

subsection \<open>The completion of a job\<close>

lemma add_labels_evolves [keeps_intros]: "evolves d (add_labels j ls d)"
  by (simp add: evolves_def add_labels_def)

lemma insert_completed_evolves: "insert_completed now j s k r cb dur d = Inr (n, d') \<Longrightarrow> evolves d d'"
  by (auto simp: insert_completed_def Let_def evolves_def split: option.splits)

lemma delete_job_evolves [keeps_intros]: "evolves d (delete_job j d)"
  by (simp add: evolves_def delete_job_def)

lemma queue_ops_jobs [keeps_intros]:
  "same_jobs d (touch_parent E m d)" "same_jobs d (release_concurrency E m d)"
  "same_jobs d (insert_concurrency_key E w a p k c j d)"
  by (auto simp: same_jobs_def touch_parent_def release_concurrency_def Let_def split: option.split bool.split)

lemma notify_wac_parent_evolves [keeps_intros]: "keeps evolves (notify_wac_parent E j n)"
  by (auto simp: keeps_def notify_wac_parent_def Let_def evolves_def split: option.split bool.split)

lemma check_result_size_jobs [keeps_intros]: "keeps same_jobs (check_result_size E j out)"
  by (auto simp: check_result_size_def Let_def intro!: keeps_intros)

lemma handle_schedule_evolves:
  "schedule_evolves E \<Longrightarrow> keeps evolves (handle_schedule E j fc s)"
  by (auto simp: keeps_def handle_schedule_def schedule_evolves_def evolves.frame_refl
      split: option.split bool.split sum.split)

lemma commit_evolves:
  assumes "schedule_evolves E"
  shows "keeps evolves (commit_completed_job E j s k out cb dur fc)"
  unfolding commit_completed_job_def
  by (auto intro!: keeps_intros handle_schedule_evolves assms evolves.keeps_updates
      intro: keeps_jobs_evolves same_jobs_evolves insert_completed_evolves split: option.split)

lemma push_evolves: "keeps evolves (push E r)"
proof -
  have "evolves d (snd (push E r d))" for d
  proof (cases "push E r d")
    case (Pair x d')
    show ?thesis
    proof (cases x)
      case (Inr j)
      with Pair have p: "push E r d = (Inr j, d')" by simp
      have "evolves d d'"
        unfolding evolves_def using queue.push_keeps_row [OF p] queue.push_keeps_queue [OF p] queue.push_completed [OF p] by metis
      with Pair show ?thesis by simp
    next
      case (Inl e)
      with Pair show ?thesis
        by (auto simp: push_def abind_def reads_def lift_res_def aif_def modify_def ret_def evolves_def
            split: sum.splits prod.splits if_splits)
    qed
  qed
  then show ?thesis by (simp add: keeps_def)
qed

lemma add_completed_output_evolves:
  assumes "schedule_evolves E"
  shows "keeps evolves (add_completed_output E j s k out cb dur fc)"
  unfolding add_completed_output_def restart_job_if_perpetual_def
  by (auto intro!: keeps_intros commit_evolves assms push_evolves split: bool.split option.split job_kind.split)

lemma add_completed_evolves:
  assumes "schedule_evolves E"
  shows "keeps evolves (add_completed_job E j s k result cb dur fc)"
    and "keeps evolves (add_completed_job_error E j cb e)"
  unfolding add_completed_job_def add_completed_job_error_def
  by (auto intro!: keeps_intros add_completed_output_evolves assms)

lemma update_wac_jobs [keeps_intros]: "same_jobs d (update_wac j f d)" "same_jobs d (decrement_suspend p d)"
  by (auto simp: update_wac_def decrement_suspend_def same_jobs_def update_queue_def)

lemma store_completed_step_jobs [keeps_intros]: "keeps same_jobs (store_completed_step p k v)"
  by (auto simp: keeps_def store_completed_step_def same_jobs_def split: option.split sum.split)

lemma record_child_jobs [keeps_intros]: "keeps same_jobs (record_child p k v)"
  unfolding record_child_def by (auto intro!: keeps_intros)

lemma wac_child_evolves:
  assumes "schedule_evolves E"
  shows "keeps evolves (handle_wac_child_completion E child p w result success ids)"
  unfolding handle_wac_child_completion_def fail_wac_parent_def
  by (auto intro!: keeps_intros add_completed_evolves assms intro: keeps_jobs_evolves same_jobs_evolves keeps_intros
      split: json.split option.split)

lemma report_to_wac_parent_evolves:
  assumes "schedule_evolves E"
  shows "keeps evolves (report_to_wac_parent E j result success ids)"
  unfolding report_to_wac_parent_def
  by (auto intro!: keeps_intros wac_child_evolves assms split: bool.split option.split)

subsection \<open>The update of a flow\<close>

lemma stop_early_decision_jobs [keeps_intros]: "keeps same_jobs (stop_early_decision E w c si)"
proof -
  have "keeps same_jobs (eval_stop_after_if E w c si m)" for m
    unfolding eval_stop_after_if_def
    by (auto intro!: keeps_intros split: option.split)
      (auto simp: keeps_def same_jobs.frame_refl append_logs_frames split: sum.split)
  then show ?thesis
    unfolding stop_early_decision_def Let_def by (auto intro!: keeps_intros split: option.split prod.split)
qed

lemma bump_counter_jobs [keeps_intros]: "keeps same_jobs (bump_counter flow step f)"
  unfolding bump_counter_def
  by (rule same_jobs.keeps_updates) (auto simp: update_status_frames split: option.splits)

lemma process_module_status_jobs [keeps_intros]: "keeps same_jobs (process_module_status E w c si cont de)"
proof -
  have fin: "keeps same_jobs (finish_parallel E w c si p jobs de)" for p jobs
    by (auto simp: keeps_def finish_parallel_def Let_def same_jobs_def split: sum.split)
  have adv: "keeps same_jobs (advance_parallel c (si_old si) p info jobs)" for p info jobs
    unfolding advance_parallel_def Let_def by (auto intro!: keeps_intros split: option.split)
  have "same_jobs d (set_success_and_duration c (si_old si) info d)" for info d
    by (auto simp: set_success_and_duration_def same_jobs.frame_refl intro: keeps_intros split: option.split)
  then show ?thesis
    unfolding process_module_status_def process_parallel_def
    by (auto intro!: keeps_intros fin adv split: flow_status_module.split option.split bool.split)
qed

lemma store_outcome_jobs [keeps_intros]: "keeps same_jobs (store_outcome w c si inc new de)"
proof -
  have "same_jobs d (store_module flow si m d)" for flow m d
    by (auto simp: store_module_def set_leaf_job_def Let_def update_status_def same_jobs_def split: option.split)
  then show ?thesis
    unfolding store_outcome_def Let_def by (auto intro!: keeps_intros split: option.split)
qed

lemma completion_tx_jobs [keeps_intros]: "keeps same_jobs (completion_tx E w c si cont de)"
  unfolding completion_tx_def by (auto intro!: keeps_intros split: processed.split)

lemma non_last_parallel_jobs [keeps_intros]: "same_jobs d (non_last_parallel w c si n d)"
  by (auto simp: non_last_parallel_def resume_waiting_def Let_def same_jobs_def split: option.split)

lemma finish_preprocessing_evolves [keeps_intros]: "keeps evolves (finish_preprocessing E c f fj)"
proof -
  have "evolves d (requeue_preprocessed job flow tag limit window settings d)" for job flow tag limit window settings d
    by (auto simp: requeue_preprocessed_def Let_def update_queue_def evolves_def split: option.split)
  then show ?thesis
    unfolding finish_preprocessing_def Let_def
    by (auto intro!: keeps_intros intro: same_jobs_evolves keeps_intros)
qed

lemma cleanup_flow_evolves [keeps_intros]: "evolves d (cleanup_flow E fj f cm d)"
proof -
  have clear: "evolves d (clear_jobs P d)" for P d by (auto simp: clear_jobs_def evolves_def)
  have sched: "same_jobs d (fold (\<lambda>e. schedule_job_deletion E (fjs_id e) (fjs_delete_after_secs e)) es d)" for es d
    by (rule same_jobs.frame_fold) (simp add: schedule_job_deletion_def same_jobs_def)
  have last: "evolves d (clear_logs P (clear_jobs P d))" "evolves d (schedule_deletions E P n d)" for P n d
    by (auto simp: clear_jobs_def clear_logs_def schedule_deletions_def evolves_def)
  let ?d2 = "fold (\<lambda>e. schedule_job_deletion E (fjs_id e) (fjs_delete_after_secs e)) (flow_jobs_to_schedule_clean cm)
    (clear_jobs (\<lambda>i. i \<in> set (flow_jobs_to_clean cm)) d)"
  have "evolves d ?d2" by (rule evolves.frame_trans [OF clear same_jobs_evolves [OF sched]])
  moreover from this have "evolves d (clear_logs P (clear_jobs P ?d2))" "evolves d (schedule_deletions E P n ?d2)" for P n
    by (blast intro: evolves.frame_trans [OF _ last(1)], blast intro: evolves.frame_trans [OF _ last(2)])
  ultimately show ?thesis
    unfolding cleanup_flow_def Let_def
    by (auto simp: evolves.frame_refl intro: same_jobs_evolves keeps_intros split: option.split)
qed

lemma complete_flow_evolves:
  assumes "schedule_evolves E"
  shows "keeps evolves (complete_flow E c si fj de nresult)"
proof -
  have "evolves d (add_tool_message E job s k ai result chat cv d)" for job s k ai result chat cv d
    by (auto simp: add_tool_message_def evolves_def split: option.split)
  then show ?thesis
    unfolding complete_flow_def Let_def
    by (auto intro!: keeps_intros add_completed_evolves report_to_wac_parent_evolves assms)
      (simp_all add: evolves_def)
qed

lemma update_from_snapshot_evolves:
  assumes "schedule_evolves E" and "\<And>fj f v. keeps evolves (handle fj f v)"
  shows "keeps evolves (update_from_snapshot E handle w c unrecoverable si)"
  unfolding update_from_snapshot_def after_completion_def [abs_def] Let_def
  by (auto intro!: evolves.keeps_abind evolves.keeps_pure evolves.keeps_modify evolves.keeps_attempt
        add_completed_evolves complete_flow_evolves finish_preprocessing_evolves cleanup_flow_evolves assms
        same_jobs_evolves [OF append_logs_frames(1)] same_jobs_evolves [OF non_last_parallel_jobs]
        keeps_jobs_evolves [OF stop_early_decision_jobs] keeps_jobs_evolves [OF completion_tx_jobs] split: sum.split prod.split)

lemma update_internal_evolves:
  assumes "schedule_evolves E" and "\<And>fj f v. keeps evolves (handle fj f v)"
  shows "keeps evolves (update_internal E handle w c unrecoverable)"
  unfolding update_internal_def
  by (intro evolves.keeps_abind evolves.keeps_pure update_from_snapshot_evolves assms)

subsection \<open>The next step of a flow\<close>

lemma new_status_jobs [keeps_intros]: "keeps same_jobs (new_status E flow i next js)"
proof -
  have "keeps same_jobs (write_itered E flow xs)" for xs by (auto simp: keeps_def write_itered_def same_jobs_def)
  then show ?thesis unfolding new_status_def by (auto intro!: keeps_intros split: next_status.split)
qed

lemma send_same_worker_jobs [keeps_intros]: "keeps same_jobs (send_same_worker E flow pl ro runners js)"
  unfolding send_same_worker_def by (auto intro!: keeps_intros simp: same_jobs_def)

lemma round_jobs [keeps_intros]:
  "keeps same_jobs (first_step_checks E fj f flow_env st)"
  "keeps same_jobs (retry_or_fail_over E fj f v flow_env pl)"
  "keeps same_jobs (skip_empty_inner flow pl chosen)"
proof -
  have "keeps same_jobs (check_skip_expr E fj f flow_env)"
    by (auto simp: keeps_def check_skip_expr_def same_jobs.frame_refl append_logs_frames split: option.split sum.split)
  then show "keeps same_jobs (first_step_checks E fj f flow_env st)"
    unfolding first_step_checks_def by (auto intro!: keeps_intros)
  show "keeps same_jobs (retry_or_fail_over E fj f v flow_env pl)"
    unfolding retry_or_fail_over_def retry_step_def run_error_handler_def Let_def
    by (auto intro!: keeps_intros split: option.split)
  show "keeps same_jobs (skip_empty_inner flow pl chosen)"
    unfolding skip_empty_inner_def by (auto intro!: keeps_intros)
qed

lemma push_child_evolves: "keeps evolves (push_child E pc pl ro nargs next i p)"
proof -
  have "push_child E pc pl ro nargs next i p =
    abind (modify (keep_alive E (mj_id (pc_job pc)) i)) (\<lambda>_.
    abind (reads (child_args E pc nargs next i)) (\<lambda>a.
    abind (lift_res (check_tag E (pc_job pc)
             (case jp_on_behalf_of p of Some (email, _) \<Rightarrow> email | None \<Rightarrow> jb_email (mj_job (pc_job pc)))
             (child_tag (pc_job pc) (pl_step pl) p))) (\<lambda>_.
    abind (reads (child_timeout E pc pl p)) (\<lambda>timeout.
    abind (push E (child_request pc pl ro p a timeout)) (after_push E pc pl ro i p)))))"
    by (simp add: push_child_def after_push_def [abs_def])
  then show ?thesis
    by (auto intro!: evolves.keeps_abind evolves.keeps_pure evolves.keeps_modify push_evolves
        keeps_jobs_evolves [OF after_push_frames(1)] same_jobs_evolves [OF keep_alive_frames(1)])
qed

lemma push_tx_evolves: "keeps evolves (push_tx E pc pl ro nargs next ps)"
proof -
  have "keeps evolves (push_children E pc pl ro nargs next i ps)" for i
    by (induction ps arbitrary: i) (auto intro!: evolves.keeps_abind evolves.keeps_pure push_child_evolves)
  then show ?thesis
    unfolding push_tx_def Let_def
    by (auto intro!: evolves.keeps_transaction evolves.keeps_abind evolves.keeps_modify evolves.keeps_pure
        keeps_jobs_evolves [OF new_status_jobs] intro: same_jobs_evolves keeps_intros)
qed

lemma push_jobs_evolves: "keeps evolves (push_jobs E runners pc pl)"
proof -
  have "keeps evolves (run_transform E runners pc pl nargs t)" for nargs t
    unfolding run_transform_def Let_def
    by (auto intro!: evolves.keeps_abind evolves.keeps_pure push_tx_evolves
        keeps_jobs_evolves [OF send_same_worker_jobs] keeps_jobs_evolves [OF round_jobs(3)] split: next_flow_transform.split)
  then show ?thesis
    unfolding push_jobs_def
    by (auto intro!: evolves.keeps_abind evolves.keeps_pure
        keeps_jobs_evolves [OF skip_if_jobs] keeps_jobs_evolves [OF compute_next_jobs])
qed

lemma push_next_flow_job_evolves: "keeps evolves (push_next_flow_job E runners fj f flow_env v s)"
  unfolding push_next_flow_job_def after_checks_def [abs_def] after_gate_def [abs_def] push_step_def Let_def
  by (auto intro!: evolves.keeps_abind evolves.keeps_pure push_jobs_evolves
      keeps_jobs_evolves [OF round_jobs(1)] keeps_jobs_evolves [OF round_jobs(2)] keeps_jobs_evolves [OF gate_jobs]
      split: option.split gate.split)

lemma handle_flow_evolves:
  assumes "schedule_evolves E"
  shows "keeps evolves (handle_flow n E runners fj f v)"
proof -
  have rounds: "keeps evolves (push_rounds n E runners fj f flow_env v s)" for flow_env s
    by (induction n arbitrary: s)
      (auto intro!: evolves.keeps_abind evolves.keeps_pure push_next_flow_job_evolves split: pushed.split)
  have "evolves d (schedule_flow E fj s d)" for s d
    using assms by (auto simp: schedule_flow_def schedule_evolves_def evolves.frame_refl
        split: option.split bool.split sum.split)
  with rounds show ?thesis
    unfolding handle_flow_def
    by (auto intro!: evolves.keeps_abind evolves.keeps_pure evolves.keeps_modify split: option.split)
      (simp add: evolves_def)
qed

section \<open>Every turn goes to the parent\<close>

lemma store_outcome_flow:
  assumes "store_outcome w c si inc new de d = (Inr (nresult, fj), d')"
  shows "d_job d (c_flow c) = Some (mj_job fj)"
proof -
  have "get_mini_pulled_job (c_flow c) d' = Some fj"
    using assms by (auto simp: store_outcome_def Let_def act_iffs result_simps)
  moreover have "d_job d' = d_job d"
    using same_jobs.keeps_result [OF store_outcome_jobs assms] by (simp add: same_jobs_def)
  ultimately show ?thesis by (auto simp: get_mini_pulled_job_def split: option.splits)
qed

lemma completion_tx_flow:
  assumes "completion_tx E w c si cont de d = (Inr (Inr (inc, de', nresult, fj)), d')"
  shows "d_job d (c_flow c) = Some (mj_job fj)"
proof -
  from assms obtain p d1 where 1: "process_module_status E w c si cont de d = (Inr p, d1)"
    and rest: "(case p of NonLast n \<Rightarrow> ret (Inl n) | Processed inc new de \<Rightarrow>
           abind (store_outcome w c si inc new (override_nresult de)) (\<lambda>(nresult, fj).
           ret (Inr (inc, de, nresult, fj)))) d1 = (Inr (Inr (inc, de', nresult, fj)), d')"
    unfolding completion_tx_def transaction_Inr_iff abind_Inr_iff by blast
  from rest obtain new where 2: "store_outcome w c si inc new (override_nresult de') d1 = (Inr (nresult, fj), d')"
    by (cases p) (auto simp: act_iffs)
  have "d_job d1 = d_job d"
    using same_jobs.keeps_result [OF process_module_status_jobs 1] by (simp add: same_jobs_def)
  with store_outcome_flow [OF 2] show ?thesis by simp
qed

lemma after_done_Rec: "after_done c si fj de v dur = Rec c' \<Longrightarrow> jb_parent (mj_job fj) = Some (c_flow c')"
  by (auto simp: after_done_def Let_def split: bool.splits option.splits)

lemma sum_case_Inr:
  assumes "(case x of Inl e \<Rightarrow> f e | Inr y \<Rightarrow> g y) d = r"
  obtains e where "x = Inl e" "f e d = r" | y where "x = Inr y" "g y d = r"
  using assms by (cases x) auto

lemma after_completion_Rec:
  assumes "after_completion E handle w c unrecoverable si cont r d = (Inr (Rec c'), d')"
  obtains inc de nresult fj dur where "r = Inr (inc, de, nresult, fj)" and "after_done c si fj de nresult dur = Rec c'"
proof (cases r)
  case (Inl n)
  with assms show thesis by (simp add: after_completion_def act_iffs)
next
  case (Inr x)
  obtain inc de nresult fj where x: "x = (inc, de, nresult, fj)" by (metis prod_cases4)
  have "\<exists>dur. after_done c si fj de nresult dur = Rec c'"
    using assms unfolding after_completion_def Inr x Let_def
    by (auto simp: act_iffs split: if_splits elim!: sum_case_Inr)
  with Inr x that show thesis by blast
qed

lemma update_internal_Rec:
  assumes "update_internal E handle w c unrecoverable d = (Inr (Rec c'), d')"
  shows "\<exists>r. d_job d (c_flow c) = Some r \<and> jb_parent r = Some (c_flow c')"
proof -
  from assms obtain si de cont d1 r d2 where 1: "stop_early_decision E w c si d = (Inr (de, cont), d1)"
    and 2: "completion_tx E w c si cont de d1 = (Inr r, d2)"
    and rest: "after_completion E handle w c unrecoverable si cont r d2 = (Inr (Rec c'), d')"
    unfolding update_internal_def update_from_snapshot_def by (auto simp: act_iffs)
  obtain inc de' nresult fj dur where r: "r = Inr (inc, de', nresult, fj)"
    and 3: "after_done c si fj de' nresult dur = Rec c'"
    by (rule after_completion_Rec [OF rest])
  have "d_job d1 = d_job d"
    using same_jobs.keeps_result [OF stop_early_decision_jobs 1] by (simp add: same_jobs_def)
  with completion_tx_flow [OF 2 [unfolded r]] after_done_Rec [OF 3] show ?thesis by auto
qed

lemma update_turn_Rec:
  assumes "update_turn E handle w c unrecoverable d = (Inr (Rec c'), d')"
    and "schedule_evolves E" and "\<And>fj f v. keeps evolves (handle fj f v)"
    and "d_job d (c_flow c) = Some r"
  shows "jb_parent r = Some (c_flow c')"
proof -
  note keep = update_internal_evolves [OF assms(2,3)]
  from assms(1) consider "update_internal E handle w c unrecoverable d = (Inr (Rec c'), d')"
    | e d1 where "update_internal E handle w c unrecoverable d = (Inl e, d1)"
        "update_internal E handle w (failed_update E e c) True d1 = (Inr (Rec c'), d')"
    by (auto simp: update_turn_def attempt_def abind_def ret_def split: prod.splits sum.splits)
  then show ?thesis
  proof cases
    case 1
    with update_internal_Rec [OF 1] assms(4) show ?thesis by auto
  next
    case 2
    have "c_flow (failed_update E e c) = c_flow c" by (simp add: failed_update_def)
    then show ?thesis
      using evolves.keeps_result [OF keep 2(1)] update_internal_Rec [OF 2(2)] assms(4)
      unfolding evolves_def by (metis option.inject)
  qed
qed

lemma update_turn_evolves:
  assumes "schedule_evolves E" and "\<And>fj f v. keeps evolves (handle fj f v)"
  shows "keeps evolves (update_turn E handle w c unrecoverable)"
  unfolding update_turn_def
  by (auto intro!: evolves.keeps_abind evolves.keeps_pure evolves.keeps_attempt update_internal_evolves
      assms split: sum.split)

section \<open>The loop ends\<close>

text \<open>A job of the table with at most \<open>n\<close> jobs from it up to the root, itself included.\<close>

fun depth_within :: "nat \<Rightarrow> db \<Rightarrow> uuid \<Rightarrow> bool" where
  "depth_within 0 d j = False"
| "depth_within (Suc n) d j =
     (case d_job d j of
        None \<Rightarrow> False
      | Some r \<Rightarrow> (case jb_parent r of None \<Rightarrow> True | Some p \<Rightarrow> depth_within n d p))"

lemma depth_within_kept: "evolves d d' \<Longrightarrow> depth_within n d j \<Longrightarrow> depth_within n d' j"
proof (induction n arbitrary: j)
  case (Suc n)
  from Suc.prems(2) obtain r where r: "d_job d j = Some r" by (auto split: option.splits)
  with Suc.prems(1) obtain r' where "d_job d' j = Some r'" "jb_parent r' = jb_parent r" unfolding evolves_def by blast
  with r Suc show ?case by (auto split: option.splits)
qed simp

lemma update_loop_ends:
  assumes "schedule_evolves E" and "\<And>fj f v. keeps evolves (handle fj f v)"
    and "depth_within n d (c_flow c)" and "n \<le> m"
  shows "fst (update_loop m E handle w c unrecoverable d) \<noteq> Inr None \<and>
    update_loop m E handle w c unrecoverable d = update_loop n E handle w c unrecoverable d"
  using assms(3,4)
proof (induction n arbitrary: m d c unrecoverable)
  case (Suc n)
  then obtain k where m: "m = Suc k" "n \<le> k" by (cases m) auto
  obtain r where r: "d_job d (c_flow c) = Some r" using Suc.prems by (auto split: option.splits)
  obtain x d1 where t: "update_turn E handle w c unrecoverable d = (x, d1)" by fastforce
  show ?case
  proof (cases "\<exists>c'. x = Inr (Rec c')")
    case True
    then obtain c' where x: "x = Inr (Rec c')" by blast
    have "jb_parent r = Some (c_flow c')" using update_turn_Rec [OF t [unfolded x] assms(1,2) r] .
    with Suc.prems r have "depth_within n d (c_flow c')" by simp
    then have "depth_within n d1 (c_flow c')"
      using depth_within_kept evolves.keeps_result [OF update_turn_evolves [OF assms(1,2)] t] by blast
    note ih = Suc.IH [OF this \<open>n \<le> k\<close>, of False]
    have "update_loop (Suc i) E handle w c unrecoverable d = update_loop i E handle w c' False d1" for i
      by (simp add: abind_def t x)
    then show ?thesis using ih by (metis m(1))
  next
    case False
    then show ?thesis
      by (auto simp: m abind_def t ret_def split: sum.split update_result.split)
  qed
qed simp

text \<open>
  C7: The loop of \<open>update_flow_status_after_job_completion\<close> ends. Started at a flow which has \<open>n\<close>
  jobs from it up to the root of the run, it makes at most \<open>n\<close> turns, each at the parent of
  the flow of the one before: with that fuel or any larger one it returns, always with the same
  outcome. (The parents are those of the database before the loop; that no operation on the
  way changes them is part of the proof.)
\<close>

theorem parent_loop_ends:
  assumes "schedule_evolves E" and "depth_within n d (ur_flow u)" and "n \<le> m"
  shows "fst (update_loop m E (handle_flow k E (ur_runners u)) (ur_workspace u) (first_completion u) (ur_unrecoverable u) d) \<noteq>
      Inr None \<and>
    update_loop m E (handle_flow k E (ur_runners u)) (ur_workspace u) (first_completion u) (ur_unrecoverable u) d =
    update_loop n E (handle_flow k E (ur_runners u)) (ur_workspace u) (first_completion u) (ur_unrecoverable u) d"
  using assms(2)
  by (intro update_loop_ends assms handle_flow_evolves) (simp add: first_completion_def)

text \<open>A script in a flow in a flow: its end is the end of both.\<close>

definition one_step_flow :: "flow_value" where
  "one_step_flow = flow_value_default\<lparr>fv_modules := [script_module ''a'' [] ''p'' None None]\<rparr>"

definition waits_for :: "uuid \<Rightarrow> flow_status" where
  "waits_for j = (flow_status_new one_step_flow)\<lparr>fs_modules := [WaitingForExecutor ''a'' j]\<rparr>"

definition nested_db :: db where
  "nested_db = empty_db\<lparr>
     d_job := [1 \<mapsto> (plain_job None)\<lparr>jb_raw_flow := Some one_step_flow\<rparr>,
               2 \<mapsto> (plain_job (Some 1))\<lparr>jb_raw_flow := Some one_step_flow\<rparr>,
               3 \<mapsto> (plain_job (Some 2))\<lparr>jb_kind := KScript\<rparr>],
     d_queue := [1 \<mapsto> plain_queue, 2 \<mapsto> plain_queue],
     d_status := [1 \<mapsto> waits_for 2, 2 \<mapsto> waits_for 3]\<rparr>"

definition nested_request :: update_request where
  "nested_request = \<lparr>ur_flow = 2, ur_job = 3, ur_workspace = ''w'', ur_success = True, ur_canceled_by = None, ur_result = JInt 7,
     ur_duration = None, ur_unrecoverable = False, ur_stop_early_override = None, ur_runners = None\<rparr>"

definition nested_run :: "nat \<Rightarrow> mini_job option option res \<times> db" where
  "nested_run m = update_loop m plain_env (handle_flow 2 plain_env None) ''w'' (first_completion nested_request) False nested_db"

lemma schedule_evolves_plain: "schedule_evolves plain_env"
  by (simp add: schedule_evolves_def plain_env_def evolves.frame_refl)

theorem parent_loop_ends_witness:
  "depth_within 2 nested_db 2 \<and> fst (nested_run 2) \<noteq> Inr None \<and> nested_run 5 = nested_run 2"
proof -
  have "depth_within 2 nested_db (ur_flow nested_request)" by code_simp
  with parent_loop_ends [OF schedule_evolves_plain this, of 2 2] parent_loop_ends [OF schedule_evolves_plain this, of 5 2]
  show ?thesis unfolding nested_run_def by (simp_all add: nested_request_def)
qed

section \<open>Every job that is received ends\<close>

lemma update_flow_status_evolves:
  assumes "schedule_evolves E"
  shows "keeps evolves (update_flow_status_after_job_completion n E u)"
proof -
  have "keeps evolves (update_loop m E (handle_flow n E (ur_runners u)) w c b)" for m w c b
    by (induction m arbitrary: c b)
      (auto intro!: evolves.keeps_abind evolves.keeps_pure update_turn_evolves handle_flow_evolves assms split: update_result.split)
  then show ?thesis
    unfolding update_flow_status_after_job_completion_def by (intro evolves.keeps_abind evolves.keeps_pure)
qed

lemma process_rest_evolves:
  assumes "schedule_evolves E"
  shows "keeps evolves (restart_job_if_perpetual E j cb)"
    and "keeps evolves (handle_non_flow_job_error E j cb e v)"
    and "keeps evolves (fail_parent E j cb err)"
  unfolding restart_job_if_perpetual_def handle_non_flow_job_error_def fail_parent_def
  by (auto intro!: evolves.keeps_abind evolves.keeps_pure evolves.keeps_aif evolves.keeps_transaction evolves.keeps_modify
      evolves.keeps_attempt push_evolves add_completed_evolves same_jobs_evolves [OF append_logs_frames(1)] assms
      split: bool.split option.split job_kind.split)

lemma handle_job_error_evolves:
  assumes "schedule_evolves E"
  shows "keeps evolves (handle_job_error n E j cb err unrecoverable)"
  unfolding handle_job_error_def Let_def
  by (auto intro!: evolves.keeps_abind evolves.keeps_pure evolves.keeps_attempt process_rest_evolves update_flow_status_evolves assms
      split: option.split sum.split)

lemma process_completed_job_evolves:
  assumes "schedule_evolves E"
  shows "keeps evolves (process_completed_job n E jc)"
proof -
  have "evolves d (store_preprocessed jc d)" for d
    by (auto simp: store_preprocessed_def update_job_def discard_args_def evolves_def Let_def split: option.split)
  moreover have "evolves d (d\<lparr>d_cache := x\<rparr>)" for d x by (simp add: evolves_def)
  ultimately show ?thesis
    unfolding process_completed_job_def process_success_def process_failure_def Let_def
    by (auto intro!: evolves.keeps_abind evolves.keeps_pure evolves.keeps_attempt evolves.keeps_aif evolves.keeps_modify
        add_completed_evolves wac_child_evolves update_flow_status_evolves assms split: option.split bool.split)
qed

lemma handle_receive_evolves:
  assumes "schedule_evolves E"
  shows "keeps evolves (handle_receive_completed_job n E jc)"
  unfolding handle_receive_completed_job_def
  by (auto intro!: evolves.keeps_abind evolves.keeps_pure evolves.keeps_attempt process_completed_job_evolves
      handle_job_error_evolves assms split: sum.split)

lemma handle_update_flow_evolves:
  assumes "schedule_evolves E"
  shows "keeps evolves (handle_update_flow n E u)"
  unfolding handle_update_flow_def
  by (auto intro!: evolves.keeps_abind evolves.keeps_pure evolves.keeps_attempt update_flow_status_evolves assms)

text \<open>A job of the table that is completed and no longer queued.\<close>

definition finished :: "uuid \<Rightarrow> db \<Rightarrow> bool" where
  "finished j d \<longleftrightarrow> d_job d j \<noteq> None \<and> d_queue d j = None \<and> d_completed d j \<noteq> None"

lemma finished_evolves: "evolves d d' \<Longrightarrow> finished j d \<Longrightarrow> finished j d'"
  unfolding finished_def evolves_def by (metis not_None_eq)

lemma keeps_finished: "keeps evolves m \<Longrightarrow> finished j d \<Longrightarrow> finished j (snd (m d))"
  unfolding keeps_def using finished_evolves by blast

text \<open>A scheduled job whose completion can fail to push the next tick of its schedule.\<close>

definition tick_can_fail :: "env \<Rightarrow> mini_job \<Rightarrow> bool" where
  "tick_can_fail E j \<longleftrightarrow> \<not> is_flow_step j \<and> jb_runnable_path (mj_job j) \<noteq> None \<and>
     (\<exists>sp. jb_schedule (mj_job j) = Some sp \<and> e_schedule E (jb_workspace (mj_job j)) sp) \<and>
     (\<exists>d e. e_try_schedule E j d = Inl e)"

lemma commit_finishes:
  assumes "schedule_frame E" and "schedule_evolves E" and "jb_parent (mj_job j) \<noteq> Some (mj_id j)"
    and "commit_completed_job E j s k out cb dur fc d = (Inr x, d')" and "d_job d (mj_id j) \<noteq> None"
  shows "finished (mj_id j) d'"
  using commit_completed_job_row [OF assms(1,3,4)] evolves.keeps_result [OF commit_evolves [OF assms(2)] assms(4)] assms(5)
  by (metis evolves_def finished_def not_None_eq option.distinct(1))

lemma commit_fails_queued:
  assumes "commit_completed_job E j s k out cb dur fc d = (Inl e, d')"
  shows "d_job d' = d_job d" and "d_queue d' = d_queue d"
  using assms
  by (auto simp: commit_completed_job_def abind_def check_result_size_def transaction_def Let_def ret_def fail_def modify_def
      append_logs_def split: if_splits prod.splits sum.splits)

lemma error_commit_succeeds:
  assumes "\<not> tick_can_fail E j" and "d_queue d (mj_id j) \<noteq> None"
  shows "\<exists>x d'. commit_completed_job E j False False (WrappedError e) cb None False d = (Inr x, d')"
proof -
  have "\<exists>d'. handle_schedule E j fc s d0 = (Inr (), d')" for fc s d0
    using assms(1) by (auto simp: handle_schedule_def tick_can_fail_def split: option.split bool.split sum.split)
  moreover have "\<exists>ids d'. notify_wac_parent E j n d0 = (Inr ids, d')" for n d0
    by (auto simp: notify_wac_parent_def Let_def split: option.split bool.split)
  moreover have "\<exists>n d'. insert_completed (e_now E) (mj_id j) False False (JObj [(''error'', e)]) cb None d = Inr (n, d')"
    using assms(2) by (auto simp: insert_completed_def Let_def)
  ultimately show ?thesis
    by (simp add: commit_completed_job_def check_result_size_def act_iffs flip: ex_simps) metis
qed

lemma abind_finished:
  assumes "finished j (snd (m d))" and "\<And>x. keeps evolves (f x)"
  shows "finished j (snd (abind m f d))"
  using assms keeps_finished [OF assms(2)]
  by (auto simp: abind_def split: prod.splits sum.splits)

lemma attempt_snd: "snd (attempt m d) = snd (m d)"
  by (simp add: attempt_def split: prod.split)

lemma add_completed_output_finishes:
  assumes "schedule_frame E" and "schedule_evolves E" and "jb_parent (mj_job j) \<noteq> Some (mj_id j)" and "d_job d (mj_id j) \<noteq> None"
    and "add_completed_output E j s k out cb dur fc d = (x, d')"
  shows "finished (mj_id j) d' \<or> (\<exists>e. x = Inl e \<and> d_job d' = d_job d \<and> d_queue d' = d_queue d)"
proof (cases "commit_completed_job E j s k out cb dur fc d")
  case (Pair y d1)
  show ?thesis
  proof (cases y)
    case (Inl e)
    with Pair assms(5) commit_fails_queued [of E j s k out cb dur fc d e d1] show ?thesis
      by (auto simp: add_completed_output_def abind_def)
  next
    case (Inr r)
    have "finished (mj_id j) (snd (add_completed_output E j s k out cb dur fc d))"
      unfolding add_completed_output_def
      using commit_finishes [OF assms(1,2,3) Pair [unfolded Inr] assms(4)] Pair
      by (intro abind_finished evolves.keeps_abind process_rest_evolves evolves.keeps_pure assms(2)) simp
    with assms(5) show ?thesis by simp
  qed
qed

lemma non_flow_error_finishes:
  assumes "schedule_frame E" and "schedule_evolves E" and "jb_parent (mj_job j) \<noteq> Some (mj_id j)"
    and "d_job d (mj_id j) \<noteq> None" and "d_queue d (mj_id j) \<noteq> None"
    and "handle_non_flow_job_error E j cb e v d = (x, d')"
  shows "finished (mj_id j) d' \<or> tick_can_fail E j \<and> d_queue d' = d_queue d"
proof -
  let ?d = "append_logs (mj_id j) (''Unexpected error during job execution:'' @ [CHR 0x0A] @ e) d"
  have same: "d_job ?d = d_job d" "d_queue ?d = d_queue d" by (simp_all add: append_logs_def)
  obtain y d1 where c: "commit_completed_job E j False False (WrappedError v) cb None False ?d = (y, d1)" by fastforce
  show ?thesis
  proof (cases y)
    case (Inr r)
    have "finished (mj_id j) d1" by (rule commit_finishes [OF assms(1-3) c [unfolded Inr]]) (simp add: same assms(4))
    then have "finished (mj_id j) (snd (handle_non_flow_job_error E j cb e v d))"
      unfolding handle_non_flow_job_error_def add_completed_job_error_def add_completed_output_def abind_assoc act_simps(5)
      using c by (intro abind_finished evolves.keeps_abind process_rest_evolves evolves.keeps_pure assms(2)) simp
    with assms(6) show ?thesis by simp
  next
    case (Inl err)
    with c error_commit_succeeds [of E j ?d v cb] assms(5) have "tick_can_fail E j" by (auto simp: same)
    moreover have "d' = d1"
      using assms(6) c Inl unfolding handle_non_flow_job_error_def add_completed_job_error_def add_completed_output_def
      by (simp add: abind_def modify_def)
    ultimately show ?thesis using commit_fails_queued(2) [OF c [unfolded Inl]] by (simp add: same)
  qed
qed

lemma handle_job_error_finishes:
  assumes "schedule_frame E" and "schedule_evolves E" and "jb_parent (mj_job j) \<noteq> Some (mj_id j)"
    and "d_job d (mj_id j) \<noteq> None" and "d_queue d (mj_id j) \<noteq> None"
    and "jb_parent (mj_job j) \<noteq> None \<or> \<not> is_flow_step j \<and> \<not> kind_is_flow (jb_kind (mj_job j))"
    and "handle_job_error n E j cb err unrecoverable d = (x, d')"
  shows "finished (mj_id j) d' \<or>
    tick_can_fail E j \<and> (kind_is_flow (jb_kind (mj_job j)) \<or> d_queue d' = d_queue d)"
proof -
  have fin: "finished (mj_id j) (snd (attempt (handle_non_flow_job_error E j cb e v) d)) \<or>
      tick_can_fail E j \<and> d_queue (snd (attempt (handle_non_flow_job_error E j cb e v) d)) = d_queue d" for e v
    using non_flow_error_finishes [OF assms(1-5) surjective_pairing] by (simp add: attempt_snd)
  show ?thesis
  proof (cases "is_flow_step j \<or> kind_is_flow (jb_kind (mj_job j))")
    case True
    then obtain p where p: "jb_parent (mj_job j) = Some p" using assms(6) by auto
    show ?thesis
    proof (cases "tick_can_fail E j")
      case False
      with fin have "finished (mj_id j) (snd (attempt (handle_non_flow_job_error E j cb e v) d))" for e v by blast
      with True p have "finished (mj_id j) (snd (handle_job_error n E j cb err unrecoverable d))"
        unfolding handle_job_error_def Let_def
        by (auto simp: abind_assoc intro!: abind_finished evolves.keeps_abind evolves.keeps_pure evolves.keeps_attempt
            update_flow_status_evolves process_rest_evolves assms(2) split: sum.split)
      with assms(7) show ?thesis by simp
    next
      case tick: True
      with True show ?thesis by (auto simp: tick_can_fail_def)
    qed
  next
    case False
    then have "d' = snd (attempt (handle_non_flow_job_error E j cb (error_name err @ '': '' @ e_show_err E err)
          (error_to_value E err)) d)"
      using assms(7) unfolding handle_job_error_def Let_def
      by (auto simp: abind_def attempt_def ret_def split: prod.splits)
    with fin False show ?thesis by blast
  qed
qed

lemma process_completed_job_finishes:
  assumes "schedule_frame E" and "schedule_evolves E" and "jb_parent (mj_job (jc_job jc)) \<noteq> Some (mj_id (jc_job jc))"
    and "d_job d (mj_id (jc_job jc)) \<noteq> None" and "process_completed_job n E jc d = (x, d')"
  shows "finished (mj_id (jc_job jc)) d' \<or>
    (\<exists>e. x = Inl e \<and> d_job d' (mj_id (jc_job jc)) \<noteq> None \<and>
         d_queue d' = d_queue d)"
proof -
  let ?j = "jc_job jc"
  define pre where "pre d = (if jc_success jc then store_preprocessed jc
    (if jc_cached jc then d\<lparr>d_cache := d_cache d @ [(mj_id ?j, jc_result jc)]\<rparr> else d) else d)" for d
  have pre: "d_job (pre d) (mj_id ?j) \<noteq> None" "d_queue (pre d) = d_queue d"
    using assms(4) by (auto simp: pre_def store_preprocessed_def update_job_def Let_def split: option.split)
  obtain s out dur fc f where split: "process_completed_job n E jc d =
      abind (add_completed_output E ?j s False out (jc_canceled_by jc) dur fc) f (pre d)"
    and rest: "keeps evolves (f y)" for y
  proof (cases "jc_success jc")
    case True
    show thesis
      by (rule that, unfold process_completed_job_def process_success_def Let_def add_completed_job_def pre_def)
        (auto simp: True aif_def abind_def modify_def ret_def intro!: evolves.keeps_abind evolves.keeps_pure evolves.keeps_attempt wac_child_evolves update_flow_status_evolves assms split: option.split bool.split)
  next
    case False
    show thesis
      by (rule that, unfold process_completed_job_def process_failure_def Let_def add_completed_job_error_def pre_def abind_assoc)
        (auto simp: False intro!: evolves.keeps_abind evolves.keeps_pure evolves.keeps_attempt wac_child_evolves update_flow_status_evolves assms split: option.split bool.split)
  qed
  obtain y d1 where a: "add_completed_output E ?j s False out (jc_canceled_by jc) dur fc (pre d) = (y, d1)" by fastforce
  from add_completed_output_finishes [OF assms(1-3) pre(1) a]
  show ?thesis
  proof
    assume "finished (mj_id ?j) d1"
    then have "finished (mj_id ?j) (snd (process_completed_job n E jc d))"
      unfolding split using a rest by (intro abind_finished) auto
    with assms(5) show ?thesis by simp
  next
    assume "\<exists>e. y = Inl e \<and> d_job d1 = d_job (pre d) \<and> d_queue d1 = d_queue (pre d)"
    with a split assms(5) pre show ?thesis by (auto simp: abind_def)
  qed
qed


definition received :: "bool \<Rightarrow> job_completed" where
  "received success = \<lparr>jc_job = one_job, jc_success = success, jc_result = JInt 7, jc_cached = False, jc_canceled_by = None,
     jc_duration = None, jc_preprocessed_args = None, jc_from_cache = False, jc_runners = None\<rparr>"

definition stuck_env :: env where
  "stuck_env = plain_env\<lparr>e_schedule := \<lambda>_ _. True, e_try_schedule := \<lambda>_ _. Inl (QuotaExceeded ''quota'')\<rparr>"

definition scheduled_job :: mini_job where
  "scheduled_job = one_job\<lparr>mj_job := (mj_job one_job)\<lparr>jb_schedule := Some ''f/nightly'', jb_runnable_path := Some ''f/nightly''\<rparr>\<rparr>"


end
