(* ===== verification/Engine.thy ===== *)
theory Engine
  imports Evolution Wac Resume
begin

text \<open>
  The engine as a whole: the operations of the components on the one database, in any order
  and with any inputs, as a step relation. What holds of every operation holds of every run.
\<close>

section \<open>The steps\<close>

text \<open>
  An operation runs to its end before the next one begins, whether it succeeds or fails. The
  jobs, flow values and snapshots are arbitrary: a worker may act on what it read long ago.
\<close>

inductive engine_step :: "env \<Rightarrow> db \<Rightarrow> db \<Rightarrow> bool" for E where
  job_pushed: "engine_step E d (snd (transaction (push E r) d))"
| flow_handled: "engine_step E d (snd (handle_flow n E runners fj f v d))"
| job_received: "engine_step E d (snd (handle_receive_completed_job n E jc d))"
| job_failed: "engine_step E d (snd (handle_job_error n E j cb err unrecoverable d))"
| flow_reported: "engine_step E d (snd (handle_update_flow n E u d))"
| status_updated: "engine_step E d (snd (update_from_snapshot E (handle_flow n E runners) w c unrecoverable si d))"
| workflow_ran: "engine_step E d (snd (handle_wac_v2_output E v j ms d))"
| link_followed: "engine_step E d (snd (resume_suspended_job_internal E C rq d))"
| owner_resumed: "engine_step E d (snd (resume_suspended_flow_as_owner E u w flow v d))"
| page_answered: "engine_step E d (snd (resume_suspended E C rid user w job payload token approved d))"

section \<open>Workflows and requests\<close>

lemma save_checkpoint_jobs [keeps_intros]:
  "keeps same_jobs (upsert_checkpoint msg j v)" "keeps same_jobs (save_checkpoint j c)"
  "keeps same_jobs (set_wac_field msg j k v)" "same_jobs d (suspend_until j n t d)"
  by (auto simp: keeps_def save_checkpoint_def upsert_checkpoint_def set_wac_field_def put_wac_field_def suspend_until_def
      update_queue_def same_jobs_def)

lemmas save_checkpoint_evolves = save_checkpoint_jobs(1-3) [THEN keeps_jobs_evolves]

lemma undo_dispatch_jobs [keeps_intros]: "same_jobs d (undo_dispatch j js d)"
proof -
  have "same_jobs d (fold cancel_child js d)"
    by (rule same_jobs.frame_fold) (simp add: cancel_child_def update_queue_def same_jobs_def)
  then show ?thesis
    unfolding undo_dispatch_def by (blast intro: same_jobs.frame_trans update_queue_frames(1) update_wac_jobs(1))
qed

lemma dispatch_children_evolves: "keeps evolves (dispatch_children E j ms mode steps)"
proof -
  have child: "keeps evolves (push_wac_child E j ms t a c s i)" for t a c s i
    unfolding push_wac_child_def
    by (auto intro!: evolves.keeps_abind evolves.keeps_pure evolves.keeps_transaction evolves.keeps_aif
        push_evolves save_checkpoint_evolves)
  have "keeps evolves (push_wac_children E j ms t a c xs pushed)" for t a c xs pushed
    by (induction xs arbitrary: pushed)
      (auto intro!: evolves.keeps_abind evolves.keeps_pure evolves.keeps_attempt child split: sum.split)
  moreover have "keeps evolves (suspend_for_children E i c xs m ids)" for i c xs m ids
  proof (rule keeps_jobs_evolves)
    have "keeps same_jobs (aeach (note_child E i) ys)" for ys
      by (induction ys) (auto simp: note_child_def intro!: keeps_intros)
    then show "keeps same_jobs (suspend_for_children E i c xs m ids)"
      unfolding suspend_for_children_def by (auto intro!: keeps_intros)
  qed
  ultimately show ?thesis
    unfolding dispatch_children_def begin_dispatch_def
    by (auto intro!: evolves.keeps_abind evolves.keeps_pure evolves.keeps_modify
        same_jobs_evolves [OF undo_dispatch_jobs] split: option.split)
qed

lemma workflow_ran_evolves: "keeps evolves (handle_wac_v2_output E v j ms)"
proof -
  have "keeps evolves (await_approval E j k timeout form sad)" for k timeout form sad
    unfolding await_approval_def Let_def
    by (auto intro!: evolves.keeps_abind evolves.keeps_pure evolves.keeps_transaction evolves.keeps_modify save_checkpoint_evolves
        intro: same_jobs_evolves save_checkpoint_jobs simp: evolves_def)
  moreover have "keeps evolves (sleep_for E j k n)" for k n
    unfolding sleep_for_def Let_def
    by (auto intro!: evolves.keeps_abind evolves.keeps_pure evolves.keeps_transaction evolves.keeps_modify save_checkpoint_evolves
        intro: same_jobs_evolves save_checkpoint_jobs)
  moreover have "keeps evolves (inline_checkpoint E j k v' started duration)" for k v' started duration
    unfolding inline_checkpoint_def persist_inline_checkpoint_delta_def Let_def
    by (auto intro!: evolves.keeps_abind evolves.keeps_pure evolves.keeps_transaction evolves.keeps_modify save_checkpoint_evolves
        intro: same_jobs_evolves update_queue_frames)
  ultimately show ?thesis
    unfolding handle_wac_v2_output_def dispatch_def
    by (auto intro!: evolves.keeps_abind evolves.keeps_pure dispatch_children_evolves split: sum.split wac_output.split)
qed

lemma resume_jobs [keeps_intros]:
  "keeps same_jobs (resume_wac info)" "keeps same_jobs (resume_immediately_for_flow_level info)"
  "keeps same_jobs (resume_immediately_if_relevant E info job)" "same_jobs d (set_suspend j n d)"
  "keeps same_jobs (insert_resume_job rid job info v approver approved)"
proof -
  show set: "same_jobs d (set_suspend j n d)" for d j n by (simp add: set_suspend_def update_queue_frames)
  show "keeps same_jobs (resume_wac info)" "keeps same_jobs (resume_immediately_for_flow_level info)"
    "keeps same_jobs (resume_immediately_if_relevant E info job)"
    by (auto simp: resume_wac_def resume_immediately_for_flow_level_def resume_immediately_if_relevant_def
        intro!: keeps_intros set split: option.split)
  show "keeps same_jobs (insert_resume_job rid job info v approver approved)"
    unfolding insert_resume_job_def by (rule same_jobs.keeps_updates) (auto simp: same_jobs_def split: if_splits)
qed

lemma requests_jobs:
  "keeps same_jobs (resume_suspended_job_internal E C rq)"
  "keeps same_jobs (resume_suspended_flow_as_owner E u w flow v)"
  "keeps same_jobs (resume_suspended E C rid user w job payload token approved)"
  unfolding resume_suspended_job_internal_def resume_commit_def resume_suspended_flow_as_owner_def resume_suspended_def Let_def
  by (auto intro!: keeps_intros split: prod.split)

section \<open>What no run undoes\<close>

lemma engine_step_evolves:
  assumes "schedule_evolves E" and "engine_step E d d'"
  shows "evolves d d'"
proof -
  have snd: "keeps evolves m \<Longrightarrow> evolves d (snd (m d))" for m :: "'x act" by (simp add: keeps_def)
  from assms(2) show ?thesis
    by cases
      (auto intro!: snd evolves.keeps_transaction push_evolves handle_flow_evolves handle_receive_evolves handle_job_error_evolves
         handle_update_flow_evolves workflow_ran_evolves requests_jobs [THEN keeps_jobs_evolves]
         update_from_snapshot_evolves assms(1))
qed

lemma engine_run_evolves: "(engine_step E)\<^sup>*\<^sup>* d d' \<Longrightarrow> schedule_evolves E \<Longrightarrow> evolves d d'"
  by (induction rule: rtranclp_induct) (auto intro: evolves.frame_refl evolves.frame_trans engine_step_evolves)

text \<open>
  C5: A job completes at most once, in every run of the engine. Once it is completed and out of
  the queue it stays so whatever the workers, the flows, the workflows and the approvers do
  after that, in any order and with whatever they had read before; a later attempt to complete
  it, with any outcome, is an error that leaves the completed jobs and the queue as they are.
  Nor does any operation remove a job or give it another parent.
\<close>

theorem job_completes_at_most_once:
  assumes "schedule_evolves E" and "(engine_step E)\<^sup>*\<^sup>* d d'" and "finished j d"
  shows "finished j d' \<and>
    (\<forall>m success skipped out cb dur fc. mj_id m = j \<longrightarrow>
      (\<exists>e d''. commit_completed_job E m success skipped out cb dur fc d' = (Inl e, d'') \<and>
         d_completed d'' = d_completed d' \<and> d_queue d'' = d_queue d')) \<and>
    (\<forall>i r. d_job d i = Some r \<longrightarrow> (\<exists>r'. d_job d' i = Some r' \<and> jb_parent r' = jb_parent r))"
proof -
  have e: "evolves d d'" by (rule engine_run_evolves [OF assms(2,1)])
  then have "finished j d'" using assms(3) by (rule finished_evolves)
  moreover from this have "\<exists>e d''. commit_completed_job E m success skipped out cb dur fc d' = (Inl e, d'') \<and>
      d_completed d'' = d_completed d' \<and> d_queue d'' = d_queue d'" if "mj_id m = j" for m success skipped out cb dur fc
    using commit_not_queued that by (simp add: finished_def)
  moreover have "\<exists>r'. d_job d' i = Some r' \<and> jb_parent r' = jb_parent r" if "d_job d i = Some r" for i r
    using e that by (simp add: evolves_def)
  ultimately show ?thesis by blast
qed

definition after_receipt :: db where
  "after_receipt = snd (handle_receive_completed_job 2 plain_env (received True) one_job_db)"

lemma after_receipt_finished: "finished 1 after_receipt"
proof -
  have "d_job after_receipt 1 \<noteq> None" "d_queue after_receipt 1 = None" "d_completed after_receipt 1 \<noteq> None" by code_simp+
  then show ?thesis by (simp add: finished_def)
qed

theorem job_completes_at_most_once_witness:
  "finished 1 (snd (handle_receive_completed_job 2 plain_env (received False) after_receipt)) \<and>
   (\<exists>e d'. commit_completed_job plain_env one_job False False (Output JNull) None None False
      (snd (handle_receive_completed_job 2 plain_env (received False) after_receipt)) = (Inl e, d'))"
proof -
  let ?d = "snd (handle_receive_completed_job 2 plain_env (received False) after_receipt)"
  have "(engine_step plain_env)\<^sup>*\<^sup>* after_receipt ?d" by (intro r_into_rtranclp job_received)
  note * = job_completes_at_most_once [OF schedule_evolves_plain this after_receipt_finished]
  moreover have "mj_id one_job = 1" by (simp add: one_job_def)
  ultimately show ?thesis by blast
qed

end
