(* ===== verification/Spec2Isabelle.thy ===== *)
theory Spec2Isabelle
  imports Scripts FlowModel FlowStatus Jobs Queue FlowCompletion ParallelJoin Push FlowPush FlowStep Rounds Approvals
    ParallelStart Completed Wac WacJoin Scopes Resume ResultProcessor Evolution Engine
begin

text \<open>
  A verified model of the flow engine of Windmill (\<open>src/backend\<close>).

  \<^bold>\<open>The program.\<close> Windmill runs scripts and flows as jobs kept in a Postgres database. Workers
  pull a job from the queue, run it and complete it. A flow is a job without code of its own:
  its value is a list of modules, its progress a \<open>flow_status\<close> beside its row of the queue. When
  a job that is a step of a flow ends, the worker updates the status of the flow
  (\<open>update_flow_status_after_job_completion\<close>), and then either pushes the jobs of the next step
  (\<open>handle_flow\<close>) or completes the flow, which may itself be a step of another flow.

  \<^bold>\<open>The theories.\<close>
  \<^item> \<open>Prelude\<close>, \<open>Json\<close>: results, lists and maps as the engine uses them, \<open>jsonb_set\<close> on arrays, JSON
    values with the readers and writers of \<open>serde\<close>.
  \<^item> \<open>Scripts\<close>: languages and settings (\<open>windmill-types/src/scripts.rs\<close>, \<open>runnable_settings.rs\<close>).
  \<^item> \<open>FlowModel\<close>: flow values and modules, retry policies, traversal and validation
    (\<open>windmill-types/src/flows.rs\<close>).
  \<^item> \<open>FlowStatus\<close>: the status with its JSON form (\<open>windmill-types/src/flow_status.rs\<close>).
  \<^item> \<open>Jobs\<close>: the rows and tables (record \<open>db\<close>), the actions of the engine (errors as values,
    transactions that roll back), and the interface \<open>db_frame\<close> of what an action keeps.
  \<^item> \<open>Queue\<close>: completion of a job (\<open>windmill-queue/src/jobs.rs\<close>, \<open>add_completed_job\<close>), and the record
    \<open>env\<close> of what the model takes as given: the clock, the JavaScript engine, fresh ids, and the next tick
    of a schedule (\<open>try_schedule_next_job\<close>), of which only its frame is assumed and which may fail.
  \<^item> \<open>Push\<close>: \<open>push_inner\<close>, for every payload, with restarts; the interface \<open>job_queue\<close> says what
    a client of \<open>push\<close> relies on.
  \<^item> \<open>Completed\<close>: what follows a completion: the next run of a perpetual script, the report of a
    child to its workflow (\<open>handle_wac_child_completion\<close> of \<open>windmill-worker/src/result_processor.rs\<close>).
  \<^item> \<open>FlowCompletion\<close>: \<open>update_flow_status_after_job_completion_internal\<close>.
  \<^item> \<open>FlowPush\<close>, \<open>FlowStep\<close>: \<open>compute_next_flow_transform\<close>, \<open>push_next_flow_job\<close> and \<open>handle_flow\<close>.
  \<^item> \<open>ParallelJoin\<close>, \<open>ParallelStart\<close>, \<open>Rounds\<close>, \<open>Approvals\<close>: properties of the engine: the join of
    parallel jobs under every interleaving, its start, the loop of \<open>handle_flow\<close>, the gate of approvals.
  \<^item> \<open>Wac\<close>, \<open>WacJoin\<close>: workflows as code (\<open>windmill-common/src/wac.rs\<close>, \<open>wac_executor.rs\<close> and
    \<open>handle_wac_v2_output\<close> of \<open>bun_executor.rs\<close>): checkpoints, the dispatch of children, approvals, sleep,
    inline steps; the join of the children under every interleaving as the refinement of a barrier.
  \<^item> \<open>Scopes\<close>: scopes of tokens, routes and owners of paths (\<open>windmill-api-auth/src/scopes.rs\<close>, \<open>lib.rs\<close>).
  \<^item> \<open>Resume\<close>: the requests that resume a suspended flow (\<open>windmill-api/src/jobs.rs\<close>), and how they meet
    the gate of approvals.
  \<^item> \<open>ResultProcessor\<close>: the loop over the flows above a job, the processing of a job that has run and
    of its errors (\<open>windmill-worker/src/result_processor.rs\<close>).
  \<^item> \<open>Evolution\<close>: what every operation keeps of the jobs, the end of the loop over the flows, and that a
    job which the result processor receives ends, unless the next tick of its schedule cannot be pushed.
  \<^item> \<open>Engine\<close>: all the operations as the steps of one relation on the database; no run undoes the
    completion of a job.

  \<^bold>\<open>Conventions.\<close> A handler of the code is an action \<open>db \<Rightarrow> error + result \<times> db\<close>; each SQL statement
  is an update of a table, and a transaction restores the tables when it fails. Concurrency is
  explicit where it matters: the workers of a parallel step read snapshots and commit in any
  order (\<open>join_step\<close>). The loop of \<open>handle_flow\<close> has fuel; two rounds are enough
  (\<open>handle_flow_rounds\<close>) except in the case \<open>empty_preprocessor_never_ends\<close> describes. The loop over the
  flows above a job has fuel too; as much as the depth of the flow is enough (\<open>parent_loop_ends\<close>).

  \<^bold>\<open>Not modelled.\<close> Language executors and the JavaScript engine (processes of other languages), the
  HTTP API, listing queries, pulling jobs from the queue, monitoring, object storage and the frontend.
  Statements fail where the code or a constraint of the tables makes them fail, and for workflows as
  code where \<open>jsonb\<close> refuses a value; a lost connection to the database is not modelled. Enterprise-only
  code is not part of the repository.
\<close>

end
